(* ===== verification/Prelude.thy ===== *)
theory Prelude
  imports Main "HOL-Library.AList"
begin

text \<open>
  What every component shares: the model of a Go function call (a result or a panic,
  threaded through an explicit state), early returns and \<^verbatim>\<open>defer\<close>, Go maps as association
  lists without duplicate keys, and the rules that carry a fact about every state a call
  passes through along the structure of its body.
\<close>

section \<open>Calls, panics and deferred calls\<close>

text \<open>The run-time panics the modelled code can raise.\<close>

datatype panic =
    Index_out_of_range
  | Nil_map_write
  | Nil_dereference
  | Bad_type_assertion
  | Panic_value string

datatype 'a outcome = Return 'a | Panic panic

type_synonym ('s, 'a) go = "'s \<Rightarrow> 'a outcome \<times> 's"

definition ret :: "'a \<Rightarrow> ('s, 'a) go" where
  "ret a s = (Return a, s)"

definition crash :: "panic \<Rightarrow> ('s, 'a) go" where
  "crash p s = (Panic p, s)"

text \<open>Sequencing: a panic of the first call skips the rest of the body.\<close>

definition bnd :: "('s, 'a) go \<Rightarrow> ('a \<Rightarrow> ('s, 'b) go) \<Rightarrow> ('s, 'b) go" where
  "bnd m f s = (case m s of (Return a, s') \<Rightarrow> f a s' | (Panic p, s') \<Rightarrow> (Panic p, s'))"

definition get_state :: "('s \<Rightarrow> 'a) \<Rightarrow> ('s, 'a) go" where
  "get_state f s = (Return (f s), s)"

definition modify :: "('s \<Rightarrow> 's) \<Rightarrow> ('s, unit) go" where
  "modify f s = (Return (), f s)"

text \<open>
  \<^verbatim>\<open>defer d()\<close> before the body \<open>m\<close>: \<open>d\<close> runs when \<open>m\<close> returns and when it panics, and
  the outcome is the one of \<open>m\<close> unless \<open>d\<close> panics itself.
\<close>

definition deferring :: "('s, unit) go \<Rightarrow> ('s, 'a) go \<Rightarrow> ('s, 'a) go" where
  "deferring d m s =
     (case m s of (r, s1) \<Rightarrow>
       (case d s1 of (Return _, s2) \<Rightarrow> (r, s2) | (Panic p, s2) \<Rightarrow> (Panic p, s2)))"

text \<open>Dereferencing a pointer that may be nil.\<close>

definition deref :: "'a option \<Rightarrow> ('s, 'a) go" where
  "deref p = (case p of Some a \<Rightarrow> ret a | None \<Rightarrow> crash Nil_dereference)"

text \<open>Reading \<^verbatim>\<open>xs[i]\<close>.\<close>

definition index_at :: "'a list \<Rightarrow> nat \<Rightarrow> ('s, 'a) go" where
  "index_at xs i = (if i < length xs then ret (xs ! i) else crash Index_out_of_range)"

named_theorems go_simps

lemma ret_apply [go_simps]: "ret a s = (Return a, s)"
  by (simp add: ret_def)

lemma crash_apply [go_simps]: "crash p s = (Panic p, s)"
  by (simp add: crash_def)

lemma get_state_apply [go_simps]: "get_state f s = (Return (f s), s)"
  by (simp add: get_state_def)

lemma modify_apply [go_simps]: "modify f s = (Return (), f s)"
  by (simp add: modify_def)

lemma bnd_Return [go_simps]: "m s = (Return a, s') \<Longrightarrow> bnd m f s = f a s'"
  by (simp add: bnd_def)

lemma bnd_Panic [go_simps]: "m s = (Panic p, s') \<Longrightarrow> bnd m f s = (Panic p, s')"
  by (simp add: bnd_def)

lemma deref_apply [go_simps]:
  "deref (Some a) s = (Return a, s)" "deref None s = (Panic Nil_dereference, s)"
  by (simp_all add: deref_def go_simps)

lemma bnd_ret [simp]: "bnd (ret a) f = f a"
  by (rule ext) (simp add: bnd_def ret_def)

lemma bnd_ret_right [simp]: "bnd m ret = m"
  by (rule ext) (auto simp: bnd_def ret_def split: prod.splits outcome.splits)

lemma bnd_crash [simp]: "bnd (crash p) f = crash p"
  by (rule ext) (simp add: bnd_def crash_def)

lemma bnd_assoc: "bnd (bnd m f) g = bnd m (\<lambda>a. bnd (f a) g)"
  by (rule ext) (auto simp: bnd_def split: prod.splits outcome.splits)

lemma bnd_eq_Return:
  "bnd m f s = (Return b, t) \<longleftrightarrow> (\<exists>a s'. m s = (Return a, s') \<and> f a s' = (Return b, t))"
  by (auto simp: bnd_def split: prod.splits outcome.splits)

lemma bnd_ret_eq:
  "bnd m (\<lambda>r. ret (f r)) s = (Return b, t) \<longleftrightarrow> (\<exists>r. m s = (Return r, t) \<and> f r = b)"
  by (auto simp: bnd_eq_Return ret_def)

lemma bnd_eq_Panic:
  "bnd m f s = (Panic p, t) \<longleftrightarrow>
     m s = (Panic p, t) \<or> (\<exists>a s'. m s = (Return a, s') \<and> f a s' = (Panic p, t))"
  by (auto simp: bnd_def split: prod.splits outcome.splits)

lemma deferring_apply:
  "d (snd (m s)) = (Return u, s2) \<Longrightarrow> deferring d m s = (fst (m s), s2)"
  by (auto simp: deferring_def split: prod.splits)

lemma snd_deferring [simp]: "snd (deferring d m s) = snd (d (snd (m s)))"
  by (auto simp: deferring_def split: prod.splits outcome.splits)

lemma fst_deferring: "fst (d (snd (m s))) = Return () \<Longrightarrow> fst (deferring d m s) = fst (m s)"
  by (auto simp: deferring_def split: prod.splits outcome.splits)

section \<open>What holds along a whole call\<close>

text \<open>
  \<open>keeps R m\<close>: whatever state \<open>m\<close> is called in, the state it ends in (returning or
  panicking) is related to it by \<open>R\<close>. For a reflexive and transitive \<open>R\<close> the property
  follows the structure of the body; the locale collects those rules, and each component
  interprets it for the relation it needs.
\<close>

definition keeps :: "('s \<Rightarrow> 's \<Rightarrow> bool) \<Rightarrow> ('s, 'a) go \<Rightarrow> bool" where
  "keeps R m \<longleftrightarrow> (\<forall>s. R s (snd (m s)))"

lemma keepsI: "(\<And>s. R s (snd (m s))) \<Longrightarrow> keeps R m"
  by (simp add: keeps_def)

lemma keepsD: "keeps R m \<Longrightarrow> m s = (r, t) \<Longrightarrow> R s t"
  unfolding keeps_def by (metis snd_conv)

lemma keeps_case_option:
  assumes "x = None \<Longrightarrow> keeps R f" and "\<And>a. x = Some a \<Longrightarrow> keeps R (g a)"
  shows "keeps R (case x of None \<Rightarrow> f | Some a \<Rightarrow> g a)"
  using assms by (cases x) auto

lemma keeps_case_sum:
  assumes "\<And>a. x = Inl a \<Longrightarrow> keeps R (f a)" and "\<And>a. x = Inr a \<Longrightarrow> keeps R (g a)"
  shows "keeps R (case x of Inl a \<Rightarrow> f a | Inr b \<Rightarrow> g b)"
  using assms by (cases x) auto

lemma keeps_case_prod:
  assumes "\<And>a b. x = (a, b) \<Longrightarrow> keeps R (f a b)"
  shows "keeps R (case x of (a, b) \<Rightarrow> f a b)"
  using assms by (cases x) auto

lemma keeps_case_prod_app:
  assumes "\<And>a b. x = (a, b) \<Longrightarrow> keeps R (f a b y)"
  shows "keeps R ((case x of (a, b) \<Rightarrow> f a b) y)"
  using assms by (cases x) auto

lemma keeps_if:
  assumes "b \<Longrightarrow> keeps R f" and "\<not> b \<Longrightarrow> keeps R g"
  shows "keeps R (if b then f else g)"
  using assms by auto

lemma keeps_Let: "keeps R (f x) \<Longrightarrow> keeps R (let y = x in f y)"
  by simp

locale go_relation =
  fixes R :: "'s \<Rightarrow> 's \<Rightarrow> bool"
  assumes R_refl: "R s s"
    and R_trans: "R s t \<Longrightarrow> R t u \<Longrightarrow> R s u"
begin

lemma keeps_ret: "keeps R (ret a)"
  by (simp add: keeps_def ret_def R_refl)

lemma keeps_crash: "keeps R (crash p)"
  by (simp add: keeps_def crash_def R_refl)

lemma keeps_get: "keeps R (get_state f)"
  by (simp add: keeps_def get_state_def R_refl)

lemma keeps_deref: "keeps R (deref p)"
  by (cases p) (simp_all add: deref_def keeps_ret keeps_crash)

lemma keeps_index: "keeps R (index_at xs i)"
  by (simp add: index_at_def keeps_ret keeps_crash)

lemma keeps_bnd:
  assumes m: "keeps R m" and f: "\<And>a. keeps R (f a)"
  shows "keeps R (bnd m f)"
proof (rule keepsI)
  fix s
  obtain r t where t: "m s = (r, t)" by fastforce
  with m have st: "R s t" by (rule keepsD)
  show "R s (snd (bnd m f s))"
  proof (cases r)
    case (Return a)
    with f have "R t (snd (f a t))" by (simp add: keeps_def)
    with st Return t show ?thesis by (auto simp: bnd_def intro: R_trans)
  next
    case (Panic p)
    with st t show ?thesis by (simp add: bnd_def)
  qed
qed

lemma keeps_deferring:
  assumes d: "keeps R d" and m: "keeps R m"
  shows "keeps R (deferring d m)"
proof (rule keepsI)
  fix s
  obtain r t where t: "m s = (r, t)" by fastforce
  obtain q u where u: "d t = (q, u)" by fastforce
  from m t have "R s t" by (rule keepsD)
  moreover from d u have "R t u" by (rule keepsD)
  ultimately have "R s u" by (rule R_trans)
  with t u show "R s (snd (deferring d m s))"
    by (cases q) (auto simp: deferring_def)
qed

lemmas keeps_rules =
  keeps_ret keeps_crash keeps_get keeps_deref keeps_index keeps_bnd
  keeps_if keeps_Let keeps_case_option keeps_case_sum keeps_case_prod keeps_case_prod_app

end

section \<open>What a call returns\<close>

text \<open>\<open>yields P m\<close>: when \<open>m\<close> returns, whatever state it was called in, the value satisfies \<open>P\<close>.\<close>

definition yields :: "('a \<Rightarrow> bool) \<Rightarrow> ('s, 'a) go \<Rightarrow> bool" where
  "yields P m \<longleftrightarrow> (\<forall>s a s'. m s = (Return a, s') \<longrightarrow> P a)"

lemma yieldsD: "yields P m \<Longrightarrow> m s = (Return a, s') \<Longrightarrow> P a"
  by (auto simp: yields_def)

lemma yieldsI: "(\<And>s a s'. m s = (Return a, s') \<Longrightarrow> P a) \<Longrightarrow> yields P m"
  by (auto simp: yields_def)

lemma yields_ret: "P a \<Longrightarrow> yields P (ret a)"
  by (simp add: yields_def ret_def)

lemma yields_any: "(\<And>a. P a) \<Longrightarrow> yields P m"
  by (simp add: yields_def)

lemma yields_bnd_with:
  "yields P m \<Longrightarrow> (\<And>a. P a \<Longrightarrow> yields Q (f a)) \<Longrightarrow> yields Q (bnd m f)"
  unfolding yields_def bnd_eq_Return by blast

lemma yields_bnd: "(\<And>a. yields Q (f a)) \<Longrightarrow> yields Q (bnd m f)"
  unfolding yields_def bnd_eq_Return by blast

lemma yields_deferring: "yields Q m \<Longrightarrow> yields Q (deferring d m)"
  unfolding yields_def deferring_def by (auto split: prod.splits outcome.splits)

lemma yields_if: "(b \<Longrightarrow> yields Q f) \<Longrightarrow> (\<not> b \<Longrightarrow> yields Q g) \<Longrightarrow> yields Q (if b then f else g)"
  by simp

lemma yields_case_option:
  "(x = None \<Longrightarrow> yields Q f) \<Longrightarrow> (\<And>a. x = Some a \<Longrightarrow> yields Q (g a)) \<Longrightarrow>
     yields Q (case x of None \<Rightarrow> f | Some a \<Rightarrow> g a)"
  by (cases x) auto

lemma yields_case_sum:
  "(\<And>a. x = Inl a \<Longrightarrow> yields Q (f a)) \<Longrightarrow> (\<And>a. x = Inr a \<Longrightarrow> yields Q (g a)) \<Longrightarrow>
     yields Q (case x of Inl a \<Rightarrow> f a | Inr b \<Rightarrow> g b)"
  by (cases x) auto

lemma yields_case_prod:
  "(\<And>a b. x = (a, b) \<Longrightarrow> yields Q (f a b)) \<Longrightarrow> yields Q (case x of (a, b) \<Rightarrow> f a b)"
  by (cases x) auto

lemma yields_case_prod_app:
  "(\<And>a b. x = (a, b) \<Longrightarrow> yields Q (f a b y)) \<Longrightarrow> yields Q ((case x of (a, b) \<Rightarrow> f a b) y)"
  by (cases x) auto

lemma yields_Let: "yields Q (f x) \<Longrightarrow> yields Q (let y = x in f y)"
  by simp

lemmas yields_rules =
  yields_bnd yields_deferring yields_if yields_case_option yields_case_sum
  yields_case_prod yields_case_prod_app yields_Let yields_ret

section \<open>Go maps\<close>

text \<open>
  A \<^verbatim>\<open>map[string]T\<close> is an association list; \<open>gset\<close> is assignment, \<open>gget\<close> a read with the
  zero value \<open>z\<close> for a missing key. A list with no key twice stands for one map.
\<close>

type_synonym bytes = "char list"
type_synonym 'v gomap = "(string \<times> 'v) list"

definition gget :: "'v \<Rightarrow> 'v gomap \<Rightarrow> string \<Rightarrow> 'v" where
  "gget z m k = (case map_of m k of None \<Rightarrow> z | Some v \<Rightarrow> v)"

abbreviation gset :: "string \<Rightarrow> 'v \<Rightarrow> 'v gomap \<Rightarrow> 'v gomap" where
  "gset \<equiv> AList.update"

definition gmap_ok :: "'v gomap \<Rightarrow> bool" where
  "gmap_ok m \<longleftrightarrow> distinct (map fst m)"

lemma map_of_gset [simp]: "map_of (gset k v m) = (map_of m)(k \<mapsto> v)"
  by (rule update_conv')

lemma gget_gset [simp]: "gget z (gset k v m) k' = (if k' = k then v else gget z m k')"
  by (simp add: gget_def)

lemma gmap_ok_gset [simp]: "gmap_ok m \<Longrightarrow> gmap_ok (gset k v m)"
  by (simp add: gmap_ok_def distinct_update)

lemma gmap_ok_Nil [simp]: "gmap_ok []"
  by (simp add: gmap_ok_def)

lemma keys_gset: "fst ` set (gset k v m) = insert k (fst ` set m)"
  by (simp add: dom_map_of_conv_image_fst[symmetric])

lemma gset_not_Nil [simp]: "gset k v m \<noteq> []"
  by (cases m) auto

end
