(* ===== verification/Go_Strings.thy ===== *)
theory Go_Strings
  imports Prelude "HOL-Library.Sublist"
begin

text \<open>
  The functions of Go's packages \<^verbatim>\<open>strings\<close>, \<^verbatim>\<open>path/filepath\<close> and \<^verbatim>\<open>encoding/hex\<close> the
  controller calls. A Go string is a byte sequence: a \<^typ>\<open>char list\<close>.
\<close>

section \<open>strings.Split, Replace, Trim and ToLower\<close>

text \<open>
  \<open>split_from sep acc s\<close>: the pieces of \<open>rev acc @ s\<close> where the search for the separator
  starts at \<open>s\<close>. Occurrences are taken from the left and do not overlap; the separator is
  never empty in the modelled calls.
\<close>

function split_from :: "string \<Rightarrow> string \<Rightarrow> string \<Rightarrow> string list" where
  "split_from sep acc s =
     (if sep \<noteq> [] \<and> prefix sep s
      then rev acc # split_from sep [] (drop (length sep) s)
      else case s of [] \<Rightarrow> [rev acc] | c # cs \<Rightarrow> split_from sep (c # acc) cs)"
  by pat_completeness auto
termination
  by (relation "measure (\<lambda>(sep, acc, s). length s)")
     (auto simp: prefix_def)

declare split_from.simps [simp del]

definition strings_Split :: "string \<Rightarrow> string \<Rightarrow> string list" where
  "strings_Split s sep = split_from sep [] s"

definition join_with :: "string \<Rightarrow> string list \<Rightarrow> string" where
  "join_with sep ps = (case ps of [] \<Rightarrow> [] | p # qs \<Rightarrow> p @ concat (map (\<lambda>q. sep @ q) qs))"

fun strings_Replace_once :: "string \<Rightarrow> string \<Rightarrow> string \<Rightarrow> string" where
  "strings_Replace_once [] old new = (if old = [] then new else [])"
| "strings_Replace_once (c # cs) old new =
     (if prefix old (c # cs) then new @ drop (length old) (c # cs)
      else c # strings_Replace_once cs old new)"

definition strings_Trim :: "string \<Rightarrow> string \<Rightarrow> string" where
  "strings_Trim s cutset =
     rev (dropWhile (\<lambda>c. c \<in> set cutset) (rev (dropWhile (\<lambda>c. c \<in> set cutset) s)))"

definition ascii_lower :: "char \<Rightarrow> char" where
  "ascii_lower c =
     (if 65 \<le> (of_char c :: nat) \<and> (of_char c :: nat) \<le> 90 then char_of ((of_char c :: nat) + 32) else c)"

definition strings_ToLower :: "string \<Rightarrow> string" where
  "strings_ToLower s = map ascii_lower s"

lemma split_from_not_Nil [simp]: "split_from sep acc s \<noteq> []"
proof (induction sep acc s rule: split_from.induct)
  case (1 sep acc s)
  then show ?case
    by (subst split_from.simps) (auto split: list.splits)
qed

text \<open>\<^verbatim>\<open>strings.Split\<close> never returns an empty slice for a non-empty separator.\<close>

lemma strings_Split_not_Nil [simp]: "strings_Split s sep \<noteq> []"
  by (simp add: strings_Split_def)

lemma join_with_Cons: "ps \<noteq> [] \<Longrightarrow> join_with sep (p # ps) = p @ sep @ join_with sep ps"
  by (cases ps) (auto simp: join_with_def)

lemma join_split_from: "join_with sep (split_from sep acc s) = rev acc @ s"
proof (induction sep acc s rule: split_from.induct)
  case (1 sep acc s)
  show ?case
  proof (cases "sep \<noteq> [] \<and> prefix sep s")
    case True
    then have s: "s = sep @ drop (length sep) s"
      by (auto simp: prefix_def)
    from True have "split_from sep acc s = rev acc # split_from sep [] (drop (length sep) s)"
      by (subst split_from.simps) simp
    then have "join_with sep (split_from sep acc s) = rev acc @ sep @ drop (length sep) s"
      using 1(1)[OF True] by (simp add: join_with_Cons)
    with s show ?thesis by simp
  next
    case False
    then have "split_from sep acc s =
        (case s of [] \<Rightarrow> [rev acc] | c # cs \<Rightarrow> split_from sep (c # acc) cs)"
      by (subst split_from.simps) (simp only: if_False)
    with 1(2)[OF False] show ?thesis
      by (cases s) (auto simp: join_with_def)
  qed
qed

lemma join_strings_Split: "join_with sep (strings_Split s sep) = s"
  by (simp add: strings_Split_def join_split_from)

text \<open>A one-character separator: the pieces contain no separator.\<close>

lemma split_from_plain:
  "d \<notin> set s \<Longrightarrow> split_from [d] acc s = [rev acc @ s]"
proof (induction s arbitrary: acc)
  case Nil
  then show ?case by (subst split_from.simps) simp
next
  case (Cons c cs)
  then have "\<not> prefix [d] (c # cs)" by simp
  with Cons show ?case by (subst split_from.simps) simp
qed

lemma split_from_first:
  "d \<notin> set s \<Longrightarrow> split_from [d] acc (s @ d # t) = (rev acc @ s) # split_from [d] [] t"
proof (induction s arbitrary: acc)
  case Nil
  then show ?case by (subst split_from.simps) simp
next
  case (Cons c cs)
  then have "\<not> prefix [d] ((c # cs) @ d # t)" by simp
  with Cons show ?case by (subst split_from.simps) simp
qed

lemma strings_Split_two:
  "d \<notin> set a \<Longrightarrow> d \<notin> set b \<Longrightarrow> strings_Split (a @ d # b) [d] = [a, b]"
  by (simp add: strings_Split_def split_from_first split_from_plain)

lemma strings_Split_one: "d \<notin> set a \<Longrightarrow> strings_Split a [d] = [a]"
  by (simp add: strings_Split_def split_from_plain)

lemma strings_Split_length:
  "length (strings_Split s [d]) = Suc (count_list s d)"
proof -
  have "length (split_from [d] acc s) = Suc (count_list s d)" for acc
  proof (induction s arbitrary: acc)
    case Nil
    then show ?case by (subst split_from.simps) simp
  next
    case (Cons c cs)
    then show ?case by (subst split_from.simps) auto
  qed
  then show ?thesis by (simp add: strings_Split_def)
qed

section \<open>filepath.Dir\<close>

text \<open>
  \<^verbatim>\<open>filepath.Dir(path)\<close> drops what follows the last slash and cleans the rest: empty and
  \<^verbatim>\<open>.\<close> elements go, \<^verbatim>\<open>..\<close> takes the element before it with it.
\<close>

fun clean_step :: "bool \<Rightarrow> string list \<Rightarrow> string \<Rightarrow> string list" where
  "clean_step rooted out e =
     (if e = [] \<or> e = ''.'' then out
      else if e = ''..'' then
        (if out \<noteq> [] \<and> last out \<noteq> ''..'' then butlast out
         else if rooted then out else out @ [e])
      else out @ [e])"

definition filepath_Clean :: "string \<Rightarrow> string" where
  "filepath_Clean p =
     (let rooted = (p \<noteq> [] \<and> hd p = CHR ''/'');
          out = foldl (clean_step rooted) [] (strings_Split p ''/'')
      in if rooted then CHR ''/'' # join_with ''/'' out
         else if out = [] then ''.'' else join_with ''/'' out)"

definition filepath_Dir :: "string \<Rightarrow> string" where
  "filepath_Dir p = filepath_Clean (rev (dropWhile (\<lambda>c. c \<noteq> CHR ''/'') (rev p)))"

section \<open>hex.EncodeToString\<close>

definition hex_digits :: string where
  "hex_digits = ''0123456789abcdef''"

definition hex_byte :: "char \<Rightarrow> string" where
  "hex_byte c = [hex_digits ! ((of_char c :: nat) div 16), hex_digits ! ((of_char c :: nat) mod 16)]"

definition hex_EncodeToString :: "bytes \<Rightarrow> string" where
  "hex_EncodeToString bs = concat (map hex_byte bs)"

lemma length_hex_EncodeToString: "length (hex_EncodeToString bs) = 2 * length bs"
  by (induction bs) (simp_all add: hex_EncodeToString_def hex_byte_def)

lemma hex_digits_inject:
  assumes "i < 16" "j < 16" "hex_digits ! i = hex_digits ! j" shows "i = j"
proof -
  have "distinct hex_digits" by (simp add: hex_digits_def)
  moreover have "length hex_digits = 16" by (simp add: hex_digits_def)
  ultimately show ?thesis using assms by (simp add: nth_eq_iff_index_eq)
qed

lemma hex_byte_inject: "hex_byte c = hex_byte d \<Longrightarrow> c = d"
proof -
  assume eq: "hex_byte c = hex_byte d"
  have lt: "(of_char x :: nat) < 256" for x :: char
    by (rule nat_of_char_less_256)
  from eq have "(of_char c :: nat) div 16 = of_char d div 16"
    using hex_digits_inject[of "of_char c div 16" "of_char d div 16"] lt[of c] lt[of d]
    by (simp add: hex_byte_def less_mult_imp_div_less)
  moreover from eq have "(of_char c :: nat) mod 16 = of_char d mod 16"
    using hex_digits_inject[of "of_char c mod 16" "of_char d mod 16"]
    by (simp add: hex_byte_def)
  ultimately have "(of_char c :: nat) = of_char d"
    by (metis div_mult_mod_eq)
  then show "c = d" by simp
qed

lemma hex_EncodeToString_inject:
  "hex_EncodeToString xs = hex_EncodeToString ys \<longleftrightarrow> xs = ys"
proof (induction xs arbitrary: ys)
  case Nil
  then show ?case by (cases ys) (auto simp: hex_EncodeToString_def hex_byte_def)
next
  case (Cons x xs)
  show ?case
  proof (cases ys)
    case Nil
    then show ?thesis by (auto simp: hex_EncodeToString_def hex_byte_def)
  next
    case (Cons y zs)
    have "length (hex_byte x) = length (hex_byte y)" by (simp add: hex_byte_def)
    then have "hex_EncodeToString (x # xs) = hex_EncodeToString (y # zs) \<longleftrightarrow>
        hex_byte x = hex_byte y \<and> hex_EncodeToString xs = hex_EncodeToString zs"
      by (simp add: hex_EncodeToString_def)
    with Cons.IH Cons show ?thesis by (auto dest: hex_byte_inject)
  qed
qed

end
