(* ===== verification/Kube_Types.thy ===== *)
theory Kube_Types
  imports Go_Strings
begin

text \<open>
  The data of the libraries the controller is written against: errors, object metadata,
  secrets, conditions, group-version-kinds, untyped JSON objects and the result of a
  reconciliation. Only their data is declared here, with the fields the controller reads
  or writes; what their libraries compute on them is a parameter (theory \<open>Platform\<close>).
\<close>

section \<open>Errors\<close>

text \<open>
  An \<^verbatim>\<open>error\<close> value: one made by \<^verbatim>\<open>errors.New\<close> or \<^verbatim>\<open>errors.Errorf\<close>, an answer of the API
  server with its status reason, or an error wrapped with \<^verbatim>\<open>errors.Wrap\<close>.
\<close>

datatype api_reason = Reason_NotFound | Reason_Conflict | Reason_other string

datatype goerr =
    Text_error string
  | Api_error api_reason string
  | Wrapped_error string goerr

text \<open>The method \<^verbatim>\<open>Error()\<close>.\<close>

fun err_text :: "goerr \<Rightarrow> string" where
  "err_text (Text_error m) = m"
| "err_text (Api_error r m) = m"
| "err_text (Wrapped_error m e) = m @ '': '' @ err_text e"

text \<open>
  The status reason an error carries; the predicates \<^verbatim>\<open>apierrors.IsNotFound\<close> and
  \<^verbatim>\<open>apierrors.IsConflict\<close> read it, also through wrapping.
\<close>

fun err_reason :: "goerr \<Rightarrow> api_reason option" where
  "err_reason (Text_error m) = None"
| "err_reason (Api_error r m) = Some r"
| "err_reason (Wrapped_error m e) = err_reason e"

abbreviation IsNotFound :: "goerr \<Rightarrow> bool" where
  "IsNotFound e \<equiv> err_reason e = Some Reason_NotFound"

text \<open>\<^verbatim>\<open>apierrors.IsNotFound\<close> on an error that may be nil.\<close>

definition err_IsNotFound :: "goerr option \<Rightarrow> bool" where
  "err_IsNotFound err = (case err of None \<Rightarrow> False | Some e \<Rightarrow> IsNotFound e)"

abbreviation IsConflict :: "goerr \<Rightarrow> bool" where
  "IsConflict e \<equiv> err_reason e = Some Reason_Conflict"

section \<open>Object metadata, secrets, conditions\<close>

record type_meta =
  tm_APIVersion :: string
  tm_Kind :: string

record owner_reference =
  or_APIVersion :: string
  or_Kind :: string
  or_Name :: string
  or_UID :: string

record object_meta =
  om_Name :: string
  om_Namespace :: string
  om_UID :: string
  om_Generation :: int
  om_Labels :: "string gomap"
  om_Annotations :: "string gomap"
  om_OwnerReferences :: "owner_reference list"

definition zero_meta :: object_meta where
  "zero_meta = \<lparr>om_Name = [], om_Namespace = [], om_UID = [], om_Generation = 0,
     om_Labels = [], om_Annotations = [], om_OwnerReferences = []\<rparr>"

text \<open>\<^verbatim>\<open>v1.Secret\<close>: \<open>None\<close> is a nil map.\<close>

record secret =
  sec_Meta :: object_meta
  sec_Data :: "bytes gomap option"
  sec_StringData :: "string gomap option"

definition zero_secret :: secret where
  "zero_secret = \<lparr>sec_Meta = zero_meta, sec_Data = None, sec_StringData = None\<rparr>"

text \<open>Reading \<^verbatim>\<open>secret.Data[key]\<close>: a nil map reads like an empty one.\<close>

definition data_of :: "secret \<Rightarrow> bytes gomap" where
  "data_of s = (case sec_Data s of None \<Rightarrow> [] | Some d \<Rightarrow> d)"

text \<open>\<^verbatim>\<open>metav1.Condition\<close>; times are nanoseconds.\<close>

record condition =
  cond_Type :: string
  cond_Status :: string
  cond_ObservedGeneration :: int
  cond_LastTransitionTime :: int
  cond_Reason :: string
  cond_Message :: string

text \<open>The literal \<^verbatim>\<open>metav1.Condition{Status: s, Message: m}\<close>.\<close>

definition new_condition :: "string \<Rightarrow> string \<Rightarrow> condition" where
  "new_condition s m = \<lparr>cond_Type = [], cond_Status = s, cond_ObservedGeneration = 0,
     cond_LastTransitionTime = 0, cond_Reason = [], cond_Message = m\<rparr>"

section \<open>Kinds, resources and untyped objects\<close>

record gvk =
  gvk_Group :: string
  gvk_Version :: string
  gvk_Kind :: string

definition mk_gvk :: "string \<Rightarrow> string \<Rightarrow> string \<Rightarrow> gvk" where
  "mk_gvk g v k = \<lparr>gvk_Group = g, gvk_Version = v, gvk_Kind = k\<rparr>"

lemma mk_gvk_sel [simp]:
  "gvk_Group (mk_gvk g v k) = g" "gvk_Version (mk_gvk g v k) = v" "gvk_Kind (mk_gvk g v k) = k"
  by (simp_all add: mk_gvk_def)

lemma mk_gvk_surj [simp]: "mk_gvk (gvk_Group g) (gvk_Version g) (gvk_Kind g) = g"
  by (cases g) (simp add: mk_gvk_def)

lemma mk_gvk_inject [simp]: "mk_gvk g v k = mk_gvk g' v' k' \<longleftrightarrow> g = g' \<and> v = v' \<and> k = k'"
  by (simp add: mk_gvk_def)

record gvr =
  gvr_Group :: string
  gvr_Version :: string
  gvr_Resource :: string

datatype jval =
    JNull
  | JBool bool
  | JNum int
  | JStr string
  | JArr "jval list"
  | JObj "(string \<times> jval) list"

text \<open>
  \<^verbatim>\<open>unstructured.Unstructured\<close> is a struct with the one field
  \<^verbatim>\<open>Object map[string]interface{}\<close>; \<open>None\<close> is a nil map.
\<close>

type_synonym unstr = "jval gomap option"

text \<open>What is read of a \<^verbatim>\<open>batchv1.Job\<close>; the counters are of type \<^verbatim>\<open>int32\<close>.\<close>

record job =
  job_APIVersion :: string
  job_Kind :: string
  job_Name :: string
  job_Namespace :: string
  job_Labels :: "string gomap"
  job_Failed :: int
  job_Active :: int
  job_Succeeded :: int

section \<open>Requests and results of a reconciliation\<close>

record request =
  req_Namespace :: string
  req_Name :: string

text \<open>\<^verbatim>\<open>ctrl.Result\<close>; a duration is a number of nanoseconds.\<close>

record result =
  RequeueAfter :: int

definition time_Second :: int where
  "time_Second = 1000000000"

definition time_Minute :: int where
  "time_Minute = 60 * time_Second"

definition no_requeue :: result where
  "no_requeue = \<lparr>RequeueAfter = 0\<rparr>"

definition requeue_after :: "int \<Rightarrow> result" where
  "requeue_after d = \<lparr>RequeueAfter = d\<rparr>"

lemma requeue_inject [simp]:
  "requeue_after a = requeue_after b \<longleftrightarrow> a = b"
  "no_requeue = requeue_after a \<longleftrightarrow> a = 0"
  "requeue_after a = no_requeue \<longleftrightarrow> a = 0"
  by (auto simp: requeue_after_def no_requeue_def)

end
