(* ===== verification/Locking.thy ===== *)
theory Locking
  imports Kube_Types
begin

text \<open>
  Package \<^verbatim>\<open>pkg/locking\<close>: lock sessions, the in-memory locker, the Redis locker over the
  redislock client (a parameter), and the interface \<^verbatim>\<open>Locker\<close> as a record of operations.
  The locale \<open>lock_service\<close> states what the controllers rely on, over the set of held keys;
  it is interpreted on the in-memory locker.
\<close>

section \<open>Lock sessions\<close>

text \<open>A \<^verbatim>\<open>*redislock.Lock\<close> that is not nil: the key and the token that identifies it.\<close>

record redis_lock =
  rl_Key :: string
  rl_Token :: string

text \<open>\<^verbatim>\<open>LockSession.id\<close> is of type \<^verbatim>\<open>any\<close>; the two lockers store these values in it.\<close>

datatype session_id =
    Id_string string
  | Id_lock "redis_lock option"

record lock_session =
  ls_id :: session_id
  ls_err :: "goerr option"

definition mk_session :: "session_id \<Rightarrow> goerr option \<Rightarrow> lock_session" where
  "mk_session i e = \<lparr>ls_id = i, ls_err = e\<rparr>"

definition ErrAlreadyLocked :: string where
  "ErrAlreadyLocked = ''Already locked''"

definition AlreadyLocked :: "lock_session \<Rightarrow> bool" where
  "AlreadyLocked ls = (case ls_err ls of None \<Rightarrow> False | Some e \<Rightarrow> err_text e = ErrAlreadyLocked)"

definition HasFailure :: "lock_session \<Rightarrow> bool" where
  "HasFailure ls = (case ls_err ls of None \<Rightarrow> False | Some e \<Rightarrow> err_text e \<noteq> ErrAlreadyLocked)"

definition GetError :: "lock_session \<Rightarrow> goerr option" where
  "GetError ls = ls_err ls"

text \<open>The interface \<^verbatim>\<open>Locker\<close>: \<^verbatim>\<open>Done\<close> asserts the type of the session id and can panic.\<close>

record 'l locker =
  lk_Obtain :: "'l \<Rightarrow> request \<Rightarrow> lock_session \<times> 'l"
  lk_Done :: "'l \<Rightarrow> lock_session \<Rightarrow> unit outcome \<times> 'l"
  lk_Close :: "'l \<Rightarrow> 'l"

text \<open>\<^verbatim>\<open>req.NamespacedName.String()\<close>, the library's printing of a name being \<open>name_string\<close>.\<close>

definition createLockingId :: "(request \<Rightarrow> string) \<Rightarrow> request \<Rightarrow> string" where
  "createLockingId name_string req = name_string req"

section \<open>The in-memory locker\<close>

text \<open>Its state is the field \<^verbatim>\<open>locks []string\<close>.\<close>

fun isLocked :: "string list \<Rightarrow> string \<Rightarrow> bool" where
  "isLocked [] ident = False"
| "isLocked (name # locks) ident = (if name = ident then True else isLocked locks ident)"

definition NewInMemoryLocker :: "string list" where
  "NewInMemoryLocker = []"

definition iml_Obtain ::
  "(request \<Rightarrow> string) \<Rightarrow> string list \<Rightarrow> request \<Rightarrow> lock_session \<times> string list" where
  "iml_Obtain name_string locks req =
     (let ident = createLockingId name_string req in
      if isLocked locks ident
      then (mk_session (Id_string ident) (Some (Text_error ErrAlreadyLocked)), locks)
      else (mk_session (Id_string ident) None, locks @ [ident]))"

text \<open>The index of the first occurrence, the \<^verbatim>\<open>-1\<close> of the loop being \<open>None\<close>.\<close>

fun first_index :: "string list \<Rightarrow> string \<Rightarrow> nat \<Rightarrow> nat option" where
  "first_index [] key k = None"
| "first_index (v # s) key k = (if v = key then Some k else first_index s key (Suc k))"

definition removeFromList :: "string list \<Rightarrow> string \<Rightarrow> string list" where
  "removeFromList s key =
     (case first_index s key 0 of
        None \<Rightarrow> s
      | Some index \<Rightarrow> take index s @ drop (index + 1) s)"

definition iml_Done :: "string list \<Rightarrow> lock_session \<Rightarrow> unit outcome \<times> string list" where
  "iml_Done locks session =
     (case ls_id session of
        Id_string ident \<Rightarrow> (Return (), removeFromList locks ident)
      | Id_lock l \<Rightarrow> (Panic Bad_type_assertion, locks))"

definition iml_Close :: "string list \<Rightarrow> string list" where
  "iml_Close locks = locks"

definition InMemoryLocker :: "(request \<Rightarrow> string) \<Rightarrow> string list locker" where
  "InMemoryLocker name_string =
     \<lparr>lk_Obtain = iml_Obtain name_string, lk_Done = iml_Done, lk_Close = iml_Close\<rparr>"

section \<open>The Redis locker\<close>

text \<open>
  The redislock client and the Redis connection, over the state of the server: \<^verbatim>\<open>Obtain\<close>
  gets the key and a time to live, and answers a lock (nil on failure) and an error, which
  may be the sentinel \<^verbatim>\<open>ErrNotObtained\<close>.
\<close>

datatype redis_error =
    ErrNotObtained
  | Redis_error goerr

record 'r redis_client =
  rd_Obtain :: "'r \<Rightarrow> string \<Rightarrow> int \<Rightarrow> (redis_lock option \<times> redis_error option) \<times> 'r"
  rd_Release :: "'r \<Rightarrow> redis_lock option \<Rightarrow> goerr option \<times> 'r"
  rd_Close :: "'r \<Rightarrow> goerr option \<times> 'r"

definition rdl_Obtain ::
  "'r redis_client \<Rightarrow> (request \<Rightarrow> string) \<Rightarrow> 'r \<Rightarrow> request \<Rightarrow> lock_session \<times> 'r" where
  "rdl_Obtain rc name_string r req =
     (case rd_Obtain rc r (createLockingId name_string req) (time_Second * 60) of
        ((lock, err), r') \<Rightarrow>
          (case err of
             Some ErrNotObtained \<Rightarrow>
               (mk_session (Id_lock lock) (Some (Text_error ErrAlreadyLocked)), r')
           | Some (Redis_error e) \<Rightarrow> (mk_session (Id_lock lock) (Some e), r')
           | None \<Rightarrow> (mk_session (Id_lock lock) None, r')))"

definition rdl_Done ::
  "'r redis_client \<Rightarrow> 'r \<Rightarrow> lock_session \<Rightarrow> unit outcome \<times> 'r" where
  "rdl_Done rc r session =
     (case ls_id session of
        Id_string ident \<Rightarrow> (Panic Bad_type_assertion, r)
      | Id_lock lock \<Rightarrow> (Return (), snd (rd_Release rc r lock)))"

definition rdl_Close :: "'r redis_client \<Rightarrow> 'r \<Rightarrow> 'r" where
  "rdl_Close rc r = snd (rd_Close rc r)"

definition RedisDistributedLocker ::
  "'r redis_client \<Rightarrow> (request \<Rightarrow> string) \<Rightarrow> 'r locker" where
  "RedisDistributedLocker rc name_string =
     \<lparr>lk_Obtain = rdl_Obtain rc name_string, lk_Done = rdl_Done rc, lk_Close = rdl_Close rc\<rparr>"

section \<open>What a locker promises\<close>

text \<open>
  \<open>held\<close> is the set of keys that are locked. A free key is obtained without an error, a held one
  is refused and nothing changes; \<^verbatim>\<open>Done\<close> on the session of a key that was free gives back
  that key and no other.
\<close>

locale lock_service =
  fixes lk :: "'l locker"
    and held :: "'l \<Rightarrow> string set"
    and ident :: "request \<Rightarrow> string"
  assumes obtain_free: "ident req \<notin> held l \<Longrightarrow> lk_Obtain lk l req = (ls, l') \<Longrightarrow>
      ls_err ls = None \<and> held l' = insert (ident req) (held l)"
    and obtain_held: "ident req \<in> held l \<Longrightarrow> lk_Obtain lk l req = (ls, l') \<Longrightarrow>
      AlreadyLocked ls \<and> l' = l"
    and done_own: "ident req \<notin> held l \<Longrightarrow> lk_Obtain lk l req = (ls, l') \<Longrightarrow>
      \<exists>l''. lk_Done lk l' ls = (Return (), l'') \<and> held l'' = held l"
begin

text \<open>A key is obtained exactly when nobody holds it.\<close>

lemma obtain_iff:
  assumes "lk_Obtain lk l req = (ls, l')"
  shows "ls_err ls = None \<longleftrightarrow> ident req \<notin> held l"
  using obtain_free[OF _ assms] obtain_held[OF _ assms]
  by (auto simp: AlreadyLocked_def)

lemma obtain_never_fails:
  "lk_Obtain lk l req = (ls, l') \<Longrightarrow> \<not> HasFailure ls"
  by (cases "ident req \<in> held l")
     (frule (1) obtain_held, simp add: HasFailure_def AlreadyLocked_def split: option.splits,
      frule (1) obtain_free, simp add: HasFailure_def)

text \<open>The tests of the repository: taken once, refused, given back, taken again.\<close>

lemma obtain_done_obtain:
  assumes free: "ident req \<notin> held l"
    and first: "lk_Obtain lk l req = (ls1, l1)"
    and second: "lk_Obtain lk l1 req = (ls2, l2)"
    and gone: "lk_Done lk l2 ls1 = (r, l3)"
    and third: "lk_Obtain lk l3 req = (ls3, l4)"
  shows "ls_err ls1 = None \<and> AlreadyLocked ls2 \<and> held l3 = held l \<and> ls_err ls3 = None"
proof -
  from obtain_free[OF free first]
  have 1: "ls_err ls1 = None" "held l1 = insert (ident req) (held l)" by auto
  with second have 2: "AlreadyLocked ls2" "l2 = l1" by (auto dest: obtain_held)
  from done_own[OF free first] 2 gone have 3: "held l3 = held l" by auto
  with free third have "ls_err ls3 = None" by (auto dest: obtain_free)
  with 1 2 3 show ?thesis by auto
qed

end

text \<open>A locker whose state after \<^verbatim>\<open>Done\<close> is the one before \<^verbatim>\<open>Obtain\<close>.\<close>

locale restoring_lock_service = lock_service +
  assumes done_restores: "ident req \<notin> held l \<Longrightarrow> lk_Obtain lk l req = (ls, l') \<Longrightarrow>
      lk_Done lk l' ls = (Return (), l)"

section \<open>The in-memory locker keeps the promise\<close>

lemma isLocked_iff [simp]: "isLocked locks ident \<longleftrightarrow> ident \<in> set locks"
  by (induction locks) auto

lemma first_index_spec:
  "first_index s key k = (if key \<in> set s then Some (k + length (takeWhile (\<lambda>v. v \<noteq> key) s)) else None)"
  by (induction s arbitrary: k) auto

lemma removeFromList_eq: "removeFromList s key = remove1 key s"
proof (cases "key \<in> set s")
  case True
  have "take (length (takeWhile (\<lambda>v. v \<noteq> key) s)) s = takeWhile (\<lambda>v. v \<noteq> key) s"
    by (metis takeWhile_eq_take)
  moreover from True
  have "takeWhile (\<lambda>v. v \<noteq> key) s @ drop (Suc (length (takeWhile (\<lambda>v. v \<noteq> key) s))) s
      = remove1 key s"
    by (induction s) auto
  ultimately show ?thesis
    using True by (simp add: removeFromList_def first_index_spec)
qed (simp add: removeFromList_def first_index_spec remove1_idem)

lemma iml_Obtain_apply:
  "iml_Obtain ns locks req =
     (if ns req \<in> set locks
      then (mk_session (Id_string (ns req)) (Some (Text_error ErrAlreadyLocked)), locks)
      else (mk_session (Id_string (ns req)) None, locks @ [ns req]))"
  by (simp add: iml_Obtain_def createLockingId_def Let_def)

lemma iml_Done_apply [simp]:
  "iml_Done locks (mk_session (Id_string i) e) = (Return (), remove1 i locks)"
  by (simp add: iml_Done_def mk_session_def removeFromList_eq)

text \<open>Giving back a key leaves the list as it was before it was taken.\<close>

lemma iml_round_trip:
  "ns req \<notin> set l \<Longrightarrow> iml_Obtain ns l req = (ls, l') \<Longrightarrow> iml_Done l' ls = (Return (), l)"
  by (auto simp: iml_Obtain_apply remove1_append split: if_splits)

interpretation iml: restoring_lock_service "InMemoryLocker ns" set ns for ns
proof unfold_locales
  fix l :: "string list" and req ls l'
  assume "ns req \<notin> set l" "lk_Obtain (InMemoryLocker ns) l req = (ls, l')"
  then show "ls_err ls = None \<and> set l' = insert (ns req) (set l)"
    by (auto simp: InMemoryLocker_def iml_Obtain_apply mk_session_def)
next
  fix l :: "string list" and req ls l'
  assume "ns req \<in> set l" "lk_Obtain (InMemoryLocker ns) l req = (ls, l')"
  then show "AlreadyLocked ls \<and> l' = l"
    by (auto simp: InMemoryLocker_def iml_Obtain_apply mk_session_def AlreadyLocked_def)
qed (use iml_round_trip in \<open>auto simp: InMemoryLocker_def\<close>)

section \<open>Redis: sessions are well typed and the lock expires after a minute\<close>

lemma rdl_session_typed:
  "rdl_Obtain rc ns r req = (ls, r') \<Longrightarrow> \<exists>lock. ls_id ls = Id_lock lock"
  by (auto simp: rdl_Obtain_def mk_session_def split: prod.splits option.splits redis_error.splits)

lemma rdl_Done_own:
  "rdl_Obtain rc ns r req = (ls, r') \<Longrightarrow> fst (rdl_Done rc r2 ls) = Return ()"
  by (frule rdl_session_typed) (auto simp: rdl_Done_def)

lemma rdl_AlreadyLocked:
  "rd_Obtain rc r (ns req) (60 * time_Second) = ((lock, Some ErrNotObtained), r') \<Longrightarrow>
     AlreadyLocked (fst (rdl_Obtain rc ns r req))"
  by (simp add: rdl_Obtain_def createLockingId_def mk_session_def AlreadyLocked_def mult.commute)

end
