(* ===== verification/Api_Types.thy ===== *)
theory Api_Types
  imports Kube_Types
begin

text \<open>
  The custom resources of \<^verbatim>\<open>pkg/apis/riotkit/v1alpha1\<close> as records, one record per struct in
  the struct's field order, with their accessor methods. Hashing a specification is in
  theory \<open>Spec_Hash\<close>, child references are in theory \<open>Child_References\<close>.
\<close>

section \<open>ClusterBackupProcedureTemplate\<close>

record cbpt_spec =
  cbpt_Image :: string
  cbpt_Backup :: string
  cbpt_Restore :: string

record cluster_template =
  cbpt_TypeMeta :: type_meta
  cbpt_Meta :: object_meta
  cbpt_Spec :: cbpt_spec

definition cbpt_GetImage :: "cluster_template \<Rightarrow> string" where
  "cbpt_GetImage t = cbpt_Image (cbpt_Spec t)"

definition cbpt_GetBackupScript :: "cluster_template \<Rightarrow> string" where
  "cbpt_GetBackupScript t = cbpt_Backup (cbpt_Spec t)"

definition cbpt_GetRestoreScript :: "cluster_template \<Rightarrow> string" where
  "cbpt_GetRestoreScript t = cbpt_Restore (cbpt_Spec t)"

definition cbpt_ProvidesScript :: "cluster_template \<Rightarrow> bool" where
  "cbpt_ProvidesScript t = True"

definition cbpt_GetName :: "cluster_template \<Rightarrow> string" where
  "cbpt_GetName t = om_Name (cbpt_Meta t)"

section \<open>ChildReference and JobHealthStatus\<close>

record child_reference =
  cr_APIVersion :: string
  cr_Kind :: string
  cr_TrackingId :: string

record job_health =
  jh_Ref :: child_reference
  jh_Message :: string
  jh_Succeeded :: bool
  jh_Running :: bool
  jh_Failed :: bool

section \<open>ScheduledBackup\<close>

record template_spec =
  ts_Name :: string
  ts_Kind :: string

record gpg_spec =
  gpg_SecretName :: string
  gpg_PublicKey :: string
  gpg_PrivateKey :: string
  gpg_PassphraseKey :: string
  gpg_Email :: string
  gpg_CreateIfNotExists :: bool

definition GetPrivateKeyIndex :: "gpg_spec \<Rightarrow> string" where
  "GetPrivateKeyIndex g = (if gpg_PrivateKey g = [] then ''key'' else gpg_PrivateKey g)"

definition GetPublicKeyIndex :: "gpg_spec \<Rightarrow> string" where
  "GetPublicKeyIndex g = (if gpg_PublicKey g = [] then ''key.pub'' else gpg_PublicKey g)"

definition GetPassphraseIndex :: "gpg_spec \<Rightarrow> string" where
  "GetPassphraseIndex g = (if gpg_PassphraseKey g = [] then ''passphrase'' else gpg_PassphraseKey g)"

definition GetEmailIndex :: "gpg_spec \<Rightarrow> string" where
  "GetEmailIndex g = ''e-mail.txt''"

record token_spec =
  tok_SecretName :: string
  tok_TokenKey :: string

record vars_spec =
  vs_SecretName :: string
  vs_ImportOnlyKeys :: "string list"

record cronjob_spec =
  cj_Enabled :: bool
  cj_ScheduleEvery :: string

record sb_spec =
  sbs_CollectionId :: string
  sbs_TemplateRef :: template_spec
  sbs_GPGKeySecretRef :: gpg_spec
  sbs_TokenSecretRef :: token_spec
  sbs_VarsSecretRef :: vars_spec
  sbs_Vars :: string
  sbs_CronJob :: cronjob_spec
  sbs_Operation :: string

record sb_status =
  sbst_LastAppliedSpecHash :: string
  sbst_Conditions :: "condition list"
  sbst_OwnedReferences :: "child_reference list"
  sbst_ChildrenResourcesHealth :: "job_health list"
  sbst_Healthy :: bool

record scheduled_backup =
  sb_TypeMeta :: type_meta
  sb_Meta :: object_meta
  sb_Spec :: sb_spec
  sb_Status :: sb_status

definition sb_GetTypeMeta :: "scheduled_backup \<Rightarrow> type_meta" where
  "sb_GetTypeMeta b = sb_TypeMeta b"

definition sb_GetObjectMeta :: "scheduled_backup \<Rightarrow> object_meta" where
  "sb_GetObjectMeta b = sb_Meta b"

section \<open>RequestedBackupAction\<close>

record rba_spec =
  rbas_Action :: string
  rbas_TargetVersion :: string
  rbas_ScheduledBackupRef :: string
  rbas_KindType :: string

record rba_status =
  rbast_Processed :: bool
  rbast_Conditions :: "condition list"
  rbast_OwnedReferences :: "child_reference list"
  rbast_ChildrenResourcesHealth :: "job_health list"
  rbast_Healthy :: bool

record requested_action =
  rba_TypeMeta :: type_meta
  rba_Meta :: object_meta
  rba_Spec :: rba_spec
  rba_Status :: rba_status

definition rba_GetTypeMeta :: "requested_action \<Rightarrow> type_meta" where
  "rba_GetTypeMeta a = rba_TypeMeta a"

definition rba_GetObjectMeta :: "requested_action \<Rightarrow> object_meta" where
  "rba_GetObjectMeta a = rba_Meta a"

text \<open>The index a key is stored under is never the empty string.\<close>

lemma key_index_not_Nil [simp]:
  "GetPrivateKeyIndex g \<noteq> []" "GetPublicKeyIndex g \<noteq> []" "GetPassphraseIndex g \<noteq> []"
  by (auto simp: GetPrivateKeyIndex_def GetPublicKeyIndex_def GetPassphraseIndex_def)

end
