(* ===== verification/Spec_Hash.thy ===== *)
theory Spec_Hash
  imports Api_Types Sha256
begin

text \<open>
  \<^verbatim>\<open>CalculateHash\<close> and \<^verbatim>\<open>HasSpecChanged\<close> of \<^verbatim>\<open>scheduledbackup_types.go\<close>: the specification is
  marshalled with \<^verbatim>\<open>encoding/json\<close> (modelled here for the types the struct uses), hashed and
  compared with the hash of the last applied specification. The lemmas show that the JSON
  document determines the specification.
\<close>

section \<open>encoding/json on strings\<close>

text \<open>
  The number of bytes of the well-formed UTF-8 sequence a string starts with, 0 if there
  is none; only asked when the first byte is not ASCII.
\<close>

definition utf8_cont :: "nat \<Rightarrow> nat \<Rightarrow> char list \<Rightarrow> nat \<Rightarrow> bool" where
  "utf8_cont lo hi s i \<longleftrightarrow>
     i < length s \<and> lo \<le> (of_char (s ! i) :: nat) \<and> (of_char (s ! i) :: nat) \<le> hi"

definition utf8_size :: "string \<Rightarrow> nat" where
  "utf8_size s =
     (if s = [] then 0 else
      let b = (of_char (hd s) :: nat); c = utf8_cont 128 191 s in
      if 194 \<le> b \<and> b \<le> 223 then (if c 1 then 2 else 0)
      else if b = 224 then (if utf8_cont 160 191 s 1 \<and> c 2 then 3 else 0)
      else if b = 237 then (if utf8_cont 128 159 s 1 \<and> c 2 then 3 else 0)
      else if 225 \<le> b \<and> b \<le> 239 then (if c 1 \<and> c 2 then 3 else 0)
      else if b = 240 then (if utf8_cont 144 191 s 1 \<and> c 2 \<and> c 3 then 4 else 0)
      else if b = 244 then (if utf8_cont 128 143 s 1 \<and> c 2 \<and> c 3 then 4 else 0)
      else if 241 \<le> b \<and> b \<le> 243 then (if c 1 \<and> c 2 \<and> c 3 then 4 else 0)
      else 0)"

definition html_safe :: "char \<Rightarrow> bool" where
  "html_safe c \<longleftrightarrow> 32 \<le> (of_char c :: nat) \<and> c \<noteq> CHR 0x22 \<and> c \<noteq> CHR 0x5C
     \<and> c \<noteq> CHR ''<'' \<and> c \<noteq> CHR ''>'' \<and> c \<noteq> CHR ''&''"

text \<open>One ASCII character inside a JSON string, with HTML escaping on.\<close>

definition json_char :: "char \<Rightarrow> string" where
  "json_char c =
     (if html_safe c then [c]
      else CHR 0x5C #
        (if c = CHR 0x5C \<or> c = CHR 0x22 then [c]
         else if c = CHR 0x0A then ''n''
         else if c = CHR 0x0D then ''r''
         else if c = CHR 0x09 then ''t''
         else ''u00'' @ hex_byte c))"

function json_body :: "string \<Rightarrow> string" where
  "json_body [] = []"
| "json_body (c # cs) =
     (if (of_char c :: nat) < 128 then json_char c @ json_body cs
      else let n = utf8_size (c # cs) in
        if n = 0 then CHR 0x5C # ''ufffd'' @ json_body cs
        else if take 3 (c # cs) = [CHR 0xE2, CHR 0x80, CHR 0xA8] then
          CHR 0x5C # ''u2028'' @ json_body (drop (n - 1) cs)
        else if take 3 (c # cs) = [CHR 0xE2, CHR 0x80, CHR 0xA9] then
          CHR 0x5C # ''u2029'' @ json_body (drop (n - 1) cs)
        else take n (c # cs) @ json_body (drop (n - 1) cs))"
  by pat_completeness simp_all
termination
  by (relation "measure length") (simp_all (no_asm) add: less_Suc_eq_le)

definition json_string :: "string \<Rightarrow> string" where
  "json_string s = CHR 0x22 # json_body s @ [CHR 0x22]"

definition json_bool :: "bool \<Rightarrow> string" where
  "json_bool b = (if b then ''true'' else ''false'')"

definition json_list :: "string list \<Rightarrow> string" where
  "json_list vs = ''['' @ join_with '','' vs @ '']''"

text \<open>A struct: the fields that are present, in the struct's order.\<close>

definition json_struct :: "(string \<times> string) list \<Rightarrow> string" where
  "json_struct fs =
     ''{'' @ join_with '','' (map (\<lambda>(k, v). CHR 0x22 # k @ [CHR 0x22, CHR '':''] @ v) fs) @ ''}''"

section \<open>The specification as a JSON document\<close>

definition json_template_spec :: "template_spec \<Rightarrow> string" where
  "json_template_spec t = json_struct
     [(''name'', json_string (ts_Name t)), (''kind'', json_string (ts_Kind t))]"

definition json_gpg_spec :: "gpg_spec \<Rightarrow> string" where
  "json_gpg_spec g = json_struct
     [(''secretName'', json_string (gpg_SecretName g)),
      (''publicKey'', json_string (gpg_PublicKey g)),
      (''privateKey'', json_string (gpg_PrivateKey g)),
      (''passphraseKey'', json_string (gpg_PassphraseKey g)),
      (''email'', json_string (gpg_Email g)),
      (''createIfNotExists'', json_bool (gpg_CreateIfNotExists g))]"

definition json_token_spec :: "token_spec \<Rightarrow> string" where
  "json_token_spec t = json_struct
     [(''secretName'', json_string (tok_SecretName t)), (''tokenKey'', json_string (tok_TokenKey t))]"

definition json_vars_spec :: "vars_spec \<Rightarrow> string" where
  "json_vars_spec v = json_struct
     ((if vs_SecretName v = [] then [] else [(''secretName'', json_string (vs_SecretName v))])
      @ (if vs_ImportOnlyKeys v = [] then []
         else [(''importOnlyKeys'', json_list (map json_string (vs_ImportOnlyKeys v)))]))"

definition json_cronjob_spec :: "cronjob_spec \<Rightarrow> string" where
  "json_cronjob_spec c = json_struct
     ((''enabled'', json_bool (cj_Enabled c))
      # (if cj_ScheduleEvery c = [] then []
         else [(''scheduleEvery'', json_string (cj_ScheduleEvery c))]))"

definition json_sb_spec :: "sb_spec \<Rightarrow> string" where
  "json_sb_spec s = json_struct
     [(''collectionId'', json_string (sbs_CollectionId s)),
      (''templateRef'', json_template_spec (sbs_TemplateRef s)),
      (''gpgKeySecretRef'', json_gpg_spec (sbs_GPGKeySecretRef s)),
      (''tokenSecretRef'', json_token_spec (sbs_TokenSecretRef s)),
      (''varsSecretRef'', json_vars_spec (sbs_VarsSecretRef s)),
      (''vars'', json_string (sbs_Vars s)),
      (''cronJob'', json_cronjob_spec (sbs_CronJob s)),
      (''operation'', json_string (sbs_Operation s))]"

definition CalculateHash :: "sb_spec \<Rightarrow> string" where
  "CalculateHash s = hex_EncodeToString (sha256 (json_sb_spec s))"

definition HasSpecChanged :: "scheduled_backup \<Rightarrow> bool" where
  "HasSpecChanged b \<longleftrightarrow> CalculateHash (sb_Spec b) \<noteq> sbst_LastAppliedSpecHash (sb_Status b)"

section \<open>The document determines the specification\<close>

text \<open>
  \<open>delimited P enc\<close>: from a text that starts with the encoding of a value in \<open>P\<close> the
  value and the rest of the text can be read off.
\<close>

definition delimited :: "('a \<Rightarrow> bool) \<Rightarrow> ('a \<Rightarrow> string) \<Rightarrow> bool" where
  "delimited P enc \<longleftrightarrow>
     (\<forall>x y r t. P x \<longrightarrow> P y \<longrightarrow> enc x @ r = enc y @ t \<longrightarrow> x = y \<and> r = t)"

lemma delimitedI:
  "(\<And>x y r t. P x \<Longrightarrow> P y \<Longrightarrow> enc x @ r = enc y @ t \<Longrightarrow> x = y \<and> r = t) \<Longrightarrow> delimited P enc"
  unfolding delimited_def by blast

lemma delimitedD:
  "delimited P enc \<Longrightarrow> P x \<Longrightarrow> P y \<Longrightarrow> enc x @ r = enc y @ t \<Longrightarrow> x = y \<and> r = t"
  unfolding delimited_def by blast

lemma delimited_iff:
  "delimited P enc \<Longrightarrow> P x \<Longrightarrow> P y \<Longrightarrow> enc x @ r = enc y @ t \<longleftrightarrow> x = y \<and> r = t"
  by (auto dest: delimitedD)

definition ascii_string :: "string \<Rightarrow> bool" where
  "ascii_string s \<longleftrightarrow> (\<forall>c \<in> set s. (of_char c :: nat) < 128)"

lemma ascii_string_simps [simp]:
  "ascii_string []" "ascii_string (c # s) \<longleftrightarrow> (of_char c :: nat) < 128 \<and> ascii_string s"
  by (auto simp: ascii_string_def)

lemma json_char_hd: "json_char c = d # r \<Longrightarrow> d \<noteq> CHR 0x22"
  by (auto simp: json_char_def html_safe_def split: if_splits)

lemma json_char_not_Nil [simp]: "json_char c \<noteq> []"
  by (simp add: json_char_def)

lemma json_char_delimited: "delimited (\<lambda>_. True) json_char"
proof (rule delimitedI)
  fix c d r t assume eq: "json_char c @ r = json_char d @ t"
  have bs: "\<not> html_safe (CHR 0x5C)" by (simp add: html_safe_def)
  show "c = d \<and> r = t"
  proof (cases "html_safe c")
    case True
    with eq bs show ?thesis by (cases "html_safe d") (auto simp: json_char_def)
  next
    case False
    with eq bs have d: "\<not> html_safe d" by (auto simp: json_char_def)
    from eq False d show ?thesis
      by (auto simp: json_char_def hex_byte_def split: if_splits
          intro: hex_byte_inject)
  qed
qed

lemma json_body_delimited:
  "ascii_string s \<Longrightarrow> ascii_string s' \<Longrightarrow>
     json_body s @ CHR 0x22 # r = json_body s' @ CHR 0x22 # t \<Longrightarrow> s = s' \<and> r = t"
proof (induction s arbitrary: s')
  case Nil
  then show ?case
    by (cases s') (auto dest: json_char_hd json_char_hd[OF sym] simp: Cons_eq_append_conv)
next
  case (Cons c cs)
  show ?case
  proof (cases s')
    case Nil
    with Cons.prems show ?thesis by (auto dest: json_char_hd simp: append_eq_Cons_conv)
  next
    case (Cons d ds)
    with Cons.prems have "json_char c @ json_body cs @ CHR 0x22 # r
        = json_char d @ json_body ds @ CHR 0x22 # t" by simp
    then have "c = d" and "json_body cs @ CHR 0x22 # r = json_body ds @ CHR 0x22 # t"
      using delimitedD[OF json_char_delimited] by blast+
    with Cons.IH Cons.prems Cons show ?thesis by auto
  qed
qed

lemma json_string_delimited: "delimited ascii_string json_string"
  by (rule delimitedI) (auto simp: json_string_def dest: json_body_delimited)

lemma json_bool_delimited: "delimited (\<lambda>_. True) json_bool"
  by (rule delimitedI) (auto simp: json_bool_def split: if_splits)

lemmas json_leaf_iff =
  delimited_iff[OF json_string_delimited] delimited_iff[OF json_bool_delimited, simplified]

text \<open>Encoded strings start with a quote, which tells the end of a list from one more element.\<close>

lemma json_string_hd: "json_string s @ r = CHR 0x22 # json_body s @ CHR 0x22 # r"
  by (simp add: json_string_def)

definition tail_items :: "string list \<Rightarrow> string" where
  "tail_items vs = concat (map (\<lambda>v. CHR '','' # json_string v) vs)"

lemma tail_items_delimited:
  "list_all ascii_string vs \<Longrightarrow> list_all ascii_string ws \<Longrightarrow>
     tail_items vs @ CHR '']'' # r = tail_items ws @ CHR '']'' # t \<Longrightarrow> vs = ws \<and> r = t"
proof (induction vs arbitrary: ws)
  case Nil
  then show ?case by (cases ws) (auto simp: tail_items_def)
next
  case (Cons v vs)
  show ?case
  proof (cases ws)
    case Nil
    with Cons.prems show ?thesis by (auto simp: tail_items_def)
  next
    case (Cons w us)
    with Cons.prems have "json_string v @ tail_items vs @ CHR '']'' # r =
        json_string w @ tail_items us @ CHR '']'' # t"
      by (simp add: tail_items_def)
    with Cons.prems Cons have "v = w"
      and "tail_items vs @ CHR '']'' # r = tail_items us @ CHR '']'' # t"
      by (auto simp: json_leaf_iff)
    with Cons.IH Cons.prems Cons show ?thesis by auto
  qed
qed

definition ascii_keys :: "string list \<Rightarrow> bool" where
  "ascii_keys vs \<longleftrightarrow> vs \<noteq> [] \<and> list_all ascii_string vs"

lemma json_list_delimited: "delimited ascii_keys (\<lambda>vs. json_list (map json_string vs))"
proof (rule delimitedI)
  fix vs ws r t
  assume vs: "ascii_keys vs" and ws: "ascii_keys ws"
    and eq: "json_list (map json_string vs) @ r = json_list (map json_string ws) @ t"
  from vs ws obtain v vs' w ws' where c: "vs = v # vs'" "ws = w # ws'"
    by (auto simp: ascii_keys_def neq_Nil_conv)
  have join: "json_list (map json_string (x # xs)) @ u
      = CHR ''['' # json_string x @ tail_items xs @ CHR '']'' # u" for x xs u
    by (simp add: json_list_def join_with_def tail_items_def o_def)
  from eq c have "json_string v @ tail_items vs' @ CHR '']'' # r =
      json_string w @ tail_items ws' @ CHR '']'' # t" by (simp only: join) simp
  with vs ws c show "vs = ws \<and> r = t"
    by (auto simp: json_leaf_iff ascii_keys_def dest: tail_items_delimited)
qed

lemmas json_fields = json_struct_def join_with_def

lemma json_template_delimited:
  "delimited (\<lambda>t. ascii_string (ts_Name t) \<and> ascii_string (ts_Kind t)) json_template_spec"
  by (rule delimitedI) (auto simp: json_template_spec_def json_fields json_leaf_iff)

lemma json_gpg_delimited:
  "delimited (\<lambda>g. ascii_string (gpg_SecretName g) \<and> ascii_string (gpg_PublicKey g)
     \<and> ascii_string (gpg_PrivateKey g) \<and> ascii_string (gpg_PassphraseKey g)
     \<and> ascii_string (gpg_Email g)) json_gpg_spec"
  by (rule delimitedI) (auto simp: json_gpg_spec_def json_fields json_leaf_iff)

lemma json_token_delimited:
  "delimited (\<lambda>t. ascii_string (tok_SecretName t) \<and> ascii_string (tok_TokenKey t)) json_token_spec"
  by (rule delimitedI) (auto simp: json_token_spec_def json_fields json_leaf_iff)

definition ascii_vars :: "vars_spec \<Rightarrow> bool" where
  "ascii_vars v \<longleftrightarrow> ascii_string (vs_SecretName v) \<and> list_all ascii_string (vs_ImportOnlyKeys v)"

lemma json_vars_delimited: "delimited ascii_vars json_vars_spec"
proof (rule delimitedI)
  fix v w :: vars_spec and r t
  assume v: "ascii_vars v" and w: "ascii_vars w"
    and eq: "json_vars_spec v @ r = json_vars_spec w @ t"
  have keys: "vs_ImportOnlyKeys v \<noteq> [] \<Longrightarrow> vs_ImportOnlyKeys w \<noteq> [] \<Longrightarrow>
      json_list (map json_string (vs_ImportOnlyKeys v)) @ a =
      json_list (map json_string (vs_ImportOnlyKeys w)) @ b \<longleftrightarrow>
      vs_ImportOnlyKeys v = vs_ImportOnlyKeys w \<and> a = b" for a b
    using delimited_iff[OF json_list_delimited] v w by (simp add: ascii_keys_def ascii_vars_def)
  from eq v w show "v = w \<and> r = t"
    by (auto simp: json_vars_spec_def json_fields json_leaf_iff keys ascii_vars_def split: if_splits)
qed

lemma json_cronjob_delimited:
  "delimited (\<lambda>c. ascii_string (cj_ScheduleEvery c)) json_cronjob_spec"
  by (rule delimitedI) (auto simp: json_cronjob_spec_def json_fields json_leaf_iff split: if_splits)

text \<open>All strings of the specification are ASCII.\<close>

definition ascii_spec :: "sb_spec \<Rightarrow> bool" where
  "ascii_spec s \<longleftrightarrow>
     ascii_string (sbs_CollectionId s) \<and>
     ascii_string (ts_Name (sbs_TemplateRef s)) \<and> ascii_string (ts_Kind (sbs_TemplateRef s)) \<and>
     ascii_string (gpg_SecretName (sbs_GPGKeySecretRef s)) \<and>
     ascii_string (gpg_PublicKey (sbs_GPGKeySecretRef s)) \<and>
     ascii_string (gpg_PrivateKey (sbs_GPGKeySecretRef s)) \<and>
     ascii_string (gpg_PassphraseKey (sbs_GPGKeySecretRef s)) \<and>
     ascii_string (gpg_Email (sbs_GPGKeySecretRef s)) \<and>
     ascii_string (tok_SecretName (sbs_TokenSecretRef s)) \<and>
     ascii_string (tok_TokenKey (sbs_TokenSecretRef s)) \<and>
     ascii_vars (sbs_VarsSecretRef s) \<and>
     ascii_string (sbs_Vars s) \<and>
     ascii_string (cj_ScheduleEvery (sbs_CronJob s)) \<and>
     ascii_string (sbs_Operation s)"

lemma json_sb_spec_delimited: "delimited ascii_spec json_sb_spec"
  by (rule delimitedI)
    (auto simp: json_sb_spec_def json_fields json_leaf_iff ascii_spec_def
      delimited_iff[OF json_template_delimited] delimited_iff[OF json_gpg_delimited]
      delimited_iff[OF json_token_delimited] delimited_iff[OF json_vars_delimited]
      delimited_iff[OF json_cronjob_delimited])

lemma json_sb_spec_inject:
  "ascii_spec a \<Longrightarrow> ascii_spec b \<Longrightarrow> json_sb_spec a = json_sb_spec b \<longleftrightarrow> a = b"
  using delimitedD[OF json_sb_spec_delimited, of a b "[]" "[]"] by auto

lemma CalculateHash_eq_iff:
  "CalculateHash a = CalculateHash b \<longleftrightarrow> sha256 (json_sb_spec a) = sha256 (json_sb_spec b)"
  by (simp add: CalculateHash_def hex_EncodeToString_inject)

end
