(* ===== verification/File_System.thy ===== *)
theory File_System
  imports Kube_Types
begin

text \<open>
  The part of Go's package \<^verbatim>\<open>os\<close> the renderer uses, on a file system without symbolic links:
  a path is resolved component by component from the root or from the working directory,
  every directory on the way has to exist. That the operating system may refuse a call for
  reasons outside this state (permissions, a full disk) is added in theory \<open>Platform\<close>.
\<close>

datatype node = Dir | File bytes

type_synonym path = "string list"

record fsys =
  fs_nodes :: "path \<Rightarrow> node option"
  fs_cwd :: path

fun fs_walk :: "(path \<Rightarrow> node option) \<Rightarrow> path \<Rightarrow> string list \<Rightarrow> path option" where
  "fs_walk nodes cur [] = Some cur"
| "fs_walk nodes cur (c # cs) =
     (if c = [] \<or> c = ''.'' then fs_walk nodes cur cs
      else if nodes cur \<noteq> Some Dir then None
      else if c = ''..'' then fs_walk nodes (butlast cur) cs
      else fs_walk nodes (cur @ [c]) cs)"

definition fs_start :: "fsys \<Rightarrow> string \<Rightarrow> path" where
  "fs_start fs p = (if p \<noteq> [] \<and> hd p = CHR ''/'' then [] else fs_cwd fs)"

definition fs_resolve :: "fsys \<Rightarrow> string \<Rightarrow> path option" where
  "fs_resolve fs p = (if p = [] then None else fs_walk (fs_nodes fs) (fs_start fs p) (strings_Split p ''/''))"

definition os_err :: "string \<Rightarrow> string \<Rightarrow> string \<Rightarrow> goerr" where
  "os_err what p why = Text_error (what @ '' '' @ p @ '': '' @ why)"

definition path_string :: "path \<Rightarrow> string" where
  "path_string q = CHR ''/'' # join_with ''/'' q"

definition os_Getwd :: "fsys \<Rightarrow> string" where
  "os_Getwd fs = path_string (fs_cwd fs)"

definition os_Chdir :: "string \<Rightarrow> fsys \<Rightarrow> goerr option \<times> fsys" where
  "os_Chdir p fs =
     (case fs_resolve fs p of
        Some q \<Rightarrow> (if fs_nodes fs q = Some Dir then (None, fs\<lparr>fs_cwd := q\<rparr>)
                   else (Some (os_err ''chdir'' p ''not a directory''), fs))
      | None \<Rightarrow> (Some (os_err ''chdir'' p ''no such file or directory''), fs))"

text \<open>\<^verbatim>\<open>os.MkdirAll\<close> creates what is missing; after an error the directories made so far stay.\<close>

fun mkdir_all_from ::
  "(path \<Rightarrow> node option) \<Rightarrow> path \<Rightarrow> string list \<Rightarrow> bool \<times> (path \<Rightarrow> node option)" where
  "mkdir_all_from nodes cur [] = (True, nodes)"
| "mkdir_all_from nodes cur (c # cs) =
     (if c = [] \<or> c = ''.'' then mkdir_all_from nodes cur cs
      else if nodes cur \<noteq> Some Dir then (False, nodes)
      else if c = ''..'' then mkdir_all_from nodes (butlast cur) cs
      else (case nodes (cur @ [c]) of
              Some Dir \<Rightarrow> mkdir_all_from nodes (cur @ [c]) cs
            | Some (File _) \<Rightarrow> (False, nodes)
            | None \<Rightarrow> mkdir_all_from (nodes(cur @ [c] \<mapsto> Dir)) (cur @ [c]) cs))"

definition os_MkdirAll :: "string \<Rightarrow> fsys \<Rightarrow> goerr option \<times> fsys" where
  "os_MkdirAll p fs =
     (case mkdir_all_from (fs_nodes fs) (fs_start fs p) (strings_Split p ''/'') of
        (ok, nodes) \<Rightarrow>
          ((if ok then None else Some (os_err ''mkdir'' p ''not a directory'')),
           fs\<lparr>fs_nodes := nodes\<rparr>))"

text \<open>\<^verbatim>\<open>os.MkdirTemp(dir, pattern)\<close>; \<open>rnd\<close> is the random part of the name that was chosen.\<close>

definition os_MkdirTemp :: "string \<Rightarrow> string \<Rightarrow> string \<Rightarrow> fsys \<Rightarrow> (goerr + string) \<times> fsys" where
  "os_MkdirTemp dir pattern rnd fs =
     (let p = dir @ ''/'' @ pattern @ rnd in
      case fs_resolve fs p of
        Some q \<Rightarrow>
          (if fs_nodes fs (butlast q) = Some Dir \<and> fs_nodes fs q = None
           then (Inr p, fs\<lparr>fs_nodes := (fs_nodes fs)(q \<mapsto> Dir)\<rparr>)
           else (Inl (os_err ''mkdir'' p ''file exists''), fs))
      | None \<Rightarrow> (Inl (os_err ''mkdir'' p ''no such file or directory''), fs))"

definition os_WriteFile :: "string \<Rightarrow> bytes \<Rightarrow> fsys \<Rightarrow> goerr option \<times> fsys" where
  "os_WriteFile p content fs =
     (case fs_resolve fs p of
        Some q \<Rightarrow>
          (if q \<noteq> [] \<and> fs_nodes fs (butlast q) = Some Dir \<and> fs_nodes fs q \<noteq> Some Dir
           then (None, fs\<lparr>fs_nodes := (fs_nodes fs)(q \<mapsto> File content)\<rparr>)
           else (Some (os_err ''open'' p ''is a directory''), fs))
      | None \<Rightarrow> (Some (os_err ''open'' p ''no such file or directory''), fs))"

definition os_ReadFile :: "string \<Rightarrow> fsys \<Rightarrow> goerr + bytes" where
  "os_ReadFile p fs =
     (case fs_resolve fs p of
        Some q \<Rightarrow> (case fs_nodes fs q of
            Some (File b) \<Rightarrow> Inr b
          | _ \<Rightarrow> Inl (os_err ''open'' p ''no such file or directory''))
      | None \<Rightarrow> Inl (os_err ''open'' p ''no such file or directory''))"

definition os_RemoveAll :: "string \<Rightarrow> fsys \<Rightarrow> goerr option \<times> fsys" where
  "os_RemoveAll p fs =
     (case fs_resolve fs p of
        Some q \<Rightarrow> (None, fs\<lparr>fs_nodes := (\<lambda>r. if prefix q r then None else fs_nodes fs r)\<rparr>)
      | None \<Rightarrow> (None, fs))"

section \<open>What the calls do\<close>

lemma os_WriteFile_read:
  assumes "os_WriteFile p b fs = (None, fs')"
  shows "os_ReadFile p fs' = Inr b"
proof -
  from assms obtain q where q: "fs_resolve fs p = Some q"
    and ok: "q \<noteq> []" "fs_nodes fs (butlast q) = Some Dir" "fs_nodes fs q \<noteq> Some Dir"
    and fs': "fs' = fs\<lparr>fs_nodes := (fs_nodes fs)(q \<mapsto> File b)\<rparr>"
    by (auto simp: os_WriteFile_def split: option.splits if_splits)
  have walk: "fs_walk n cur cs = Some r \<Longrightarrow> n r \<noteq> Some Dir \<Longrightarrow>
      fs_walk (n(r \<mapsto> File b)) cur cs = Some r" for n cur cs r
  proof (induction cs arbitrary: cur)
    case Nil
    then show ?case by simp
  next
    case (Cons c cs)
    then show ?case by (auto split: if_splits)
  qed
  from q have "fs_walk (fs_nodes fs) (fs_start fs p) (strings_Split p ''/'') = Some q" "p \<noteq> []"
    by (auto simp: fs_resolve_def split: if_splits)
  from walk[OF this(1) ok(3)] this(2) have "fs_resolve fs' p = Some q"
    by (auto simp: fs_resolve_def fs' fs_start_def split: if_splits)
  with fs' show ?thesis by (simp add: os_ReadFile_def)
qed

lemma os_WriteFile_error: "os_WriteFile p b fs = (Some e, fs') \<Longrightarrow> fs' = fs"
  by (auto simp: os_WriteFile_def split: option.splits if_splits)

lemma os_RemoveAll_gone:
  assumes "os_RemoveAll p fs = (r, fs')" and "fs_resolve fs p = Some q" and "prefix q x"
  shows "fs_nodes fs' x = None"
  using assms by (auto simp: os_RemoveAll_def)

text \<open>The file system calls change the working directory only in \<^verbatim>\<open>Chdir\<close>.\<close>

lemma fs_cwd_kept [simp]:
  "fs_cwd (snd (os_MkdirAll p fs)) = fs_cwd fs"
  "fs_cwd (snd (os_MkdirTemp d pat x fs)) = fs_cwd fs"
  "fs_cwd (snd (os_WriteFile p b fs)) = fs_cwd fs"
  "fs_cwd (snd (os_RemoveAll p fs)) = fs_cwd fs"
  by (auto simp: os_MkdirAll_def os_MkdirTemp_def os_WriteFile_def os_RemoveAll_def Let_def
      split: option.splits prod.splits)

text \<open>A path of proper names reads back as itself.\<close>

definition plain_path :: "path \<Rightarrow> bool" where
  "plain_path q \<longleftrightarrow> list_all (\<lambda>c. c \<noteq> [] \<and> c \<noteq> ''.'' \<and> c \<noteq> ''..'' \<and> CHR ''/'' \<notin> set c) q"

lemma split_joined:
  "plain_path (c # q) \<Longrightarrow> strings_Split (join_with ''/'' (c # q)) ''/'' = c # q"
proof (induction q arbitrary: c)
  case Nil
  then show ?case by (simp add: plain_path_def join_with_def strings_Split_one)
next
  case (Cons d q)
  then have c: "CHR ''/'' \<notin> set c" and q: "plain_path (d # q)"
    by (auto simp: plain_path_def)
  have "join_with ''/'' (c # d # q) = c @ CHR ''/'' # join_with ''/'' (d # q)"
    by (simp add: join_with_Cons)
  with c Cons.IH[OF q] show ?case
    by (simp add: strings_Split_def split_from_first)
qed

lemma fs_walk_plain:
  "plain_path q \<Longrightarrow> (\<And>r. strict_prefix r (cur @ q) \<Longrightarrow> prefix cur r \<Longrightarrow> n r = Some Dir) \<Longrightarrow>
     fs_walk n cur q = Some (cur @ q)"
proof (induction q arbitrary: cur)
  case Nil
  then show ?case by simp
next
  case (Cons c q)
  from Cons.prems(1) have c: "c \<noteq> []" "c \<noteq> ''.''" "c \<noteq> ''..''" and q: "plain_path q"
    by (auto simp: plain_path_def)
  have "n cur = Some Dir" by (rule Cons.prems(2)) (auto simp: strict_prefix_def)
  moreover have "fs_walk n (cur @ [c]) q = Some ((cur @ [c]) @ q)"
    using q by (rule Cons.IH) (auto intro!: Cons.prems(2) dest: append_prefixD)
  ultimately show ?case using c by simp
qed

lemma fs_resolve_path_string:
  assumes "plain_path q" and "\<And>r. strict_prefix r q \<Longrightarrow> fs_nodes fs r = Some Dir"
  shows "fs_resolve fs (path_string q) = Some q"
proof (cases q)
  case Nil
  have "strings_Split ''/'' ''/'' = [[], []]"
    using strings_Split_two[of "CHR ''/''" "[]" "[]"] by simp
  with Nil show ?thesis
    by (simp add: fs_resolve_def path_string_def join_with_def fs_start_def)
next
  case (Cons c q')
  have "strings_Split (path_string q) ''/'' = [] # q"
    using split_joined[of c q'] assms(1) Cons split_from_first[of "CHR ''/''" "[]" "[]"]
    by (simp add: path_string_def strings_Split_def)
  moreover have "fs_walk (fs_nodes fs) [] q = Some q"
    using fs_walk_plain[of q "[]" "fs_nodes fs"] assms by simp
  ultimately show ?thesis
    by (simp add: fs_resolve_def path_string_def fs_start_def)
qed

lemma fs_walk_plain_inv:
  "plain_path q \<Longrightarrow> fs_walk n cur q = Some r \<Longrightarrow>
     r = cur @ q \<and> (\<forall>p. strict_prefix p q \<longrightarrow> n (cur @ p) = Some Dir)"
proof (induction q arbitrary: cur)
  case Nil
  then show ?case by simp
next
  case (Cons c q)
  from Cons.prems have c: "n cur = Some Dir" and w: "fs_walk n (cur @ [c]) q = Some r" and q: "plain_path q"
    by (auto simp: plain_path_def split: if_splits)
  from Cons.IH[OF q w] have r: "r = cur @ c # q"
    and d: "\<And>p. strict_prefix p q \<Longrightarrow> n (cur @ c # p) = Some Dir" by auto
  have "n (cur @ p) = Some Dir" if "strict_prefix p (c # q)" for p
    using that c d by (cases p) auto
  with r show ?case by simp
qed

lemma fs_resolve_plain:
  assumes "plain_path q"
  shows "fs_resolve fs (path_string q) = Some r \<longleftrightarrow>
     r = q \<and> (\<forall>p. strict_prefix p q \<longrightarrow> fs_nodes fs p = Some Dir)"
proof
  assume r: "fs_resolve fs (path_string q) = Some r"
  have "fs_walk (fs_nodes fs) [] q = Some r"
  proof (cases q)
    case Nil
    with r show ?thesis
      using strings_Split_two[of "CHR ''/''" "[]" "[]"]
      by (simp add: fs_resolve_def path_string_def join_with_def fs_start_def)
  next
    case (Cons c q')
    have "strings_Split (path_string q) ''/'' = [] # q"
      using split_joined[of c q'] assms Cons split_from_first[of "CHR ''/''" "[]" "[]"]
      by (simp add: path_string_def strings_Split_def)
    with r show ?thesis by (simp add: fs_resolve_def path_string_def fs_start_def)
  qed
  from fs_walk_plain_inv[OF assms this]
  show "r = q \<and> (\<forall>p. strict_prefix p q \<longrightarrow> fs_nodes fs p = Some Dir)" by simp
qed (auto intro: fs_resolve_path_string assms)

section \<open>Directories stay\<close>

definition dirs_kept :: "fsys \<Rightarrow> fsys \<Rightarrow> bool" where
  "dirs_kept fs fs' \<longleftrightarrow> (\<forall>p. fs_nodes fs p = Some Dir \<longrightarrow> fs_nodes fs' p = Some Dir)"

lemma dirs_kept_refl [simp]: "dirs_kept fs fs"
  by (simp add: dirs_kept_def)

lemma dirs_kept_trans: "dirs_kept a b \<Longrightarrow> dirs_kept b c \<Longrightarrow> dirs_kept a c"
  by (simp add: dirs_kept_def)

lemma mkdir_all_from_keeps:
  "n p = Some Dir \<Longrightarrow> snd (mkdir_all_from n cur cs) p = Some Dir"
  by (induction n cur cs rule: mkdir_all_from.induct) (auto split: option.splits node.splits)

lemma dirs_kept_os:
  "dirs_kept fs (snd (os_MkdirAll p fs))"
  "dirs_kept fs (snd (os_MkdirTemp d pat x fs))"
  "dirs_kept fs (snd (os_WriteFile p b fs))"
  by (auto simp: dirs_kept_def os_MkdirAll_def os_MkdirTemp_def os_WriteFile_def Let_def
      split: option.splits prod.splits)
     (metis mkdir_all_from_keeps snd_conv)

text \<open>A temporary directory is a new entry of an existing directory.\<close>

lemma os_MkdirTemp_made:
  assumes run: "os_MkdirTemp ''/tmp'' pat x fs = (Inr dir, fs')"
    and plain: "plain_path [''tmp'', pat @ x]"
  shows "dir = path_string [''tmp'', pat @ x]" and "fs_nodes fs [''tmp'', pat @ x] = None"
    and "fs_nodes fs [] = Some Dir" and "fs_nodes fs [''tmp''] = Some Dir"
    and "fs' = fs\<lparr>fs_nodes := (fs_nodes fs)([''tmp'', pat @ x] \<mapsto> Dir)\<rparr>"
proof -
  have dir: "''/tmp'' @ ''/'' @ pat @ x = path_string [''tmp'', pat @ x]"
    by (simp add: path_string_def join_with_def)
  from run obtain q where q: "fs_resolve fs (path_string [''tmp'', pat @ x]) = Some q"
    and ok: "fs_nodes fs (butlast q) = Some Dir" "fs_nodes fs q = None"
    and fin: "dir = path_string [''tmp'', pat @ x]" "fs' = fs\<lparr>fs_nodes := (fs_nodes fs)(q \<mapsto> Dir)\<rparr>"
    unfolding os_MkdirTemp_def Let_def dir by (auto split: option.splits if_splits)
  from q fs_resolve_plain[OF plain] have qd: "q = [''tmp'', pat @ x]"
    and pre: "\<And>p. strict_prefix p [''tmp'', pat @ x] \<Longrightarrow> fs_nodes fs p = Some Dir" by auto
  show "dir = path_string [''tmp'', pat @ x]" "fs_nodes fs [''tmp'', pat @ x] = None"
    "fs' = fs\<lparr>fs_nodes := (fs_nodes fs)([''tmp'', pat @ x] \<mapsto> Dir)\<rparr>"
    using fin ok qd by simp_all
  show "fs_nodes fs [] = Some Dir" "fs_nodes fs [''tmp''] = Some Dir"
    by (rule pre, simp)+
qed

end
