(* ===== verification/Typed_Clients.thy ===== *)
theory Typed_Clients
  imports Api_Types "HOL-Library.Word"
begin

text \<open>
  The typed REST clients of \<^verbatim>\<open>pkg/client/clientset\<close>: every method builds one request and
  hands it to the REST client of \<^verbatim>\<open>k8s.io/client-go\<close>, which is a parameter (a record of
  its four ways to finish a request). The three clients differ in the resource they name
  and in the type of the objects, so they are instances of one group of definitions.
\<close>

section \<open>Requests\<close>

datatype verb = GET | POST | PUT | DELETE | PATCH string

type_synonym api_options = "string gomap"

text \<open>\<^verbatim>\<open>v1.ListOptions\<close>: the two fields the clients touch, and the rest as query parameters.\<close>

record list_options =
  lo_Params :: api_options
  lo_TimeoutSeconds :: "64 word option"
  lo_Watch :: bool

datatype request_params = No_params | Option_params api_options | List_params list_options

datatype 'b request_body =
  No_body | Object_body 'b | Options_body api_options | Raw_body bytes

record 'b rest_request =
  rq_Verb :: verb
  rq_Namespace :: string
  rq_Resource :: string
  rq_Name :: "string option"
  rq_SubResource :: "string list"
  rq_Params :: request_params
  rq_Timeout :: "64 word option"
  rq_Body :: "'b request_body"

text \<open>
  The REST client: \<^verbatim>\<open>Do(ctx).Into(obj)\<close>, \<^verbatim>\<open>Do(ctx).Into(list)\<close>, \<^verbatim>\<open>Watch(ctx)\<close> and
  \<^verbatim>\<open>Do(ctx).Error()\<close>. A watch is identified by a number.
\<close>

record ('w, 'b) rest_client =
  rc_Into :: "'w \<Rightarrow> 'b rest_request \<Rightarrow> (goerr + 'b) \<times> 'w"
  rc_IntoList :: "'w \<Rightarrow> 'b rest_request \<Rightarrow> (goerr + 'b list) \<times> 'w"
  rc_Watch :: "'w \<Rightarrow> 'b rest_request \<Rightarrow> (goerr + nat) \<times> 'w"
  rc_Error :: "'w \<Rightarrow> 'b rest_request \<Rightarrow> goerr option \<times> 'w"

section \<open>The methods, for any resource\<close>

text \<open>\<^verbatim>\<open>time.Duration(*opts.TimeoutSeconds) * time.Second\<close>: a product of two \<^verbatim>\<open>int64\<close>.\<close>

definition list_timeout :: "list_options \<Rightarrow> 64 word" where
  "list_timeout opts =
     (case lo_TimeoutSeconds opts of None \<Rightarrow> 0 | Some s \<Rightarrow> s * 1000000000)"

definition base_request :: "verb \<Rightarrow> string \<Rightarrow> string \<Rightarrow> 'b rest_request" where
  "base_request v ns res = \<lparr>rq_Verb = v, rq_Namespace = ns, rq_Resource = res, rq_Name = None,
     rq_SubResource = [], rq_Params = No_params, rq_Timeout = None, rq_Body = No_body\<rparr>"

definition get_request :: "string \<Rightarrow> string \<Rightarrow> string \<Rightarrow> api_options \<Rightarrow> 'b rest_request" where
  "get_request res ns name opts =
     (base_request GET ns res)\<lparr>rq_Name := Some name, rq_Params := Option_params opts\<rparr>"

definition list_request :: "string \<Rightarrow> string \<Rightarrow> list_options \<Rightarrow> 'b rest_request" where
  "list_request res ns opts =
     (base_request GET ns res)\<lparr>rq_Params := List_params opts, rq_Timeout := Some (list_timeout opts)\<rparr>"

definition watch_request :: "string \<Rightarrow> string \<Rightarrow> list_options \<Rightarrow> 'b rest_request" where
  "watch_request res ns opts =
     (base_request GET ns res)\<lparr>rq_Params := List_params (opts\<lparr>lo_Watch := True\<rparr>),
        rq_Timeout := Some (list_timeout opts)\<rparr>"

definition create_request :: "string \<Rightarrow> string \<Rightarrow> 'b \<Rightarrow> api_options \<Rightarrow> 'b rest_request" where
  "create_request res ns obj opts =
     (base_request POST ns res)\<lparr>rq_Params := Option_params opts, rq_Body := Object_body obj\<rparr>"

definition update_request ::
  "('b \<Rightarrow> string) \<Rightarrow> string \<Rightarrow> string \<Rightarrow> 'b \<Rightarrow> api_options \<Rightarrow> 'b rest_request" where
  "update_request name_of res ns obj opts =
     (base_request PUT ns res)\<lparr>rq_Name := Some (name_of obj), rq_Params := Option_params opts,
        rq_Body := Object_body obj\<rparr>"

definition update_status_request ::
  "('b \<Rightarrow> string) \<Rightarrow> string \<Rightarrow> string \<Rightarrow> 'b \<Rightarrow> api_options \<Rightarrow> 'b rest_request" where
  "update_status_request name_of res ns obj opts =
     (base_request PUT ns res)\<lparr>rq_Name := Some (name_of obj), rq_SubResource := [''status''],
        rq_Params := Option_params opts, rq_Body := Object_body obj\<rparr>"

definition delete_request :: "string \<Rightarrow> string \<Rightarrow> string \<Rightarrow> api_options \<Rightarrow> 'b rest_request" where
  "delete_request res ns name opts =
     (base_request DELETE ns res)\<lparr>rq_Name := Some name, rq_Body := Options_body opts\<rparr>"

definition delete_collection_request ::
  "string \<Rightarrow> string \<Rightarrow> api_options \<Rightarrow> list_options \<Rightarrow> 'b rest_request" where
  "delete_collection_request res ns opts list_opts =
     (base_request DELETE ns res)\<lparr>rq_Params := List_params list_opts,
        rq_Timeout := Some (list_timeout list_opts), rq_Body := Options_body opts\<rparr>"

definition patch_request ::
  "string \<Rightarrow> string \<Rightarrow> string \<Rightarrow> string \<Rightarrow> bytes \<Rightarrow> api_options \<Rightarrow> string list \<Rightarrow> 'b rest_request" where
  "patch_request res ns name pt patch_data opts subresources =
     (base_request (PATCH pt) ns res)\<lparr>rq_Name := Some name, rq_SubResource := subresources,
        rq_Params := Option_params opts, rq_Body := Raw_body patch_data\<rparr>"

section \<open>The ScheduledBackup client\<close>

definition sb_name :: "scheduled_backup \<Rightarrow> string" where
  "sb_name b = om_Name (sb_Meta b)"

type_synonym 'w sb_client = "('w, scheduled_backup) rest_client"

definition sb_Get :: "'w sb_client \<Rightarrow> string \<Rightarrow> string \<Rightarrow> api_options \<Rightarrow> 'w \<Rightarrow> (goerr + scheduled_backup) \<times> 'w" where
  "sb_Get c ns name opts w = rc_Into c w (get_request ''scheduledbackups'' ns name opts)"

definition sb_List :: "'w sb_client \<Rightarrow> string \<Rightarrow> list_options \<Rightarrow> 'w \<Rightarrow> (goerr + scheduled_backup list) \<times> 'w" where
  "sb_List c ns opts w = rc_IntoList c w (list_request ''scheduledbackups'' ns opts)"

definition sb_Watch :: "'w sb_client \<Rightarrow> string \<Rightarrow> list_options \<Rightarrow> 'w \<Rightarrow> (goerr + nat) \<times> 'w" where
  "sb_Watch c ns opts w = rc_Watch c w (watch_request ''scheduledbackups'' ns opts)"

definition sb_Create :: "'w sb_client \<Rightarrow> string \<Rightarrow> scheduled_backup \<Rightarrow> api_options \<Rightarrow> 'w \<Rightarrow> (goerr + scheduled_backup) \<times> 'w" where
  "sb_Create c ns b opts w = rc_Into c w (create_request ''scheduledbackups'' ns b opts)"

definition sb_Update :: "'w sb_client \<Rightarrow> string \<Rightarrow> scheduled_backup \<Rightarrow> api_options \<Rightarrow> 'w \<Rightarrow> (goerr + scheduled_backup) \<times> 'w" where
  "sb_Update c ns b opts w = rc_Into c w (update_request sb_name ''scheduledbackups'' ns b opts)"

definition sb_UpdateStatus :: "'w sb_client \<Rightarrow> string \<Rightarrow> scheduled_backup \<Rightarrow> api_options \<Rightarrow> 'w \<Rightarrow> (goerr + scheduled_backup) \<times> 'w" where
  "sb_UpdateStatus c ns b opts w = rc_Into c w (update_status_request sb_name ''scheduledbackups'' ns b opts)"

definition sb_Delete :: "'w sb_client \<Rightarrow> string \<Rightarrow> string \<Rightarrow> api_options \<Rightarrow> 'w \<Rightarrow> goerr option \<times> 'w" where
  "sb_Delete c ns name opts w = rc_Error c w (delete_request ''scheduledbackups'' ns name opts)"

definition sb_DeleteCollection :: "'w sb_client \<Rightarrow> string \<Rightarrow> api_options \<Rightarrow> list_options \<Rightarrow> 'w \<Rightarrow> goerr option \<times> 'w" where
  "sb_DeleteCollection c ns opts list_opts w =
     rc_Error c w (delete_collection_request ''scheduledbackups'' ns opts list_opts)"

definition sb_Patch ::
  "'w sb_client \<Rightarrow> string \<Rightarrow> string \<Rightarrow> string \<Rightarrow> bytes \<Rightarrow> api_options \<Rightarrow> string list \<Rightarrow> 'w \<Rightarrow> (goerr + scheduled_backup) \<times> 'w" where
  "sb_Patch c ns name pt patch_data opts subs w =
     rc_Into c w (patch_request ''scheduledbackups'' ns name pt patch_data opts subs)"

section \<open>The RequestedBackupAction client\<close>

definition rba_name :: "requested_action \<Rightarrow> string" where
  "rba_name b = om_Name (rba_Meta b)"

type_synonym 'w rba_client = "('w, requested_action) rest_client"

definition rba_Get :: "'w rba_client \<Rightarrow> string \<Rightarrow> string \<Rightarrow> api_options \<Rightarrow> 'w \<Rightarrow> (goerr + requested_action) \<times> 'w" where
  "rba_Get c ns name opts w = rc_Into c w (get_request ''requestedbackupactions'' ns name opts)"

definition rba_List :: "'w rba_client \<Rightarrow> string \<Rightarrow> list_options \<Rightarrow> 'w \<Rightarrow> (goerr + requested_action list) \<times> 'w" where
  "rba_List c ns opts w = rc_IntoList c w (list_request ''requestedbackupactions'' ns opts)"

definition rba_Watch :: "'w rba_client \<Rightarrow> string \<Rightarrow> list_options \<Rightarrow> 'w \<Rightarrow> (goerr + nat) \<times> 'w" where
  "rba_Watch c ns opts w = rc_Watch c w (watch_request ''requestedbackupactions'' ns opts)"

definition rba_Create :: "'w rba_client \<Rightarrow> string \<Rightarrow> requested_action \<Rightarrow> api_options \<Rightarrow> 'w \<Rightarrow> (goerr + requested_action) \<times> 'w" where
  "rba_Create c ns b opts w = rc_Into c w (create_request ''requestedbackupactions'' ns b opts)"

definition rba_Update :: "'w rba_client \<Rightarrow> string \<Rightarrow> requested_action \<Rightarrow> api_options \<Rightarrow> 'w \<Rightarrow> (goerr + requested_action) \<times> 'w" where
  "rba_Update c ns b opts w = rc_Into c w (update_request rba_name ''requestedbackupactions'' ns b opts)"

definition rba_UpdateStatus :: "'w rba_client \<Rightarrow> string \<Rightarrow> requested_action \<Rightarrow> api_options \<Rightarrow> 'w \<Rightarrow> (goerr + requested_action) \<times> 'w" where
  "rba_UpdateStatus c ns b opts w = rc_Into c w (update_status_request rba_name ''requestedbackupactions'' ns b opts)"

definition rba_Delete :: "'w rba_client \<Rightarrow> string \<Rightarrow> string \<Rightarrow> api_options \<Rightarrow> 'w \<Rightarrow> goerr option \<times> 'w" where
  "rba_Delete c ns name opts w = rc_Error c w (delete_request ''requestedbackupactions'' ns name opts)"

definition rba_DeleteCollection :: "'w rba_client \<Rightarrow> string \<Rightarrow> api_options \<Rightarrow> list_options \<Rightarrow> 'w \<Rightarrow> goerr option \<times> 'w" where
  "rba_DeleteCollection c ns opts list_opts w =
     rc_Error c w (delete_collection_request ''requestedbackupactions'' ns opts list_opts)"

definition rba_Patch ::
  "'w rba_client \<Rightarrow> string \<Rightarrow> string \<Rightarrow> string \<Rightarrow> bytes \<Rightarrow> api_options \<Rightarrow> string list \<Rightarrow> 'w \<Rightarrow> (goerr + requested_action) \<times> 'w" where
  "rba_Patch c ns name pt patch_data opts subs w =
     rc_Into c w (patch_request ''requestedbackupactions'' ns name pt patch_data opts subs)"

section \<open>The ClusterBackupProcedureTemplate client\<close>

definition cbpt_name :: "cluster_template \<Rightarrow> string" where
  "cbpt_name b = om_Name (cbpt_Meta b)"

type_synonym 'w cbpt_client = "('w, cluster_template) rest_client"

definition cbpt_Get :: "'w cbpt_client \<Rightarrow> string \<Rightarrow> string \<Rightarrow> api_options \<Rightarrow> 'w \<Rightarrow> (goerr + cluster_template) \<times> 'w" where
  "cbpt_Get c ns name opts w = rc_Into c w (get_request ''clusterbackupproceduretemplates'' ns name opts)"

definition cbpt_List :: "'w cbpt_client \<Rightarrow> string \<Rightarrow> list_options \<Rightarrow> 'w \<Rightarrow> (goerr + cluster_template list) \<times> 'w" where
  "cbpt_List c ns opts w = rc_IntoList c w (list_request ''clusterbackupproceduretemplates'' ns opts)"

definition cbpt_Watch :: "'w cbpt_client \<Rightarrow> string \<Rightarrow> list_options \<Rightarrow> 'w \<Rightarrow> (goerr + nat) \<times> 'w" where
  "cbpt_Watch c ns opts w = rc_Watch c w (watch_request ''clusterbackupproceduretemplates'' ns opts)"

definition cbpt_Create :: "'w cbpt_client \<Rightarrow> string \<Rightarrow> cluster_template \<Rightarrow> api_options \<Rightarrow> 'w \<Rightarrow> (goerr + cluster_template) \<times> 'w" where
  "cbpt_Create c ns b opts w = rc_Into c w (create_request ''clusterbackupproceduretemplates'' ns b opts)"

definition cbpt_Update :: "'w cbpt_client \<Rightarrow> string \<Rightarrow> cluster_template \<Rightarrow> api_options \<Rightarrow> 'w \<Rightarrow> (goerr + cluster_template) \<times> 'w" where
  "cbpt_Update c ns b opts w = rc_Into c w (update_request cbpt_name ''clusterbackupproceduretemplates'' ns b opts)"

definition cbpt_UpdateStatus :: "'w cbpt_client \<Rightarrow> string \<Rightarrow> cluster_template \<Rightarrow> api_options \<Rightarrow> 'w \<Rightarrow> (goerr + cluster_template) \<times> 'w" where
  "cbpt_UpdateStatus c ns b opts w = rc_Into c w (update_status_request cbpt_name ''clusterbackupproceduretemplates'' ns b opts)"

definition cbpt_Delete :: "'w cbpt_client \<Rightarrow> string \<Rightarrow> string \<Rightarrow> api_options \<Rightarrow> 'w \<Rightarrow> goerr option \<times> 'w" where
  "cbpt_Delete c ns name opts w = rc_Error c w (delete_request ''clusterbackupproceduretemplates'' ns name opts)"

definition cbpt_DeleteCollection :: "'w cbpt_client \<Rightarrow> string \<Rightarrow> api_options \<Rightarrow> list_options \<Rightarrow> 'w \<Rightarrow> goerr option \<times> 'w" where
  "cbpt_DeleteCollection c ns opts list_opts w =
     rc_Error c w (delete_collection_request ''clusterbackupproceduretemplates'' ns opts list_opts)"

definition cbpt_Patch ::
  "'w cbpt_client \<Rightarrow> string \<Rightarrow> string \<Rightarrow> string \<Rightarrow> bytes \<Rightarrow> api_options \<Rightarrow> string list \<Rightarrow> 'w \<Rightarrow> (goerr + cluster_template) \<times> 'w" where
  "cbpt_Patch c ns name pt patch_data opts subs w =
     rc_Into c w (patch_request ''clusterbackupproceduretemplates'' ns name pt patch_data opts subs)"

section \<open>Facts about the requests\<close>

lemmas request_defs =
  get_request_def list_request_def watch_request_def create_request_def update_request_def
  update_status_request_def delete_request_def delete_collection_request_def patch_request_def
  base_request_def

text \<open>
  A timeout of at most 9223372036 seconds (about 292 years) reaches the server as written;
  the product of the two \<^verbatim>\<open>int64\<close> does not wrap.
\<close>

lemma list_timeout_exact:
  assumes "lo_TimeoutSeconds opts = Some s" and "\<bar>sint s\<bar> \<le> 9223372036"
  shows "sint (list_timeout opts) = sint s * 1000000000"
proof -
  have "- (2 ^ 63) \<le> sint s * 1000000000 \<and> sint s * 1000000000 < (2 ^ 63 :: int)"
    using assms(2) by simp linarith
  then have id: "signed_take_bit 63 (sint s * 1000000000) = sint s * 1000000000"
    by (simp only: signed_take_bit_int_eq_self_iff)
  have "sint (s * 1000000000) = signed_take_bit 63 (sint s * sint (1000000000 :: 64 word))"
    by (simp add: sint_word_ariths)
  also have "\<dots> = sint s * 1000000000"
    using id by simp
  finally show ?thesis using assms(1) by (simp add: list_timeout_def)
qed

end
