(* ===== verification/Platform.thy ===== *)
theory Platform
  imports Spec_Hash File_System Typed_Clients
begin

text \<open>
  Everything the controller calls that is not under \<^verbatim>\<open>src/\<close>: the cluster behind its clients,
  the manifest generator, the YAML, JSON-path and OpenPGP libraries, the clock. The record
  \<open>platform\<close> holds one function per call, over a world of arbitrary type; every theorem
  about the controller holds for every platform, or names the documented behaviour it
  relies on as a hypothesis (the predicates of the last section).
\<close>

section \<open>The state a call runs in\<close>

text \<open>
  The trace records what the controller did to its surroundings, in order: objects written,
  with the answer, and events emitted. Reads leave no entry. \<open>captured\<close> holds the elements
  of the conditions slice that the closure under \<^verbatim>\<open>retry.RetryOnConflict\<close> in
  \<^verbatim>\<open>requestedbackupaction_controller.go\<close> shares with the object it fetched.
\<close>

datatype action =
    Event_emitted string string string string
      \<comment> \<open>name of the object, type, reason, message\<close>
  | Secret_created secret bool
  | Secret_updated secret bool
  | Object_created gvr string unstr bool
  | Object_updated gvr string unstr bool
  | Sb_status_put string scheduled_backup bool
  | Rba_status_put string requested_action bool

record ('w, 'l) sys =
  world :: 'w
  locks :: 'l
  fsys :: fsys
  trace :: "action list"
  captured :: "condition list"

text \<open>A key made by the OpenPGP library and a parsed JSON path, both opaque.\<close>

datatype gpg_key = Gpg_key string

datatype jp_expr = Jp_expr string

text \<open>The generator's \<^verbatim>\<open>SnippetGenerationCommand\<close> with the fields the controller sets.\<close>

record gen_command =
  gc_TemplateName :: string
  gc_UserConfigFile :: string
  gc_IsKubernetes :: bool
  gc_KeyPath :: string
  gc_OutputDir :: string
  gc_Schedule :: string
  gc_JobName :: string
  gc_Image :: string
  gc_Operation :: string
  gc_Namespace :: string

section \<open>The platform\<close>

record ('w, 'l) platform =
  \<comment> \<open>time, random values, the order a map is ranged over in\<close>
  pf_now :: "'w \<Rightarrow> int \<times> 'w"
  pf_uuid :: "'w \<Rightarrow> string \<times> 'w"
  pf_temp_name :: "'w \<Rightarrow> string \<times> 'w"
  pf_range :: "'w \<Rightarrow> bytes gomap \<Rightarrow> bytes gomap \<times> 'w"
  \<comment> \<open>reads from the controller-runtime cache: the object as filled in, and the error\<close>
  pf_cache_get_sb :: "'w \<Rightarrow> string \<Rightarrow> string \<Rightarrow> (scheduled_backup \<times> goerr option) \<times> 'w"
  pf_cache_get_template :: "'w \<Rightarrow> string \<Rightarrow> (cluster_template \<times> goerr option) \<times> 'w"
  pf_cache_get_secret :: "'w \<Rightarrow> string \<Rightarrow> string \<Rightarrow> (secret \<times> goerr option) \<times> 'w"
  \<comment> \<open>the controller-runtime client on secrets\<close>
  pf_secret_get :: "'w \<Rightarrow> string \<Rightarrow> string \<Rightarrow> secret \<Rightarrow> (secret \<times> goerr option) \<times> 'w"
  pf_secret_create :: "'w \<Rightarrow> secret \<Rightarrow> (secret \<times> goerr option) \<times> 'w"
  pf_secret_update :: "'w \<Rightarrow> secret \<Rightarrow> (secret \<times> goerr option) \<times> 'w"
  \<comment> \<open>the REST clients of the custom resources, the batch client\<close>
  pf_sb :: "('w, scheduled_backup) rest_client"
  pf_rba :: "('w, requested_action) rest_client"
  pf_list_jobs :: "'w \<Rightarrow> string \<Rightarrow> string \<Rightarrow> (goerr + job list) \<times> 'w"
  \<comment> \<open>discovery and the dynamic client\<close>
  pf_discovery :: "'w \<Rightarrow> goerr option \<times> 'w"
  pf_rest_mapping :: "'w \<Rightarrow> string \<Rightarrow> string \<Rightarrow> string \<Rightarrow> (goerr + gvr) \<times> 'w"
  pf_dyn_get :: "'w \<Rightarrow> gvr \<Rightarrow> string \<Rightarrow> string \<Rightarrow> goerr option \<times> 'w"
  pf_dyn_create :: "'w \<Rightarrow> gvr \<Rightarrow> string \<Rightarrow> unstr \<Rightarrow> goerr option \<times> 'w"
  pf_dyn_update :: "'w \<Rightarrow> gvr \<Rightarrow> string \<Rightarrow> unstr \<Rightarrow> goerr option \<times> 'w"
  \<comment> \<open>retry.RetryOnConflict(retry.DefaultRetry, fn); meta.SetStatusCondition(&s, c): the slice
     after the call, and what the elements of the slice before the call hold after it\<close>
  pf_retry :: "(('w, 'l) sys, goerr option) go \<Rightarrow> (('w, 'l) sys, goerr option) go"
  pf_set_condition :: "'w \<Rightarrow> condition list \<Rightarrow> condition \<Rightarrow>
     (condition list \<times> condition list) \<times> 'w"
  \<comment> \<open>OpenPGP\<close>
  pf_generate_key :: "'w \<Rightarrow> string \<Rightarrow> string \<Rightarrow> string \<Rightarrow> int \<Rightarrow> (goerr + gpg_key) \<times> 'w"
  pf_armor :: "gpg_key \<Rightarrow> goerr + string"
  pf_armor_public :: "gpg_key \<Rightarrow> goerr + string"
  \<comment> \<open>YAML, JSON path, the JSON of the generator's TemplateDefinition, manifests\<close>
  pf_yaml_unmarshal :: "string \<Rightarrow> goerr + jval"
  pf_yaml_marshal :: "jval \<Rightarrow> goerr + string"
  pf_jp_parse :: "string \<Rightarrow> goerr + jp_expr"
  pf_jp_set :: "jp_expr \<Rightarrow> jval \<Rightarrow> string \<Rightarrow> goerr option \<times> jval"
  pf_template_json :: "string \<Rightarrow> string \<Rightarrow> string \<Rightarrow> goerr + string"
  pf_decode :: "string \<Rightarrow> goerr + unstr"
  \<comment> \<open>the manifest generator: it reads and writes files\<close>
  pf_extract_resources :: "'w \<Rightarrow> fsys \<Rightarrow> (goerr option \<times> fsys) \<times> 'w"
  pf_generate :: "'w \<Rightarrow> gen_command \<Rightarrow> fsys \<Rightarrow> (goerr option \<times> fsys) \<times> 'w"
  pf_os_refuses :: "'w \<Rightarrow> string \<Rightarrow> string \<Rightarrow> goerr option"
  \<comment> \<open>accessors of untyped objects, printing of kinds and names\<close>
  pf_get_labels :: "unstr \<Rightarrow> string gomap"
  pf_set_labels :: "unstr \<Rightarrow> string gomap \<Rightarrow> unstr"
  pf_set_namespace :: "unstr \<Rightarrow> string \<Rightarrow> unstr"
  pf_get_namespace :: "unstr \<Rightarrow> string"
  pf_get_name :: "unstr \<Rightarrow> string"
  pf_get_generate_name :: "unstr \<Rightarrow> string"
  pf_gvk_of :: "unstr \<Rightarrow> gvk"
  pf_gvk_string :: "gvk \<Rightarrow> string"
  pf_meta_gvk_string :: "gvk \<Rightarrow> string"
  pf_api_version_kind :: "gvk \<Rightarrow> string \<times> string"
  pf_request_string :: "request \<Rightarrow> string"

section \<open>Calls\<close>

text \<open>A call that only concerns the world, one that also leaves a trace, one of package os.\<close>

definition call :: "('w \<Rightarrow> 'a \<times> 'w) \<Rightarrow> (('w, 'l) sys, 'a) go" where
  "call f s = (case f (world s) of (a, w) \<Rightarrow> (Return a, s\<lparr>world := w\<rparr>))"

definition log_action :: "action \<Rightarrow> (('w, 'l) sys, unit) go" where
  "log_action a = modify (\<lambda>s. s\<lparr>trace := trace s @ [a]\<rparr>)"

definition os_call ::
  "('w, 'l) platform \<Rightarrow> string \<Rightarrow> string \<Rightarrow> (goerr \<Rightarrow> 'a) \<Rightarrow> (fsys \<Rightarrow> 'a \<times> fsys) \<Rightarrow> (('w, 'l) sys, 'a) go"
where
  "os_call pf name p failed f s =
     (case pf_os_refuses pf (world s) name p of
        Some e \<Rightarrow> (Return (failed e), s)
      | None \<Rightarrow> (case f (fsys s) of (a, fs) \<Rightarrow> (Return a, s\<lparr>fsys := fs\<rparr>)))"

text \<open>\<^verbatim>\<open>recorder.Event(obj, type, reason, message)\<close>.\<close>

definition emit_event :: "string \<Rightarrow> string \<Rightarrow> string \<Rightarrow> string \<Rightarrow> (('w, 'l) sys, unit) go" where
  "emit_event obj ty reason msg = log_action (Event_emitted obj ty reason msg)"

definition sum_ok :: "'e + 'a \<Rightarrow> bool" where
  "sum_ok r = (case r of Inl _ \<Rightarrow> False | Inr _ \<Rightarrow> True)"

text \<open>\<^verbatim>\<open>UpdateStatus\<close> of the two resources, with its trace.\<close>

definition put_sb_status ::
  "('w, 'l) platform \<Rightarrow> string \<Rightarrow> scheduled_backup \<Rightarrow> (('w, 'l) sys, goerr option) go" where
  "put_sb_status pf ns b =
     bnd (call (sb_UpdateStatus (pf_sb pf) ns b [])) (\<lambda>r.
     bnd (log_action (Sb_status_put ns b (sum_ok r))) (\<lambda>_.
     ret (case r of Inl e \<Rightarrow> Some e | Inr _ \<Rightarrow> None)))"

definition put_rba_status ::
  "('w, 'l) platform \<Rightarrow> string \<Rightarrow> requested_action \<Rightarrow> (('w, 'l) sys, goerr option) go" where
  "put_rba_status pf ns a =
     bnd (call (rba_UpdateStatus (pf_rba pf) ns a [])) (\<lambda>r.
     bnd (log_action (Rba_status_put ns a (sum_ok r))) (\<lambda>_.
     ret (case r of Inl e \<Rightarrow> Some e | Inr _ \<Rightarrow> None)))"

lemma call_apply: "f (world s) = (a, w) \<Longrightarrow> call f s = (Return a, s\<lparr>world := w\<rparr>)"
  by (simp add: call_def)

lemma bnd_call: "bnd (call f) g s = (case f (world s) of (a, w) \<Rightarrow> g a (s\<lparr>world := w\<rparr>))"
  by (simp add: bnd_def call_def split: prod.splits)

lemma log_action_apply [go_simps]: "log_action a s = (Return (), s\<lparr>trace := trace s @ [a]\<rparr>)"
  by (simp add: log_action_def modify_def)

lemma emit_event_apply [go_simps]:
  "emit_event n t r m s = (Return (), s\<lparr>trace := trace s @ [Event_emitted n t r m]\<rparr>)"
  by (simp add: emit_event_def log_action_apply)

section \<open>Relations kept along a call\<close>

definition same_locks :: "('w, 'l) sys \<Rightarrow> ('w, 'l) sys \<Rightarrow> bool" where
  "same_locks s t \<longleftrightarrow> locks t = locks s"

text \<open>Every action of the call satisfies \<open>Q\<close>, and what was recorded before stays.\<close>

definition only_does :: "(action \<Rightarrow> bool) \<Rightarrow> ('w, 'l) sys \<Rightarrow> ('w, 'l) sys \<Rightarrow> bool" where
  "only_does Q s t \<longleftrightarrow> (\<exists>as. trace t = trace s @ as \<and> list_all Q as)"

interpretation lock_rel: go_relation same_locks
  by unfold_locales (auto simp: same_locks_def)

interpretation act_rel: go_relation "only_does Q" for Q
proof unfold_locales
  fix s :: "('a, 'b) sys"
  show "only_does Q s s" by (simp add: only_does_def)
next
  fix s t u :: "('a, 'b) sys"
  assume "only_does Q s t" and "only_does Q t u"
  then show "only_does Q s u" by (fastforce simp: only_does_def)
qed

lemma same_locks_call: "keeps same_locks (call f)"
  by (rule keepsI) (simp add: call_def same_locks_def split: prod.splits)

lemma same_locks_log: "keeps same_locks (log_action a)"
  by (rule keepsI) (simp add: log_action_apply same_locks_def)

lemma same_locks_os: "keeps same_locks (os_call pf name p failed f)"
  by (rule keepsI) (simp add: os_call_def same_locks_def split: prod.splits option.splits)

lemma only_does_call: "keeps (only_does Q) (call f)"
  by (rule keepsI) (simp add: call_def only_does_def split: prod.splits)

lemma only_does_log: "Q a \<Longrightarrow> keeps (only_does Q) (log_action a)"
  by (rule keepsI) (simp add: log_action_apply only_does_def)

lemma only_does_os: "keeps (only_does Q) (os_call pf name p failed f)"
  by (rule keepsI) (simp add: os_call_def only_does_def split: prod.splits option.splits)

lemma only_does_mono: "keeps (only_does P) m \<Longrightarrow> (\<And>a. P a \<Longrightarrow> Q a) \<Longrightarrow> keeps (only_does Q) m"
  unfolding keeps_def only_does_def by (metis list.pred_mono_strong)

lemma same_locks_event: "keeps same_locks (emit_event n t r m)"
  by (simp add: emit_event_def same_locks_log)

lemma only_does_event: "Q (Event_emitted n t r m) \<Longrightarrow> keeps (only_does Q) (emit_event n t r m)"
  by (simp add: emit_event_def only_does_log)

lemmas lock_rules = lock_rel.keeps_rules same_locks_call same_locks_log same_locks_os same_locks_event

lemmas act_rules = act_rel.keeps_rules only_does_call only_does_log only_does_os only_does_event

section \<open>Documented behaviour of the platform\<close>

text \<open>
  \<^verbatim>\<open>retry.RetryOnConflict\<close>: the function is run once and then again as long as it returns a
  conflict and the attempts are not used up; the result is the one of its last run.
\<close>

inductive retried :: "('s, goerr option) go \<Rightarrow> 's \<Rightarrow> goerr option outcome \<times> 's \<Rightarrow> bool"
  for fn where
  last_run: "retried fn s (fn s)"
| run_again: "fn s = (Return (Some e), t) \<Longrightarrow> IsConflict e \<Longrightarrow> retried fn t r \<Longrightarrow> retried fn s r"

definition retry_ok :: "('w, 'l) platform \<Rightarrow> bool" where
  "retry_ok pf \<longleftrightarrow> (\<forall>fn s. retried fn s (pf_retry pf fn s))"

text \<open>A relation the function keeps is kept by retrying it.\<close>

lemma retried_keeps:
  assumes "retried fn s r" and "keeps R fn" and "\<And>a b c. R a b \<Longrightarrow> R b c \<Longrightarrow> R a c"
  shows "R s (snd r)"
  using assms(1)
proof (induction rule: retried.induct)
  case (last_run s)
  from assms(2) show ?case by (simp add: keeps_def)
next
  case (run_again s e t r)
  from assms(2) run_again.hyps(1) have "R s t" by (rule keepsD)
  with run_again.IH show ?case by (blast intro: assms(3))
qed

lemma same_locks_retry: "retry_ok pf \<Longrightarrow> keeps same_locks fn \<Longrightarrow> keeps same_locks (pf_retry pf fn)"
  unfolding retry_ok_def
  by (rule keepsI) (blast intro: retried_keeps lock_rel.R_trans)

lemma only_does_retry: "retry_ok pf \<Longrightarrow> keeps (only_does Q) fn \<Longrightarrow> keeps (only_does Q) (pf_retry pf fn)"
  unfolding retry_ok_def
  by (rule keepsI) (blast intro: retried_keeps act_rel.R_trans)

text \<open>The metadata of an untyped object, and the owner references in it.\<close>

definition metadata_of :: "unstr \<Rightarrow> jval gomap option" where
  "metadata_of d =
     (case d of
        None \<Rightarrow> None
      | Some obj \<Rightarrow> (case map_of obj ''metadata'' of Some (JObj m) \<Rightarrow> Some m | _ \<Rightarrow> None))"

definition owners_of :: "unstr \<Rightarrow> jval option" where
  "owners_of d = (case metadata_of d of None \<Rightarrow> None | Some m \<Rightarrow> map_of m ''ownerReferences'')"

text \<open>
  Accessors of an untyped object that has metadata: what is set is read back, and the other
  fields stay. The kind is read outside the metadata.
\<close>

definition same_identity :: "('w, 'l) platform \<Rightarrow> unstr \<Rightarrow> unstr \<Rightarrow> bool" where
  "same_identity pf d e \<longleftrightarrow>
     metadata_of e \<noteq> None \<and> owners_of e = owners_of d \<and> pf_get_name pf e = pf_get_name pf d \<and>
     pf_get_generate_name pf e = pf_get_generate_name pf d \<and> pf_gvk_of pf e = pf_gvk_of pf d"

definition accessors_ok :: "('w, 'l) platform \<Rightarrow> bool" where
  "accessors_ok pf \<longleftrightarrow>
     (\<forall>d l. metadata_of d \<noteq> None \<longrightarrow>
        map_of (pf_get_labels pf (pf_set_labels pf d l)) = map_of l \<and>
        pf_get_namespace pf (pf_set_labels pf d l) = pf_get_namespace pf d \<and>
        same_identity pf d (pf_set_labels pf d l)) \<and>
     (\<forall>d n. metadata_of d \<noteq> None \<longrightarrow>
        pf_get_namespace pf (pf_set_namespace pf d n) = n \<and>
        pf_get_labels pf (pf_set_namespace pf d n) = pf_get_labels pf d \<and>
        same_identity pf d (pf_set_namespace pf d n)) \<and>
     (\<forall>v obj. pf_gvk_of pf (Some (gset ''metadata'' v obj)) = pf_gvk_of pf (Some obj))"

text \<open>Both kinds of group-version-kind are printed as \<^verbatim>\<open>group/version, Kind=kind\<close>.\<close>

definition printing_ok :: "('w, 'l) platform \<Rightarrow> bool" where
  "printing_ok pf \<longleftrightarrow>
     (\<forall>g. pf_gvk_string pf g = gvk_Group g @ ''/'' @ gvk_Version g @ '', Kind='' @ gvk_Kind g \<and>
          pf_meta_gvk_string pf g = pf_gvk_string pf g)"

text \<open>\<^verbatim>\<open>NamespacedName.String()\<close> is \<^verbatim>\<open>namespace/name\<close>.\<close>

definition names_ok :: "('w, 'l) platform \<Rightarrow> bool" where
  "names_ok pf \<longleftrightarrow> (\<forall>r. pf_request_string pf r = req_Namespace r @ ''/'' @ req_Name r)"

text \<open>Ranging over a map visits every entry once.\<close>

definition ranging_ok :: "('w, 'l) platform \<Rightarrow> bool" where
  "ranging_ok pf \<longleftrightarrow>
     (\<forall>w m. gmap_ok m \<longrightarrow> set (fst (pf_range pf w m)) = set m \<and> gmap_ok (fst (pf_range pf w m)))"

end
