(* ===== verification/Child_References.thy ===== *)
theory Child_References
  imports Platform Api_Types
begin

text \<open>
  \<^verbatim>\<open>childreference.go\<close>: the tracking label put on every created object, the references the
  parent keeps, and the group-version-kind read back from a reference.
\<close>

definition LabelTrackingId :: string where
  "LabelTrackingId = ''riotkit.org/job-tracking-id''"

text \<open>\<^verbatim>\<open>GetGVK\<close>, with the index expressions that can be out of range.\<close>

definition GetGVK :: "child_reference \<Rightarrow> ('s, gvk) go" where
  "GetGVK cr =
     (let split = strings_Split (cr_APIVersion cr) ''/'' in
      bnd (if length split = 0
           then bnd (index_at split 0) (\<lambda>version. ret ([], version))
           else bnd (index_at split 0) (\<lambda>group.
                bnd (index_at split 1) (\<lambda>version. ret (group, version)))) (\<lambda>gv.
      ret (mk_gvk (fst gv) (snd gv) (cr_Kind cr))))"

definition AddOwnedObject ::
  "('w, 'l) platform \<Rightarrow> child_reference list \<Rightarrow> unstr \<Rightarrow> child_reference list" where
  "AddOwnedObject pf refs doc =
     (let labels = pf_get_labels pf doc in
      case map_of labels LabelTrackingId of
        None \<Rightarrow> refs
      | Some tracking \<Rightarrow>
          (let g = pf_gvk_of pf doc in
           refs @ [\<lparr>cr_APIVersion = gvk_Group g @ ''/'' @ gvk_Version g,
                    cr_Kind = gvk_Kind g, cr_TrackingId = tracking\<rparr>]))"

definition AppendJobIdTo :: "('w, 'l) platform \<Rightarrow> unstr \<Rightarrow> (('w, 'l) sys, unstr) go" where
  "AppendJobIdTo pf doc =
     (let labels = pf_get_labels pf doc;
          labels' = (if length labels = 0 then [] else labels)
      in bnd (call (pf_uuid pf)) (\<lambda>id.
         ret (pf_set_labels pf doc (gset LabelTrackingId id labels'))))"

section \<open>Reading a reference back\<close>

lemma GetGVK_panics: "CHR ''/'' \<notin> set (cr_APIVersion cr) \<Longrightarrow> GetGVK cr s = (Panic Index_out_of_range, s)"
  by (simp add: GetGVK_def strings_Split_one index_at_def go_simps)

lemma GetGVK_slash:
  "cr_APIVersion cr = g @ ''/'' @ v \<Longrightarrow> CHR ''/'' \<notin> set g \<Longrightarrow> CHR ''/'' \<notin> set v \<Longrightarrow>
     GetGVK cr = ret (mk_gvk g v (cr_Kind cr))"
  by (simp add: GetGVK_def strings_Split_two index_at_def)

text \<open>It panics exactly on an API version without a slash.\<close>

lemma GetGVK_outcome:
  "(\<exists>g. GetGVK cr s = (Return g, s)) \<longleftrightarrow> CHR ''/'' \<in> set (cr_APIVersion cr)"
proof (cases "CHR ''/'' \<in> set (cr_APIVersion cr)")
  case True
  then have "0 < count_list (cr_APIVersion cr) CHR ''/''" by (metis count_list_0_iff gr0I)
  then have "1 < length (strings_Split (cr_APIVersion cr) ''/'')"
    by (simp add: strings_Split_length)
  then have "\<exists>g. GetGVK cr s = (Return g, s)"
    by (simp add: GetGVK_def index_at_def go_simps Let_def bnd_def)
  with True show ?thesis by simp
next
  case False
  then show ?thesis by (simp add: GetGVK_panics)
qed

lemma GetGVK_state: "snd (GetGVK cr s) = s"
  by (simp add: GetGVK_def index_at_def go_simps Let_def bnd_def)

lemma keeps_GetGVK: "R s s \<Longrightarrow> R s (snd (GetGVK cr s))"
  by (simp add: GetGVK_state)

text \<open>
  An object that carries the tracking label adds one reference, and \<^verbatim>\<open>GetGVK\<close> of that
  reference is the kind of the object (core kinds, with an empty group, included).
\<close>

lemma AddOwnedObject_adds:
  assumes "map_of (pf_get_labels pf doc) LabelTrackingId = Some tracking"
  shows "AddOwnedObject pf refs doc =
     refs @ [\<lparr>cr_APIVersion = gvk_Group (pf_gvk_of pf doc) @ ''/'' @ gvk_Version (pf_gvk_of pf doc),
              cr_Kind = gvk_Kind (pf_gvk_of pf doc), cr_TrackingId = tracking\<rparr>]"
  using assms by (simp add: AddOwnedObject_def Let_def)

lemma AddOwnedObject_round_trip:
  assumes "map_of (pf_get_labels pf doc) LabelTrackingId = Some tracking"
    and "CHR ''/'' \<notin> set (gvk_Group (pf_gvk_of pf doc))"
    and "CHR ''/'' \<notin> set (gvk_Version (pf_gvk_of pf doc))"
  shows "\<exists>cr. AddOwnedObject pf refs doc = refs @ [cr] \<and> cr_TrackingId cr = tracking \<and>
     GetGVK cr = ret (pf_gvk_of pf doc)"
  using assms
  by (simp add: AddOwnedObject_adds GetGVK_slash)

lemma AddOwnedObject_unlabelled:
  "map_of (pf_get_labels pf doc) LabelTrackingId = None \<Longrightarrow> AddOwnedObject pf refs doc = refs"
  by (simp add: AddOwnedObject_def)

text \<open>What was labelled is found under its label, and other labels stay.\<close>

lemma AppendJobIdTo_apply:
  assumes "pf_uuid pf (world s) = (i, w)"
  shows "AppendJobIdTo pf doc s =
     (Return (pf_set_labels pf doc (gset LabelTrackingId i (pf_get_labels pf doc))), s\<lparr>world := w\<rparr>)"
  using assms by (simp add: AppendJobIdTo_def call_apply go_simps Let_def)

text \<open>\<open>labelled pf d e\<close>: the object \<open>e\<close> is \<open>d\<close> with a tracking label.\<close>

definition labelled :: "('w, 'l) platform \<Rightarrow> unstr \<Rightarrow> unstr \<Rightarrow> bool" where
  "labelled pf d e \<longleftrightarrow> (\<exists>i. e = pf_set_labels pf d (gset LabelTrackingId i (pf_get_labels pf d)))"

lemma AppendJobIdTo_labelled: "AppendJobIdTo pf doc s = (Return doc', s') \<Longrightarrow> labelled pf doc doc' \<and> trace s' = trace s"
  by (cases "pf_uuid pf (world s)") (auto simp: AppendJobIdTo_apply labelled_def)

lemma labelled_keeps:
  assumes acc: "accessors_ok pf" and "metadata_of d \<noteq> None" and "labelled pf d e"
  shows "same_identity pf d e" and "pf_get_namespace pf e = pf_get_namespace pf d"
    and "\<exists>i. map_of (pf_get_labels pf e) = (map_of (pf_get_labels pf d))(LabelTrackingId \<mapsto> i)"
  using assms by (auto simp: accessors_ok_def labelled_def)

lemma AppendJobIdTo_labels:
  assumes acc: "accessors_ok pf" and "metadata_of doc \<noteq> None"
    and run: "AppendJobIdTo pf doc s = (Return doc', s')"
  shows "\<exists>i. map_of (pf_get_labels pf doc') = (map_of (pf_get_labels pf doc))(LabelTrackingId \<mapsto> i)
     \<and> pf_gvk_of pf doc' = pf_gvk_of pf doc \<and> pf_get_namespace pf doc' = pf_get_namespace pf doc
     \<and> pf_get_name pf doc' = pf_get_name pf doc"
proof -
  obtain i w where i: "pf_uuid pf (world s) = (i, w)" by fastforce
  with run have "doc' = pf_set_labels pf doc (gset LabelTrackingId i (pf_get_labels pf doc))"
    by (simp add: AppendJobIdTo_apply)
  with acc assms(2) show ?thesis by (auto simp: accessors_ok_def same_identity_def)
qed

lemma same_locks_AppendJobIdTo: "keeps same_locks (AppendJobIdTo pf doc)"
  unfolding AppendJobIdTo_def Let_def by (intro lock_rules)

lemma only_does_AppendJobIdTo: "keeps (only_does Q) (AppendJobIdTo pf doc)"
  unfolding AppendJobIdTo_def Let_def by (intro act_rules)

end
