(* ===== verification/Domain.thy ===== *)
theory Domain
  imports Child_References
begin

text \<open>
  Package \<^verbatim>\<open>pkg/domain\<close>: templates, the two aggregates, the interface \<^verbatim>\<open>Renderable\<close> as a
  datatype of its two implementations with one dispatching function per method, and the
  filters deciding which kinds of objects each resource applies.
\<close>

section \<open>Operations and templates\<close>

definition op_Download :: string where "op_Download = ''download''"

definition op_Backup :: string where "op_Backup = ''backup''"

definition op_Restore :: string where "op_Restore = ''restore''"

definition InternalTemplateKind :: string where "InternalTemplateKind = ''internal''"

lemma op_distinct [simp]: "op_Backup \<noteq> op_Restore" "op_Restore \<noteq> op_Backup"
  by (simp_all add: op_Backup_def op_Restore_def)

text \<open>The implementations of the interface \<^verbatim>\<open>Template\<close>.\<close>

datatype template =
    InternalTemplate string
  | ClusterTemplate cluster_template

fun GetImage :: "template \<Rightarrow> string" where
  "GetImage (InternalTemplate n) = []"
| "GetImage (ClusterTemplate t) = cbpt_GetImage t"

fun GetBackupScript :: "template \<Rightarrow> string" where
  "GetBackupScript (InternalTemplate n) = []"
| "GetBackupScript (ClusterTemplate t) = cbpt_GetBackupScript t"

fun GetRestoreScript :: "template \<Rightarrow> string" where
  "GetRestoreScript (InternalTemplate n) = []"
| "GetRestoreScript (ClusterTemplate t) = cbpt_GetRestoreScript t"

fun ProvidesScript :: "template \<Rightarrow> bool" where
  "ProvidesScript (InternalTemplate n) = False"
| "ProvidesScript (ClusterTemplate t) = cbpt_ProvidesScript t"

fun GetName :: "template \<Rightarrow> string" where
  "GetName (InternalTemplate n) = n"
| "GetName (ClusterTemplate t) = cbpt_GetName t"

section \<open>Aggregates\<close>

text \<open>
  Pointers that may be nil are options. \<^verbatim>\<open>AdditionalVarsList\<close> is made before it is used on
  every path, so it is a map; a copy of the aggregate shares it, and the functions that
  write it return the aggregate.
\<close>

record sb_aggregate =
  sba_Backup :: scheduled_backup
  sba_Template :: "template option"
  sba_GPGSecret :: "secret option"
  sba_TokenSecret :: "secret option"
  sba_VarsListSecret :: "secret option"
  sba_AdditionalVarsList :: "bytes gomap"

definition new_sb_aggregate :: "scheduled_backup \<Rightarrow> sb_aggregate" where
  "new_sb_aggregate b = \<lparr>sba_Backup = b, sba_Template = None, sba_GPGSecret = None,
     sba_TokenSecret = None, sba_VarsListSecret = None, sba_AdditionalVarsList = []\<rparr>"

record rba_aggregate =
  rbag_Action :: requested_action
  rbag_Scheduled :: sb_aggregate

definition MarkAsProcessed :: "rba_aggregate \<Rightarrow> rba_aggregate" where
  "MarkAsProcessed a =
     a\<lparr>rbag_Action := rbag_Action a\<lparr>rba_Status := rba_Status (rbag_Action a)\<lparr>rbast_Processed := True\<rparr>\<rparr>\<rparr>"

definition WasAlreadyProcessed :: "rba_aggregate \<Rightarrow> bool" where
  "WasAlreadyProcessed a = rbast_Processed (rba_Status (rbag_Action a))"

definition rbag_GetReferencesOfOwnedObjects :: "rba_aggregate \<Rightarrow> child_reference list" where
  "rbag_GetReferencesOfOwnedObjects a = rbast_OwnedReferences (rba_Status (rbag_Action a))"

definition sba_GetReferencesOfOwnedObjects :: "sb_aggregate \<Rightarrow> child_reference list" where
  "sba_GetReferencesOfOwnedObjects a = sbst_OwnedReferences (sb_Status (sba_Backup a))"

definition SetTargetKindType :: "string \<Rightarrow> rba_aggregate \<Rightarrow> rba_aggregate" where
  "SetTargetKindType name a =
     a\<lparr>rbag_Scheduled := rbag_Scheduled a\<lparr>sba_AdditionalVarsList :=
         gset ''HelmValues.kindType'' name (sba_AdditionalVarsList (rbag_Scheduled a))\<rparr>\<rparr>"

definition NewRequestedBackupActionAggregate ::
  "('w, 'l) platform \<Rightarrow> requested_action \<Rightarrow> sb_aggregate \<Rightarrow> rba_aggregate" where
  "NewRequestedBackupActionAggregate pf action scheduled =
     (let (apiVersion, kind) =
            pf_api_version_kind pf (mk_gvk ''riotkit.org'' ''v1alpha1'' ''RequestedBackupAction'');
          aggregate = \<lparr>rbag_Action =
              action\<lparr>rba_TypeMeta := \<lparr>tm_APIVersion = apiVersion, tm_Kind = kind\<rparr>\<rparr>,
            rbag_Scheduled = scheduled\<rparr>;
          targetKind = (if rbas_KindType (rba_Spec action) \<noteq> []
                        then rbas_KindType (rba_Spec action) else ''Job'')
      in SetTargetKindType targetKind aggregate)"

section \<open>Renderable\<close>

datatype renderable =
    Sb_renderable sb_aggregate
  | Rba_renderable rba_aggregate

text \<open>The interface \<^verbatim>\<open>KubernetesResource\<close>: the object an owner reference points to.\<close>

datatype kube_resource =
    Sb_resource scheduled_backup
  | Rba_resource requested_action

fun GetTypeMeta :: "kube_resource \<Rightarrow> type_meta" where
  "GetTypeMeta (Sb_resource b) = sb_GetTypeMeta b"
| "GetTypeMeta (Rba_resource a) = rba_GetTypeMeta a"

fun GetObjectMeta :: "kube_resource \<Rightarrow> object_meta" where
  "GetObjectMeta (Sb_resource b) = sb_GetObjectMeta b"
| "GetObjectMeta (Rba_resource a) = rba_GetObjectMeta a"

text \<open>The methods of \<^verbatim>\<open>ScheduledBackupAggregate\<close>.\<close>

definition sba_AcceptedResourceTypes :: "sb_aggregate \<Rightarrow> gvk list" where [simp]:
  "sba_AcceptedResourceTypes sb = []"

definition sba_GetOperation :: "sb_aggregate \<Rightarrow> string" where [simp]:
  "sba_GetOperation sb = sbs_Operation (sb_Spec (sba_Backup sb))"

definition sba_ShouldCreateCronJob :: "sb_aggregate \<Rightarrow> bool" where [simp]:
  "sba_ShouldCreateCronJob sb = cj_Enabled (sbs_CronJob (sb_Spec (sba_Backup sb)))"

definition sba_GetTemplate :: "sb_aggregate \<Rightarrow> template option" where [simp]:
  "sba_GetTemplate sb = sba_Template sb"

definition sba_GetScheduledBackup :: "sb_aggregate \<Rightarrow> scheduled_backup" where [simp]:
  "sba_GetScheduledBackup sb = sba_Backup sb"

definition sba_GetBackupAggregate :: "sb_aggregate \<Rightarrow> sb_aggregate" where [simp]:
  "sba_GetBackupAggregate sb = sb"

definition sba_GetObjectForOwnerReference :: "sb_aggregate \<Rightarrow> kube_resource" where [simp]:
  "sba_GetObjectForOwnerReference sb = Sb_resource (sba_Backup sb)"

definition sba_AddOwnedObject :: "('w, 'l) platform \<Rightarrow> unstr \<Rightarrow> sb_aggregate \<Rightarrow> sb_aggregate" where [simp]:
  "sba_AddOwnedObject pf doc sb =
     (let b = sba_Backup sb; st = sb_Status b in
      sb\<lparr>sba_Backup := b\<lparr>sb_Status :=
        st\<lparr>sbst_OwnedReferences := AddOwnedObject pf (sbst_OwnedReferences st) doc\<rparr>\<rparr>\<rparr>)"

definition sba_ShouldRenderDependentObjects :: "sb_aggregate \<Rightarrow> bool" where [simp]:
  "sba_ShouldRenderDependentObjects sb = True"

text \<open>The methods of \<^verbatim>\<open>RequestedBackupActionAggregate\<close>.\<close>

definition rbag_AcceptedResourceTypes :: "rba_aggregate \<Rightarrow> gvk list" where [simp]:
  "rbag_AcceptedResourceTypes a = [mk_gvk ''batch'' ''v1'' ''Job'', mk_gvk [] ''v1'' ''Pod'']"

definition rbag_GetOperation :: "rba_aggregate \<Rightarrow> string" where [simp]:
  "rbag_GetOperation a = rbas_Action (rba_Spec (rbag_Action a))"

definition rbag_ShouldCreateCronJob :: "rba_aggregate \<Rightarrow> bool" where [simp]:
  "rbag_ShouldCreateCronJob a = False"

definition rbag_GetTemplate :: "rba_aggregate \<Rightarrow> template option" where [simp]:
  "rbag_GetTemplate a = sba_Template (rbag_Scheduled a)"

definition rbag_GetScheduledBackup :: "rba_aggregate \<Rightarrow> scheduled_backup" where [simp]:
  "rbag_GetScheduledBackup a = sba_Backup (rbag_Scheduled a)"

definition rbag_GetBackupAggregate :: "rba_aggregate \<Rightarrow> sb_aggregate" where [simp]:
  "rbag_GetBackupAggregate a = rbag_Scheduled a"

definition rbag_GetObjectForOwnerReference :: "rba_aggregate \<Rightarrow> kube_resource" where [simp]:
  "rbag_GetObjectForOwnerReference a = Rba_resource (rbag_Action a)"

definition rbag_AddOwnedObject :: "('w, 'l) platform \<Rightarrow> unstr \<Rightarrow> rba_aggregate \<Rightarrow> rba_aggregate" where [simp]:
  "rbag_AddOwnedObject pf doc a =
     (let x = rbag_Action a; st = rba_Status x in
      a\<lparr>rbag_Action := x\<lparr>rba_Status :=
        st\<lparr>rbast_OwnedReferences := AddOwnedObject pf (rbast_OwnedReferences st) doc\<rparr>\<rparr>\<rparr>)"

definition rbag_ShouldRenderDependentObjects :: "rba_aggregate \<Rightarrow> bool" where [simp]:
  "rbag_ShouldRenderDependentObjects a = False"

text \<open>The methods of the interface, by the dynamic type.\<close>

fun AcceptedResourceTypes :: "renderable \<Rightarrow> gvk list" where
  "AcceptedResourceTypes (Sb_renderable a) = sba_AcceptedResourceTypes a"
| "AcceptedResourceTypes (Rba_renderable a) = rbag_AcceptedResourceTypes a"

fun GetOperation :: "renderable \<Rightarrow> string" where
  "GetOperation (Sb_renderable a) = sba_GetOperation a"
| "GetOperation (Rba_renderable a) = rbag_GetOperation a"

fun ShouldCreateCronJob :: "renderable \<Rightarrow> bool" where
  "ShouldCreateCronJob (Sb_renderable a) = sba_ShouldCreateCronJob a"
| "ShouldCreateCronJob (Rba_renderable a) = rbag_ShouldCreateCronJob a"

fun GetBackupAggregate :: "renderable \<Rightarrow> sb_aggregate" where
  "GetBackupAggregate (Sb_renderable a) = sba_GetBackupAggregate a"
| "GetBackupAggregate (Rba_renderable a) = rbag_GetBackupAggregate a"

fun GetTemplate :: "renderable \<Rightarrow> template option" where
  "GetTemplate (Sb_renderable a) = sba_GetTemplate a"
| "GetTemplate (Rba_renderable a) = rbag_GetTemplate a"

fun GetScheduledBackup :: "renderable \<Rightarrow> scheduled_backup" where
  "GetScheduledBackup (Sb_renderable a) = sba_GetScheduledBackup a"
| "GetScheduledBackup (Rba_renderable a) = rbag_GetScheduledBackup a"

fun GetObjectForOwnerReference :: "renderable \<Rightarrow> kube_resource" where
  "GetObjectForOwnerReference (Sb_renderable a) = sba_GetObjectForOwnerReference a"
| "GetObjectForOwnerReference (Rba_renderable a) = rbag_GetObjectForOwnerReference a"

fun ShouldRenderDependentObjectsForAllOperationTypes :: "renderable \<Rightarrow> bool" where
  "ShouldRenderDependentObjectsForAllOperationTypes (Sb_renderable a) = sba_ShouldRenderDependentObjects a"
| "ShouldRenderDependentObjectsForAllOperationTypes (Rba_renderable a) = rbag_ShouldRenderDependentObjects a"

lemma GetTemplate_def: "GetTemplate r = sba_Template (GetBackupAggregate r)"
  by (cases r) simp_all

lemma GetScheduledBackup_def: "GetScheduledBackup r = sba_Backup (GetBackupAggregate r)"
  by (cases r) simp_all

text \<open>The references kept in the status of the owner.\<close>

fun owned_references :: "renderable \<Rightarrow> child_reference list" where
  "owned_references (Sb_renderable a) = sbst_OwnedReferences (sb_Status (sba_Backup a))"
| "owned_references (Rba_renderable a) = rbast_OwnedReferences (rba_Status (rbag_Action a))"

fun ren_AddOwnedObject :: "('w, 'l) platform \<Rightarrow> unstr \<Rightarrow> renderable \<Rightarrow> renderable" where
  "ren_AddOwnedObject pf doc (Sb_renderable a) = Sb_renderable (sba_AddOwnedObject pf doc a)"
| "ren_AddOwnedObject pf doc (Rba_renderable a) = Rba_renderable (rbag_AddOwnedObject pf doc a)"

text \<open>Replacing the variables, which every copy of the aggregate shares.\<close>

fun with_vars :: "bytes gomap \<Rightarrow> renderable \<Rightarrow> renderable" where
  "with_vars vs (Sb_renderable a) = Sb_renderable (a\<lparr>sba_AdditionalVarsList := vs\<rparr>)"
| "with_vars vs (Rba_renderable a) =
     Rba_renderable (a\<lparr>rbag_Scheduled := rbag_Scheduled a\<lparr>sba_AdditionalVarsList := vs\<rparr>\<rparr>)"

section \<open>Resource type filters\<close>

definition helper_kinds :: "gvk list" where
  "helper_kinds =
     [mk_gvk [] ''v1'' ''Secret'', mk_gvk [] ''v1'' ''ConfigMap'',
      mk_gvk ''bitnami.com'' ''v1alpha1'' ''SealedSecret'',
      mk_gvk ''kubernetes-client.io'' ''v1'' ''ExternalSecret'']"

text \<open>\<^verbatim>\<open>ResourceTypes\<close> is a list behind a field with the getter \<^verbatim>\<open>GetKinds\<close>.\<close>

definition NewResourceTypesFilterForScheduledBackup :: "renderable \<Rightarrow> string \<Rightarrow> gvk list" where
  "NewResourceTypesFilterForScheduledBackup resource op =
     (if GetOperation resource = op \<and> ShouldCreateCronJob resource
      then helper_kinds @ [mk_gvk ''batch'' ''v1'' ''CronJob'']
      else helper_kinds)"

definition NewResourceTypesFilterForRequestedBackupAction :: "gvk list" where
  "NewResourceTypesFilterForRequestedBackupAction = [mk_gvk ''batch'' ''v1'' ''Job'']"

section \<open>Facts\<close>

text \<open>Only the variables change.\<close>

lemma with_vars_sel [simp]:
  "GetOperation (with_vars vs r) = GetOperation r"
  "ShouldCreateCronJob (with_vars vs r) = ShouldCreateCronJob r"
  "GetTemplate (with_vars vs r) = GetTemplate r"
  "GetScheduledBackup (with_vars vs r) = GetScheduledBackup r"
  "GetObjectForOwnerReference (with_vars vs r) = GetObjectForOwnerReference r"
  "AcceptedResourceTypes (with_vars vs r) = AcceptedResourceTypes r"
  "owned_references (with_vars vs r) = owned_references r"
  "ShouldRenderDependentObjectsForAllOperationTypes (with_vars vs r) =
     ShouldRenderDependentObjectsForAllOperationTypes r"
  by (cases r; simp add: GetTemplate_def GetScheduledBackup_def)+

lemma with_vars_twice [simp]: "with_vars u (with_vars v r) = with_vars u r"
  by (cases r) simp_all

lemma GetBackupAggregate_with_vars [simp]:
  "GetBackupAggregate (with_vars vs r) = (GetBackupAggregate r)\<lparr>sba_AdditionalVarsList := vs\<rparr>"
  by (cases r) simp_all

lemma owned_references_add [simp]:
  "owned_references (ren_AddOwnedObject pf doc r) = AddOwnedObject pf (owned_references r) doc"
  by (cases r) (simp_all add: Let_def)

lemma ren_AddOwnedObject_owner [simp]:
  "sb_Meta (GetScheduledBackup (ren_AddOwnedObject pf doc r)) = sb_Meta (GetScheduledBackup r)"
  "sb_Spec (GetScheduledBackup (ren_AddOwnedObject pf doc r)) = sb_Spec (GetScheduledBackup r)"
  "GetTypeMeta (GetObjectForOwnerReference (ren_AddOwnedObject pf doc r)) =
     GetTypeMeta (GetObjectForOwnerReference r)"
  "GetObjectMeta (GetObjectForOwnerReference (ren_AddOwnedObject pf doc r)) =
     GetObjectMeta (GetObjectForOwnerReference r)"
  by (cases r; simp add: Let_def GetScheduledBackup_def sb_GetTypeMeta_def sb_GetObjectMeta_def
        rba_GetTypeMeta_def rba_GetObjectMeta_def)+

text \<open>The kinds a ScheduledBackup applies and those a RequestedBackupAction applies are disjoint.\<close>

lemma filters_disjoint:
  "set (NewResourceTypesFilterForScheduledBackup r op) \<inter>
   set NewResourceTypesFilterForRequestedBackupAction = {}"
  by (auto simp: NewResourceTypesFilterForScheduledBackup_def helper_kinds_def
        NewResourceTypesFilterForRequestedBackupAction_def mk_gvk_def)

text \<open>A ScheduledBackup renders its CronJob for one operation at most.\<close>

lemma cronjob_accepted:
  "mk_gvk ''batch'' ''v1'' ''CronJob'' \<in> set (NewResourceTypesFilterForScheduledBackup r op) \<longleftrightarrow>
     GetOperation r = op \<and> ShouldCreateCronJob r"
  by (auto simp: NewResourceTypesFilterForScheduledBackup_def helper_kinds_def mk_gvk_def)

lemma filters_not_Nil [simp]:
  "NewResourceTypesFilterForScheduledBackup r op \<noteq> []"
  "NewResourceTypesFilterForRequestedBackupAction \<noteq> []"
  by (auto simp: NewResourceTypesFilterForScheduledBackup_def helper_kinds_def
        NewResourceTypesFilterForRequestedBackupAction_def)

lemma kindType_set:
  "map_of (sba_AdditionalVarsList (rbag_Scheduled (NewRequestedBackupActionAggregate pf action scheduled)))
     ''HelmValues.kindType'' =
   Some (if rbas_KindType (rba_Spec action) = [] then ''Job'' else rbas_KindType (rba_Spec action))"
  by (simp add: NewRequestedBackupActionAggregate_def SetTargetKindType_def Let_def split: prod.splits)

lemma NewRequestedBackupActionAggregate_fields:
  "rba_Spec (rbag_Action (NewRequestedBackupActionAggregate pf rq sched)) = rba_Spec rq"
  "rbag_Scheduled (NewRequestedBackupActionAggregate pf rq sched) = sched\<lparr>sba_AdditionalVarsList :=
     gset ''HelmValues.kindType'' (if rbas_KindType (rba_Spec rq) = [] then ''Job'' else rbas_KindType (rba_Spec rq))
       (sba_AdditionalVarsList sched)\<rparr>"
  by (simp_all add: NewRequestedBackupActionAggregate_def SetTargetKindType_def split: prod.split)

end
