(* ===== verification/Gpg.thy ===== *)
theory Gpg
  imports Platform Api_Types
begin

text \<open>
  Package \<^verbatim>\<open>pkg/gpg\<close>: generating an OpenPGP identity and storing it in a Secret. The lemmas
  say when a secret is left alone and that a secret that was completed stays complete.
\<close>

section \<open>keygen.go\<close>

definition generateFullGPGIdentity ::
  "('w, 'l) platform \<Rightarrow> string \<Rightarrow> (('w, 'l) sys, goerr + string \<times> string) go" where
  "generateFullGPGIdentity pf email =
     bnd (call (\<lambda>w. pf_generate_key pf w email email ''x25519'' 0)) (\<lambda>k.
     ret (case k of
            Inl e \<Rightarrow> Inl (Wrapped_error ''cannot generate key pairs'' e)
          | Inr ecKey \<Rightarrow>
              (case pf_armor pf ecKey of
                 Inl e \<Rightarrow> Inl (Wrapped_error ''cannot armor private key'' e)
               | Inr privateKey \<Rightarrow>
                   (case pf_armor_public pf ecKey of
                      Inl e \<Rightarrow> Inl (Wrapped_error ''cannot armor public key'' e)
                    | Inr pubKey \<Rightarrow> Inr (pubKey, privateKey)))))"

section \<open>secret.go\<close>

text \<open>
  \<^verbatim>\<open>ShouldUpdate\<close> mixes the string data into \<^verbatim>\<open>d\<close>, which is the secret's own map when that
  is not nil: the secret is changed in place, so it is returned.
\<close>

definition mix_string_data :: "string gomap option \<Rightarrow> bytes gomap \<Rightarrow> bytes gomap" where
  "mix_string_data sd d =
     (case sd of None \<Rightarrow> d | Some m \<Rightarrow> foldl (\<lambda>acc (k, v). gset k v acc) d m)"

definition missing_key :: "bytes gomap \<Rightarrow> string \<Rightarrow> bool" where
  "missing_key d i = (case map_of d i of None \<Rightarrow> True | Some val \<Rightarrow> length val = 0)"

definition ShouldUpdate :: "secret \<Rightarrow> gpg_spec \<Rightarrow> bool \<times> secret" where
  "ShouldUpdate secret spec =
     (let d = mix_string_data (sec_StringData secret) (data_of secret);
          secret' = (case sec_Data secret of None \<Rightarrow> secret | Some _ \<Rightarrow> secret\<lparr>sec_Data := Some d\<rparr>);
          indexes = [GetPrivateKeyIndex spec, GetPublicKeyIndex spec]
      in (list_ex (missing_key d) indexes, secret'))"

definition UpdateGPGSecretWithRecreatedGPGKey ::
  "('w, 'l) platform \<Rightarrow> secret \<Rightarrow> gpg_spec \<Rightarrow> string \<Rightarrow> bool \<Rightarrow>
     (('w, 'l) sys, (bool \<times> goerr option) \<times> secret) go" where
  "UpdateGPGSecretWithRecreatedGPGKey pf secret spec email force =
     (let secret1 = secret\<lparr>sec_Data := Some (gset (GetEmailIndex spec) email (data_of secret))\<rparr>;
          (should, secret2) = ShouldUpdate secret1 spec
      in if \<not> should \<and> \<not> force then ret ((False, None), secret2)
         else
           bnd (generateFullGPGIdentity pf email) (\<lambda>r.
           ret (case r of
                  Inl e \<Rightarrow> ((False, Some (Wrapped_error ''cannot generate a new identity'' e)), secret2)
                | Inr (pubKey, privateKey) \<Rightarrow>
                    ((True, None),
                     secret2\<lparr>sec_Data := Some
                       (gset (GetPrivateKeyIndex spec) privateKey
                       (gset (GetPublicKeyIndex spec) pubKey
                       (gset (GetPassphraseIndex spec) [] (data_of secret2))))\<rparr>))))"

definition CreateNewGPGSecret ::
  "('w, 'l) platform \<Rightarrow> string \<Rightarrow> string \<Rightarrow> string \<Rightarrow> owner_reference list \<Rightarrow> gpg_spec \<Rightarrow>
     (('w, 'l) sys, secret \<times> goerr option) go" where
  "CreateNewGPGSecret pf name namespace email owners spec =
     (let secret =
        \<lparr>sec_Meta = zero_meta\<lparr>om_Name := name, om_Namespace := namespace,
             om_Labels := [(''riotkit.org/type'', ''GPGSecret'')],
             om_Annotations := [(''riotkit.org/e-mail'', email)],
             om_OwnerReferences := owners\<rparr>,
         sec_Data = None, sec_StringData = Some []\<rparr>
      in bnd (UpdateGPGSecretWithRecreatedGPGKey pf secret spec email True) (\<lambda>((updated, err), secret').
         ret (secret',
              (case err of
                 None \<Rightarrow> None
               | Some e \<Rightarrow> Some (Wrapped_error ''cannot populate secret with new generated key pair'' e)))))"

section \<open>When a secret is complete\<close>

text \<open>Both keys are in the secret's data and not empty.\<close>

definition has_keys :: "gpg_spec \<Rightarrow> bytes gomap \<Rightarrow> bool" where
  "has_keys spec d \<longleftrightarrow> \<not> missing_key d (GetPrivateKeyIndex spec) \<and> \<not> missing_key d (GetPublicKeyIndex spec)"

text \<open>A secret as the API server returns it: string data is written only.\<close>

definition as_stored :: "secret \<Rightarrow> bool" where
  "as_stored s \<longleftrightarrow> sec_StringData s = None"

lemma mix_None [simp]: "mix_string_data None d = d"
  by (simp add: mix_string_data_def)

lemma mix_Nil [simp]: "mix_string_data (Some []) d = d"
  by (simp add: mix_string_data_def)

lemma data_of_update [simp]: "data_of (s\<lparr>sec_Data := Some d\<rparr>) = d"
  by (simp add: data_of_def)

lemma ShouldUpdate_stored:
  "as_stored s \<Longrightarrow> ShouldUpdate s spec = (\<not> has_keys spec (data_of s), s)"
  by (cases s) (auto simp: ShouldUpdate_def as_stored_def has_keys_def Let_def data_of_def split: option.splits)

lemma ShouldUpdate_fst:
  "fst (ShouldUpdate s spec) \<longleftrightarrow> \<not> has_keys spec (mix_string_data (sec_StringData s) (data_of s))"
  by (auto simp: ShouldUpdate_def has_keys_def Let_def)

lemma missing_key_gset:
  "missing_key (gset k v d) i \<longleftrightarrow> (if i = k then v = [] else missing_key d i)"
  by (simp add: missing_key_def)

text \<open>
  The e-mail is stored under a key of its own, so writing it decides nothing about the
  keys unless the specification uses that very name.
\<close>

lemma has_keys_email:
  assumes "GetPrivateKeyIndex spec \<noteq> GetEmailIndex spec"
    and "GetPublicKeyIndex spec \<noteq> GetEmailIndex spec"
  shows "has_keys spec (gset (GetEmailIndex spec) email d) \<longleftrightarrow> has_keys spec d"
  using assms by (simp add: has_keys_def missing_key_gset)

text \<open>Complete keys are never replaced: the update writes the e-mail and nothing else.\<close>

lemma Update_keeps_keys:
  assumes "as_stored s" and "has_keys spec (data_of s)"
    and "GetPrivateKeyIndex spec \<noteq> GetEmailIndex spec"
    and "GetPublicKeyIndex spec \<noteq> GetEmailIndex spec"
  shows "UpdateGPGSecretWithRecreatedGPGKey pf s spec email False =
     ret ((False, None), s\<lparr>sec_Data := Some (gset (GetEmailIndex spec) email (data_of s))\<rparr>)"
proof -
  let ?s = "s\<lparr>sec_Data := Some (gset (GetEmailIndex spec) email (data_of s))\<rparr>"
  from assms(1) have "as_stored ?s" by (simp add: as_stored_def)
  moreover from assms(2-4) have "has_keys spec (data_of ?s)" by (simp add: has_keys_email)
  ultimately have "ShouldUpdate ?s spec = (False, ?s)" by (simp add: ShouldUpdate_stored)
  then show ?thesis by (simp add: UpdateGPGSecretWithRecreatedGPGKey_def)
qed

text \<open>
  What a generated secret holds, whatever it held before. \<open>armor_ok\<close>: an armored key is
  not the empty string.
\<close>

definition armor_ok :: "('w, 'l) platform \<Rightarrow> bool" where
  "armor_ok pf \<longleftrightarrow> (\<forall>k. pf_armor pf k \<noteq> Inr [] \<and> pf_armor_public pf k \<noteq> Inr [])"

lemma generate_not_empty:
  assumes "armor_ok pf" and "generateFullGPGIdentity pf email st = (Return (Inr (pub, priv)), st')"
  shows "pub \<noteq> []" and "priv \<noteq> []"
  using assms
  by (auto simp: generateFullGPGIdentity_def armor_ok_def bnd_eq_Return call_def go_simps
      split: prod.splits sum.splits)

lemma has_keys_written:
  "pub \<noteq> [] \<Longrightarrow> priv \<noteq> [] \<Longrightarrow>
     has_keys spec (gset (GetPrivateKeyIndex spec) priv (gset (GetPublicKeyIndex spec) pub d))"
  by (auto simp: has_keys_def missing_key_gset)

lemma Update_regenerates:
  assumes run: "UpdateGPGSecretWithRecreatedGPGKey pf s spec email force st = (Return ((upd, None), s'), st')"
    and sh: "ShouldUpdate (s\<lparr>sec_Data := Some (gset (GetEmailIndex spec) email (data_of s))\<rparr>) spec = (sh, s2)"
    and "sh \<or> force"
  obtains pub priv where "generateFullGPGIdentity pf email st = (Return (Inr (pub, priv)), st')" and upd
    and "s' = s2\<lparr>sec_Data := Some (gset (GetPrivateKeyIndex spec) priv
                (gset (GetPublicKeyIndex spec) pub (gset (GetPassphraseIndex spec) [] (data_of s2))))\<rparr>"
proof -
  from run sh assms(3) obtain r where "generateFullGPGIdentity pf email st = (Return r, st')"
    and "(case r of
                  Inl e \<Rightarrow> ((False, Some (Wrapped_error ''cannot generate a new identity'' e)), s2)
                | Inr (pubKey, privateKey) \<Rightarrow>
                    ((True, None),
                     s2\<lparr>sec_Data := Some
                       (gset (GetPrivateKeyIndex spec) privateKey
                       (gset (GetPublicKeyIndex spec) pubKey
                       (gset (GetPassphraseIndex spec) [] (data_of s2))))\<rparr>)) = ((upd, None), s')"
    by (auto simp: UpdateGPGSecretWithRecreatedGPGKey_def bnd_eq_Return go_simps)
  then show thesis by (cases r) (auto intro: that)
qed

lemma Update_forced:
  assumes "UpdateGPGSecretWithRecreatedGPGKey pf s spec email True st = (Return ((upd, None), s'), st')"
  shows upd
proof -
  obtain sh s2 where
    "ShouldUpdate (s\<lparr>sec_Data := Some (gset (GetEmailIndex spec) email (data_of s))\<rparr>) spec = (sh, s2)"
    by fastforce
  from assms this show ?thesis by (rule Update_regenerates) simp_all
qed

lemma Update_completes:
  assumes run: "UpdateGPGSecretWithRecreatedGPGKey pf s spec email force st = (Return ((upd, None), s'), st')"
    and ok: "armor_ok pf" and "upd \<or> as_stored s"
  shows "has_keys spec (data_of s') \<and> sec_StringData s' = sec_StringData s \<and> sec_Meta s' = sec_Meta s"
proof -
  let ?s = "s\<lparr>sec_Data := Some (gset (GetEmailIndex spec) email (data_of s))\<rparr>"
  obtain sh s2 where sh: "ShouldUpdate ?s spec = (sh, s2)" by fastforce
  have s2: "sec_StringData s2 = sec_StringData s" "sec_Meta s2 = sec_Meta s"
    using sh by (auto simp: ShouldUpdate_def Let_def)
  show ?thesis
  proof (cases "sh \<or> force")
    case False
    with run sh have r: "\<not> upd" "s' = s2"
      by (auto simp: UpdateGPGSecretWithRecreatedGPGKey_def go_simps)
    with assms(3) have "as_stored ?s" by (simp add: as_stored_def)
    with sh False r s2 show ?thesis by (auto simp: ShouldUpdate_stored)
  next
    case True
    with run sh obtain pub priv
      where g: "generateFullGPGIdentity pf email st = (Return (Inr (pub, priv)), st')"
      and s': "s' = s2\<lparr>sec_Data := Some (gset (GetPrivateKeyIndex spec) priv
                (gset (GetPublicKeyIndex spec) pub (gset (GetPassphraseIndex spec) [] (data_of s2))))\<rparr>"
      by (rule Update_regenerates)
    from generate_not_empty[OF ok g] s' s2 show ?thesis
      by (simp add: has_keys_written)
  qed
qed

text \<open>A new secret is complete, carries its owner, and needs no update afterwards.\<close>

lemma CreateNewGPGSecret_complete:
  assumes run: "CreateNewGPGSecret pf name ns email owners spec st = (Return (s, None), st')"
    and ok: "armor_ok pf"
  shows "has_keys spec (data_of s) \<and> om_Name (sec_Meta s) = name \<and> om_Namespace (sec_Meta s) = ns \<and>
     om_OwnerReferences (sec_Meta s) = owners"
proof -
  define s0 where "s0 = \<lparr>sec_Meta = zero_meta\<lparr>om_Name := name, om_Namespace := ns,
             om_Labels := [(''riotkit.org/type'', ''GPGSecret'')],
             om_Annotations := [(''riotkit.org/e-mail'', email)],
             om_OwnerReferences := owners\<rparr>,
         sec_Data = None, sec_StringData = Some []\<rparr>"
  from run obtain upd
    where u: "UpdateGPGSecretWithRecreatedGPGKey pf s0 spec email True st = (Return ((upd, None), s), st')"
    by (auto simp: CreateNewGPGSecret_def Let_def s0_def bnd_eq_Return go_simps split: option.split_asm)
  from Update_forced[OF u] Update_completes[OF u ok] show ?thesis
    by (simp add: s0_def)
qed

lemma same_locks_Gpg:
  "keeps same_locks (generateFullGPGIdentity pf email)"
  "keeps same_locks (UpdateGPGSecretWithRecreatedGPGKey pf s spec email force)"
  "keeps same_locks (CreateNewGPGSecret pf name ns email owners spec)"
  unfolding CreateNewGPGSecret_def UpdateGPGSecretWithRecreatedGPGKey_def generateFullGPGIdentity_def Let_def
  by (intro lock_rules)+

lemma only_does_Gpg:
  "keeps (only_does Q) (generateFullGPGIdentity pf email)"
  "keeps (only_does Q) (UpdateGPGSecretWithRecreatedGPGKey pf s spec email force)"
  "keeps (only_does Q) (CreateNewGPGSecret pf name ns email owners spec)"
  unfolding CreateNewGPGSecret_def UpdateGPGSecretWithRecreatedGPGKey_def generateFullGPGIdentity_def Let_def
  by (intro act_rules)+

end
