(* ===== verification/Factory.thy ===== *)
theory Factory
  imports Domain Gpg
begin

text \<open>
  Package \<^verbatim>\<open>pkg/factory\<close>: fetching the objects of a reconciliation and hydrating the two
  aggregates. A function that returns an aggregate and an error returns both here; where
  the callers look at the error first and then drop the aggregate, the result is a sum.
\<close>

section \<open>fetching.go: the cached fetcher\<close>

definition FetchScheduledBackup ::
  "('w, 'l) platform \<Rightarrow> request \<Rightarrow> (('w, 'l) sys, scheduled_backup \<times> goerr option) go" where
  "FetchScheduledBackup pf req = call (\<lambda>w. pf_cache_get_sb pf w (req_Namespace req) (req_Name req))"

definition FetchRequestedBackupAction ::
  "('w, 'l) platform \<Rightarrow> request \<Rightarrow> (('w, 'l) sys, goerr + requested_action) go" where
  "FetchRequestedBackupAction pf req = call (rba_Get (pf_rba pf) (req_Namespace req) (req_Name req) [])"

definition fetchTemplate ::
  "('w, 'l) platform \<Rightarrow> scheduled_backup \<Rightarrow> (('w, 'l) sys, cluster_template \<times> goerr option) go" where
  "fetchTemplate pf backup =
     call (\<lambda>w. pf_cache_get_template pf w (ts_Name (sbs_TemplateRef (sb_Spec backup))))"

definition fetchSecret ::
  "('w, 'l) platform \<Rightarrow> string \<Rightarrow> string \<Rightarrow> (('w, 'l) sys, secret \<times> goerr option) go" where
  "fetchSecret pf name namespace = call (\<lambda>w. pf_cache_get_secret pf w namespace name)"

section \<open>The controller-runtime client on secrets, with its trace\<close>

definition client_Create ::
  "('w, 'l) platform \<Rightarrow> secret \<Rightarrow> (('w, 'l) sys, secret \<times> goerr option) go" where
  "client_Create pf s =
     bnd (call (\<lambda>w. pf_secret_create pf w s)) (\<lambda>r.
     bnd (log_action (Secret_created s (snd r = None))) (\<lambda>_.
     ret r))"

definition client_Update ::
  "('w, 'l) platform \<Rightarrow> secret \<Rightarrow> (('w, 'l) sys, secret \<times> goerr option) go" where
  "client_Update pf s =
     bnd (call (\<lambda>w. pf_secret_update pf w s)) (\<lambda>r.
     bnd (log_action (Secret_updated s (snd r = None))) (\<lambda>_.
     ret r))"

section \<open>aggregate_factory.go: hydrating\<close>

definition ErrorActionRequeue :: goerr where
  "ErrorActionRequeue = Text_error ''REQUEUE''"

definition gpg_owners :: "scheduled_backup \<Rightarrow> owner_reference list" where
  "gpg_owners b = [\<lparr>or_APIVersion = ''v1alpha1'', or_Kind = ''ScheduledBackup'',
     or_Name = om_Name (sb_Meta b), or_UID = om_UID (sb_Meta b)\<rparr>]"

text \<open>The branch that completes a secret that exists.\<close>

definition updateGPGSecret ::
  "('w, 'l) platform \<Rightarrow> gpg_spec \<Rightarrow> secret \<Rightarrow> (('w, 'l) sys, goerr + secret) go" where
  "updateGPGSecret pf ref secret =
     (let (should, secret) = ShouldUpdate secret ref in
      if \<not> should then ret (Inr secret)
      else
        bnd (call (\<lambda>w. pf_secret_get pf w (om_Namespace (sec_Meta secret)) (om_Name (sec_Meta secret)) secret))
          (\<lambda>(secret, fetchErr).
        case fetchErr of
          Some e \<Rightarrow> ret (Inl (Wrapped_error (''cannot fetch existing secret from API - '' @
                     om_Name (sec_Meta secret) @ ''/'' @ om_Namespace (sec_Meta secret)) e))
        | None \<Rightarrow>
            bnd (UpdateGPGSecretWithRecreatedGPGKey pf secret ref (gpg_Email ref) False)
              (\<lambda>((updated, err), secret).
            case err of
              Some e \<Rightarrow> ret (Inl (Wrapped_error (''cannot update existing secret with new identity '' @
                 ''(existing secret was missing specified keys in .data/.stringData section)'') e))
            | None \<Rightarrow>
                (if updated then
                   bnd (client_Update pf secret) (\<lambda>(secret, err).
                   case err of
                     Some e \<Rightarrow> ret (Inl (Wrapped_error ''cannot append GPG identity to the secret'' e))
                   | None \<Rightarrow> ret (Inr secret))
                 else ret (Inr secret)))))"

text \<open>The branch that makes a secret; the error of the generation is not looked at.\<close>

definition createGPGSecret ::
  "('w, 'l) platform \<Rightarrow> scheduled_backup \<Rightarrow> (('w, 'l) sys, goerr + secret) go" where
  "createGPGSecret pf b =
     (let ref = sbs_GPGKeySecretRef (sb_Spec b) in
      bnd (CreateNewGPGSecret pf (gpg_SecretName ref) (om_Namespace (sb_Meta b)) (gpg_Email ref)
             (gpg_owners b) ref) (\<lambda>(secret, gpgErr).
      bnd (client_Create pf secret) (\<lambda>(secret, err).
      case err of
        Some e \<Rightarrow> ret (Inl (Wrapped_error ''cannot apply a Secret to Kubernetes'' e))
      | None \<Rightarrow> ret (Inr secret))))"

definition hydrateGPGSecret ::
  "('w, 'l) platform \<Rightarrow> sb_aggregate \<Rightarrow> (('w, 'l) sys, goerr option \<times> sb_aggregate) go" where
  "hydrateGPGSecret pf a =
     (let b = sba_Backup a; ref = sbs_GPGKeySecretRef (sb_Spec b) in
      bnd (fetchSecret pf (gpg_SecretName ref) (om_Namespace (sb_Meta b))) (\<lambda>(secret, gpgErr).
      bnd (if err_IsNotFound gpgErr then
             (if \<not> gpg_CreateIfNotExists ref
              then ret (Inl (Wrapped_error ''cannot fetch GPG containing Secret'' (the gpgErr)))
              else createGPGSecret pf b)
           else if gpg_CreateIfNotExists ref then updateGPGSecret pf ref secret
           else ret (Inr secret)) (\<lambda>r.
      ret (case r of
             Inl e \<Rightarrow> (Some e, a)
           | Inr secret \<Rightarrow> (None, a\<lparr>sba_GPGSecret := Some secret\<rparr>)))))"

definition hydrateTemplate ::
  "('w, 'l) platform \<Rightarrow> sb_aggregate \<Rightarrow> (('w, 'l) sys, goerr option \<times> sb_aggregate) go" where
  "hydrateTemplate pf a =
     (let ref = sbs_TemplateRef (sb_Spec (sba_Backup a)) in
      if ts_Kind ref = InternalTemplateKind
      then ret (None, a\<lparr>sba_Template := Some (InternalTemplate (ts_Name ref))\<rparr>)
      else
        bnd (fetchTemplate pf (sba_Backup a)) (\<lambda>(tpl, tplErr).
        ret (case tplErr of
               Some e \<Rightarrow> (Some (Wrapped_error ''cannot fetch ClusterBackupProcedureTemplate type object'' e), a)
             | None \<Rightarrow> (None, a\<lparr>sba_Template := Some (ClusterTemplate tpl)\<rparr>))))"

definition hydrateAccessToken ::
  "('w, 'l) platform \<Rightarrow> sb_aggregate \<Rightarrow> (('w, 'l) sys, goerr option \<times> sb_aggregate) go" where
  "hydrateAccessToken pf a =
     (let b = sba_Backup a in
      bnd (fetchSecret pf (tok_SecretName (sbs_TokenSecretRef (sb_Spec b))) (om_Namespace (sb_Meta b)))
        (\<lambda>(tokenSecret, tokenErr).
      ret (case tokenErr of
             Some e \<Rightarrow> (Some (Wrapped_error (''cannot fetch access token Secret '' @
                        ''(access token to access Backup Repository server)'') e), a)
           | None \<Rightarrow> (None, a\<lparr>sba_TokenSecret := Some tokenSecret\<rparr>))))"

definition hydrateVarsSecret ::
  "('w, 'l) platform \<Rightarrow> sb_aggregate \<Rightarrow> (('w, 'l) sys, goerr option \<times> sb_aggregate) go" where
  "hydrateVarsSecret pf a =
     (let b = sba_Backup a; ref = sbs_VarsSecretRef (sb_Spec b) in
      if vs_SecretName ref \<noteq> [] then
        bnd (fetchSecret pf (vs_SecretName ref) (om_Namespace (sb_Meta b))) (\<lambda>(varsSecret, varsSecretErr).
        ret (case varsSecretErr of
               Some e \<Rightarrow> (Some (Wrapped_error (''warning - cannot find Secret containing vars '' @
                          ''- but secret name was referenced, will try again'') e), a)
             | None \<Rightarrow> (None, a\<lparr>sba_VarsListSecret := Some varsSecret\<rparr>)))
      else ret (None, a))"

section \<open>aggregate_factory.go: the aggregates\<close>

text \<open>The access token and the GPG key among the variables.\<close>

definition token_vars :: "token_spec \<Rightarrow> secret option \<Rightarrow> bytes gomap \<Rightarrow> bytes gomap" where
  "token_vars ref token vs =
     (case token of
        None \<Rightarrow> vs
      | Some s \<Rightarrow>
          (case sec_Data s of
             None \<Rightarrow> vs
           | Some d \<Rightarrow>
               (case map_of d (tok_TokenKey ref) of
                  None \<Rightarrow> vs
                | Some val \<Rightarrow> if val \<noteq> [] then gset ''Repository.token'' val vs else vs)))"

definition gpg_var :: "sb_spec \<Rightarrow> string \<Rightarrow> secret \<Rightarrow> bytes" where
  "gpg_var spec operation s =
     gget [] (data_of s)
       (if operation = ''backup'' then gpg_PublicKey (sbs_GPGKeySecretRef spec)
        else gpg_PrivateKey (sbs_GPGKeySecretRef spec))"

text \<open>The steps that can fail, up to the first error.\<close>

fun hydrate_all ::
  "(sb_aggregate \<Rightarrow> (('w, 'l) sys, goerr option \<times> sb_aggregate) go) list \<Rightarrow> sb_aggregate \<Rightarrow>
     (('w, 'l) sys, goerr option \<times> sb_aggregate) go" where
  "hydrate_all [] a = ret (None, a)"
| "hydrate_all (h # hs) a =
     bnd (h a) (\<lambda>(err, a'). case err of Some e \<Rightarrow> ret (Some e, a') | None \<Rightarrow> hydrate_all hs a')"

definition CreateScheduledBackupAggregate ::
  "('w, 'l) platform \<Rightarrow> scheduled_backup \<Rightarrow> string \<Rightarrow>
     (('w, 'l) sys, sb_aggregate \<times> goerr option \<times> goerr option) go" where
  "CreateScheduledBackupAggregate pf backup operation =
     bnd (hydrate_all [hydrateGPGSecret pf, hydrateTemplate pf, hydrateAccessToken pf, hydrateVarsSecret pf]
            (new_sb_aggregate backup)) (\<lambda>(err, a).
     case err of
       Some e \<Rightarrow> ret (a, Some ErrorActionRequeue, Some e)
     | None \<Rightarrow>
         (let spec = sb_Spec (sba_Backup a);
              op = (if operation = [] then sbs_Operation spec else operation);
              vs = token_vars (sbs_TokenSecretRef (sb_Spec backup)) (sba_TokenSecret a) (sba_AdditionalVarsList a)
          in bnd (deref (sba_GPGSecret a)) (\<lambda>s.
             ret (a\<lparr>sba_AdditionalVarsList := gset ''HelmValues.gpgKeyContent'' (gpg_var spec op s) vs\<rparr>,
                  None, None))))"

text \<open>The backup is one object shared by the aggregate: it is changed for the action.\<close>

definition for_action :: "string \<Rightarrow> scheduled_backup \<Rightarrow> scheduled_backup" where
  "for_action op b =
     (let spec = sb_Spec b in
      b\<lparr>sb_Spec := spec\<lparr>sbs_CronJob := (sbs_CronJob spec)\<lparr>cj_Enabled := False\<rparr>, sbs_Operation := op\<rparr>\<rparr>)"

definition CreateRequestedBackupActionAggregate ::
  "('w, 'l) platform \<Rightarrow> requested_action \<Rightarrow> scheduled_backup \<Rightarrow>
     (('w, 'l) sys, rba_aggregate \<times> goerr option \<times> goerr option) go" where
  "CreateRequestedBackupActionAggregate pf action scheduledBackup =
     bnd (CreateScheduledBackupAggregate pf scheduledBackup (rbas_Action (rba_Spec action)))
       (\<lambda>(scheduled, _, fetchErr).
     let a = NewRequestedBackupActionAggregate pf action scheduled in
     case fetchErr of
       Some e \<Rightarrow> ret (a, Some ErrorActionRequeue, Some e)
     | None \<Rightarrow>
         (let s = rbag_Scheduled a in
          ret (a\<lparr>rbag_Scheduled := s\<lparr>sba_Backup :=
                 for_action (rbas_Action (rba_Spec action)) (sba_Backup s)\<rparr>\<rparr>, None, None)))"

section \<open>fetching.go: the aggregates\<close>

definition FetchSBAggregate ::
  "('w, 'l) platform \<Rightarrow> request \<Rightarrow> (('w, 'l) sys, goerr + sb_aggregate) go" where
  "FetchSBAggregate pf req =
     bnd (FetchScheduledBackup pf req) (\<lambda>(backup, err).
     case err of
       Some e \<Rightarrow> ret (Inl e)
     | None \<Rightarrow>
         bnd (CreateScheduledBackupAggregate pf backup []) (\<lambda>(aggregate, _, hydrateErr).
         ret (case hydrateErr of Some e \<Rightarrow> Inl e | None \<Rightarrow> Inr aggregate)))"

definition FetchRBAAggregate ::
  "('w, 'l) platform \<Rightarrow> request \<Rightarrow> (('w, 'l) sys, (result \<times> goerr) + rba_aggregate) go" where
  "FetchRBAAggregate pf req =
     bnd (FetchRequestedBackupAction pf req) (\<lambda>r.
     case r of
       Inl e \<Rightarrow> ret (Inl (requeue_after (time_Second * 30), e))
     | Inr requestedAction \<Rightarrow>
         bnd (FetchScheduledBackup pf
                \<lparr>req_Namespace = om_Namespace (rba_Meta requestedAction),
                 req_Name = rbas_ScheduledBackupRef (rba_Spec requestedAction)\<rparr>) (\<lambda>(scheduledBackup, err).
         case err of
           Some e \<Rightarrow> ret (Inl (requeue_after (time_Second * 30), e))
         | None \<Rightarrow>
             bnd (CreateRequestedBackupActionAggregate pf requestedAction scheduledBackup)
               (\<lambda>(aggregate, _, hydrateErr).
             ret (case hydrateErr of
                    Some e \<Rightarrow> Inl (requeue_after (time_Second * 30), e)
                  | None \<Rightarrow> Inr aggregate))))"

section \<open>Frame: locks and writes\<close>

lemmas hydrate_defs =
  hydrateGPGSecret_def hydrateTemplate_def hydrateAccessToken_def hydrateVarsSecret_def

lemmas fetch_defs =
  FetchScheduledBackup_def FetchRequestedBackupAction_def fetchTemplate_def fetchSecret_def

lemma same_locks_client: "keeps same_locks (client_Create pf x)" "keeps same_locks (client_Update pf x)"
  unfolding client_Create_def client_Update_def by (intro lock_rules)+

lemma same_locks_gpg_branches:
  "keeps same_locks (updateGPGSecret pf ref x)" "keeps same_locks (createGPGSecret pf b)"
  unfolding updateGPGSecret_def createGPGSecret_def Let_def
  by (intro lock_rules same_locks_Gpg same_locks_client)+

lemma same_locks_hydrate:
  "keeps same_locks (hydrateGPGSecret pf a)" "keeps same_locks (hydrateTemplate pf a)"
  "keeps same_locks (hydrateAccessToken pf a)" "keeps same_locks (hydrateVarsSecret pf a)"
  unfolding hydrate_defs fetch_defs Let_def by (intro lock_rules same_locks_gpg_branches)+

lemma same_locks_hydrate_all:
  "(\<And>h a. h \<in> set hs \<Longrightarrow> keeps same_locks (h a)) \<Longrightarrow> keeps same_locks (hydrate_all hs a)"
  by (induction hs arbitrary: a) (auto intro!: lock_rules)

lemma same_locks_sb_aggregate: "keeps same_locks (CreateScheduledBackupAggregate pf b op)"
  unfolding CreateScheduledBackupAggregate_def Let_def
  by (intro lock_rules same_locks_hydrate_all) (auto intro: same_locks_hydrate)

lemma same_locks_fetch:
  "keeps same_locks (FetchScheduledBackup pf req)"
  "keeps same_locks (FetchSBAggregate pf req)"
  "keeps same_locks (FetchRBAAggregate pf req)"
  unfolding FetchSBAggregate_def FetchRBAAggregate_def CreateRequestedBackupActionAggregate_def
    fetch_defs Let_def
  by (intro lock_rules same_locks_sb_aggregate)+

text \<open>Hydrating writes secrets only.\<close>

fun is_secret_write :: "action \<Rightarrow> bool" where
  "is_secret_write (Secret_created s ok) = True"
| "is_secret_write (Secret_updated s ok) = True"
| "is_secret_write a = False"

lemma secret_writes: "is_secret_write (Secret_created s ok)" "is_secret_write (Secret_updated s ok)"
  by simp_all

lemma only_does_client:
  "(\<And>ok. Q (Secret_created x ok)) \<Longrightarrow> keeps (only_does Q) (client_Create pf x)"
  "(\<And>ok. Q (Secret_updated x ok)) \<Longrightarrow> keeps (only_does Q) (client_Update pf x)"
  unfolding client_Create_def client_Update_def by (intro act_rules; simp)+

lemma only_does_gpg_branches:
  "keeps (only_does is_secret_write) (updateGPGSecret pf ref x)"
  "keeps (only_does is_secret_write) (createGPGSecret pf b)"
  unfolding updateGPGSecret_def createGPGSecret_def Let_def
  by (intro act_rules only_does_Gpg only_does_client secret_writes)+

text \<open>
  What hydrating a backup may do: write a secret, when its specification allows to create
  the GPG key, and nothing otherwise.
\<close>

definition hydration_action :: "scheduled_backup \<Rightarrow> action \<Rightarrow> bool" where
  "hydration_action b act \<longleftrightarrow>
     is_secret_write act \<and> gpg_CreateIfNotExists (sbs_GPGKeySecretRef (sb_Spec b))"

lemma hydration_action_branches:
  "gpg_CreateIfNotExists (sbs_GPGKeySecretRef (sb_Spec b)) \<Longrightarrow> hydration_action b = is_secret_write"
  by (rule ext) (simp add: hydration_action_def)

lemma only_does_hydrateGPGSecret:
  "sba_Backup a = b \<Longrightarrow> keeps (only_does (hydration_action b)) (hydrateGPGSecret pf a)"
  unfolding hydrateGPGSecret_def fetch_defs Let_def
  by (cases "gpg_CreateIfNotExists (sbs_GPGKeySecretRef (sb_Spec b))")
     (auto intro!: act_rules simp: hydration_action_branches only_does_gpg_branches)

lemma only_does_hydrate_other:
  "keeps (only_does Q) (hydrateTemplate pf a)"
  "keeps (only_does Q) (hydrateAccessToken pf a)" "keeps (only_does Q) (hydrateVarsSecret pf a)"
  unfolding hydrate_defs fetch_defs Let_def by (intro act_rules)+

lemma only_does_hydrate_all:
  "(\<And>h a. h \<in> set hs \<Longrightarrow> keeps (only_does Q) (h a)) \<Longrightarrow> keeps (only_does Q) (hydrate_all hs a)"
  by (induction hs arbitrary: a) (auto intro!: act_rules)

lemma only_does_CreateScheduledBackupAggregate:
  "keeps (only_does (hydration_action b)) (CreateScheduledBackupAggregate pf b op)"
  unfolding CreateScheduledBackupAggregate_def Let_def hydrate_all.simps(2)[of "hydrateGPGSecret pf"]
  by (intro act_rules only_does_hydrateGPGSecret only_does_hydrate_all)
     (auto simp: new_sb_aggregate_def intro: only_does_hydrate_other)

lemma only_does_fetch:
  "keeps (only_does Q) (FetchScheduledBackup pf req)"
  "keeps (only_does is_secret_write) (FetchSBAggregate pf req)"
  "keeps (only_does is_secret_write) (FetchRBAAggregate pf req)"
proof -
  have agg: "keeps (only_does is_secret_write) (CreateScheduledBackupAggregate pf b op)" for b op
    by (rule only_does_mono[OF only_does_CreateScheduledBackupAggregate]) (simp add: hydration_action_def)
  show "keeps (only_does Q) (FetchScheduledBackup pf req)"
    unfolding fetch_defs by (intro act_rules)
  show "keeps (only_does is_secret_write) (FetchSBAggregate pf req)"
    unfolding FetchSBAggregate_def fetch_defs by (intro act_rules agg)
  show "keeps (only_does is_secret_write) (FetchRBAAggregate pf req)"
    unfolding FetchRBAAggregate_def CreateRequestedBackupActionAggregate_def fetch_defs Let_def
    by (intro act_rules agg)
qed

section \<open>What a hydrated aggregate holds\<close>

text \<open>Every step fills one field and leaves the others.\<close>

lemma filled_iff:
  "(case r of Inl e \<Rightarrow> (Some e, a) | Inr x \<Rightarrow> (None, f x)) = (None, a') \<longleftrightarrow> (\<exists>x. r = Inr x \<and> a' = f x)"
  by (cases r) auto

lemma hydrateGPGSecret_fills:
  "hydrateGPGSecret pf a s = (Return (None, a'), s') \<Longrightarrow> \<exists>x. a' = a\<lparr>sba_GPGSecret := Some x\<rparr>"
  by (auto simp: hydrateGPGSecret_def Let_def bnd_eq_Return go_simps filled_iff
      split: prod.split_asm)

lemma hydrateTemplate_fills:
  "hydrateTemplate pf a s = (Return (None, a'), s') \<Longrightarrow> \<exists>x. a' = a\<lparr>sba_Template := Some x\<rparr>"
  by (auto simp: hydrateTemplate_def Let_def bnd_eq_Return go_simps
      split: prod.split_asm option.split_asm if_split_asm)

lemma hydrateAccessToken_fills:
  "hydrateAccessToken pf a s = (Return (None, a'), s') \<Longrightarrow> \<exists>x. a' = a\<lparr>sba_TokenSecret := Some x\<rparr>"
  by (auto simp: hydrateAccessToken_def Let_def bnd_eq_Return go_simps
      split: prod.split_asm option.split_asm)

lemma hydrateVarsSecret_fills:
  "hydrateVarsSecret pf a s = (Return (None, a'), s') \<Longrightarrow>
     a' = a \<or> (\<exists>x. a' = a\<lparr>sba_VarsListSecret := Some x\<rparr>)"
  by (auto simp: hydrateVarsSecret_def Let_def bnd_eq_Return go_simps
      split: prod.split_asm option.split_asm if_split_asm)

lemma CreateScheduledBackupAggregate_steps:
  assumes "CreateScheduledBackupAggregate pf b op s = (Return (a, act, None), s')"
  obtains a1 a2 a3 a4 s1 s2 s3 s4 key where
    "hydrateGPGSecret pf (new_sb_aggregate b) s = (Return (None, a1), s1)"
    and "hydrateTemplate pf a1 s1 = (Return (None, a2), s2)"
    and "hydrateAccessToken pf a2 s2 = (Return (None, a3), s3)"
    and "hydrateVarsSecret pf a3 s3 = (Return (None, a4), s4)"
    and "sba_GPGSecret a4 = Some key" and "act = None"
    and "a = a4\<lparr>sba_AdditionalVarsList := gset ''HelmValues.gpgKeyContent''
        (gpg_var (sb_Spec (sba_Backup a4)) (if op = [] then sbs_Operation (sb_Spec (sba_Backup a4)) else op) key)
        (token_vars (sbs_TokenSecretRef (sb_Spec b)) (sba_TokenSecret a4) (sba_AdditionalVarsList a4))\<rparr>"
proof -
  from assms obtain a1 a2 a3 a4 s1 s2 s3 s4 where
    h: "hydrateGPGSecret pf (new_sb_aggregate b) s = (Return (None, a1), s1)"
      "hydrateTemplate pf a1 s1 = (Return (None, a2), s2)"
      "hydrateAccessToken pf a2 s2 = (Return (None, a3), s3)"
      "hydrateVarsSecret pf a3 s3 = (Return (None, a4), s4)"
    and fin: "bnd (deref (sba_GPGSecret a4)) (\<lambda>s.
             ret (a4\<lparr>sba_AdditionalVarsList := gset ''HelmValues.gpgKeyContent''
               (gpg_var (sb_Spec (sba_Backup a4)) (if op = [] then sbs_Operation (sb_Spec (sba_Backup a4)) else op) s)
               (token_vars (sbs_TokenSecretRef (sb_Spec b)) (sba_TokenSecret a4) (sba_AdditionalVarsList a4))\<rparr>,
                  None, None)) s4 = (Return (a, act, None), s')"
    by (auto simp: CreateScheduledBackupAggregate_def Let_def bnd_eq_Return go_simps
        split: option.split_asm prod.split_asm)
  from fin obtain key where "sba_GPGSecret a4 = Some key"
    by (cases "sba_GPGSecret a4") (auto simp: bnd_eq_Return go_simps)
  with fin show thesis by (intro that[OF h]) (auto simp: bnd_eq_Return go_simps)
qed

lemma CreateScheduledBackupAggregate_inv:
  assumes run: "CreateScheduledBackupAggregate pf b op s = (Return (a, act, None), s')"
  obtains key tpl token vars where
    "sba_Backup a = b" and "sba_GPGSecret a = Some key" and "sba_Template a = Some tpl"
    and "sba_TokenSecret a = Some token" and "sba_VarsListSecret a = vars"
    and "sba_AdditionalVarsList a =
           gset ''HelmValues.gpgKeyContent''
             (gpg_var (sb_Spec b) (if op = [] then sbs_Operation (sb_Spec b) else op) key)
             (token_vars (sbs_TokenSecretRef (sb_Spec b)) (Some token) [])"
    and "act = None"
  using run
proof (cases rule: CreateScheduledBackupAggregate_steps)
  case (1 a1 a2 a3 a4 s1 s2 s3 s4 key)
  from hydrateGPGSecret_fills[OF 1(1)] hydrateTemplate_fills[OF 1(2)] hydrateAccessToken_fills[OF 1(3)]
  obtain x tpl token where a3: "a3 = (new_sb_aggregate b)\<lparr>sba_GPGSecret := Some x,
      sba_Template := Some tpl, sba_TokenSecret := Some token\<rparr>" by auto
  with hydrateVarsSecret_fills[OF 1(4)] obtain vars where
    "a4 = (new_sb_aggregate b)\<lparr>sba_GPGSecret := Some x,
      sba_Template := Some tpl, sba_TokenSecret := Some token, sba_VarsListSecret := vars\<rparr>"
    by (auto simp: new_sb_aggregate_def)
  with 1(5-7) show thesis by (intro that[of key tpl token vars]) (auto simp: new_sb_aggregate_def)
qed

text \<open>The error actions and the errors come together.\<close>

lemma CreateScheduledBackupAggregate_action:
  "CreateScheduledBackupAggregate pf b op s = (Return (a, act, err), s') \<Longrightarrow>
     act = (if err = None then None else Some ErrorActionRequeue)"
  by (auto simp: CreateScheduledBackupAggregate_def Let_def bnd_eq_Return go_simps
      split: option.split_asm prod.split_asm)

text \<open>The aggregate always holds the backup it was made for.\<close>

lemma filled_backup:
  "(case r of Inl e \<Rightarrow> (Some e, a) | Inr x \<Rightarrow> (None, a\<lparr>sba_GPGSecret := Some x\<rparr>)) = (err, a') \<Longrightarrow>
     sba_Backup a' = sba_Backup a"
  by (cases r) auto

lemma hydrate_keeps_backup:
  "hydrateGPGSecret pf a s = (Return (err, a'), s') \<Longrightarrow> sba_Backup a' = sba_Backup a"
  "hydrateTemplate pf a s = (Return (err, a'), s') \<Longrightarrow> sba_Backup a' = sba_Backup a"
  "hydrateAccessToken pf a s = (Return (err, a'), s') \<Longrightarrow> sba_Backup a' = sba_Backup a"
  "hydrateVarsSecret pf a s = (Return (err, a'), s') \<Longrightarrow> sba_Backup a' = sba_Backup a"
  by (auto simp: hydrate_defs Let_def bnd_eq_Return go_simps dest!: filled_backup
      split: option.split_asm prod.split_asm if_split_asm)

lemma hydrate_all_keeps_backup:
  assumes "\<And>h a s err a' s'. h \<in> set hs \<Longrightarrow> h a s = (Return (err, a'), s') \<Longrightarrow> sba_Backup a' = sba_Backup a"
    and "hydrate_all hs a s = (Return (err, a'), s')"
  shows "sba_Backup a' = sba_Backup a"
  using assms
proof (induction hs arbitrary: a s)
  case Nil
  then show ?case by (simp add: go_simps)
next
  case (Cons h hs)
  from Cons.prems(2) obtain e a1 s1 where h: "h a s = (Return (e, a1), s1)"
    and rest: "(case e of Some e \<Rightarrow> ret (Some e, a1) | None \<Rightarrow> hydrate_all hs a1) s1 = (Return (err, a'), s')"
    by (auto simp: bnd_eq_Return)
  have hs: "h' \<in> set hs \<Longrightarrow> h' b t = (Return (e', b'), t') \<Longrightarrow> sba_Backup b' = sba_Backup b"
    for h' b t e' b' t'
    using Cons.prems(1)[of h' b t e' b' t'] by simp
  from Cons.prems(1)[of h a s e a1 s1] h have "sba_Backup a1 = sba_Backup a" by simp
  moreover have "sba_Backup a' = sba_Backup a1"
  proof (cases e)
    case None
    with rest have "hydrate_all hs a1 s1 = (Return (err, a'), s')" by simp
    with hs show ?thesis by (rule Cons.IH)
  qed (use rest in \<open>simp add: go_simps\<close>)
  ultimately show ?case by simp
qed

lemma CreateScheduledBackupAggregate_backup:
  assumes "CreateScheduledBackupAggregate pf b op s = (Return (a, act, err), s')"
  shows "sba_Backup a = b"
proof -
  from assms obtain e a1 s1 where
    "hydrate_all [hydrateGPGSecret pf, hydrateTemplate pf, hydrateAccessToken pf, hydrateVarsSecret pf]
       (new_sb_aggregate b) s = (Return (e, a1), s1)" and "sba_Backup a = sba_Backup a1"
    unfolding CreateScheduledBackupAggregate_def Let_def bnd_eq_Return
    by (auto simp: bnd_eq_Return go_simps simp del: hydrate_all.simps split: option.split_asm)
  with hydrate_all_keeps_backup[OF _ this(1)] show ?thesis
    by (auto simp: new_sb_aggregate_def dest: hydrate_keeps_backup)
qed

text \<open>How the aggregate of an action was made.\<close>

lemma FetchRBAAggregate_inv:
  assumes "FetchRBAAggregate pf req s = (Return (Inr a), t)"
  obtains rq b sched act s1 s2 where
    "CreateScheduledBackupAggregate pf b (rbas_Action (rba_Spec rq)) s1 = (Return (sched, act, None), s2)"
    and "a = (let a = NewRequestedBackupActionAggregate pf rq sched; s = rbag_Scheduled a in
      a\<lparr>rbag_Scheduled := s\<lparr>sba_Backup := for_action (rbas_Action (rba_Spec rq)) (sba_Backup s)\<rparr>\<rparr>)"
proof -
  from assms obtain r s0 where "FetchRequestedBackupAction pf req s = (Return r, s0)"
    by (auto simp: FetchRBAAggregate_def bnd_eq_Return)
  with assms show thesis
  proof (cases r)
    case (Inr rq)
    with assms \<open>FetchRequestedBackupAction pf req s = (Return r, s0)\<close> obtain b s1 where
      run: "bnd (CreateRequestedBackupActionAggregate pf rq b) (\<lambda>(aggregate, _, hydrateErr).
             ret (case hydrateErr of Some e \<Rightarrow> Inl (requeue_after (time_Second * 30), e)
               | None \<Rightarrow> Inr aggregate)) s1 = (Return (Inr a), t)"
      by (fastforce simp: FetchRBAAggregate_def bnd_eq_Return go_simps split: option.split_asm)
    obtain x s2 where agg: "CreateScheduledBackupAggregate pf b (rbas_Action (rba_Spec rq)) s1 = (Return x, s2)"
      using run by (auto simp: CreateRequestedBackupActionAggregate_def bnd_eq_Return)
    obtain sched m1 err where x: "x = (sched, m1, err)" by (cases x)
    show thesis
    proof (cases err)
      case None
      with run agg x show thesis
        by (intro that[OF agg[unfolded x None]])
           (simp add: CreateRequestedBackupActionAggregate_def bnd_Return go_simps Let_def)
    next
      case (Some e)
      with run agg x show thesis
        by (simp add: CreateRequestedBackupActionAggregate_def bnd_Return go_simps Let_def)
    qed
  qed (simp add: FetchRBAAggregate_def bnd_Return go_simps)
qed

end
