(* ===== verification/Templating.thy ===== *)
theory Templating
  imports Factory
begin

text \<open>
  \<^verbatim>\<open>pkg/bmg/templating.go\<close>: a temporary workspace is prepared, the manifest generator is run
  in it, and the manifests it wrote are parsed and filtered. A function that writes the
  shared variables of the aggregate returns them.
\<close>

section \<open>Calls of the generator\<close>

definition with_files ::
  "('w \<Rightarrow> fsys \<Rightarrow> ('a \<times> fsys) \<times> 'w) \<Rightarrow> (('w, 'l) sys, 'a) go" where
  "with_files f s = (case f (world s) (fsys s) of ((a, fs), w) \<Rightarrow> (Return a, s\<lparr>world := w, fsys := fs\<rparr>))"

definition newline :: string where
  "newline = [CHR 0x0A]"

section \<open>writeTemplate\<close>

definition write_file ::
  "('w, 'l) platform \<Rightarrow> string \<Rightarrow> bytes \<Rightarrow> (('w, 'l) sys, goerr option) go" where
  "write_file pf p content = os_call pf ''open'' p Some (os_WriteFile p content)"

definition template_content :: "template \<Rightarrow> string \<Rightarrow> string" where
  "template_content tpl operation =
     (if operation = op_Backup then GetBackupScript tpl else GetRestoreScript tpl)"

definition writeTemplate ::
  "('w, 'l) platform \<Rightarrow> template \<Rightarrow> string \<Rightarrow> string \<Rightarrow> (('w, 'l) sys, goerr option) go" where
  "writeTemplate pf tpl operation path =
     (if \<not> ProvidesScript tpl then ret None
      else
        (let content = template_content tpl operation;
             file = GetName tpl @ ''.tmpl''
         in case pf_template_json pf ''this-should-be-overridden'' file file of
              Inl e \<Rightarrow> ret (Some (Wrapped_error ''cannot marshal TemplateDefinition{} to JSON'' e))
            | Inr defAsStr \<Rightarrow>
                (let definitionDir = filepath_Dir path @ ''/../definition'';
                     definitionPath = definitionDir @ ''/'' @ GetName tpl @ ''.json'' in
                 bnd (os_call pf ''mkdir'' definitionDir Some (os_MkdirAll definitionDir)) (\<lambda>mkdirErr.
                 case mkdirErr of
                   Some e \<Rightarrow> ret (Some (Wrapped_error (''cannot create definition dir - '' @ definitionDir) e))
                 | None \<Rightarrow>
                     bnd (write_file pf definitionPath defAsStr) (\<lambda>writeErr.
                     case writeErr of
                       Some e \<Rightarrow> ret (Some (Wrapped_error (''cannot write a file - '' @ definitionPath) e))
                     | None \<Rightarrow> write_file pf path content)))))"

section \<open>writeGPGKey\<close>

definition writeGPGKey ::
  "('w, 'l) platform \<Rightarrow> sb_aggregate \<Rightarrow> string \<Rightarrow> string \<Rightarrow>
     (('w, 'l) sys, goerr option \<times> bytes gomap) go" where
  "writeGPGKey pf backup writeToPath operation =
     (let ref = sbs_GPGKeySecretRef (sb_Spec (sba_Backup backup)) in
      bnd (deref (sba_GPGSecret backup)) (\<lambda>secret.
      let dat = data_of secret;
          vs = gset ''HelmValues.gpgKeyContent'' (gget [] dat (gpg_PrivateKey ref)) (sba_AdditionalVarsList backup);
          (keyName, vs) =
            (if operation = op_Backup
             then (gpg_PublicKey ref, gset ''HelmValues.gpgKeyContent'' (gget [] dat (gpg_PublicKey ref)) vs)
             else (gpg_PrivateKey ref, vs))
      in bnd (write_file pf writeToPath (gget [] dat keyName)) (\<lambda>err. ret (err, vs))))"

section \<open>writeDefinition\<close>

fun contains :: "string list \<Rightarrow> string \<Rightarrow> bool" where
  "contains [] e = False"
| "contains (a # s) e = (if a = e then True else contains s e)"

text \<open>A source of variables: the data, and whether it is the referenced secret.\<close>

datatype var_source = Var_source (vsrc_data: "bytes gomap") (vsrc_is_secret: bool)

definition var_sources :: "sb_aggregate \<Rightarrow> var_source list" where
  "var_sources a =
     (if length (sba_AdditionalVarsList a) > 0 then [Var_source (sba_AdditionalVarsList a) False] else []) @
     (case sba_VarsListSecret a of
        None \<Rightarrow> []
      | Some s \<Rightarrow> (case sec_Data s of
           None \<Rightarrow> []
         | Some d \<Rightarrow> if length d > 0 then [Var_source d True] else []))"

definition imported :: "vars_spec \<Rightarrow> bool \<Rightarrow> string \<Rightarrow> bool" where
  "imported ref is_secret path =
     (if is_secret \<and> length (vs_ImportOnlyKeys ref) > 0 then contains (vs_ImportOnlyKeys ref) path else True)"

definition set_var :: "('w, 'l) platform \<Rightarrow> string \<Rightarrow> bytes \<Rightarrow> jval \<Rightarrow> goerr + jval" where
  "set_var pf path val vars =
     (case pf_jp_parse pf (''$.'' @ path) of
        Inl e \<Rightarrow> Inl (Wrapped_error (''cannot parse dot-notation path to convert from '' @
                  ''some.path.dot format. Name: '' @ [CHR 0x27] @ path @ [CHR 0x27]) e)
      | Inr ex \<Rightarrow>
          (case pf_jp_set pf ex vars val of
             (Some e, _) \<Rightarrow> Inl (Wrapped_error (''cannot merge value from Secret into the vars, name: '' @
                            [CHR 0x27] @ path @ [CHR 0x27]) e)
           | (None, vars') \<Rightarrow> Inr vars'))"

fun set_vars ::
  "('w, 'l) platform \<Rightarrow> (string \<Rightarrow> bool) \<Rightarrow> bytes gomap \<Rightarrow> jval \<Rightarrow> goerr + jval" where
  "set_vars pf keep [] vars = Inr vars"
| "set_vars pf keep ((path, val) # es) vars =
     (if \<not> keep path then set_vars pf keep es vars
      else case set_var pf path val vars of
             Inl e \<Rightarrow> Inl e
           | Inr vars' \<Rightarrow> set_vars pf keep es vars')"

fun copy_vars ::
  "('w, 'l) platform \<Rightarrow> vars_spec \<Rightarrow> var_source list \<Rightarrow> jval \<Rightarrow> (('w, 'l) sys, goerr + jval) go" where
  "copy_vars pf ref [] vars = ret (Inr vars)"
| "copy_vars pf ref (src # ss) vars =
     bnd (call (\<lambda>w. pf_range pf w (vsrc_data src))) (\<lambda>entries.
     case set_vars pf (imported ref (vsrc_is_secret src)) entries vars of
       Inl e \<Rightarrow> ret (Inl e)
     | Inr vars' \<Rightarrow> copy_vars pf ref ss vars')"

definition writeDefinition ::
  "('w, 'l) platform \<Rightarrow> sb_aggregate \<Rightarrow> string \<Rightarrow> (('w, 'l) sys, goerr option) go" where
  "writeDefinition pf backup writeToPath =
     (let spec = sb_Spec (sba_Backup backup) in
      case pf_yaml_unmarshal pf (sbs_Vars spec) of
        Inl e \<Rightarrow> ret (Some (Wrapped_error ''cannot parse .spec.vars as YAML'' e))
      | Inr vars \<Rightarrow>
          bnd (copy_vars pf (sbs_VarsSecretRef spec) (var_sources backup) vars) (\<lambda>r.
          case r of
            Inl e \<Rightarrow> ret (Some e)
          | Inr vars' \<Rightarrow>
              (case pf_yaml_marshal pf vars' of
                 Inl e \<Rightarrow> ret (Some (Wrapped_error ''cannot serialize vars to YAML as a definition.yaml'' e))
               | Inr asYaml \<Rightarrow> write_file pf writeToPath asYaml)))"

section \<open>parseRenderedManifests\<close>

definition doc_separator :: string where
  "doc_separator = ''---'' @ newline"

definition trimmed_doc :: "string \<Rightarrow> string" where
  "trimmed_doc doc = strings_Trim (strings_Replace_once doc doc_separator []) ('' '' @ newline)"

text \<open>The loop over the kinds to render, with its early exit.\<close>

fun kind_found :: "('w, 'l) platform \<Rightarrow> gvk \<Rightarrow> gvk list \<Rightarrow> bool" where
  "kind_found pf g [] = False"
| "kind_found pf g (k # ks) =
     (if pf_gvk_string pf g = pf_meta_gvk_string pf k then True else kind_found pf g ks)"

fun parse_docs ::
  "('w, 'l) platform \<Rightarrow> string list \<Rightarrow> gvk list \<Rightarrow> unstr list \<Rightarrow> goerr + unstr list" where
  "parse_docs pf [] kinds objects = Inr objects"
| "parse_docs pf (doc # docs) kinds objects =
     (let doc = trimmed_doc doc in
      if length doc = 0 then parse_docs pf docs kinds objects
      else case pf_decode pf doc of
             Inl e \<Rightarrow> Inl (Wrapped_error ''cannot parse rendered YAML'' e)
           | Inr obj \<Rightarrow>
               (if length kinds > 0 \<and> \<not> kind_found pf (pf_gvk_of pf obj) kinds
                then parse_docs pf docs kinds objects
                else parse_docs pf docs kinds (objects @ [obj])))"

definition parseRenderedManifests ::
  "('w, 'l) platform \<Rightarrow> string \<Rightarrow> gvk list \<Rightarrow> goerr + unstr list" where
  "parseRenderedManifests pf content kinds =
     parse_docs pf (strings_Split content doc_separator) kinds []"

section \<open>RenderKubernetesResourcesForOperation\<close>

text \<open>The deferred clean-ups of the function; their errors are dropped.\<close>

definition restore_cwd :: "('w, 'l) platform \<Rightarrow> string \<Rightarrow> (('w, 'l) sys, unit) go" where
  "restore_cwd pf dir = bnd (os_call pf ''chdir'' dir Some (os_Chdir dir)) (\<lambda>_. ret ())"

definition remove_workspace :: "('w, 'l) platform \<Rightarrow> string \<Rightarrow> (('w, 'l) sys, unit) go" where
  "remove_workspace pf path = bnd (os_call pf ''unlinkat'' path Some (os_RemoveAll path)) (\<lambda>_. ret ())"

definition generator_command :: "renderable \<Rightarrow> template \<Rightarrow> string \<Rightarrow> string \<Rightarrow> gen_command" where
  "generator_command backup tpl dir operation =
     (let b = GetScheduledBackup backup in
      \<lparr>gc_TemplateName = GetName tpl,
       gc_UserConfigFile = dir @ ''/definition.yaml'',
       gc_IsKubernetes = True,
       gc_KeyPath = dir @ ''/gpg.key'',
       gc_OutputDir = dir @ ''/output'',
       gc_Schedule = cj_ScheduleEvery (sbs_CronJob (sb_Spec b)),
       gc_JobName = om_Name (sb_Meta b),
       gc_Image = GetImage tpl,
       gc_Operation = operation,
       gc_Namespace = om_Namespace (sb_Meta b)\<rparr>)"

text \<open>From writing the definition to parsing the output: the variables are final here.\<close>

definition generate_manifests ::
  "('w, 'l) platform \<Rightarrow> renderable \<Rightarrow> template \<Rightarrow> string \<Rightarrow> string \<Rightarrow> gvk list \<Rightarrow>
     (('w, 'l) sys, goerr + unstr list) go" where
  "generate_manifests pf backup tpl dir operation kinds =
     bnd (writeDefinition pf (GetBackupAggregate backup) (dir @ ''/definition.yaml'')) (\<lambda>writeErr.
     case writeErr of
       Some e \<Rightarrow> ret (Inl (Wrapped_error ''cannot write definition.yaml to temporary file'' e))
     | None \<Rightarrow>
     bnd (with_files (pf_extract_resources pf)) (\<lambda>err.
     case err of
       Some e \<Rightarrow> ret (Inl (Wrapped_error ''cannot populate ~/.bm with templates'' e))
     | None \<Rightarrow>
     bnd (with_files (\<lambda>w. pf_generate pf w (generator_command backup tpl dir operation))) (\<lambda>genErr.
     case genErr of
       Some e \<Rightarrow> ret (Inl (Wrapped_error ''error while generating manifests'' e))
     | None \<Rightarrow>
     (let manifestsPath = dir @ ''/output/'' @ operation @ ''.yaml'' in
      bnd (os_call pf ''read'' manifestsPath Inl (\<lambda>fs. (os_ReadFile manifestsPath fs, fs))) (\<lambda>r.
      case r of
        Inl e \<Rightarrow> ret (Inl (Wrapped_error (''cannot read rendered manifest file at path '' @
                  [CHR 0x27] @ manifestsPath @ [CHR 0x27]) e))
      | Inr content \<Rightarrow> ret (parseRenderedManifests pf content kinds))))))"

definition render_in_workspace ::
  "('w, 'l) platform \<Rightarrow> renderable \<Rightarrow> string \<Rightarrow> gvk list \<Rightarrow> string \<Rightarrow>
     (('w, 'l) sys, (goerr + unstr list) \<times> renderable) go" where
  "render_in_workspace pf backup operation kinds dir =
     bnd (os_call pf ''mkdir'' (''./templates/'' @ operation) Some (os_MkdirAll (''./templates/'' @ operation))) (\<lambda>_.
     bnd (deref (GetTemplate backup)) (\<lambda>tpl.
     let templatePath = ''./templates/'' @ operation @ ''/'' @ GetName tpl @ ''.tmpl'' in
     bnd (writeTemplate pf tpl operation templatePath) (\<lambda>writeErr.
     case writeErr of
       Some e \<Rightarrow> ret (Inl (Wrapped_error (''cannot write template at path '' @ [CHR 0x27] @
                  templatePath @ [CHR 0x27]) e), backup)
     | None \<Rightarrow>
     bnd (writeGPGKey pf (GetBackupAggregate backup) (dir @ ''/gpg.key'') operation) (\<lambda>(writeErr, vs).
     let backup = with_vars vs backup in
     case writeErr of
       Some e \<Rightarrow> ret (Inl (Wrapped_error ''cannot write GPG key to temporary file'' e), backup)
     | None \<Rightarrow> bnd (generate_manifests pf backup tpl dir operation kinds) (\<lambda>r. ret (r, backup))))))"

definition RenderKubernetesResourcesForOperation ::
  "('w, 'l) platform \<Rightarrow> renderable \<Rightarrow> string \<Rightarrow> gvk list \<Rightarrow>
     (('w, 'l) sys, (goerr + unstr list) \<times> renderable) go" where
  "RenderKubernetesResourcesForOperation pf backup operation kinds =
     bnd (os_call pf ''getwd'' [] (\<lambda>_. []) (\<lambda>fs. (os_Getwd fs, fs))) (\<lambda>pwd.
     deferring (restore_cwd pf pwd)
       (bnd (call (pf_temp_name pf)) (\<lambda>rnd.
        bnd (os_call pf ''mkdir'' ''/tmp'' Inl (os_MkdirTemp ''/tmp'' ''bmg'' rnd)) (\<lambda>r.
        case r of
          Inl e \<Rightarrow> ret (Inl (Wrapped_error (''cannot create a temporary directory to run '' @
                     ''Backup Maker Generator (BMG)'') e), backup)
        | Inr dir \<Rightarrow>
            bnd (os_call pf ''mkdir'' (dir @ ''/output'') Some (os_MkdirAll (dir @ ''/output''))) (\<lambda>_.
            deferring (remove_workspace pf dir)
              (render_in_workspace pf backup operation kinds dir))))))"

section \<open>RenderKubernetesResourcesFor\<close>

fun render_operations ::
  "('w, 'l) platform \<Rightarrow> string list \<Rightarrow> renderable \<Rightarrow> unstr list \<Rightarrow>
     (('w, 'l) sys, (goerr + unstr list) \<times> renderable) go" where
  "render_operations pf [] backup rendered = ret (Inr rendered, backup)"
| "render_operations pf (operation # ops) backup rendered =
     bnd (RenderKubernetesResourcesForOperation pf backup operation
            (NewResourceTypesFilterForScheduledBackup backup operation)) (\<lambda>(r, backup).
     case r of
       Inl e \<Rightarrow> ret (Inl e, backup)
     | Inr opRendered \<Rightarrow> render_operations pf ops backup (rendered @ opRendered))"

definition RenderKubernetesResourcesFor ::
  "('w, 'l) platform \<Rightarrow> renderable \<Rightarrow> (('w, 'l) sys, (goerr + unstr list) \<times> renderable) go" where
  "RenderKubernetesResourcesFor pf backup =
     (if ShouldRenderDependentObjectsForAllOperationTypes backup
      then render_operations pf [op_Backup, op_Restore] backup []
      else RenderKubernetesResourcesForOperation pf backup (GetOperation backup)
             NewResourceTypesFilterForRequestedBackupAction)"

section \<open>Frame: rendering takes no lock and writes no object\<close>

lemma same_locks_with_files: "keeps same_locks (with_files f)"
  by (rule keepsI) (simp add: with_files_def same_locks_def split: prod.splits)

lemma only_does_with_files: "keeps (only_does Q) (with_files f)"
  by (rule keepsI) (simp add: with_files_def only_does_def split: prod.splits)

lemmas writer_defs =
  write_file_def writeTemplate_def writeGPGKey_def writeDefinition_def

lemmas render_defs =
  RenderKubernetesResourcesForOperation_def render_in_workspace_def generate_manifests_def
  restore_cwd_def remove_workspace_def

lemma same_locks_copy_vars: "keeps same_locks (copy_vars pf ref ss vars)"
  by (induction ss arbitrary: vars) (auto intro!: lock_rules)

lemma only_does_copy_vars: "keeps (only_does Q) (copy_vars pf ref ss vars)"
  by (induction ss arbitrary: vars) (auto intro!: act_rules)

lemma same_locks_render_op: "keeps same_locks (RenderKubernetesResourcesForOperation pf b op ks)"
  unfolding render_defs writer_defs Let_def
  by (intro lock_rules lock_rel.keeps_deferring same_locks_copy_vars same_locks_with_files)

lemma only_does_render_op: "keeps (only_does Q) (RenderKubernetesResourcesForOperation pf b op ks)"
  unfolding render_defs writer_defs Let_def
  by (intro act_rules act_rel.keeps_deferring only_does_copy_vars only_does_with_files)

lemma same_locks_render: "keeps same_locks (RenderKubernetesResourcesFor pf b)"
proof -
  have "keeps same_locks (render_operations pf ops b acc)" for ops acc
    by (induction ops arbitrary: b acc) (auto intro!: lock_rules same_locks_render_op)
  then show ?thesis
    by (simp add: RenderKubernetesResourcesFor_def same_locks_render_op del: render_operations.simps)
qed

lemma only_does_render: "keeps (only_does Q) (RenderKubernetesResourcesFor pf b)"
proof -
  have "keeps (only_does Q) (render_operations pf ops b acc)" for ops acc
    by (induction ops arbitrary: b acc) (auto intro!: act_rules only_does_render_op)
  then show ?thesis
    by (simp add: RenderKubernetesResourcesFor_def only_does_render_op del: render_operations.simps)
qed

section \<open>Parsing and filtering\<close>

lemma kind_found_iff:
  "kind_found pf g ks \<longleftrightarrow> (\<exists>k \<in> set ks. pf_gvk_string pf g = pf_meta_gvk_string pf k)"
  by (induction ks) auto

definition accepted :: "('w, 'l) platform \<Rightarrow> gvk list \<Rightarrow> unstr \<Rightarrow> bool" where
  "accepted pf kinds obj \<longleftrightarrow> kinds = [] \<or> kind_found pf (pf_gvk_of pf obj) kinds"

text \<open>The documents that are not empty after trimming, decoded.\<close>

definition decoded_docs :: "('w, 'l) platform \<Rightarrow> string list \<Rightarrow> (goerr + unstr) list" where
  "decoded_docs pf docs = map (pf_decode pf) (filter (\<lambda>d. d \<noteq> []) (map trimmed_doc docs))"

lemma parse_docs_iff:
  "parse_docs pf docs kinds acc = Inr objs \<longleftrightarrow>
     list_all sum_ok (decoded_docs pf docs) \<and>
     objs = acc @ filter (accepted pf kinds) (map projr (decoded_docs pf docs))"
proof (induction docs arbitrary: acc)
  case Nil
  then show ?case by (auto simp: decoded_docs_def)
next
  case (Cons d ds)
  show ?case
    by (cases "trimmed_doc d = []"; cases "pf_decode pf (trimmed_doc d)")
       (auto simp: decoded_docs_def accepted_def sum_ok_def Let_def Cons.IH[unfolded decoded_docs_def])
qed

lemma parse_docs_accepted:
  "parse_docs pf docs kinds [] = Inr objs \<Longrightarrow> obj \<in> set objs \<Longrightarrow> accepted pf kinds obj"
  by (auto simp: parse_docs_iff)

section \<open>What rendering returns\<close>

text \<open>Only objects of an accepted kind, and the aggregate with other variables.\<close>

definition render_result ::
  "('w, 'l) platform \<Rightarrow> gvk list \<Rightarrow> renderable \<Rightarrow> (goerr + unstr list) \<times> renderable \<Rightarrow> bool" where
  "render_result pf kinds b r \<longleftrightarrow>
     (\<exists>vs. snd r = with_vars vs b) \<and>
     (\<forall>objs. fst r = Inr objs \<longrightarrow> list_all (accepted pf kinds) objs)"

lemma with_vars_same: "with_vars (sba_AdditionalVarsList (GetBackupAggregate r)) r = r"
  by (cases r) simp_all

lemma render_result_Inl: "render_result pf kinds b (Inl e, with_vars vs b)"
  by (auto simp: render_result_def)

lemma render_result_Inl_same: "render_result pf kinds b (Inl e, b)"
  using render_result_Inl[of pf kinds b e "sba_AdditionalVarsList (GetBackupAggregate b)"]
  by (simp add: with_vars_same)

lemma yields_generate:
  "yields (\<lambda>r. \<forall>objs. r = Inr objs \<longrightarrow> list_all (accepted pf kinds) objs)
     (generate_manifests pf b tpl dir op kinds)"
  unfolding generate_manifests_def Let_def
  by (intro yields_rules)
     (auto simp: parseRenderedManifests_def list_all_iff dest: parse_docs_accepted)

lemma yields_render_op:
  "yields (render_result pf kinds b) (RenderKubernetesResourcesForOperation pf b op kinds)"
proof -
  have gen: "yields (render_result pf kinds b)
      (bnd (generate_manifests pf (with_vars vs b) tpl dir op kinds) (\<lambda>r. ret (r, with_vars vs b)))"
    for vs tpl dir
    by (rule yields_bnd_with[OF yields_generate]) (auto intro!: yields_ret simp: render_result_def)
  show ?thesis
    unfolding RenderKubernetesResourcesForOperation_def render_in_workspace_def Let_def
    by (intro yields_bnd yields_deferring yields_case_sum yields_case_option yields_case_prod
          yields_case_prod_app gen yields_ret render_result_Inl render_result_Inl_same)
qed

text \<open>The kinds a resource may apply at all.\<close>

definition applied_kinds :: "renderable \<Rightarrow> gvk list" where
  "applied_kinds r =
     (if ShouldRenderDependentObjectsForAllOperationTypes r
      then helper_kinds @ (if ShouldCreateCronJob r then [mk_gvk ''batch'' ''v1'' ''CronJob''] else [])
      else NewResourceTypesFilterForRequestedBackupAction)"

lemma applied_kinds_with_vars [simp]: "applied_kinds (with_vars vs r) = applied_kinds r"
  by (simp add: applied_kinds_def)

lemma accepted_mono:
  "accepted pf ks obj \<Longrightarrow> ks \<noteq> [] \<Longrightarrow> set ks \<subseteq> set ls \<Longrightarrow> accepted pf ls obj"
  by (auto simp: accepted_def kind_found_iff)

lemma scheduled_filter_subset:
  "set (NewResourceTypesFilterForScheduledBackup r op) \<subseteq>
     set (helper_kinds @ (if ShouldCreateCronJob r then [mk_gvk ''batch'' ''v1'' ''CronJob''] else []))"
  by (auto simp: NewResourceTypesFilterForScheduledBackup_def)

lemma yields_render_operations:
  assumes "ShouldRenderDependentObjectsForAllOperationTypes b"
    and "list_all (accepted pf (applied_kinds b)) acc"
  shows "yields (render_result pf (applied_kinds b) b) (render_operations pf ops b acc)"
  using assms
proof (induction ops arbitrary: b acc)
  case Nil
  then show ?case
    by (simp, intro yields_ret) (metis render_result_def fst_conv snd_conv with_vars_same sum.inject(2))
next
  case (Cons op ops)
  let ?ks = "NewResourceTypesFilterForScheduledBackup b op"
  show ?case unfolding render_operations.simps
  proof (rule yields_bnd_with[OF yields_render_op], clarify)
    fix r b'
    assume r: "render_result pf ?ks b (r, b')"
    then obtain vs where b': "b' = with_vars vs b" by (auto simp: render_result_def)
    show "yields (render_result pf (applied_kinds b) b)
        (case r of Inl e \<Rightarrow> ret (Inl e, b') | Inr x \<Rightarrow> render_operations pf ops b' (acc @ x))"
    proof (cases r)
      case (Inl e)
      with b' show ?thesis by (auto intro!: yields_ret render_result_Inl)
    next
      case (Inr objs)
      with r have "list_all (accepted pf ?ks) objs" by (simp add: render_result_def)
      then have "list_all (accepted pf (applied_kinds b)) objs"
        using accepted_mono[of pf ?ks _ "applied_kinds b"] scheduled_filter_subset[of b op] Cons.prems(1)
        by (auto simp: list_all_iff applied_kinds_def)
      with Cons.prems Cons.IH[of b' "acc @ objs"] b' Inr
      have "yields (render_result pf (applied_kinds b') b') (render_operations pf ops b' (acc @ objs))"
        by simp
      with b' Inr show ?thesis
        by (auto simp: yields_def render_result_def)
    qed
  qed
qed

lemma yields_render:
  "yields (render_result pf (applied_kinds b) b) (RenderKubernetesResourcesFor pf b)"
proof (cases "ShouldRenderDependentObjectsForAllOperationTypes b")
  case True
  then show ?thesis
    by (simp add: RenderKubernetesResourcesFor_def yields_render_operations del: render_operations.simps)
next
  case False
  then show ?thesis
    using yields_render_op[of pf "applied_kinds b" b]
    by (simp add: RenderKubernetesResourcesFor_def applied_kinds_def)
qed

section \<open>What is written into the workspace\<close>

lemma write_file_reads_back:
  "write_file pf p content s = (Return None, s') \<Longrightarrow> os_ReadFile p (fsys s') = Inr content"
  by (auto simp: write_file_def os_call_def split: option.splits prod.splits dest: os_WriteFile_read)

text \<open>The key file holds the key of the operation, and so does the variable of the chart.\<close>

definition operation_key :: "gpg_spec \<Rightarrow> string \<Rightarrow> string" where
  "operation_key ref operation = (if operation = op_Backup then gpg_PublicKey ref else gpg_PrivateKey ref)"

lemma writeGPGKey_spec:
  assumes "writeGPGKey pf a path operation s = (Return (None, vs), s')"
    and "sba_GPGSecret a = Some key"
  shows "os_ReadFile path (fsys s') =
      Inr (gget [] (data_of key) (operation_key (sbs_GPGKeySecretRef (sb_Spec (sba_Backup a))) operation))"
    and "map_of vs ''HelmValues.gpgKeyContent'' =
      Some (gget [] (data_of key) (operation_key (sbs_GPGKeySecretRef (sb_Spec (sba_Backup a))) operation))"
  using assms
  by (auto simp: writeGPGKey_def Let_def bnd_eq_Return go_simps operation_key_def
      split: if_splits dest!: write_file_reads_back)

lemma writeGPGKey_vars:
  assumes "writeGPGKey pf a path operation s = (Return (err, vs), s')" and "k \<noteq> ''HelmValues.gpgKeyContent''"
  shows "map_of vs k = map_of (sba_AdditionalVarsList a) k"
  using assms
  by (cases "sba_GPGSecret a")
     (auto simp: writeGPGKey_def Let_def bnd_eq_Return go_simps split: if_splits)

text \<open>The script of the operation is written where the generator looks for it.\<close>

lemma writeTemplate_internal: "\<not> ProvidesScript tpl \<Longrightarrow> writeTemplate pf tpl operation path = ret None"
  by (simp add: writeTemplate_def)

lemma writeTemplate_content:
  assumes "writeTemplate pf tpl operation path s = (Return None, s')" and "ProvidesScript tpl"
  shows "os_ReadFile path (fsys s') = Inr (template_content tpl operation)"
  using assms
  by (auto simp: writeTemplate_def Let_def bnd_eq_Return go_simps
      split: sum.split_asm option.split_asm dest!: write_file_reads_back)

text \<open>Keys of the secret that are not to be imported have no influence.\<close>

lemma contains_iff [simp]: "contains s e \<longleftrightarrow> e \<in> set s"
  by (induction s) auto

lemma imported_iff:
  "imported ref is_secret path \<longleftrightarrow>
     \<not> is_secret \<or> vs_ImportOnlyKeys ref = [] \<or> path \<in> set (vs_ImportOnlyKeys ref)"
  by (auto simp: imported_def)

lemma set_vars_filter:
  "set_vars pf keep es vars = set_vars pf (\<lambda>_. True) (filter (\<lambda>(path, val). keep path) es) vars"
  by (induction pf keep es vars rule: set_vars.induct) (auto split: sum.splits)

section \<open>The workspace is cleaned up\<close>

definition tree_kept :: "('w, 'l) sys \<Rightarrow> ('w, 'l) sys \<Rightarrow> bool" where
  "tree_kept s t \<longleftrightarrow> dirs_kept (fsys s) (fsys t)"

interpretation tree_rel: go_relation tree_kept
  by unfold_locales (auto simp: tree_kept_def intro: dirs_kept_trans)

text \<open>The generator may change any file and its working directory, but removes no directory.\<close>

definition generator_ok :: "('w, 'l) platform \<Rightarrow> bool" where
  "generator_ok pf \<longleftrightarrow>
     (\<forall>w fs. dirs_kept fs (snd (fst (pf_extract_resources pf w fs)))) \<and>
     (\<forall>w c fs. dirs_kept fs (snd (fst (pf_generate pf w c fs))))"

text \<open>The operating system refuses none of the calls, and makes up plain names.\<close>

definition os_willing :: "('w, 'l) platform \<Rightarrow> bool" where
  "os_willing pf \<longleftrightarrow> (\<forall>w n p. pf_os_refuses pf w n p = None)"

definition temp_names_ok :: "('w, 'l) platform \<Rightarrow> bool" where
  "temp_names_ok pf \<longleftrightarrow> (\<forall>w. CHR ''/'' \<notin> set (fst (pf_temp_name pf w)))"

lemma tree_kept_call: "keeps tree_kept (call f)"
  by (rule keepsI) (simp add: call_def tree_kept_def split: prod.splits)

lemma tree_kept_os:
  "(\<And>fs. dirs_kept fs (snd (f fs))) \<Longrightarrow> keeps tree_kept (os_call pf n p failed f)"
  by (rule keepsI)
     (auto simp: os_call_def tree_kept_def split: prod.splits option.splits, metis snd_conv)

lemma tree_kept_with_files:
  "(\<And>w fs. dirs_kept fs (snd (fst (f w fs)))) \<Longrightarrow> keeps tree_kept (with_files f)"
  by (rule keepsI)
     (auto simp: with_files_def tree_kept_def split: prod.splits, metis fst_conv snd_conv)

lemma tree_kept_copy_vars: "keeps tree_kept (copy_vars pf ref ss vars)"
  by (induction ss arbitrary: vars) (auto intro!: tree_rel.keeps_rules tree_kept_call)

lemma tree_kept_write: "keeps tree_kept (write_file pf p content)"
  unfolding write_file_def by (rule tree_kept_os) (rule dirs_kept_os)

lemma tree_kept_render_in_workspace:
  assumes "generator_ok pf"
  shows "keeps tree_kept (render_in_workspace pf b operation kinds dir)"
proof -
  have ext: "dirs_kept fs (snd (fst (pf_extract_resources pf w fs)))"
    and gen: "dirs_kept fs (snd (fst (pf_generate pf w c fs)))" for w c fs
    using assms by (auto simp: generator_ok_def)
  show ?thesis
    unfolding render_in_workspace_def generate_manifests_def writeTemplate_def writeGPGKey_def
      writeDefinition_def Let_def
    by (intro tree_rel.keeps_rules tree_kept_write tree_kept_copy_vars tree_kept_call
          tree_kept_os tree_kept_with_files dirs_kept_os ext gen)
       (simp_all add: dirs_kept_def)
qed

lemma willing_os: "os_willing pf \<Longrightarrow> os_call pf n p failed f s =
    (Return (fst (f (fsys s))), s\<lparr>fsys := snd (f (fsys s))\<rparr>)"
  by (simp add: os_call_def os_willing_def split: prod.splits)

lemma remove_workspace_apply:
  "os_willing pf \<Longrightarrow> snd (remove_workspace pf p s) = s\<lparr>fsys := snd (os_RemoveAll p (fsys s))\<rparr>"
  by (simp add: remove_workspace_def bnd_def willing_os go_simps)

lemma restore_cwd_apply:
  "os_willing pf \<Longrightarrow> snd (restore_cwd pf p s) = s\<lparr>fsys := snd (os_Chdir p (fsys s))\<rparr>"
  by (simp add: restore_cwd_def bnd_def willing_os go_simps)

text \<open>Going back to a directory that is still there.\<close>

lemma os_Chdir_back:
  assumes "plain_path q" and "\<And>p. prefix p q \<Longrightarrow> fs_nodes fs p = Some Dir"
  shows "os_Chdir (path_string q) fs = (None, fs\<lparr>fs_cwd := q\<rparr>)"
  using assms fs_resolve_plain[of q fs q] by (simp add: os_Chdir_def)

lemma fs_nodes_Chdir [simp]: "fs_nodes (snd (os_Chdir p fs)) = fs_nodes fs"
  by (simp add: os_Chdir_def split: option.splits)

definition workspace :: "string \<Rightarrow> path" where
  "workspace rnd = [''tmp'', ''bmg'' @ rnd]"

lemma plain_workspace: "CHR ''/'' \<notin> set rnd \<Longrightarrow> plain_path (workspace rnd)"
  by (simp add: workspace_def plain_path_def)

text \<open>The working directory exists, with every directory above it.\<close>

definition cwd_ok :: "fsys \<Rightarrow> bool" where
  "cwd_ok fs \<longleftrightarrow> plain_path (fs_cwd fs) \<and> (\<forall>p. prefix p (fs_cwd fs) \<longrightarrow> fs_nodes fs p = Some Dir)"

lemma body_cleans_up:
  assumes ok: "os_willing pf" "generator_ok pf" and rnd: "CHR ''/'' \<notin> set rnd"
    and made: "os_MkdirTemp ''/tmp'' ''bmg'' rnd (fsys s) = (Inr dir, fs1)"
    and cwd: "cwd_ok (fsys s)"
    and body: "t = snd (deferring (remove_workspace pf dir) (render_in_workspace pf b op ks dir)
       (s\<lparr>fsys := snd (os_MkdirAll out fs1)\<rparr>))"
  shows "(\<forall>x. prefix (workspace rnd) x \<longrightarrow> fs_nodes (fsys t) x = None) \<and>
     (\<forall>p. prefix p (fs_cwd (fsys s)) \<longrightarrow> fs_nodes (fsys t) p = Some Dir)"
proof -
  note made' = os_MkdirTemp_made[OF made plain_workspace[OF rnd, unfolded workspace_def]]
  let ?s1 = "s\<lparr>fsys := snd (os_MkdirAll out fs1)\<rparr>"
  let ?u = "snd (render_in_workspace pf b op ks dir ?s1)"
  have "dirs_kept (fsys s) fs1" using made dirs_kept_os(2) by (metis snd_conv)
  moreover have "dirs_kept fs1 (fsys ?s1)" by (simp add: dirs_kept_os)
  moreover have "dirs_kept (fsys ?s1) (fsys ?u)"
    using tree_kept_render_in_workspace[OF ok(2), of b op ks dir] unfolding keeps_def tree_kept_def by blast
  ultimately have kept: "dirs_kept (fsys s) (fsys ?u)" by (blast intro: dirs_kept_trans)
  then have "fs_nodes (fsys ?u) p = Some Dir" if "strict_prefix p (workspace rnd)" for p
    using that made'(3,4) by (auto simp: dirs_kept_def workspace_def strict_prefix_def prefix_Cons)
  then have "fs_resolve (fsys ?u) dir = Some (workspace rnd)"
    using fs_resolve_plain[OF plain_workspace[OF rnd]] made'(1) by (simp add: workspace_def)
  moreover have t: "fsys t = snd (os_RemoveAll dir (fsys ?u))"
    by (simp add: body remove_workspace_apply[OF ok(1)])
  ultimately have nodes: "fs_nodes (fsys t) =
      (\<lambda>x. if prefix (workspace rnd) x then None else fs_nodes (fsys ?u) x)"
    by (simp add: os_RemoveAll_def)
  have "\<not> prefix (workspace rnd) p" if "prefix p (fs_cwd (fsys s))" for p
  proof
    assume "prefix (workspace rnd) p"
    with that have "prefix (workspace rnd) (fs_cwd (fsys s))" by (rule prefix_order.order_trans[rotated])
    with cwd made'(2) show False by (simp add: cwd_ok_def workspace_def)
  qed
  with nodes kept cwd show ?thesis by (auto simp: dirs_kept_def cwd_ok_def)
qed

lemma render_op_cleans_up:
  assumes ok: "os_willing pf" "generator_ok pf" "temp_names_ok pf" and cwd: "cwd_ok (fsys s)"
    and rnd: "rnd = fst (pf_temp_name pf (world s))"
    and new: "\<And>x. prefix (workspace rnd) x \<Longrightarrow> fs_nodes (fsys s) x = None"
    and t: "t = snd (RenderKubernetesResourcesForOperation pf b op ks s)"
  shows "fs_cwd (fsys t) = fs_cwd (fsys s)"
    and "prefix (workspace rnd) x \<Longrightarrow> fs_nodes (fsys t) x = None"
    and "prefix p (fs_cwd (fsys s)) \<Longrightarrow> fs_nodes (fsys t) p = Some Dir"
proof -
  obtain w where w: "pf_temp_name pf (world s) = (rnd, w)" using rnd by (metis prod.collapse)
  have slash: "CHR ''/'' \<notin> set rnd" using ok(3) rnd by (auto simp: temp_names_ok_def)
  let ?body = "bnd (call (pf_temp_name pf)) (\<lambda>rnd.
        bnd (os_call pf ''mkdir'' ''/tmp'' Inl (os_MkdirTemp ''/tmp'' ''bmg'' rnd)) (\<lambda>r.
        case r of
          Inl e \<Rightarrow> ret (Inl (Wrapped_error (''cannot create a temporary directory to run '' @
                     ''Backup Maker Generator (BMG)'') e), b)
        | Inr dir \<Rightarrow>
            bnd (os_call pf ''mkdir'' (dir @ ''/output'') Some (os_MkdirAll (dir @ ''/output''))) (\<lambda>_.
            deferring (remove_workspace pf dir)
              (render_in_workspace pf b op ks dir))))"
  let ?u = "snd (?body s)"
  have t': "fsys t = snd (os_Chdir (path_string (fs_cwd (fsys s))) (fsys ?u))"
    by (simp add: t RenderKubernetesResourcesForOperation_def bnd_Return[OF willing_os[OF ok(1)]]
        restore_cwd_apply[OF ok(1)] os_Getwd_def)
  have u: "(\<forall>x. prefix (workspace rnd) x \<longrightarrow> fs_nodes (fsys ?u) x = None) \<and>
     (\<forall>p. prefix p (fs_cwd (fsys s)) \<longrightarrow> fs_nodes (fsys ?u) p = Some Dir)"
  proof (cases "os_MkdirTemp ''/tmp'' ''bmg'' rnd (fsys s)")
    case (Pair r fs1)
    show ?thesis
    proof (cases r)
      case (Inl e)
      with Pair have "fs1 = fsys s"
        by (auto simp: os_MkdirTemp_def Let_def split: option.splits if_splits)
      with Pair Inl w new cwd show ?thesis
        by (simp add: bnd_call bnd_Return[OF willing_os[OF ok(1)]] go_simps cwd_ok_def)
    next
      case (Inr dir)
      let ?s = "s\<lparr>world := w\<rparr>"
      have made: "os_MkdirTemp ''/tmp'' ''bmg'' rnd (fsys ?s) = (Inr dir, fs1)" and here: "cwd_ok (fsys ?s)"
        using Pair Inr cwd by simp_all
      have "?u = snd (deferring (remove_workspace pf dir) (render_in_workspace pf b op ks dir)
          (?s\<lparr>fsys := snd (os_MkdirAll (dir @ ''/output'') fs1)\<rparr>))"
        using Pair Inr w
        by (simp add: bnd_call bnd_Return[OF willing_os[OF ok(1)]])
      from body_cleans_up[OF ok(1,2) slash made here this] show ?thesis by simp
    qed
  qed
  have cd: "os_Chdir (path_string (fs_cwd (fsys s))) (fsys ?u) = (None, (fsys ?u)\<lparr>fs_cwd := fs_cwd (fsys s)\<rparr>)"
    using u cwd by (intro os_Chdir_back) (auto simp: cwd_ok_def)
  show "fs_cwd (fsys t) = fs_cwd (fsys s)" by (simp add: t' cd)
  show "prefix (workspace rnd) x \<Longrightarrow> fs_nodes (fsys t) x = None" using u by (simp add: t')
  show "prefix p (fs_cwd (fsys s)) \<Longrightarrow> fs_nodes (fsys t) p = Some Dir" using u by (simp add: t')
qed

end
