(* ===== verification/Applying.thy ===== *)
theory Applying
  imports Templating
begin

text \<open>
  \<^verbatim>\<open>pkg/bmg/applying.go\<close> and \<^verbatim>\<open>utils.go\<close>: rendered objects get an owner, a namespace and a
  tracking label, and are created or updated one after the other. The objects are Go maps
  shared by the slice and the loop variable, so a change in the loop is a change of the
  slice's element.
\<close>

section \<open>utils.go: CreateOrUpdate\<close>

definition dyn_Create ::
  "('w, 'l) platform \<Rightarrow> gvr \<Rightarrow> string \<Rightarrow> unstr \<Rightarrow> (('w, 'l) sys, goerr option) go" where
  "dyn_Create pf res ns obj =
     bnd (call (\<lambda>w. pf_dyn_create pf w res ns obj)) (\<lambda>err.
     bnd (log_action (Object_created res ns obj (err = None))) (\<lambda>_. ret err))"

definition dyn_Update ::
  "('w, 'l) platform \<Rightarrow> gvr \<Rightarrow> string \<Rightarrow> unstr \<Rightarrow> (('w, 'l) sys, goerr option) go" where
  "dyn_Update pf res ns obj =
     bnd (call (\<lambda>w. pf_dyn_update pf w res ns obj)) (\<lambda>err.
     bnd (log_action (Object_updated res ns obj (err = None))) (\<lambda>_. ret err))"

text \<open>The messages of the events name the object.\<close>

definition named_message :: "('w, 'l) platform \<Rightarrow> string \<Rightarrow> unstr \<Rightarrow> string" where
  "named_message pf what obj =
     (let (apiVersion, kind) = pf_api_version_kind pf (pf_gvk_of pf obj)
      in what @ '' '' @ apiVersion @ ''/'' @ kind @ '', named '' @
         pf_get_namespace pf obj @ ''/'' @ pf_get_name pf obj)"

text \<open>
  The error of \<^verbatim>\<open>RESTMapping\<close> is not looked at: the mapping is nil then, and reading its
  resource panics.
\<close>

definition CreateOrUpdate ::
  "('w, 'l) platform \<Rightarrow> unstr \<Rightarrow> scheduled_backup \<Rightarrow> (('w, 'l) sys, goerr option) go" where
  "CreateOrUpdate pf obj backup =
     bnd (call (pf_discovery pf)) (\<lambda>err.
     case err of
       Some e \<Rightarrow> ret (Some (Wrapped_error
         (''cannot create Discovery Client for checking installed api resources'') e))
     | None \<Rightarrow>
     (let g = pf_gvk_of pf obj; ns = pf_get_namespace pf obj; event = emit_event (om_Name (sb_Meta backup)) in
      bnd (call (\<lambda>w. pf_rest_mapping pf w (gvk_Group g) (gvk_Kind g) (gvk_Version g))) (\<lambda>mapping.
      bnd (deref (case mapping of Inl e \<Rightarrow> None | Inr res \<Rightarrow> Some res)) (\<lambda>res.
      if pf_get_name pf obj = [] \<and> pf_get_generate_name pf obj \<noteq> [] then
        bnd (dyn_Create pf res ns obj) (\<lambda>createErr.
        case createErr of
          Some e \<Rightarrow> ret (Some (Wrapped_error ''cannot create object in API'' e))
        | None \<Rightarrow> bnd (event ''Normal'' ''Updated'' (named_message pf ''Creating'' obj)) (\<lambda>_. ret None))
      else
        bnd (call (\<lambda>w. pf_dyn_get pf w res ns (pf_get_name pf obj))) (\<lambda>getErr.
        case getErr of
          Some e \<Rightarrow>
            (if \<not> IsNotFound e then
               ret (Some (Wrapped_error (''cannot fetch object information from API server '' @
                 ''to check if it exists'') e))
             else
               bnd (dyn_Create pf res ns obj) (\<lambda>createErr.
               case createErr of
                 Some e \<Rightarrow> ret (Some (Wrapped_error ''cannot create object in API'' e))
               | None \<Rightarrow> bnd (event ''Normal'' ''Created'' (named_message pf ''Creating'' obj)) (\<lambda>_. ret None)))
        | None \<Rightarrow>
            bnd (dyn_Update pf res ns obj) (\<lambda>updateErr.
            case updateErr of
              Some e \<Rightarrow> ret (Some (Wrapped_error ''cannot update object in API'' e))
            | None \<Rightarrow> bnd (event ''Normal'' ''Updated'' (named_message pf ''Updating'' obj)) (\<lambda>_. ret None)))))))"

section \<open>applying.go: metadata\<close>

definition owner_json :: "kube_resource \<Rightarrow> jval" where
  "owner_json owner =
     JArr [JObj [(''apiVersion'', JStr (tm_APIVersion (GetTypeMeta owner))),
                 (''kind'', JStr (tm_Kind (GetTypeMeta owner))),
                 (''name'', JStr (om_Name (GetObjectMeta owner))),
                 (''uid'', JStr (om_UID (GetObjectMeta owner)))]]"

text \<open>Assigning to a nil map panics, and so does asserting that metadata is a map when it is not.\<close>

definition addOwnerReferences :: "unstr \<Rightarrow> renderable \<Rightarrow> (('w, 'l) sys, unstr) go" where
  "addOwnerReferences doc backup =
     (let old = (case doc of None \<Rightarrow> [] | Some obj \<Rightarrow> obj) in
      bnd (if map_of old ''metadata'' = None
           then (case doc of None \<Rightarrow> crash Nil_map_write | Some obj \<Rightarrow> ret (gset ''metadata'' (JObj []) obj))
           else ret old) (\<lambda>obj.
      bnd (case map_of obj ''metadata'' of
             Some (JObj m) \<Rightarrow> ret m
           | _ \<Rightarrow> crash Bad_type_assertion) (\<lambda>metadata.
      ret (Some (gset ''metadata''
        (JObj (gset ''ownerReferences'' (owner_json (GetObjectForOwnerReference backup)) metadata)) obj)))))"

definition addNamespace :: "('w, 'l) platform \<Rightarrow> unstr \<Rightarrow> string \<Rightarrow> unstr" where
  "addNamespace pf doc namespace = pf_set_namespace pf doc namespace"

definition addChildReferences :: "('w, 'l) platform \<Rightarrow> unstr \<Rightarrow> renderable \<Rightarrow> renderable" where
  "addChildReferences pf doc backup = ren_AddOwnedObject pf doc backup"

fun add_metadata ::
  "('w, 'l) platform \<Rightarrow> renderable \<Rightarrow> unstr list \<Rightarrow> (('w, 'l) sys, unstr list) go" where
  "add_metadata pf backup [] = ret []"
| "add_metadata pf backup (doc # docs) =
     bnd (addOwnerReferences doc backup) (\<lambda>doc.
     let doc = addNamespace pf doc (om_Namespace (sb_Meta (GetScheduledBackup backup))) in
     bnd (add_metadata pf backup docs) (\<lambda>docs. ret (doc # docs)))"

section \<open>applying.go: ApplyObjects\<close>

fun apply_docs ::
  "('w, 'l) platform \<Rightarrow> unstr list \<Rightarrow> renderable \<Rightarrow> (('w, 'l) sys, goerr option \<times> renderable) go" where
  "apply_docs pf [] backup = ret (None, backup)"
| "apply_docs pf (doc # docs) backup =
     bnd (AppendJobIdTo pf doc) (\<lambda>doc.
     bnd (CreateOrUpdate pf doc (GetScheduledBackup backup)) (\<lambda>err.
     case err of
       Some e \<Rightarrow> ret (Some (Wrapped_error ''cannot apply manifest to the cluster'' e), backup)
     | None \<Rightarrow> apply_docs pf docs (addChildReferences pf doc backup)))"

definition nothing_rendered :: "('w, 'l) platform \<Rightarrow> renderable \<Rightarrow> goerr" where
  "nothing_rendered pf backup = Text_error
     (''no objects rendered, no objects to apply. Please check your template - '' @
      ''it did not render any of those objects: ['' @
      join_with '' '' (map (pf_meta_gvk_string pf) (AcceptedResourceTypes backup)) @ '']'')"

definition ApplyObjects ::
  "('w, 'l) platform \<Rightarrow> renderable \<Rightarrow> (('w, 'l) sys, goerr option \<times> renderable) go" where
  "ApplyObjects pf backup =
     bnd (RenderKubernetesResourcesFor pf backup) (\<lambda>(rendered, backup).
     case rendered of
       Inl e \<Rightarrow> ret (Some (Wrapped_error ''cannot apply rendered objects to the cluster'' e), backup)
     | Inr docs \<Rightarrow>
         bnd (add_metadata pf backup docs) (\<lambda>docs.
         if length docs = 0 then ret (Some (nothing_rendered pf backup), backup)
         else apply_docs pf docs backup))"

section \<open>Frame\<close>

lemma same_locks_dyn: "keeps same_locks (dyn_Create pf r n x)" "keeps same_locks (dyn_Update pf r n x)"
  unfolding dyn_Create_def dyn_Update_def by (intro lock_rules)+

lemma same_locks_CreateOrUpdate: "keeps same_locks (CreateOrUpdate pf obj b)"
  unfolding CreateOrUpdate_def Let_def by (intro lock_rules same_locks_dyn)

lemma same_locks_owner: "keeps same_locks (addOwnerReferences doc b)"
  unfolding addOwnerReferences_def Let_def
  by (intro lock_rules) (auto intro!: lock_rules split: option.split jval.split)

lemma same_locks_add_metadata: "keeps same_locks (add_metadata pf b docs)"
  by (induction docs) (auto intro!: lock_rules same_locks_owner simp: Let_def)

lemma same_locks_apply_docs: "keeps same_locks (apply_docs pf docs b)"
  by (induction docs arbitrary: b)
     (auto intro!: lock_rules same_locks_AppendJobIdTo same_locks_CreateOrUpdate)

lemma same_locks_ApplyObjects: "keeps same_locks (ApplyObjects pf b)"
  unfolding ApplyObjects_def
  by (intro lock_rules same_locks_render same_locks_add_metadata same_locks_apply_docs)

text \<open>Applying writes objects and emits normal events, no warnings.\<close>

fun is_object_action :: "action \<Rightarrow> bool" where
  "is_object_action (Object_created r n x ok) = True"
| "is_object_action (Object_updated r n x ok) = True"
| "is_object_action (Event_emitted n t r m) = (t = ''Normal'')"
| "is_object_action a = False"

lemma only_does_dyn:
  "keeps (only_does is_object_action) (dyn_Create pf r n x)"
  "keeps (only_does is_object_action) (dyn_Update pf r n x)"
  unfolding dyn_Create_def dyn_Update_def by (intro act_rules; simp)+

lemma only_does_CreateOrUpdate: "keeps (only_does is_object_action) (CreateOrUpdate pf obj b)"
  unfolding CreateOrUpdate_def Let_def by (intro act_rules only_does_dyn; simp)

lemma only_does_owner: "keeps (only_does Q) (addOwnerReferences doc b)"
  unfolding addOwnerReferences_def Let_def
  by (intro act_rules) (auto intro!: act_rules split: option.split jval.split)

lemma only_does_add_metadata: "keeps (only_does Q) (add_metadata pf b docs)"
  by (induction docs) (auto intro!: act_rules only_does_owner simp: Let_def)

lemma only_does_apply_docs: "keeps (only_does is_object_action) (apply_docs pf docs b)"
  by (induction docs arbitrary: b)
     (auto intro!: act_rules only_does_AppendJobIdTo only_does_CreateOrUpdate)

lemma only_does_ApplyObjects: "keeps (only_does is_object_action) (ApplyObjects pf b)"
  unfolding ApplyObjects_def
  by (intro act_rules only_does_render only_does_add_metadata only_does_apply_docs)

section \<open>Every object gets its owner and its namespace\<close>

text \<open>The calls of \<^verbatim>\<open>addOwnerReferences\<close> that do not panic.\<close>

definition may_own :: "unstr \<Rightarrow> bool" where
  "may_own d \<longleftrightarrow>
     (case d of
        None \<Rightarrow> False
      | Some obj \<Rightarrow> (case map_of obj ''metadata'' of None \<Rightarrow> True | Some (JObj m) \<Rightarrow> True | _ \<Rightarrow> False))"

lemma addOwnerReferences_cases:
  "addOwnerReferences doc b s =
     (if may_own doc
      then (Return (Some (gset ''metadata'' (JObj (gset ''ownerReferences''
              (owner_json (GetObjectForOwnerReference b))
              (case metadata_of doc of None \<Rightarrow> [] | Some m \<Rightarrow> m)))
              (if metadata_of doc = None then gset ''metadata'' (JObj []) (the doc) else the doc))), s)
      else (Panic (if doc = None then Nil_map_write else Bad_type_assertion), s))"
proof (cases doc)
  case None
  then show ?thesis by (simp add: addOwnerReferences_def may_own_def go_simps)
next
  case (Some obj)
  show ?thesis
  proof (cases "map_of obj ''metadata''")
    case None
    with Some show ?thesis
      by (simp add: addOwnerReferences_def may_own_def metadata_of_def)
        (simp add: go_simps)
  next
    fix v assume v: "map_of obj ''metadata'' = Some v"
    with Some show ?thesis
      by (cases v) (simp_all add: addOwnerReferences_def may_own_def metadata_of_def go_simps)
  qed
qed

definition decorated :: "('w, 'l) platform \<Rightarrow> renderable \<Rightarrow> unstr \<Rightarrow> unstr \<Rightarrow> bool" where
  "decorated pf b d e \<longleftrightarrow>
     metadata_of e \<noteq> None \<and> owners_of e = Some (owner_json (GetObjectForOwnerReference b)) \<and>
     pf_get_namespace pf e = om_Namespace (sb_Meta (GetScheduledBackup b)) \<and>
     pf_gvk_of pf e = pf_gvk_of pf d"

lemma add_metadata_decorates:
  assumes acc: "accessors_ok pf" and run: "add_metadata pf b docs s = (Return docs', s')"
  shows "list_all2 (decorated pf b) docs docs' \<and> list_all may_own docs \<and> s' = s"
  using run
proof (induction docs arbitrary: docs')
  case Nil
  then show ?case by (simp add: go_simps)
next
  case (Cons d ds)
  from Cons.prems obtain e es s1 s2 where own: "addOwnerReferences d b s = (Return e, s1)"
    and rest: "add_metadata pf b ds s1 = (Return es, s')"
    and docs': "docs' = addNamespace pf e (om_Namespace (sb_Meta (GetScheduledBackup b))) # es"
    by (auto simp: bnd_eq_Return Let_def go_simps)
  from own have m: "may_own d" "s1 = s"
    and e: "e = Some (gset ''metadata'' (JObj (gset ''ownerReferences''
              (owner_json (GetObjectForOwnerReference b))
              (case metadata_of d of None \<Rightarrow> [] | Some m \<Rightarrow> m)))
              (if metadata_of d = None then gset ''metadata'' (JObj []) (the d) else the d))"
    by (auto simp: addOwnerReferences_cases split: if_splits)
  then have "metadata_of e \<noteq> None" "owners_of e = Some (owner_json (GetObjectForOwnerReference b))"
    by (auto simp: metadata_of_def owners_of_def)
  moreover have "pf_gvk_of pf e = pf_gvk_of pf d"
    using acc m(1) e by (cases d) (auto simp: accessors_ok_def may_own_def)
  ultimately have "decorated pf b d (addNamespace pf e (om_Namespace (sb_Meta (GetScheduledBackup b))))"
    using acc by (simp add: decorated_def accessors_ok_def addNamespace_def same_identity_def)
  with Cons.IH rest m docs' show ?case by simp
qed

section \<open>What is applied\<close>

text \<open>The objects the API server accepted, in order.\<close>

fun applied_objects :: "action list \<Rightarrow> unstr list" where
  "applied_objects [] = []"
| "applied_objects (Object_created r n x ok # as) = (if ok then x # applied_objects as else applied_objects as)"
| "applied_objects (Object_updated r n x ok # as) = (if ok then x # applied_objects as else applied_objects as)"
| "applied_objects (a # as) = applied_objects as"

lemma applied_objects_append [simp]:
  "applied_objects (as @ bs) = applied_objects as @ applied_objects bs"
  by (induction as rule: applied_objects.induct) auto

lemma applied_objects_none:
  "(\<And>a. a \<in> set as \<Longrightarrow> \<not> is_object_action a) \<Longrightarrow> applied_objects as = []"
proof (induction as)
  case (Cons a as)
  then have "\<not> is_object_action a" "applied_objects as = []" by auto
  then show ?case by (cases a) auto
qed simp

text \<open>One call of \<^verbatim>\<open>CreateOrUpdate\<close> applies its object, or returns an error and applies nothing.\<close>

definition applies :: "unstr list \<Rightarrow> ('w, 'l) sys \<Rightarrow> ('w, 'l) sys \<Rightarrow> bool" where
  "applies xs s t \<longleftrightarrow> (\<exists>as. trace t = trace s @ as \<and> applied_objects as = xs)"

lemma applies_Nil [simp]: "applies [] s s"
  by (simp add: applies_def)

lemma applies_append: "applies xs s t \<Longrightarrow> applies ys t u \<Longrightarrow> applies (xs @ ys) s u"
  by (fastforce simp: applies_def)

lemma applies_world: "call f s = (r, t) \<Longrightarrow> applies [] s t"
  by (auto simp: call_def applies_def split: prod.splits)

lemma dyn_applies:
  "dyn_Create pf res ns obj s = (Return err, t) \<Longrightarrow> applies (if err = None then [obj] else []) s t"
  "dyn_Update pf res ns obj s = (Return err, t) \<Longrightarrow> applies (if err = None then [obj] else []) s t"
  by (auto simp: dyn_Create_def dyn_Update_def bnd_call go_simps applies_def
      split: prod.splits)

lemma event_applies: "emit_event n t r m s = (Return u, s') \<Longrightarrow> applies [] s s'"
  by (auto simp: go_simps applies_def)

text \<open>A write followed by the event that reports it.\<close>

lemma write_then_event:
  assumes "bnd m (\<lambda>err. case err of Some e \<Rightarrow> ret (Some (f e))
      | None \<Rightarrow> bnd (emit_event n ty r msg) (\<lambda>_. ret None)) s = (Return err, t)"
    and m: "\<And>e u. m s = (Return e, u) \<Longrightarrow> applies (if e = None then [obj] else []) s u"
  shows "applies (if err = None then [obj] else []) s t"
proof -
  from assms(1) obtain e u where e: "m s = (Return e, u)"
    and rest: "(case e of Some e \<Rightarrow> ret (Some (f e))
      | None \<Rightarrow> bnd (emit_event n ty r msg) (\<lambda>_. ret None)) u = (Return err, t)"
    by (auto simp: bnd_eq_Return)
  from m[OF e] rest show ?thesis
    by (cases e) (auto simp: applies_def go_simps bnd_eq_Return)
qed

lemma CreateOrUpdate_applies:
  assumes "CreateOrUpdate pf obj b s = (Return err, t)"
  shows "applies (if err = None then [obj] else []) s t"
  using assms unfolding CreateOrUpdate_def Let_def bnd_call
  by (auto simp: bnd_call deref_def go_simps applies_def split: prod.split_asm option.split_asm sum.split_asm if_split_asm
      dest!: write_then_event[where obj = obj] dyn_applies)

text \<open>
  The loop: a prefix of the documents is applied, all of them when no error is returned, and
  every applied object is given to the owner.
\<close>

lemma apply_docs_spec:
  assumes "apply_docs pf docs b s = (Return (err, b'), t)"
  shows "\<exists>ws. applies ws s t \<and> length ws \<le> length docs \<and> (err = None \<longleftrightarrow> length ws = length docs) \<and>
     list_all2 (labelled pf) (take (length ws) docs) ws \<and>
     b' = foldl (\<lambda>b d. addChildReferences pf d b) b ws"
  using assms
proof (induction docs arbitrary: b s)
  case Nil
  then show ?case by (auto simp: go_simps intro!: exI[of _ "[]"])
next
  case (Cons d ds)
  from Cons.prems obtain e s1 er s2 where lab: "AppendJobIdTo pf d s = (Return e, s1)"
    and cu: "CreateOrUpdate pf e (GetScheduledBackup b) s1 = (Return er, s2)"
    and rest: "(case er of
       Some x \<Rightarrow> ret (Some (Wrapped_error ''cannot apply manifest to the cluster'' x), b)
     | None \<Rightarrow> apply_docs pf ds (addChildReferences pf e b)) s2 = (Return (err, b'), t)"
    by (auto simp: bnd_eq_Return)
  have l: "labelled pf d e" and "applies [] s s1"
    using AppendJobIdTo_labelled[OF lab] by (auto simp: applies_def)
  with CreateOrUpdate_applies[OF cu] have one: "applies (if er = None then [e] else []) s s2"
    using applies_append[of "[]" s s1] by simp
  show ?case
  proof (cases er)
    case None
    with rest obtain ws where ws: "applies ws s2 t" "length ws \<le> length ds" "err = None \<longleftrightarrow> length ws = length ds"
      "list_all2 (labelled pf) (take (length ws) ds) ws"
      "b' = foldl (\<lambda>b d. addChildReferences pf d b) (addChildReferences pf e b) ws"
      using Cons.IH by auto
    from one None ws(1) have "applies (e # ws) s t" using applies_append[of "[e]" s s2 ws t] by simp
    with ws l show ?thesis by (intro exI[of _ "e # ws"]) auto
  next
    case (Some x)
    with rest one show ?thesis by (intro exI[of _ "[]"]) (auto simp: go_simps)
  qed
qed

text \<open>The reference that is kept of an object.\<close>

definition reference_to :: "('w, 'l) platform \<Rightarrow> unstr \<Rightarrow> child_reference" where
  "reference_to pf d =
     \<lparr>cr_APIVersion = gvk_Group (pf_gvk_of pf d) @ ''/'' @ gvk_Version (pf_gvk_of pf d),
      cr_Kind = gvk_Kind (pf_gvk_of pf d),
      cr_TrackingId = the (map_of (pf_get_labels pf d) LabelTrackingId)\<rparr>"

lemma references_added:
  assumes "\<And>d. d \<in> set ws \<Longrightarrow> map_of (pf_get_labels pf d) LabelTrackingId \<noteq> None"
  shows "owned_references (foldl (\<lambda>b d. addChildReferences pf d b) b ws) =
     owned_references b @ map (reference_to pf) ws"
  using assms
proof (induction ws arbitrary: b)
  case Nil
  then show ?case by simp
next
  case (Cons w ws)
  then obtain i where "map_of (pf_get_labels pf w) LabelTrackingId = Some i" by fastforce
  then have "owned_references (addChildReferences pf w b) = owned_references b @ [reference_to pf w]"
    by (simp add: addChildReferences_def AddOwnedObject_adds reference_to_def)
  with Cons show ?case by simp
qed

lemma owner_kept [simp]:
  "GetTypeMeta (GetObjectForOwnerReference (foldl (\<lambda>b d. addChildReferences pf d b) b ws)) =
     GetTypeMeta (GetObjectForOwnerReference b)"
  "GetObjectMeta (GetObjectForOwnerReference (foldl (\<lambda>b d. addChildReferences pf d b) b ws)) =
     GetObjectMeta (GetObjectForOwnerReference b)"
  "sb_Meta (GetScheduledBackup (foldl (\<lambda>b d. addChildReferences pf d b) b ws)) = sb_Meta (GetScheduledBackup b)"
  "sb_Spec (GetScheduledBackup (foldl (\<lambda>b d. addChildReferences pf d b) b ws)) = sb_Spec (GetScheduledBackup b)"
  by (induction ws arbitrary: b) (simp_all add: addChildReferences_def)

text \<open>What holds of every object that \<^verbatim>\<open>ApplyObjects\<close> applies for a resource.\<close>

definition well_applied :: "('w, 'l) platform \<Rightarrow> renderable \<Rightarrow> unstr \<Rightarrow> bool" where
  "well_applied pf b w \<longleftrightarrow>
     accepted pf (applied_kinds b) w \<and>
     owners_of w = Some (owner_json (GetObjectForOwnerReference b)) \<and>
     pf_get_namespace pf w = om_Namespace (sb_Meta (GetScheduledBackup b)) \<and>
     map_of (pf_get_labels pf w) LabelTrackingId \<noteq> None"

lemma well_applied_with_vars [simp]: "well_applied pf (with_vars vs b) = well_applied pf b"
  by (rule ext) (simp add: well_applied_def)

lemma well_appliedI:
  assumes acc: "accessors_ok pf" and d: "accepted pf (applied_kinds b) d" and e: "decorated pf b d e"
    and w: "labelled pf e w"
  shows "well_applied pf b w"
proof -
  from e have m: "metadata_of e \<noteq> None" by (simp add: decorated_def)
  from labelled_keeps[OF acc m w] e d show ?thesis
    by (auto simp: well_applied_def decorated_def same_identity_def accepted_def)
qed

lemma ApplyObjects_spec:
  assumes acc: "accessors_ok pf" and run: "ApplyObjects pf b s = (Return (err, b'), t)"
  shows "\<exists>ws. applies ws s t \<and> list_all (well_applied pf b) ws \<and> (err = None \<longrightarrow> ws \<noteq> []) \<and>
     owned_references b' = owned_references b @ map (reference_to pf) ws"
proof -
  from run obtain r b1 s1 where ren: "RenderKubernetesResourcesFor pf b s = (Return (r, b1), s1)"
    and rest: "(case r of
       Inl e \<Rightarrow> ret (Some (Wrapped_error ''cannot apply rendered objects to the cluster'' e), b1)
     | Inr docs \<Rightarrow>
         bnd (add_metadata pf b1 docs) (\<lambda>docs.
         if length docs = 0 then ret (Some (nothing_rendered pf b1), b1)
         else apply_docs pf docs b1)) s1 = (Return (err, b'), t)"
    by (auto simp: ApplyObjects_def bnd_eq_Return)
  from yieldsD[OF yields_render ren] obtain vs where b1: "b1 = with_vars vs b"
    and docs_ok: "\<And>docs. r = Inr docs \<Longrightarrow> list_all (accepted pf (applied_kinds b)) docs"
    by (auto simp: render_result_def)
  have tr: "applies [] s s1"
    using keepsD[OF only_does_render[of "\<lambda>_. False"] ren] by (auto simp: only_does_def applies_def list_all_iff)
  show ?thesis
  proof (cases r)
    case (Inl e)
    with rest tr b1 show ?thesis by (auto simp: go_simps)
  next
    case (Inr docs)
    with rest obtain es s2 where add: "add_metadata pf b1 docs s1 = (Return es, s2)"
      and ap: "(if length es = 0 then ret (Some (nothing_rendered pf b1), b1)
         else apply_docs pf es b1) s2 = (Return (err, b'), t)"
      by (auto simp: bnd_eq_Return)
    from add_metadata_decorates[OF acc add] have dec: "list_all2 (decorated pf b1) docs es" and s2: "s2 = s1" by auto
    show ?thesis
    proof (cases "es = []")
      case True
      with ap tr b1 s2 show ?thesis by (auto simp: go_simps)
    next
      case False
      with ap s2 obtain ws where ws: "applies ws s1 t" "err = None \<longleftrightarrow> length ws = length es"
        "list_all2 (labelled pf) (take (length ws) es) ws" "length ws \<le> length es"
        "b' = foldl (\<lambda>b d. addChildReferences pf d b) b1 ws"
        using apply_docs_spec[of pf es b1 s1 err b' t] by auto
      have "well_applied pf b w" if "w \<in> set ws" for w
      proof -
        from that obtain i where i: "i < length ws" "w = ws ! i" by (auto simp: in_set_conv_nth)
        with ws(3,4) have "labelled pf (es ! i) w" by (auto simp: list_all2_conv_all_nth)
        moreover from i ws(4) dec have "decorated pf b1 (docs ! i) (es ! i)" "i < length docs"
          by (auto simp: list_all2_conv_all_nth)
        moreover from docs_ok[OF Inr] this(2) b1 have "accepted pf (applied_kinds b1) (docs ! i)"
          by (simp add: list_all_length)
        ultimately show ?thesis using well_appliedI[OF acc] b1 by fastforce
      qed
      then have all: "list_all (well_applied pf b) ws" by (simp add: list_all_iff)
      then have "owned_references b' = owned_references b1 @ map (reference_to pf) ws"
        unfolding ws(5) by (intro references_added) (auto simp: well_applied_def list_all_iff)
      moreover from tr ws(1) have "applies ws s t" using applies_append[of "[]" s s1 ws t] by simp
      moreover have "err = None \<longrightarrow> ws \<noteq> []" using ws(2) False by auto
      ultimately show ?thesis using all b1 by auto
    qed
  qed
qed

section \<open>What applying leaves of the resource\<close>

text \<open>The resource without the two things applying changes: its references and the variables.\<close>

fun without_refs :: "renderable \<Rightarrow> renderable" where
  "without_refs (Sb_renderable a) =
     Sb_renderable (a\<lparr>sba_AdditionalVarsList := [],
       sba_Backup := (sba_Backup a)\<lparr>sb_Status := (sb_Status (sba_Backup a))\<lparr>sbst_OwnedReferences := []\<rparr>\<rparr>\<rparr>)"
| "without_refs (Rba_renderable a) =
     Rba_renderable (a\<lparr>rbag_Scheduled := (rbag_Scheduled a)\<lparr>sba_AdditionalVarsList := []\<rparr>,
       rbag_Action := (rbag_Action a)\<lparr>rba_Status := (rba_Status (rbag_Action a))\<lparr>rbast_OwnedReferences := []\<rparr>\<rparr>\<rparr>)"

lemma without_refs_with_vars [simp]: "without_refs (with_vars vs b) = without_refs b"
  by (cases b) simp_all

lemma without_refs_add [simp]: "without_refs (addChildReferences pf d b) = without_refs b"
  by (cases b) (simp_all add: addChildReferences_def Let_def)

lemma yields_apply_docs: "yields (\<lambda>r. without_refs (snd r) = without_refs b) (apply_docs pf docs b)"
proof (induction docs arbitrary: b)
  case Nil
  then show ?case by (simp add: yields_ret)
next
  case (Cons d ds)
  have "yields (\<lambda>r. without_refs (snd r) = without_refs b) (apply_docs pf ds (addChildReferences pf e b))" for e
    using Cons.IH[of "addChildReferences pf e b"] by simp
  then show ?case by (auto intro!: yields_rules)
qed

lemma yields_ApplyObjects: "yields (\<lambda>r. without_refs (snd r) = without_refs b) (ApplyObjects pf b)"
proof -
  have same: "without_refs (snd (e, b')) = without_refs b"
    if "render_result pf ks b (r, b')" for ks r b' and e :: "goerr option"
    using that by (auto simp: render_result_def)
  have ap: "yields (\<lambda>r. without_refs (snd r) = without_refs b) (apply_docs pf docs b')"
    if "render_result pf ks b (r, b')" for ks r b' docs
    using that yields_apply_docs[of b' pf docs] by (auto simp: render_result_def)
  show ?thesis
    unfolding ApplyObjects_def
    by (rule yields_bnd_with[OF yields_render]) (auto intro!: yields_rules ap same)
qed

text \<open>The aggregate a renderable was made of.\<close>

definition rba_of :: "rba_aggregate \<Rightarrow> renderable \<Rightarrow> rba_aggregate" where
  "rba_of a r = (case r of Rba_renderable a' \<Rightarrow> a' | Sb_renderable _ \<Rightarrow> a)"

lemma without_refs_sb:
  "without_refs r = without_refs (Sb_renderable a) \<Longrightarrow>
     \<exists>a'. r = Sb_renderable a' \<and> sb_Meta (sba_Backup a') = sb_Meta (sba_Backup a) \<and>
       sb_Spec (sba_Backup a') = sb_Spec (sba_Backup a)"
  by (cases r; cases "sba_Backup a"; cases "sba_Backup (GetBackupAggregate r)")
     (auto dest!: arg_cong[of "_ :: sb_aggregate" _ sba_Backup])

lemma without_refs_rba:
  "without_refs r = without_refs (Rba_renderable a) \<Longrightarrow>
     \<exists>a'. r = Rba_renderable a' \<and> rba_Meta (rbag_Action a') = rba_Meta (rbag_Action a) \<and>
       rba_Spec (rbag_Action a') = rba_Spec (rbag_Action a) \<and>
       (rba_Status (rbag_Action a'))\<lparr>rbast_OwnedReferences := []\<rparr> =
       (rba_Status (rbag_Action a))\<lparr>rbast_OwnedReferences := []\<rparr>"
  by (cases r; cases "rbag_Action a"; cases "rbag_Action (rba_of a r)")
     (auto simp: rba_of_def dest!: arg_cong[of "_ :: rba_aggregate" _ rbag_Action])

end
