(* ===== verification/Job_Health.thy ===== *)
theory Job_Health
  imports Child_References
begin

text \<open>
  Package \<^verbatim>\<open>pkg/integration\<close> and \<^verbatim>\<open>owned_references_health.go\<close>: the health of the jobs a
  resource owns. The interface \<^verbatim>\<open>SupportedJobResourceType\<close> is a record; the locale states
  what the report relies on and is interpreted on the type for Kubernetes jobs.
\<close>

section \<open>types.go\<close>

definition ErrorUnrecognizedResourceType :: string where
  "ErrorUnrecognizedResourceType = ''unrecognized resource type''"

record 's job_resource =
  jr_MatchesGVK :: "gvk \<Rightarrow> bool"
  jr_GetScheduledJobHealthStatus :: "string \<Rightarrow> string \<Rightarrow> ('s, goerr + job_health) go"

fun all_GetScheduledJobHealthStatus ::
  "'s job_resource list \<Rightarrow> gvk \<Rightarrow> string \<Rightarrow> string \<Rightarrow> ('s, goerr + job_health) go" where
  "all_GetScheduledJobHealthStatus [] g trackingId namespace =
     ret (Inl (Text_error ErrorUnrecognizedResourceType))"
| "all_GetScheduledJobHealthStatus (resource # supported) g trackingId namespace =
     (if jr_MatchesGVK resource g then jr_GetScheduledJobHealthStatus resource trackingId namespace
      else all_GetScheduledJobHealthStatus supported g trackingId namespace)"

section \<open>kubernetesjob.go\<close>

definition kj_MatchesGVK :: "('w, 'l) platform \<Rightarrow> gvk \<Rightarrow> bool" where
  "kj_MatchesGVK pf g = (pf_gvk_string pf g = pf_gvk_string pf (mk_gvk ''batch'' ''v1'' ''Job''))"

definition failed_status :: "job \<Rightarrow> job_health" where
  "failed_status j =
     \<lparr>jh_Ref = \<lparr>cr_APIVersion = job_APIVersion j, cr_Kind = job_Kind j,
                cr_TrackingId = gget [] (job_Labels j) LabelTrackingId\<rparr>,
      jh_Message = ''Job '' @ job_Namespace j @ ''/'' @ job_Name j @ '' failed'',
      jh_Succeeded = False, jh_Running = False, jh_Failed = True\<rparr>"

definition common_status :: "string \<Rightarrow> string \<Rightarrow> bool \<Rightarrow> job_health" where
  "common_status trackingId namespace running =
     \<lparr>jh_Ref = \<lparr>cr_APIVersion = ''v1'', cr_Kind = ''Job'', cr_TrackingId = trackingId\<rparr>,
      jh_Message = ''All labelled jobs by '' @ LabelTrackingId @ ''='' @ trackingId @
        '' succeed in '' @ namespace @ '' namespace'',
      jh_Succeeded = (\<not> running), jh_Running = running, jh_Failed = False\<rparr>"

fun kj_loop :: "string \<Rightarrow> string \<Rightarrow> job list \<Rightarrow> bool \<Rightarrow> job_health" where
  "kj_loop trackingId namespace [] running = common_status trackingId namespace running"
| "kj_loop trackingId namespace (j # js) running =
     (if job_Failed j > 0 then failed_status j
      else kj_loop trackingId namespace js (if job_Active j > 0 then True else running))"

definition kj_GetScheduledJobHealthStatus ::
  "('w, 'l) platform \<Rightarrow> string \<Rightarrow> string \<Rightarrow> (('w, 'l) sys, goerr + job_health) go" where
  "kj_GetScheduledJobHealthStatus pf trackingId namespace =
     bnd (call (\<lambda>w. pf_list_jobs pf w namespace (LabelTrackingId @ ''='' @ trackingId))) (\<lambda>r.
     ret (case r of
            Inl e \<Rightarrow> Inl (Wrapped_error ''cannot list integration'' e)
          | Inr items \<Rightarrow>
              (if length items = 0
               then Inl (Text_error (''cannot find any job labelled with '' @ LabelTrackingId @ ''='' @ trackingId))
               else Inr (kj_loop trackingId namespace items False))))"

definition KubernetesJobResourceType :: "('w, 'l) platform \<Rightarrow> ('w, 'l) sys job_resource" where
  "KubernetesJobResourceType pf =
     \<lparr>jr_MatchesGVK = kj_MatchesGVK pf,
      jr_GetScheduledJobHealthStatus = kj_GetScheduledJobHealthStatus pf\<rparr>"

definition NewAllSupportedJobResourceTypes :: "('w, 'l) platform \<Rightarrow> ('w, 'l) sys job_resource list" where
  "NewAllSupportedJobResourceTypes pf = [KubernetesJobResourceType pf]"

section \<open>owned_references_health.go\<close>

fun health_loop ::
  "'s job_resource list \<Rightarrow> string \<Rightarrow> child_reference list \<Rightarrow> job_health list \<Rightarrow> bool \<Rightarrow>
     ('s, job_health list \<times> bool \<times> goerr option) go" where
  "health_loop integrations namespace [] report healthy = ret (report, healthy, None)"
| "health_loop integrations namespace (resource # refs) report healthy =
     bnd (GetGVK resource) (\<lambda>g.
     bnd (all_GetScheduledJobHealthStatus integrations g (cr_TrackingId resource) namespace) (\<lambda>r.
     case r of
       Inl e \<Rightarrow>
         (if err_text e = ErrorUnrecognizedResourceType
          then health_loop integrations namespace refs report healthy
          else ret (report, False, Some e))
     | Inr status \<Rightarrow>
         health_loop integrations namespace refs (report @ [status])
           (if jh_Failed status then False else healthy)))"

definition createOwnedReferencesHealthReport ::
  "'s job_resource list \<Rightarrow> child_reference list \<Rightarrow> string \<Rightarrow>
     ('s, job_health list \<times> bool \<times> goerr option) go" where
  "createOwnedReferencesHealthReport integrations refs namespace =
     health_loop integrations namespace refs [] True"

section \<open>What a job resource type promises\<close>

text \<open>Exactly one of the three flags of a status is set.\<close>

definition one_flag :: "job_health \<Rightarrow> bool" where
  "one_flag h \<longleftrightarrow>
     (jh_Failed h \<and> \<not> jh_Running h \<and> \<not> jh_Succeeded h) \<or>
     (\<not> jh_Failed h \<and> jh_Running h \<and> \<not> jh_Succeeded h) \<or>
     (\<not> jh_Failed h \<and> \<not> jh_Running h \<and> jh_Succeeded h)"

text \<open>What a report says, see \<open>health_loop_report\<close>.\<close>

definition report_ok :: "job_health list \<Rightarrow> bool \<Rightarrow> goerr option \<Rightarrow> bool" where
  "report_ok report healthy err \<longleftrightarrow> list_all one_flag report \<and>
     (healthy \<longleftrightarrow> err = None \<and> \<not> list_ex jh_Failed report)"

locale job_resource_type =
  fixes jr :: "'s job_resource"
  assumes status_flags: "jr_GetScheduledJobHealthStatus jr i ns s = (Return (Inr h), s') \<Longrightarrow> one_flag h"
    and own_errors: "jr_GetScheduledJobHealthStatus jr i ns s = (Return (Inl e), s') \<Longrightarrow>
      err_text e \<noteq> ErrorUnrecognizedResourceType"
begin

lemma status_of_one:
  "all_GetScheduledJobHealthStatus [jr] g i ns s = (Return (Inr h), s') \<Longrightarrow> one_flag h \<and> jr_MatchesGVK jr g"
  by (auto simp: go_simps dest: status_flags split: if_splits)

text \<open>A kind is reported as unrecognized exactly when the type does not match it.\<close>

lemma unrecognized_iff:
  assumes "all_GetScheduledJobHealthStatus [jr] g i ns s = (Return (Inl e), s')"
  shows "err_text e = ErrorUnrecognizedResourceType \<longleftrightarrow> \<not> jr_MatchesGVK jr g"
  using assms by (auto simp: go_simps dest: own_errors split: if_splits)

text \<open>
  A report: every status has one flag, and without an error it is healthy exactly when no
  status in it has failed; with an error it is not healthy. It extends what was collected
  before.
\<close>

lemma health_loop_report:
  assumes "health_loop [jr] ns refs report healthy s = (Return (report', healthy', err), s')"
    and "report_ok report healthy None"
  shows "report_ok report' healthy' err \<and> prefix report report' \<and> length report' \<le> length report + length refs"
  using assms
proof (induction refs arbitrary: report healthy s)
  case Nil
  then show ?case by (auto simp: go_simps)
next
  case (Cons ref refs)
  from Cons.prems(1) obtain g s1 r s2 where "GetGVK ref s = (Return g, s1)"
    and r: "all_GetScheduledJobHealthStatus [jr] g (cr_TrackingId ref) ns s1 = (Return r, s2)"
    and rest: "(case r of
       Inl e \<Rightarrow>
         (if err_text e = ErrorUnrecognizedResourceType then health_loop [jr] ns refs report healthy
          else ret (report, False, Some e))
     | Inr status \<Rightarrow>
         health_loop [jr] ns refs (report @ [status]) (if jh_Failed status then False else healthy)) s2
       = (Return (report', healthy', err), s')"
    by (auto simp: bnd_eq_Return simp del: all_GetScheduledJobHealthStatus.simps)
  show ?case
  proof (cases r)
    case (Inl e)
    show ?thesis
    proof (cases "err_text e = ErrorUnrecognizedResourceType")
      case True
      with rest Inl have "health_loop [jr] ns refs report healthy s2 = (Return (report', healthy', err), s')"
        by simp
      from Cons.IH[OF this Cons.prems(2)] show ?thesis by simp
    next
      case False
      with rest Inl Cons.prems(2) show ?thesis by (auto simp: go_simps report_ok_def)
    qed
  next
    case (Inr h)
    with r have "one_flag h" using status_of_one by blast
    with Cons.prems(2) have "report_ok (report @ [h]) (if jh_Failed h then False else healthy) None"
      by (auto simp: report_ok_def)
    moreover from rest Inr
    have "health_loop [jr] ns refs (report @ [h]) (if jh_Failed h then False else healthy) s2
        = (Return (report', healthy', err), s')" by simp
    ultimately have "report_ok report' healthy' err \<and>
        prefix (report @ [h]) report' \<and> length report' \<le> length (report @ [h]) + length refs"
      by (intro Cons.IH)
    then show ?thesis using append_prefixD[of report "[h]" report'] by simp
  qed
qed

lemma report_verdict:
  "createOwnedReferencesHealthReport [jr] refs ns s = (Return (report, healthy, err), s') \<Longrightarrow>
     report_ok report healthy err \<and> length report \<le> length refs"
  using health_loop_report[of ns refs "[]" True s report healthy err s']
  by (simp add: createOwnedReferencesHealthReport_def report_ok_def)

end

section \<open>What the health of a set of jobs is\<close>

text \<open>
  The specification of the loop in \<^verbatim>\<open>kubernetesjob.go\<close>: verdicts are ordered, the worst one
  counts.
\<close>

datatype verdict = Succeeded | Running | Failed

fun verdict_rank :: "verdict \<Rightarrow> nat" where
  "verdict_rank Succeeded = 0"
| "verdict_rank Running = 1"
| "verdict_rank Failed = 2"

instantiation verdict :: "{linorder, order_bot, order_top}"
begin

definition less_eq_verdict :: "verdict \<Rightarrow> verdict \<Rightarrow> bool" where
  "less_eq_verdict v w \<longleftrightarrow> verdict_rank v \<le> verdict_rank w"

definition less_verdict :: "verdict \<Rightarrow> verdict \<Rightarrow> bool" where
  "less_verdict v w \<longleftrightarrow> verdict_rank v < verdict_rank w"

definition bot_verdict :: verdict where
  "bot_verdict = Succeeded"

definition top_verdict :: verdict where
  "top_verdict = Failed"

instance
proof
  fix v w :: verdict
  show "v \<le> w \<Longrightarrow> w \<le> v \<Longrightarrow> v = w"
    by (cases v; cases w) (simp_all add: less_eq_verdict_def)
  show "bot \<le> v" "v \<le> top"
    by (cases v; simp add: less_eq_verdict_def bot_verdict_def top_verdict_def)+
qed (auto simp: less_eq_verdict_def less_verdict_def)

end

text \<open>The verdict over one job, and the one a status gives.\<close>

definition job_verdict :: "job \<Rightarrow> verdict" where
  "job_verdict j = (if job_Failed j > 0 then Failed else if job_Active j > 0 then Running else Succeeded)"

definition health_verdict :: "job_health \<Rightarrow> verdict" where
  "health_verdict h = (if jh_Failed h then Failed else if jh_Running h then Running else Succeeded)"

section \<open>Kubernetes jobs keep the promise\<close>

text \<open>The verdict over the listed jobs: the first failed one, else running if one is active.\<close>

lemma kj_loop_spec:
  "kj_loop i ns js running =
     (case find (\<lambda>j. job_Failed j > 0) js of
        Some j \<Rightarrow> failed_status j
      | None \<Rightarrow> common_status i ns (running \<or> list_ex (\<lambda>j. job_Active j > 0) js))"
  by (induction js arbitrary: running) (auto split: option.splits)

lemma kj_loop_flags: "one_flag (kj_loop i ns js running)"
  by (auto simp: kj_loop_spec one_flag_def failed_status_def common_status_def split: option.splits)

lemma max_verdict [simp]:
  "max Failed v = Failed" "max v Failed = Failed" "max Succeeded v = v" "max v Succeeded = v" "max Running Running = Running"
  by (cases v; simp add: max_def less_eq_verdict_def)+

lemma fold_max_Failed [simp]: "fold max vs Failed = (Failed :: verdict)"
  by (induction vs) simp_all

lemma health_verdict_final [simp]:
  "health_verdict (failed_status j) = Failed"
  "health_verdict (common_status i ns running) = (if running then Running else Succeeded)"
  by (simp_all add: health_verdict_def failed_status_def common_status_def)

lemma kj_loop_verdict:
  "health_verdict (kj_loop i ns js running) =
     fold max (map job_verdict js) (if running then Running else Succeeded)"
  by (induction js arbitrary: running) (simp_all add: job_verdict_def)

text \<open>The loop computes the worst verdict, whatever the order of the jobs.\<close>

lemma kj_loop_Max:
  assumes "js \<noteq> []"
  shows "health_verdict (kj_loop i ns js False) = Max (job_verdict ` set js)"
proof (cases js)
  case (Cons j js')
  then have "health_verdict (kj_loop i ns js False) = fold max (map job_verdict js') (job_verdict j)"
    unfolding kj_loop_verdict by simp
  also have "\<dots> = Max (set (map job_verdict js))" unfolding Cons list.map by (rule Max.set_eq_fold[symmetric])
  finally show ?thesis by simp
qed (use assms in simp)

lemma kj_status_cases:
  assumes "pf_list_jobs pf (world s) ns (LabelTrackingId @ ''='' @ i) = (r, w)"
  shows "kj_GetScheduledJobHealthStatus pf i ns s =
     (Return (case r of
            Inl e \<Rightarrow> Inl (Wrapped_error ''cannot list integration'' e)
          | Inr items \<Rightarrow>
              (if items = []
               then Inl (Text_error (''cannot find any job labelled with '' @ LabelTrackingId @ ''='' @ i))
               else Inr (kj_loop i ns items False))), s\<lparr>world := w\<rparr>)"
  using assms by (simp add: kj_GetScheduledJobHealthStatus_def bnd_call go_simps split: sum.split)

interpretation kubernetes_job: job_resource_type "KubernetesJobResourceType pf" for pf
proof unfold_locales
  fix i ns and s s' :: "('a, 'b) sys" and h
  assume run: "jr_GetScheduledJobHealthStatus (KubernetesJobResourceType pf) i ns s = (Return (Inr h), s')"
  obtain r w where "pf_list_jobs pf (world s) ns (LabelTrackingId @ ''='' @ i) = (r, w)" by fastforce
  from kj_status_cases[OF this] run show "one_flag h"
    by (auto simp: KubernetesJobResourceType_def kj_loop_flags split: sum.splits if_splits)
next
  fix i ns and s s' :: "('a, 'b) sys" and e
  assume run: "jr_GetScheduledJobHealthStatus (KubernetesJobResourceType pf) i ns s = (Return (Inl e), s')"
  obtain r w where "pf_list_jobs pf (world s) ns (LabelTrackingId @ ''='' @ i) = (r, w)" by fastforce
  from kj_status_cases[OF this] run show "err_text e \<noteq> ErrorUnrecognizedResourceType"
    by (auto simp: KubernetesJobResourceType_def ErrorUnrecognizedResourceType_def split: sum.splits if_splits)
qed

text \<open>The report of the supported types, by the interpretation.\<close>

lemma kubernetes_report:
  "createOwnedReferencesHealthReport (NewAllSupportedJobResourceTypes pf) refs ns s =
     (Return (report, healthy, err), s') \<Longrightarrow> report_ok report healthy err \<and> length report \<le> length refs"
  unfolding NewAllSupportedJobResourceTypes_def by (rule kubernetes_job.report_verdict)

section \<open>Frame\<close>

lemma same_locks_kj: "keeps same_locks (kj_GetScheduledJobHealthStatus pf i ns)"
  unfolding kj_GetScheduledJobHealthStatus_def by (intro lock_rules)

lemma only_does_kj: "keeps (only_does Q) (kj_GetScheduledJobHealthStatus pf i ns)"
  unfolding kj_GetScheduledJobHealthStatus_def by (intro act_rules)

lemma keeps_GetGVK_rel: "keeps same_locks (GetGVK cr)" "keeps (only_does Q) (GetGVK cr)"
  by (simp_all add: keeps_def GetGVK_state lock_rel.R_refl act_rel.R_refl)

lemma same_locks_report:
  "keeps same_locks (createOwnedReferencesHealthReport (NewAllSupportedJobResourceTypes pf) refs ns)"
proof -
  have "keeps same_locks (health_loop (NewAllSupportedJobResourceTypes pf) ns refs report healthy)"
    for report healthy
    by (induction refs arbitrary: report healthy)
       (auto intro!: lock_rules keeps_GetGVK_rel same_locks_kj
          simp: NewAllSupportedJobResourceTypes_def KubernetesJobResourceType_def)
  then show ?thesis by (simp add: createOwnedReferencesHealthReport_def)
qed

lemma only_does_report:
  "keeps (only_does Q) (createOwnedReferencesHealthReport (NewAllSupportedJobResourceTypes pf) refs ns)"
proof -
  have "keeps (only_does Q) (health_loop (NewAllSupportedJobResourceTypes pf) ns refs report healthy)"
    for report healthy
    by (induction refs arbitrary: report healthy)
       (auto intro!: act_rules keeps_GetGVK_rel only_does_kj
          simp: NewAllSupportedJobResourceTypes_def KubernetesJobResourceType_def)
  then show ?thesis by (simp add: createOwnedReferencesHealthReport_def)
qed

end
