(* ===== verification/Reconciling.thy ===== *)
theory Reconciling
  imports Locking Applying Job_Health
begin

text \<open>
  What the four \<^verbatim>\<open>Reconcile\<close> functions share: the lock around the body, with its early
  returns and the deferred \<^verbatim>\<open>Done\<close>. The rules are proved once for any locker that keeps the
  promise of \<open>lock_service\<close>, and hold for the in-memory locker by its interpretation.
\<close>

section \<open>Log entries\<close>

text \<open>
  \<^verbatim>\<open>createLogger\<close>: the fields of every entry of one reconciliation, with a random identifier
  whose error is not looked at. What is logged is not part of the state.
\<close>

record log_entry =
  le_name :: request
  le_controller :: string
  le_rid :: string

definition createLogger ::
  "('w \<Rightarrow> (string \<times> goerr option) \<times> 'w) \<Rightarrow> request \<Rightarrow> string \<Rightarrow> 'w \<Rightarrow> log_entry \<times> 'w" where
  "createLogger new_uuid req controllerName w =
     (case new_uuid w of ((rid, err), w') \<Rightarrow>
        (\<lparr>le_name = req, le_controller = controllerName, le_rid = rid\<rparr>, w'))"

section \<open>The lock around a body\<close>

definition locker_Obtain :: "'l locker \<Rightarrow> request \<Rightarrow> (('w, 'l) sys, lock_session) go" where
  "locker_Obtain lk req s = (case lk_Obtain lk (locks s) req of (ls, l) \<Rightarrow> (Return ls, s\<lparr>locks := l\<rparr>))"

definition locker_Done :: "'l locker \<Rightarrow> lock_session \<Rightarrow> (('w, 'l) sys, unit) go" where
  "locker_Done lk session s = (case lk_Done lk (locks s) session of (r, l) \<Rightarrow> (r, s\<lparr>locks := l\<rparr>))"

definition with_lock ::
  "'l locker \<Rightarrow> request \<Rightarrow> (('w, 'l) sys, result \<times> goerr option) go \<Rightarrow>
     (('w, 'l) sys, result \<times> goerr option) go" where
  "with_lock lk req body =
     bnd (locker_Obtain lk req) (\<lambda>lock.
     if AlreadyLocked lock then ret (requeue_after (time_Second * 10), None)
     else if HasFailure lock then ret (no_requeue, GetError lock)
     else deferring (locker_Done lk lock) body)"

lemma with_lock_cases:
  assumes "lk_Obtain lk (locks s) req = (ls, l)"
  shows "with_lock lk req body s =
     (if AlreadyLocked ls then (Return (requeue_after (time_Second * 10), None), s\<lparr>locks := l\<rparr>)
      else if HasFailure ls then (Return (no_requeue, ls_err ls), s\<lparr>locks := l\<rparr>)
      else deferring (locker_Done lk ls) body (s\<lparr>locks := l\<rparr>))"
  using assms by (simp add: with_lock_def bnd_def locker_Obtain_def GetError_def go_simps)

lemma locker_Done_trace: "trace (snd (locker_Done lk ls s)) = trace s"
  by (simp add: locker_Done_def split: prod.splits)

text \<open>The lock leaves no trace: what the guarded body does is what is done.\<close>

lemma only_does_with_lock:
  assumes "keeps (only_does Q) body"
  shows "keeps (only_does Q) (with_lock lk req body)"
proof (rule keepsI)
  fix s :: "('a, 'b) sys"
  obtain ls l where o: "lk_Obtain lk (locks s) req = (ls, l)" by fastforce
  have "only_does Q (s\<lparr>locks := l\<rparr>) (snd (body (s\<lparr>locks := l\<rparr>)))"
    using assms by (simp add: keeps_def)
  then show "only_does Q s (snd (with_lock lk req body s))"
    by (simp add: with_lock_cases[OF o] only_does_def locker_Done_trace)
qed

lemma yields_with_lock:
  assumes "yields P body" and "P (requeue_after (time_Second * 10), None)"
    and "\<And>e. P (no_requeue, Some e)"
  shows "yields P (with_lock lk req body)"
proof -
  have "P (no_requeue, GetError ls)" if "HasFailure ls" for ls
    using that assms(3) by (auto simp: HasFailure_def GetError_def split: option.splits)
  then show ?thesis
    unfolding with_lock_def using assms(2)
    by (intro yields_bnd yields_if yields_ret yields_deferring assms(1)) auto
qed

text \<open>What a reconciliation that did something returned, its body returned.\<close>

lemma with_lock_ran:
  assumes run: "with_lock lk req body s = (Return x, s')" and did: "trace s' \<noteq> trace s"
  obtains l t where "body (s\<lparr>locks := l\<rparr>) = (Return x, t)" and "trace t = trace s'"
proof -
  obtain ls l where o: "lk_Obtain lk (locks s) req = (ls, l)" by fastforce
  obtain r t where b: "body (s\<lparr>locks := l\<rparr>) = (r, t)" by fastforce
  from run did have d: "deferring (locker_Done lk ls) body (s\<lparr>locks := l\<rparr>) = (Return x, s')"
    by (auto simp: with_lock_cases[OF o] split: if_split_asm)
  with b have "r = Return x"
    by (auto simp: deferring_def split: prod.split_asm outcome.split_asm)
  moreover from d b have "trace s' = trace t"
    using locker_Done_trace[of lk ls t] snd_deferring[of "locker_Done lk ls" body "s\<lparr>locks := l\<rparr>"] by simp
  ultimately show thesis using b by (intro that[of l t]) auto
qed

section \<open>Rules of a locker that keeps its promise\<close>

context lock_service
begin

lemma with_lock_busy:
  assumes "ident req \<in> held (locks s)"
  shows "with_lock lk req body s = (Return (requeue_after (time_Second * 10), None), s)"
proof -
  obtain ls l where o: "lk_Obtain lk (locks s) req = (ls, l)" by fastforce
  from obtain_held[OF assms o] show ?thesis by (simp add: with_lock_cases[OF o])
qed

text \<open>
  A free key: the body runs while the key is held, and whether it returns or panics the key
  is given back.
\<close>

lemma with_lock_free:
  assumes free: "ident req \<notin> held (locks s)"
    and body: "keeps same_locks body"
  obtains ls l l' where "lk_Obtain lk (locks s) req = (ls, l)" and "held l = insert (ident req) (held (locks s))"
    and "lk_Done lk l ls = (Return (), l')" and "held l' = held (locks s)"
    and "with_lock lk req body s = (fst (body (s\<lparr>locks := l\<rparr>)), (snd (body (s\<lparr>locks := l\<rparr>)))\<lparr>locks := l'\<rparr>)"
proof -
  obtain ls l where o: "lk_Obtain lk (locks s) req = (ls, l)" by fastforce
  from obtain_free[OF free o] have l: "ls_err ls = None" "held l = insert (ident req) (held (locks s))"
    by auto
  from done_own[OF free o] obtain l' where d: "lk_Done lk l ls = (Return (), l')" "held l' = held (locks s)"
    by auto
  let ?t = "snd (body (s\<lparr>locks := l\<rparr>))"
  from body have "locks ?t = l" by (simp add: keeps_def same_locks_def)
  with d(1) have "locker_Done lk ls ?t = (Return (), ?t\<lparr>locks := l'\<rparr>)" by (simp add: locker_Done_def)
  with l(1) have "with_lock lk req body s = (fst (body (s\<lparr>locks := l\<rparr>)), ?t\<lparr>locks := l'\<rparr>)"
    by (simp add: with_lock_cases[OF o] AlreadyLocked_def HasFailure_def deferring_apply)
  with o l(2) d show thesis by (rule that)
qed

lemma with_lock_releases:
  assumes "keeps same_locks body"
  shows "held (locks (snd (with_lock lk req body s))) = held (locks s)"
proof (cases "ident req \<in> held (locks s)")
  case True
  then show ?thesis by (simp add: with_lock_busy)
next
  case False
  then show ?thesis using assms by (rule with_lock_free) simp
qed

text \<open>What a reconciliation that returns, returns: the lock adds nothing to what the body does.\<close>

lemma with_lock_result:
  assumes "with_lock lk req body s = (Return x, t)"
  shows "if ident req \<in> held (locks s) then x = (requeue_after (time_Second * 10), None) \<and> t = s
    else \<exists>u. body (s\<lparr>locks := snd (lk_Obtain lk (locks s) req)\<rparr>) = (Return x, u)"
proof (cases "ident req \<in> held (locks s)")
  case True
  with assms show ?thesis by (simp add: with_lock_busy)
next
  case False
  obtain ls l where o: "lk_Obtain lk (locks s) req = (ls, l)" by fastforce
  from obtain_free[OF False o] have "ls_err ls = None" by simp
  with assms have "deferring (locker_Done lk ls) body (s\<lparr>locks := l\<rparr>) = (Return x, t)"
    by (simp add: with_lock_cases[OF o] AlreadyLocked_def HasFailure_def)
  then show ?thesis using False o
    by (auto simp: deferring_def split: prod.split_asm outcome.split_asm)
qed

end

context restoring_lock_service
begin

lemma with_lock_restores:
  assumes "keeps same_locks body"
  shows "locks (snd (with_lock lk req body s)) = locks s"
proof (cases "ident req \<in> held (locks s)")
  case True
  then show ?thesis by (simp add: with_lock_busy)
next
  case False
  from False assms show ?thesis by (rule with_lock_free) (use done_restores[OF False] in auto)
qed

text \<open>A run on a free key, from a run of the body.\<close>

lemma with_lock_run:
  assumes free: "ident req \<notin> held (locks s)" and o: "lk_Obtain lk (locks s) req = (ls, l)"
    and "body (s\<lparr>locks := l\<rparr>) = (r, u)" and "locks u = l"
  shows "with_lock lk req body s = (r, u\<lparr>locks := locks s\<rparr>)"
proof -
  from obtain_free[OF free o] have "ls_err ls = None" by simp
  moreover from done_restores[OF free o] assms(4) have "locker_Done lk ls u = (Return (), u\<lparr>locks := locks s\<rparr>)"
    by (simp add: locker_Done_def)
  ultimately show ?thesis using assms(3)
    by (simp add: with_lock_cases[OF o] AlreadyLocked_def HasFailure_def deferring_def)
qed

end

end
