(* ===== verification/Rba_Controller.thy ===== *)
theory Rba_Controller
  imports Reconciling
begin

text \<open>
  The controller of RequestedBackupAction: \<^verbatim>\<open>requestedbackupaction_controller.go\<close> and the
  observer of its jobs, \<^verbatim>\<open>requestedbackupaction_jobs_observer.go\<close>.
\<close>

section \<open>updateObjectStatus\<close>

definition rba_obj_name :: "rba_aggregate \<Rightarrow> string" where
  "rba_obj_name a = om_Name (rba_Meta (rbag_Action a))"

definition rba_obj_namespace :: "rba_aggregate \<Rightarrow> string" where
  "rba_obj_namespace a = om_Namespace (rba_Meta (rbag_Action a))"

text \<open>The condition with the fields the update fills in.\<close>

definition installation_condition :: "condition \<Rightarrow> object_meta \<Rightarrow> condition" where
  "installation_condition condition m =
     condition\<lparr>cond_Reason := ''SpecWasUpdated'', cond_Type := ''BackupObjectsInstallation'',
       cond_ObservedGeneration := om_Generation m\<rparr>"

text \<open>
  The function that is retried. \<^verbatim>\<open>res.Status\<close> becomes a copy of the aggregate's status whose
  conditions slice has the elements of the aggregate's (the state's \<open>captured\<close>):
  \<^verbatim>\<open>SetStatusCondition\<close> may change them in place, which a later attempt sees.
\<close>

definition rba_status_attempt ::
  "('w, 'l) platform \<Rightarrow> rba_aggregate \<Rightarrow> condition \<Rightarrow> (('w, 'l) sys, goerr option) go" where
  "rba_status_attempt pf aggregate condition =
     bnd (call (rba_Get (pf_rba pf) (rba_obj_namespace aggregate) (rba_obj_name aggregate) [])) (\<lambda>r.
     case r of
       Inl getErr \<Rightarrow> ret (Some getErr)
     | Inr res \<Rightarrow>
         bnd (get_state captured) (\<lambda>conds.
         let st = (rba_Status (rbag_Action aggregate))\<lparr>rbast_Conditions := conds\<rparr>;
             cond = installation_condition condition (rba_Meta res) in
         bnd (call (\<lambda>w. pf_set_condition pf w (rbast_Conditions st) cond)) (\<lambda>(new, old).
         bnd (modify (\<lambda>s. s\<lparr>captured := old\<rparr>)) (\<lambda>_.
         let st = st\<lparr>rbast_Conditions := new\<rparr>;
             st = (if strings_ToLower (cond_Status cond) \<noteq> ''true''
                   then st\<lparr>rbast_Healthy := False\<rparr> else st)
         in put_rba_status pf (rba_obj_namespace aggregate) (res\<lparr>rba_Status := st\<rparr>)))))"

definition rba_updateObjectStatus ::
  "('w, 'l) platform \<Rightarrow> rba_aggregate \<Rightarrow> condition \<Rightarrow> (('w, 'l) sys, unit) go" where
  "rba_updateObjectStatus pf aggregate condition =
     bnd (modify (\<lambda>s. s\<lparr>captured := rbast_Conditions (rba_Status (rbag_Action aggregate))\<rparr>)) (\<lambda>_.
     bnd (pf_retry pf (rba_status_attempt pf aggregate condition)) (\<lambda>updateErr.
     case updateErr of
       None \<Rightarrow> ret ()
     | Some e \<Rightarrow> emit_event (rba_obj_name aggregate) ''Warning'' ''ErrorOccurred''
                   (''Cannot update .status field: '' @ err_text e)))"

section \<open>Reconcile\<close>

definition rba_apply_failed ::
  "('w, 'l) platform \<Rightarrow> rba_aggregate \<Rightarrow> goerr \<Rightarrow> (('w, 'l) sys, result \<times> goerr option) go" where
  "rba_apply_failed pf aggregate applyErr =
     bnd (rba_updateObjectStatus pf aggregate
            (new_condition ''False'' (''Cannot find required dependencies: '' @ err_text applyErr))) (\<lambda>_.
     bnd (emit_event (rba_obj_name aggregate) ''Warning'' ''ErrorOccurred'' (err_text applyErr)) (\<lambda>_.
     ret (requeue_after (time_Second * 30), Some (Wrapped_error ''cannot ApplyObjects()'' applyErr))))"

definition rba_apply_succeeded ::
  "('w, 'l) platform \<Rightarrow> rba_aggregate \<Rightarrow> (('w, 'l) sys, result \<times> goerr option) go" where
  "rba_apply_succeeded pf aggregate =
     (let aggregate = MarkAsProcessed aggregate in
      bnd (rba_updateObjectStatus pf aggregate (new_condition ''True'' ''Successfully templated and applied'')) (\<lambda>_.
      bnd (emit_event (rba_obj_name aggregate) ''Normal'' ''Updated'' ''Successfully reconciled'') (\<lambda>_.
      ret (no_requeue, None))))"

definition rba_process ::
  "('w, 'l) platform \<Rightarrow> rba_aggregate \<Rightarrow> (('w, 'l) sys, result \<times> goerr option) go" where
  "rba_process pf aggregate =
     (if WasAlreadyProcessed aggregate then
        bnd (emit_event (rba_obj_name aggregate) ''Normal'' ''Unchanged''
               ''Successfully reconciled, action already performed, cannot do it once more'') (\<lambda>_.
        ret (no_requeue, None))
      else
        bnd (ApplyObjects pf (Rba_renderable aggregate)) (\<lambda>(applyErr, r).
        case applyErr of
          Some e \<Rightarrow> rba_apply_failed pf (rba_of aggregate r) e
        | None \<Rightarrow> rba_apply_succeeded pf (rba_of aggregate r)))"

definition rba_reconcile_body ::
  "('w, 'l) platform \<Rightarrow> request \<Rightarrow> (('w, 'l) sys, result \<times> goerr option) go" where
  "rba_reconcile_body pf req =
     bnd (FetchRBAAggregate pf req) (\<lambda>r.
     case r of
       Inl (ctrlResult, e) \<Rightarrow> ret (ctrlResult, Some e)
     | Inr aggregate \<Rightarrow> rba_process pf aggregate)"

definition rba_Reconcile ::
  "('w, 'l) platform \<Rightarrow> 'l locker \<Rightarrow> request \<Rightarrow> (('w, 'l) sys, result \<times> goerr option) go" where
  "rba_Reconcile pf lk req = with_lock lk req (rba_reconcile_body pf req)"

section \<open>The observer of the jobs\<close>

fun any_running :: "job_health list \<Rightarrow> bool" where
  "any_running [] = False"
| "any_running (h # hs) = (if jh_Running h then True else any_running hs)"

definition rba_observer_attempt ::
  "('w, 'l) platform \<Rightarrow> rba_aggregate \<Rightarrow> job_health list \<Rightarrow> bool \<Rightarrow> (('w, 'l) sys, goerr option) go" where
  "rba_observer_attempt pf aggregate report healthy =
     bnd (call (rba_Get (pf_rba pf) (rba_obj_namespace aggregate) (rba_obj_name aggregate) [])) (\<lambda>r.
     case r of
       Inl getErr \<Rightarrow> ret (Some getErr)
     | Inr res \<Rightarrow>
         put_rba_status pf (rba_obj_namespace aggregate)
           (res\<lparr>rba_Status := (rba_Status (rbag_Action aggregate))
              \<lparr>rbast_ChildrenResourcesHealth := report, rbast_Healthy := healthy\<rparr>\<rparr>))"

definition rba_updateStatus ::
  "('w, 'l) platform \<Rightarrow> rba_aggregate \<Rightarrow> job_health list \<Rightarrow> bool \<Rightarrow> (('w, 'l) sys, unit) go" where
  "rba_updateStatus pf aggregate report healthy =
     bnd (pf_retry pf (rba_observer_attempt pf aggregate report healthy)) (\<lambda>_. ret ())"

text \<open>The error of the report is not looked at.\<close>

definition rba_observer_body ::
  "('w, 'l) platform \<Rightarrow> request \<Rightarrow> (('w, 'l) sys, result \<times> goerr option) go" where
  "rba_observer_body pf req =
     bnd (FetchRBAAggregate pf req) (\<lambda>r.
     case r of
       Inl (_, e) \<Rightarrow>
         ret (no_requeue, Some (Wrapped_error ''cannot fetch RequestedBackupAction from cache'' e))
     | Inr aggregate \<Rightarrow>
         bnd (createOwnedReferencesHealthReport (NewAllSupportedJobResourceTypes pf)
                (rbag_GetReferencesOfOwnedObjects aggregate) (req_Namespace req)) (\<lambda>(report, healthy, err).
         if any_running report then ret (requeue_after (time_Second * 10), None)
         else bnd (rba_updateStatus pf aggregate report healthy) (\<lambda>_. ret (no_requeue, None))))"

definition rba_observer_Reconcile ::
  "('w, 'l) platform \<Rightarrow> 'l locker \<Rightarrow> request \<Rightarrow> (('w, 'l) sys, result \<times> goerr option) go" where
  "rba_observer_Reconcile pf lk req = with_lock lk req (rba_observer_body pf req)"

section \<open>Frame: the lock\<close>

lemma same_locks_put_status: "keeps same_locks (put_rba_status pf ns a)" "keeps same_locks (put_sb_status pf ns b)"
  unfolding put_rba_status_def put_sb_status_def by (intro lock_rules)+

lemma same_locks_captured: "keeps same_locks (modify (\<lambda>s. s\<lparr>captured := c\<rparr>))"
  by (rule keepsI) (simp add: same_locks_def go_simps)

lemma same_locks_captured_fun: "keeps same_locks (modify (\<lambda>s. s\<lparr>captured := f s\<rparr>))"
  by (rule keepsI) (simp add: same_locks_def go_simps)

lemma same_locks_rba_update:
  "retry_ok pf \<Longrightarrow> keeps same_locks (rba_updateObjectStatus pf a c)"
  "retry_ok pf \<Longrightarrow> keeps same_locks (rba_updateStatus pf a rep h)"
  unfolding rba_updateObjectStatus_def rba_status_attempt_def rba_updateStatus_def
    rba_observer_attempt_def Let_def
  by (intro lock_rules same_locks_retry same_locks_put_status same_locks_captured; assumption)+

lemma same_locks_rba_process: "retry_ok pf \<Longrightarrow> keeps same_locks (rba_process pf a)"
  unfolding rba_process_def rba_apply_failed_def rba_apply_succeeded_def Let_def
  by (intro lock_rules same_locks_ApplyObjects same_locks_rba_update)

lemma same_locks_rba_body: "retry_ok pf \<Longrightarrow> keeps same_locks (rba_reconcile_body pf req)"
  unfolding rba_reconcile_body_def
  by (intro lock_rules same_locks_fetch same_locks_rba_process)

lemma same_locks_rba_observer: "retry_ok pf \<Longrightarrow> keeps same_locks (rba_observer_body pf req)"
  unfolding rba_observer_body_def
  by (intro lock_rules same_locks_fetch same_locks_report same_locks_rba_update)

section \<open>What the status updates put\<close>

text \<open>
  An update for a condition: events, and statuses that carry the aggregate's processed flag
  and references; healthy is off unless the condition holds.
\<close>

fun rba_update_action :: "rba_aggregate \<Rightarrow> condition \<Rightarrow> action \<Rightarrow> bool" where
  "rba_update_action a c (Event_emitted n t r m) = True"
| "rba_update_action a c (Rba_status_put ns x ok) =
     (let old = rba_Status (rbag_Action a); new = rba_Status x in
      ns = rba_obj_namespace a \<and>
      rbast_Processed new = rbast_Processed old \<and>
      rbast_OwnedReferences new = rbast_OwnedReferences old \<and>
      rbast_ChildrenResourcesHealth new = rbast_ChildrenResourcesHealth old \<and>
      rbast_Healthy new = (rbast_Healthy old \<and> strings_ToLower (cond_Status c) = ''true''))"
| "rba_update_action a c act = False"

lemma only_does_captured: "keeps (only_does Q) (modify (\<lambda>s. s\<lparr>captured := f s\<rparr>))"
  by (rule keepsI) (simp add: only_does_def go_simps)

lemma only_does_put_rba:
  "(\<And>ok. Q (Rba_status_put ns a ok)) \<Longrightarrow> keeps (only_does Q) (put_rba_status pf ns a)"
  unfolding put_rba_status_def by (intro act_rules; simp)

lemma installation_status [simp]: "cond_Status (installation_condition c m) = cond_Status c"
  by (simp add: installation_condition_def)

lemma only_does_rba_update:
  assumes "retry_ok pf"
  shows "keeps (only_does (rba_update_action a c)) (rba_updateObjectStatus pf a c)"
  unfolding rba_updateObjectStatus_def rba_status_attempt_def Let_def
  by (intro act_rules only_does_retry[OF assms] only_does_put_rba only_does_captured) (auto simp: Let_def)

text \<open>The observer puts the report, and touches neither the flag nor the references.\<close>

fun rba_report_action :: "rba_aggregate \<Rightarrow> job_health list \<Rightarrow> bool \<Rightarrow> action \<Rightarrow> bool" where
  "rba_report_action a report healthy (Rba_status_put ns x ok) =
     (ns = rba_obj_namespace a \<and>
      rba_Status x = (rba_Status (rbag_Action a))\<lparr>rbast_ChildrenResourcesHealth := report, rbast_Healthy := healthy\<rparr>)"
| "rba_report_action a report healthy act = False"

lemma only_does_rba_report:
  assumes "retry_ok pf"
  shows "keeps (only_does (rba_report_action a report healthy)) (rba_updateStatus pf a report healthy)"
  unfolding rba_updateStatus_def rba_observer_attempt_def
  by (intro act_rules only_does_retry[OF assms] only_does_put_rba) simp

lemma any_running_iff: "any_running hs = list_ex jh_Running hs"
  by (induction hs) auto

section \<open>What a reconciliation does\<close>

lemma rba_process_done:
  "WasAlreadyProcessed a \<Longrightarrow> rba_process pf a s =
     (Return (no_requeue, None),
      s\<lparr>trace := trace s @ [Event_emitted (rba_obj_name a) ''Normal'' ''Unchanged''
           ''Successfully reconciled, action already performed, cannot do it once more'']\<rparr>)"
  by (simp add: rba_process_def go_simps)

lemma rba_apply_failed_spec:
  assumes "retry_ok pf" and "rba_apply_failed pf a e s = (Return x, t)"
  shows "x = (requeue_after (time_Second * 30), Some (Wrapped_error ''cannot ApplyObjects()'' e)) \<and>
     only_does (rba_update_action a (new_condition ''False'' (''Cannot find required dependencies: '' @ err_text e))) s t"
proof -
  let ?c = "new_condition ''False'' (''Cannot find required dependencies: '' @ err_text e)"
  have "keeps (only_does (rba_update_action a ?c)) (rba_apply_failed pf a e)"
    unfolding rba_apply_failed_def by (intro act_rules only_does_rba_update[OF assms(1)]) simp
  from keepsD[OF this assms(2)] assms(2) show ?thesis
    by (auto simp: rba_apply_failed_def bnd_eq_Return go_simps)
qed

lemma rba_apply_succeeded_spec:
  assumes "retry_ok pf" and "rba_apply_succeeded pf a s = (Return x, t)"
  shows "x = (no_requeue, None) \<and>
     only_does (rba_update_action (MarkAsProcessed a) (new_condition ''True'' ''Successfully templated and applied'')) s t"
proof -
  let ?c = "new_condition ''True'' ''Successfully templated and applied''"
  have "keeps (only_does (rba_update_action (MarkAsProcessed a) ?c)) (rba_apply_succeeded pf a)"
    unfolding rba_apply_succeeded_def Let_def by (intro act_rules only_does_rba_update[OF assms(1)]) simp
  from keepsD[OF this assms(2)] assms(2) show ?thesis
    by (auto simp: rba_apply_succeeded_def Let_def bnd_eq_Return go_simps)
qed

text \<open>
  An action that was not processed: its objects are applied, and then the statuses put carry
  the flag exactly when that succeeded, with the references of everything that was applied.
\<close>

lemma rba_process_spec:
  assumes acc: "accessors_ok pf" and retry: "retry_ok pf" and new: "\<not> WasAlreadyProcessed a"
    and run: "rba_process pf a s = (Return x, t)"
  obtains err ws u where "applies ws s u" and "only_does is_object_action s u"
    and "list_all (well_applied pf (Rba_renderable a)) ws" and "err = None \<Longrightarrow> ws \<noteq> []"
    and "x = (case err of None \<Rightarrow> (no_requeue, None)
      | Some e \<Rightarrow> (requeue_after (time_Second * 30), Some (Wrapped_error ''cannot ApplyObjects()'' e)))"
    and "only_does (\<lambda>act. \<not> is_secret_write act \<and> (is_object_action act \<longrightarrow> applied_objects [act] = []) \<and>
       (\<forall>ns y ok. act = Rba_status_put ns y ok \<longrightarrow>
          rbast_Processed (rba_Status y) = (err = None) \<and> (err \<noteq> None \<longrightarrow> \<not> rbast_Healthy (rba_Status y)) \<and>
          rbast_OwnedReferences (rba_Status y) =
            rbast_OwnedReferences (rba_Status (rbag_Action a)) @ map (reference_to pf) ws)) u t"
proof -
  from run new obtain err r u where ap: "ApplyObjects pf (Rba_renderable a) s = (Return (err, r), u)"
    and rest: "(case err of Some e \<Rightarrow> rba_apply_failed pf (rba_of a r) e
        | None \<Rightarrow> rba_apply_succeeded pf (rba_of a r)) u = (Return x, t)"
    by (auto simp: rba_process_def bnd_eq_Return)
  from ApplyObjects_spec[OF acc ap] obtain ws where ws: "applies ws s u"
    "list_all (well_applied pf (Rba_renderable a)) ws" "err = None \<longrightarrow> ws \<noteq> []"
    "owned_references r = owned_references (Rba_renderable a) @ map (reference_to pf) ws" by blast
  have obj: "only_does is_object_action s u" by (rule keepsD[OF only_does_ApplyObjects ap])
  from yieldsD[OF yields_ApplyObjects ap] obtain a' where a': "r = Rba_renderable a'"
    and st: "(rba_Status (rbag_Action a'))\<lparr>rbast_OwnedReferences := []\<rparr> =
       (rba_Status (rbag_Action a))\<lparr>rbast_OwnedReferences := []\<rparr>"
    using without_refs_rba[of r a] by auto
  have proc: "rbast_Processed (rba_Status (rbag_Action a')) = rbast_Processed (rba_Status (rbag_Action a))"
    using arg_cong[OF st, of rbast_Processed] by simp
  have refs: "rbast_OwnedReferences (rba_Status (rbag_Action a')) =
      rbast_OwnedReferences (rba_Status (rbag_Action a)) @ map (reference_to pf) ws"
    using ws(4) a' by simp
  show thesis
  proof (cases err)
    case None
    with rest a' have "rba_apply_succeeded pf a' u = (Return x, t)" by (simp add: rba_of_def)
    from rba_apply_succeeded_spec[OF retry this] have x: "x = (no_requeue, None)"
      and od: "only_does (rba_update_action (MarkAsProcessed a')
         (new_condition ''True'' ''Successfully templated and applied'')) u t" by auto
    from od obtain as where "trace t = trace u @ as"
      "list_all (rba_update_action (MarkAsProcessed a')
         (new_condition ''True'' ''Successfully templated and applied'')) as"
      by (auto simp: only_does_def)
    then show thesis using None refs x
      by (intro that[OF ws(1) obj ws(2)])
         (auto simp: only_does_def list_all_iff MarkAsProcessed_def Let_def ws(3)
           elim!: rba_update_action.elims)
  next
    case (Some e)
    with rest a' have "rba_apply_failed pf a' e u = (Return x, t)" by (simp add: rba_of_def)
    from rba_apply_failed_spec[OF retry this] have x: "x = (requeue_after (time_Second * 30),
        Some (Wrapped_error ''cannot ApplyObjects()'' e))"
      and od: "only_does (rba_update_action a'
         (new_condition ''False'' (''Cannot find required dependencies: '' @ err_text e))) u t" by auto
    from od obtain as where "trace t = trace u @ as"
      "list_all (rba_update_action a'
         (new_condition ''False'' (''Cannot find required dependencies: '' @ err_text e))) as"
      by (auto simp: only_does_def)
    moreover have "strings_ToLower ''False'' \<noteq> ''true''"
      by (simp add: strings_ToLower_def ascii_lower_def)
    ultimately show thesis using Some refs x proc new
      by (intro that[OF ws(1) obj ws(2)])
         (auto simp: only_does_def list_all_iff Let_def WasAlreadyProcessed_def new_condition_def
           elim!: rba_update_action.elims)
  qed
qed

text \<open>
  The whole body, as the actions it adds: secrets while hydrating, then objects, then
  statuses (and events) that say how applying went.
\<close>

definition rba_verdict :: "child_reference list \<Rightarrow> bool \<Rightarrow> action \<Rightarrow> bool" where
  "rba_verdict refs success act \<longleftrightarrow>
     \<not> is_secret_write act \<and> applied_objects [act] = [] \<and>
     (\<forall>ns y ok. act = Rba_status_put ns y ok \<longrightarrow>
        rbast_Processed (rba_Status y) = success \<and> (\<not> success \<longrightarrow> \<not> rbast_Healthy (rba_Status y)) \<and>
        rbast_OwnedReferences (rba_Status y) = refs)"

lemma applied_objects_verdict: "list_all (rba_verdict refs b) as \<Longrightarrow> applied_objects as = []"
proof (induction as)
  case (Cons a as)
  then show ?case using applied_objects_append[of "[a]" as] by (simp add: rba_verdict_def)
qed simp

lemma rba_body_actions:
  assumes acc: "accessors_ok pf" and retry: "retry_ok pf"
    and run: "rba_reconcile_body pf req s = (Return x, t)"
  obtains (idle) "only_does (\<lambda>a. is_secret_write a \<or> (\<exists>n ty r m. a = Event_emitted n ty r m)) s t"
  | (worked) ag err as1 as2 as3 where "trace t = trace s @ as1 @ as2 @ as3"
      and "list_all is_secret_write as1" and "list_all is_object_action as2"
      and "list_all (well_applied pf (Rba_renderable ag)) (applied_objects as2)"
      and "err = None \<Longrightarrow> applied_objects as2 \<noteq> []"
      and "x = (case err of None \<Rightarrow> (no_requeue, None)
        | Some e \<Rightarrow> (requeue_after (time_Second * 30), Some (Wrapped_error ''cannot ApplyObjects()'' e)))"
      and "list_all (rba_verdict (rbast_OwnedReferences (rba_Status (rbag_Action ag)) @
             map (reference_to pf) (applied_objects as2)) (err = None)) as3"
proof -
  from run obtain r s1 where fetch: "FetchRBAAggregate pf req s = (Return r, s1)"
    and rest: "(case r of Inl (ctrlResult, e) \<Rightarrow> ret (ctrlResult, Some e)
       | Inr aggregate \<Rightarrow> rba_process pf aggregate) s1 = (Return x, t)"
    by (auto simp: rba_reconcile_body_def bnd_eq_Return)
  from keepsD[OF only_does_fetch(3) fetch] obtain as1
    where as1: "trace s1 = trace s @ as1" "list_all is_secret_write as1" by (auto simp: only_does_def)
  show thesis
  proof (cases "\<exists>ag. r = Inr ag \<and> \<not> WasAlreadyProcessed ag")
    case False
    with rest as1 show thesis
      by (intro idle, cases r)
         (auto simp: only_does_def go_simps rba_process_done list_all_iff split: prod.split_asm)
  next
    case True
    then obtain ag where r: "r = Inr ag" and new: "\<not> WasAlreadyProcessed ag" by blast
    with rest have "rba_process pf ag s1 = (Return x, t)" by simp
    then show thesis
    proof (rule rba_process_spec[OF acc retry new])
      fix err ws u
      assume ws: "applies ws s1 u" "only_does is_object_action s1 u"
        "list_all (well_applied pf (Rba_renderable ag)) ws" "err = None \<Longrightarrow> ws \<noteq> []"
        and x: "x = (case err of None \<Rightarrow> (no_requeue, None)
        | Some e \<Rightarrow> (requeue_after (time_Second * 30), Some (Wrapped_error ''cannot ApplyObjects()'' e)))"
        and fin: "only_does (\<lambda>act. \<not> is_secret_write act \<and> (is_object_action act \<longrightarrow> applied_objects [act] = []) \<and>
          (\<forall>ns y ok. act = Rba_status_put ns y ok \<longrightarrow>
          rbast_Processed (rba_Status y) = (err = None) \<and> (err \<noteq> None \<longrightarrow> \<not> rbast_Healthy (rba_Status y)) \<and>
          rbast_OwnedReferences (rba_Status y) =
            rbast_OwnedReferences (rba_Status (rbag_Action ag)) @ map (reference_to pf) ws)) u t"
      from ws(1,2) obtain as2 where as2: "trace u = trace s1 @ as2" "applied_objects as2 = ws"
        "list_all is_object_action as2" by (auto simp: applies_def only_does_def)
      have none: "\<not> is_object_action act \<Longrightarrow> applied_objects [act] = []" for act by (cases act) auto
      from fin none obtain as3 where "trace t = trace u @ as3"
        "list_all (rba_verdict (rbast_OwnedReferences (rba_Status (rbag_Action ag)) @
             map (reference_to pf) ws) (err = None)) as3"
        by (fastforce simp: only_does_def rba_verdict_def list_all_iff)
      with as1 as2 ws x show thesis by (intro worked[of as1 as2 as3 ag err]) auto
    qed
  qed
qed

end
