(* ===== verification/Sb_Controller.thy ===== *)
theory Sb_Controller
  imports Reconciling
begin

text \<open>
  The controller of ScheduledBackup: \<^verbatim>\<open>scheduledbackup_controller.go\<close>, the check
  \<^verbatim>\<open>IsBeingReconciledAlready\<close> of \<^verbatim>\<open>scheduledbackup_types.go\<close> and the observer of the jobs,
  \<^verbatim>\<open>scheduledbackup_jobs_observer.go\<close>.
\<close>

section \<open>IsBeingReconciledAlready\<close>

text \<open>
  Times are nanoseconds. \<^verbatim>\<open>time.Sub\<close> saturates at 292 years and \<^verbatim>\<open>Seconds()\<close> is a float;
  neither changes the comparison with 60 seconds.
\<close>

fun recent_unknown :: "('w, 'l) platform \<Rightarrow> condition list \<Rightarrow> (('w, 'l) sys, bool) go" where
  "recent_unknown pf [] = ret False"
| "recent_unknown pf (c # cs) =
     bnd (call (pf_now pf)) (\<lambda>now.
     let timeDiff = now - cond_LastTransitionTime c in
     if timeDiff < 60 * time_Second \<and> cond_Status c = ''Unknown'' then ret True
     else recent_unknown pf cs)"

definition IsBeingReconciledAlready ::
  "('w, 'l) platform \<Rightarrow> scheduled_backup \<Rightarrow> (('w, 'l) sys, bool) go" where
  "IsBeingReconciledAlready pf b = recent_unknown pf (sbst_Conditions (sb_Status b))"

section \<open>updateObject\<close>

definition sb_obj_name :: "sb_aggregate \<Rightarrow> string" where
  "sb_obj_name a = om_Name (sb_Meta (sba_Backup a))"

definition sb_obj_namespace :: "sb_aggregate \<Rightarrow> string" where
  "sb_obj_namespace a = om_Namespace (sb_Meta (sba_Backup a))"

text \<open>The function that is retried: the status of a fresh object is changed, not the aggregate's.\<close>

definition sb_status_attempt ::
  "('w, 'l) platform \<Rightarrow> sb_aggregate \<Rightarrow> condition \<Rightarrow> (('w, 'l) sys, goerr option) go" where
  "sb_status_attempt pf aggregate condition =
     bnd (call (sb_Get (pf_sb pf) (sb_obj_namespace aggregate) (sb_obj_name aggregate) [])) (\<lambda>r.
     case r of
       Inl getErr \<Rightarrow> ret (Some getErr)
     | Inr res \<Rightarrow>
         (let cond = condition\<lparr>cond_Reason := ''SpecWasUpdated'', cond_Type := ''BackupObjectsInstallation'',
                cond_ObservedGeneration := om_Generation (sb_Meta res)\<rparr>;
              st = sb_Status res;
              st = (if cond_Status cond = ''True''
                    then st\<lparr>sbst_LastAppliedSpecHash := CalculateHash (sb_Spec (sba_Backup aggregate))\<rparr>
                    else st) in
          bnd (call (\<lambda>w. pf_set_condition pf w (sbst_Conditions st) cond)) (\<lambda>(new, old).
          put_sb_status pf (sb_obj_namespace aggregate) (res\<lparr>sb_Status := st\<lparr>sbst_Conditions := new\<rparr>\<rparr>))))"

definition sb_updateObject ::
  "('w, 'l) platform \<Rightarrow> sb_aggregate \<Rightarrow> condition \<Rightarrow> (('w, 'l) sys, unit) go" where
  "sb_updateObject pf aggregate condition =
     bnd (pf_retry pf (sb_status_attempt pf aggregate condition)) (\<lambda>updateErr.
     case updateErr of
       None \<Rightarrow> ret ()
     | Some e \<Rightarrow> emit_event (sb_obj_name aggregate) ''Warning'' ''ErrorOccurred''
                   (''Cannot update .status field: '' @ err_text e))"

section \<open>Reconcile\<close>

definition sb_hydrate_failed ::
  "('w, 'l) platform \<Rightarrow> scheduled_backup \<Rightarrow> sb_aggregate \<Rightarrow> goerr option \<Rightarrow> goerr \<Rightarrow> goerr option \<Rightarrow>
     (('w, 'l) sys, result \<times> goerr option) go" where
  "sb_hydrate_failed pf backup aggregate controllerAction hydrateErr err =
     bnd (sb_updateObject pf aggregate
            (new_condition ''False'' (''Cannot find required dependencies: '' @ err_text hydrateErr))) (\<lambda>_.
     bnd (emit_event (om_Name (sb_Meta backup)) ''Warning'' ''ErrorOccurred'' (err_text hydrateErr)) (\<lambda>_.
     if controllerAction = Some ErrorActionRequeue
     then ret (requeue_after (time_Second * 5), None)
     else ret (requeue_after (time_Minute * 15), err)))"

definition sb_apply_failed ::
  "('w, 'l) platform \<Rightarrow> scheduled_backup \<Rightarrow> sb_aggregate \<Rightarrow> goerr \<Rightarrow>
     (('w, 'l) sys, result \<times> goerr option) go" where
  "sb_apply_failed pf backup aggregate applyErr =
     bnd (sb_updateObject pf aggregate
            (new_condition ''False'' (''Cannot template or apply objects to the cluster: '' @ err_text applyErr))) (\<lambda>_.
     bnd (emit_event (om_Name (sb_Meta backup)) ''Warning'' ''ErrorOccurred'' (err_text applyErr)) (\<lambda>_.
     ret (requeue_after (time_Minute * 1), None)))"

definition sb_apply_succeeded ::
  "('w, 'l) platform \<Rightarrow> scheduled_backup \<Rightarrow> sb_aggregate \<Rightarrow> (('w, 'l) sys, result \<times> goerr option) go" where
  "sb_apply_succeeded pf backup aggregate =
     bnd (sb_updateObject pf aggregate
            (new_condition ''True'' ''Successfully templated and applied objects to the cluster'')) (\<lambda>_.
     bnd (emit_event (om_Name (sb_Meta backup)) ''Normal'' ''Updated''
            (''Successfully reconciled '' @ [CHR 0x27] @ om_Name (sb_Meta backup) @ [CHR 0x27] @ '' from '' @
             [CHR 0x27] @ om_Namespace (sb_Meta backup) @ [CHR 0x27] @ '' namespace'')) (\<lambda>_.
     ret (no_requeue, None)))"

definition sb_process ::
  "('w, 'l) platform \<Rightarrow> scheduled_backup \<Rightarrow> goerr option \<Rightarrow> (('w, 'l) sys, result \<times> goerr option) go" where
  "sb_process pf backup err =
     bnd (CreateScheduledBackupAggregate pf backup []) (\<lambda>(aggregate, controllerAction, hydrateErr).
     bnd (sb_updateObject pf aggregate (new_condition ''Unknown''
            (''Reconciling to template and push target objects to the cluster '' @
             ''(Jobs/CronJobs and related things)''))) (\<lambda>_.
     case hydrateErr of
       Some e \<Rightarrow> sb_hydrate_failed pf backup aggregate controllerAction e err
     | None \<Rightarrow>
         bnd (ApplyObjects pf (Sb_renderable aggregate)) (\<lambda>(applyErr, r).
         case applyErr of
           Some e \<Rightarrow> sb_apply_failed pf backup (GetBackupAggregate r) e
         | None \<Rightarrow> sb_apply_succeeded pf backup (GetBackupAggregate r))))"

definition sb_reconcile_body ::
  "('w, 'l) platform \<Rightarrow> request \<Rightarrow> (('w, 'l) sys, result \<times> goerr option) go" where
  "sb_reconcile_body pf req =
     bnd (FetchScheduledBackup pf req) (\<lambda>(backup, err).
     case err of
       Some e \<Rightarrow> ret (no_requeue, Some e)
     | None \<Rightarrow>
         bnd (if HasSpecChanged backup
              then bnd (IsBeingReconciledAlready pf backup) (\<lambda>b. ret (\<not> b))
              else ret False) (\<lambda>changed.
         if changed then sb_process pf backup err else ret (no_requeue, None)))"

definition sb_Reconcile ::
  "('w, 'l) platform \<Rightarrow> 'l locker \<Rightarrow> request \<Rightarrow> (('w, 'l) sys, result \<times> goerr option) go" where
  "sb_Reconcile pf lk req = with_lock lk req (sb_reconcile_body pf req)"

section \<open>The observer of the jobs\<close>

fun report_running :: "job_health list \<Rightarrow> bool" where
  "report_running [] = False"
| "report_running (h # hs) = (if jh_Running h then True else report_running hs)"

definition sb_observer_attempt ::
  "('w, 'l) platform \<Rightarrow> sb_aggregate \<Rightarrow> job_health list \<Rightarrow> bool \<Rightarrow> (('w, 'l) sys, goerr option) go" where
  "sb_observer_attempt pf aggregate report healthy =
     bnd (call (sb_Get (pf_sb pf) (sb_obj_namespace aggregate) (sb_obj_name aggregate) [])) (\<lambda>r.
     case r of
       Inl getErr \<Rightarrow> ret (Some getErr)
     | Inr res \<Rightarrow>
         put_sb_status pf (sb_obj_namespace aggregate)
           (res\<lparr>sb_Status := (sb_Status (sba_Backup aggregate))
              \<lparr>sbst_ChildrenResourcesHealth := report, sbst_Healthy := healthy\<rparr>\<rparr>))"

definition sb_updateStatus ::
  "('w, 'l) platform \<Rightarrow> sb_aggregate \<Rightarrow> job_health list \<Rightarrow> bool \<Rightarrow> (('w, 'l) sys, unit) go" where
  "sb_updateStatus pf aggregate report healthy =
     bnd (pf_retry pf (sb_observer_attempt pf aggregate report healthy)) (\<lambda>_. ret ())"

text \<open>The error of the report is not looked at.\<close>

definition sb_observer_body ::
  "('w, 'l) platform \<Rightarrow> request \<Rightarrow> (('w, 'l) sys, result \<times> goerr option) go" where
  "sb_observer_body pf req =
     bnd (FetchSBAggregate pf req) (\<lambda>r.
     case r of
       Inl e \<Rightarrow> ret (no_requeue, Some (Wrapped_error ''cannot fetch ScheduledBackup from cache'' e))
     | Inr aggregate \<Rightarrow>
         bnd (createOwnedReferencesHealthReport (NewAllSupportedJobResourceTypes pf)
                (sba_GetReferencesOfOwnedObjects aggregate) (req_Namespace req)) (\<lambda>(report, healthy, err).
         if report_running report then ret (requeue_after (time_Second * 10), None)
         else bnd (sb_updateStatus pf aggregate report healthy) (\<lambda>_. ret (no_requeue, None))))"

definition sb_observer_Reconcile ::
  "('w, 'l) platform \<Rightarrow> 'l locker \<Rightarrow> request \<Rightarrow> (('w, 'l) sys, result \<times> goerr option) go" where
  "sb_observer_Reconcile pf lk req = with_lock lk req (sb_observer_body pf req)"

section \<open>Frame: the lock\<close>

lemma same_locks_put_sb: "keeps same_locks (put_sb_status pf ns b)"
  unfolding put_sb_status_def by (intro lock_rules)

lemma same_locks_sb_update:
  "retry_ok pf \<Longrightarrow> keeps same_locks (sb_updateObject pf a c)"
  "retry_ok pf \<Longrightarrow> keeps same_locks (sb_updateStatus pf a rep h)"
  unfolding sb_updateObject_def sb_status_attempt_def sb_updateStatus_def sb_observer_attempt_def Let_def
  by (intro lock_rules same_locks_retry same_locks_put_sb; assumption)+

lemma same_locks_recent_unknown: "keeps same_locks (recent_unknown pf cs)"
  by (induction cs) (auto intro!: lock_rules simp: Let_def)

lemma same_locks_sb_process: "retry_ok pf \<Longrightarrow> keeps same_locks (sb_process pf b err)"
  unfolding sb_process_def sb_hydrate_failed_def sb_apply_failed_def sb_apply_succeeded_def
  by (intro lock_rules same_locks_sb_aggregate same_locks_ApplyObjects same_locks_sb_update)

lemma same_locks_sb_body: "retry_ok pf \<Longrightarrow> keeps same_locks (sb_reconcile_body pf req)"
  unfolding sb_reconcile_body_def IsBeingReconciledAlready_def
  by (intro lock_rules same_locks_fetch same_locks_recent_unknown same_locks_sb_process)

lemma same_locks_sb_observer: "retry_ok pf \<Longrightarrow> keeps same_locks (sb_observer_body pf req)"
  unfolding sb_observer_body_def
  by (intro lock_rules same_locks_fetch same_locks_report same_locks_sb_update)

section \<open>What the status updates put\<close>

text \<open>
  \<open>stored pf b\<close>: the client can return this object. Every status put is the one of such an
  object, with other conditions, and with another hash only for a condition that is true.
\<close>

definition stored :: "('w, 'l) platform \<Rightarrow> scheduled_backup \<Rightarrow> bool" where
  "stored pf b \<longleftrightarrow> (\<exists>w ns n. fst (sb_Get (pf_sb pf) ns n [] w) = Inr b)"

fun sb_update_action :: "('w, 'l) platform \<Rightarrow> sb_aggregate \<Rightarrow> condition \<Rightarrow> action \<Rightarrow> bool" where
  "sb_update_action pf a c (Event_emitted n t r m) = True"
| "sb_update_action pf a c (Sb_status_put ns x ok) =
     (ns = sb_obj_namespace a \<and>
      (\<exists>b cs. stored pf b \<and>
         x = b\<lparr>sb_Status := (sb_Status b)\<lparr>sbst_Conditions := cs, sbst_LastAppliedSpecHash :=
           (if cond_Status c = ''True'' then CalculateHash (sb_Spec (sba_Backup a))
            else sbst_LastAppliedSpecHash (sb_Status b))\<rparr>\<rparr>))"
| "sb_update_action pf a c act = False"

lemma only_does_put_sb:
  "(\<And>ok. Q (Sb_status_put ns b ok)) \<Longrightarrow> keeps (only_does Q) (put_sb_status pf ns b)"
  unfolding put_sb_status_def by (intro act_rules; simp)

lemma only_does_sb_attempt: "keeps (only_does (sb_update_action pf a c)) (sb_status_attempt pf a c)"
proof (rule keepsI)
  fix s :: "('a, 'b) sys"
  obtain r w where g: "sb_Get (pf_sb pf) (sb_obj_namespace a) (sb_obj_name a) [] (world s) = (r, w)" by fastforce
  show "only_does (sb_update_action pf a c) s (snd (sb_status_attempt pf a c s))"
  proof (cases r)
    case (Inl e)
    with g show ?thesis by (simp add: sb_status_attempt_def bnd_call go_simps only_does_def)
  next
    case (Inr b)
    with g have b: "stored pf b" by (metis fst_conv stored_def)
    define st where "st = (if cond_Status c = ''True''
      then (sb_Status b)\<lparr>sbst_LastAppliedSpecHash := CalculateHash (sb_Spec (sba_Backup a))\<rparr> else sb_Status b)"
    obtain new old w2 where n: "pf_set_condition pf w (sbst_Conditions st)
        (c\<lparr>cond_Reason := ''SpecWasUpdated'', cond_Type := ''BackupObjectsInstallation'',
           cond_ObservedGeneration := om_Generation (sb_Meta b)\<rparr>) = ((new, old), w2)"
      by (metis prod.collapse)
    let ?x = "b\<lparr>sb_Status := st\<lparr>sbst_Conditions := new\<rparr>\<rparr>"
    have "?x = b\<lparr>sb_Status := (sb_Status b)\<lparr>sbst_Conditions := new, sbst_LastAppliedSpecHash :=
           (if cond_Status c = ''True'' then CalculateHash (sb_Spec (sba_Backup a))
            else sbst_LastAppliedSpecHash (sb_Status b))\<rparr>\<rparr>"
      by (simp add: st_def)
    with b have q: "sb_update_action pf a c (Sb_status_put (sb_obj_namespace a) ?x ok)" for ok
      unfolding sb_update_action.simps by blast
    have "snd (sb_status_attempt pf a c s) = snd (put_sb_status pf (sb_obj_namespace a) ?x (s\<lparr>world := w2\<rparr>))"
      using g Inr n by (simp add: sb_status_attempt_def bnd_call Let_def st_def split: if_split_asm)
    moreover have "only_does (sb_update_action pf a c) (s\<lparr>world := w2\<rparr>)
        (snd (put_sb_status pf (sb_obj_namespace a) ?x (s\<lparr>world := w2\<rparr>)))"
      using only_does_put_sb[of "sb_update_action pf a c" "sb_obj_namespace a" ?x pf, OF q]
      unfolding keeps_def by blast
    ultimately show ?thesis by (simp add: only_does_def)
  qed
qed

lemma only_does_sb_update:
  "retry_ok pf \<Longrightarrow> keeps (only_does (sb_update_action pf a c)) (sb_updateObject pf a c)"
  unfolding sb_updateObject_def
  by (intro act_rules only_does_retry only_does_sb_attempt) auto

text \<open>The observer puts the report on the status the aggregate holds.\<close>

fun sb_report_action :: "sb_aggregate \<Rightarrow> job_health list \<Rightarrow> bool \<Rightarrow> action \<Rightarrow> bool" where
  "sb_report_action a report healthy (Sb_status_put ns x ok) =
     (ns = sb_obj_namespace a \<and>
      sb_Status x = (sb_Status (sba_Backup a))\<lparr>sbst_ChildrenResourcesHealth := report, sbst_Healthy := healthy\<rparr>)"
| "sb_report_action a report healthy act = False"

lemma only_does_sb_report:
  "retry_ok pf \<Longrightarrow> keeps (only_does (sb_report_action a report healthy)) (sb_updateStatus pf a report healthy)"
  unfolding sb_updateStatus_def sb_observer_attempt_def
  by (intro act_rules only_does_retry only_does_put_sb) auto

section \<open>What a reconciliation does\<close>

lemma only_does_recent_unknown: "keeps (only_does Q) (recent_unknown pf cs)"
  by (induction cs) (auto intro!: act_rules simp: Let_def)

text \<open>The verdict of the check when the clock can be read once for all conditions.\<close>

lemma recent_unknown_spec:
  assumes "\<And>w. fst (pf_now pf w) = now"
  shows "\<exists>s'. recent_unknown pf cs s = (Return (\<exists>c \<in> set cs.
     now - cond_LastTransitionTime c < 60 * time_Second \<and> cond_Status c = ''Unknown''), s')"
proof (induction cs arbitrary: s)
  case Nil
  then show ?case by (simp add: go_simps)
next
  case (Cons c cs)
  obtain w where w: "pf_now pf (world s) = (now, w)" using assms[of "world s"] by (metis prod.collapse)
  show ?case
  proof (cases "now - cond_LastTransitionTime c < 60 * time_Second \<and> cond_Status c = ''Unknown''")
    case True
    with w show ?thesis by (simp add: bnd_call go_simps)
  next
    case False
    with w Cons.IH[of "s\<lparr>world := w\<rparr>"] show ?thesis by (auto simp: bnd_call)
  qed
qed

text \<open>\<open>not_claimed\<close>: a status put that leaves the hash an object of the API server had.\<close>

definition keeps_hash :: "('w, 'l) platform \<Rightarrow> action \<Rightarrow> bool" where
  "keeps_hash pf act \<longleftrightarrow> (\<forall>ns x ok. act = Sb_status_put ns x ok \<longrightarrow>
     (\<exists>b. stored pf b \<and> sbst_LastAppliedSpecHash (sb_Status x) = sbst_LastAppliedSpecHash (sb_Status b)))"

text \<open>The references of every status put are those of an object of the API server.\<close>

definition keeps_references :: "('w, 'l) platform \<Rightarrow> action \<Rightarrow> bool" where
  "keeps_references pf act \<longleftrightarrow> (\<forall>ns x ok. act = Sb_status_put ns x ok \<longrightarrow>
     (\<exists>b. stored pf b \<and> sbst_OwnedReferences (sb_Status x) = sbst_OwnedReferences (sb_Status b)))"

lemma update_keeps_hash:
  "sb_update_action pf a c act \<Longrightarrow> cond_Status c \<noteq> ''True'' \<Longrightarrow> keeps_hash pf act"
  by (cases act) (auto simp: keeps_hash_def)

lemma update_keeps_references: "sb_update_action pf a c act \<Longrightarrow> keeps_references pf act"
  by (cases act) (auto simp: keeps_references_def)

lemma other_actions_keep:
  "is_secret_write act \<Longrightarrow> keeps_hash pf act" "is_object_action act \<Longrightarrow> keeps_hash pf act"
  "is_secret_write act \<Longrightarrow> keeps_references pf act" "is_object_action act \<Longrightarrow> keeps_references pf act"
  "keeps_hash pf (Event_emitted n t r m)" "keeps_references pf (Event_emitted n t r m)"
  by (cases act; simp add: keeps_hash_def keeps_references_def)+

lemma only_does_update_hash:
  "retry_ok pf \<Longrightarrow> cond_Status c \<noteq> ''True'' \<Longrightarrow> keeps (only_does (keeps_hash pf)) (sb_updateObject pf a c)"
  by (rule only_does_mono[OF only_does_sb_update]) (auto dest: update_keeps_hash)

lemma only_does_update_references:
  "retry_ok pf \<Longrightarrow> keeps (only_does (keeps_references pf)) (sb_updateObject pf a c)"
  by (rule only_does_mono[OF only_does_sb_update]) (auto dest: update_keeps_references)

lemma only_does_sb_aggregate:
  "(\<And>act. is_secret_write act \<Longrightarrow> Q act) \<Longrightarrow> keeps (only_does Q) (CreateScheduledBackupAggregate pf b op)"
  by (rule only_does_mono[OF only_does_CreateScheduledBackupAggregate]) (auto simp: hydration_action_def)

lemma only_does_apply:
  "(\<And>act. is_object_action act \<Longrightarrow> Q act) \<Longrightarrow> keeps (only_does Q) (ApplyObjects pf r)"
  by (rule only_does_mono[OF only_does_ApplyObjects]) auto

lemma new_condition_status [simp]: "cond_Status (new_condition st m) = st"
  by (simp add: new_condition_def)

lemma only_does_sb_failures:
  assumes "retry_ok pf"
  shows "keeps (only_does (keeps_hash pf)) (sb_hydrate_failed pf b a act e err)"
    and "keeps (only_does (keeps_hash pf)) (sb_apply_failed pf b a e)"
  unfolding sb_hydrate_failed_def sb_apply_failed_def
  by (intro act_rules only_does_update_hash assms other_actions_keep; simp)+

text \<open>References the controller added to its aggregate are in no status it puts.\<close>

lemma sb_process_references:
  assumes "retry_ok pf"
  shows "keeps (only_does (keeps_references pf)) (sb_process pf b err)"
  unfolding sb_process_def sb_hydrate_failed_def sb_apply_failed_def sb_apply_succeeded_def
  by (intro act_rules only_does_update_references only_does_sb_aggregate only_does_apply assms
      other_actions_keep; assumption)

lemma sb_body_references:
  assumes "retry_ok pf"
  shows "keeps (only_does (keeps_references pf)) (sb_reconcile_body pf req)"
  unfolding sb_reconcile_body_def IsBeingReconciledAlready_def
  by (intro act_rules only_does_fetch only_does_recent_unknown sb_process_references assms)

lemma sb_hydrate_action:
  "keeps (only_does (keeps_hash pf)) (CreateScheduledBackupAggregate pf b op)"
  by (rule only_does_sb_aggregate) (rule other_actions_keep)

lemma well_applied_backup:
  "sba_Backup a = b \<Longrightarrow> well_applied pf (Sb_renderable a) = well_applied pf (Sb_renderable (new_sb_aggregate b))"
  by (rule ext)
     (simp add: well_applied_def applied_kinds_def GetScheduledBackup_def new_sb_aggregate_def accepted_def)

lemma sb_apply_succeeded_spec:
  assumes "retry_ok pf" and "sb_apply_succeeded pf b a s = (Return x, t)"
  shows "x = (no_requeue, None) \<and>
     only_does (sb_update_action pf a
       (new_condition ''True'' ''Successfully templated and applied objects to the cluster'')) s t"
proof -
  let ?c = "new_condition ''True'' ''Successfully templated and applied objects to the cluster''"
  have "keeps (only_does (sb_update_action pf a ?c)) (sb_apply_succeeded pf b a)"
    unfolding sb_apply_succeeded_def by (intro act_rules only_does_sb_update[OF assms(1)]) simp
  from keepsD[OF this assms(2)] assms(2) show ?thesis
    by (auto simp: sb_apply_succeeded_def bnd_eq_Return go_simps)
qed

text \<open>What is put after a success, and what the controller then returns.\<close>

definition claims :: "scheduled_backup \<Rightarrow> action \<Rightarrow> bool" where
  "claims b act \<longleftrightarrow> \<not> is_secret_write act \<and> applied_objects [act] = [] \<and>
     (\<forall>ns y ok. act = Sb_status_put ns y ok \<longrightarrow> ns = om_Namespace (sb_Meta b) \<and>
        sbst_LastAppliedSpecHash (sb_Status y) = CalculateHash (sb_Spec b))"

lemma update_claims:
  assumes "sb_update_action pf a c act" and "cond_Status c = ''True''"
    and "sb_Meta (sba_Backup a) = sb_Meta b" and "sb_Spec (sba_Backup a) = sb_Spec b"
  shows "claims b act"
  using assms by (cases act) (auto simp: claims_def sb_obj_namespace_def)

text \<open>
  A status with a new hash is put only after every object was applied, and the hash is the
  one of the specification that was applied.
\<close>

lemma sb_process_hash:
  assumes acc: "accessors_ok pf" and retry: "retry_ok pf"
    and run: "sb_process pf b err s = (Return x, t)"
  obtains (kept) "only_does (keeps_hash pf) s t"
  | (applied) u ws where "only_does (keeps_hash pf) s u" and "applies ws s u" and "ws \<noteq> []"
      and "list_all (well_applied pf (Sb_renderable (new_sb_aggregate b))) ws"
      and "only_does (claims b) u t" and "x = (no_requeue, None)"
proof -
  from run obtain a act herr s1 s2 v where
    agg: "CreateScheduledBackupAggregate pf b [] s = (Return (a, act, herr), s1)"
    and upd: "sb_updateObject pf a (new_condition ''Unknown''
            (''Reconciling to template and push target objects to the cluster '' @
             ''(Jobs/CronJobs and related things)'')) s1 = (Return v, s2)"
    and rest: "(case herr of
       Some e \<Rightarrow> sb_hydrate_failed pf b a act e err
     | None \<Rightarrow>
         bnd (ApplyObjects pf (Sb_renderable a)) (\<lambda>(applyErr, r).
         case applyErr of
           Some e \<Rightarrow> sb_apply_failed pf b (GetBackupAggregate r) e
         | None \<Rightarrow> sb_apply_succeeded pf b (GetBackupAggregate r))) s2 = (Return x, t)"
    by (auto simp: sb_process_def bnd_eq_Return)
  have b: "sba_Backup a = b" by (rule CreateScheduledBackupAggregate_backup[OF agg])
  have h1: "only_does (keeps_hash pf) s s1" by (rule keepsD[OF sb_hydrate_action agg])
  have h2: "only_does (keeps_hash pf) s1 s2" by (rule keepsD[OF only_does_update_hash[OF retry] upd]) simp
  have a1: "applies [] s s2"
  proof -
    from keepsD[OF only_does_CreateScheduledBackupAggregate agg] obtain as
      where as: "trace s1 = trace s @ as" "list_all (hydration_action b) as" by (auto simp: only_does_def)
    from keepsD[OF only_does_sb_update[OF retry] upd] obtain bs
      where bs: "trace s2 = trace s1 @ bs" "list_all (sb_update_action pf a (new_condition ''Unknown''
            (''Reconciling to template and push target objects to the cluster '' @
             ''(Jobs/CronJobs and related things)''))) bs" by (auto simp: only_does_def)
    from as(2) have "applied_objects as = []"
      by (intro applied_objects_none) (auto simp: list_all_iff hydration_action_def elim!: is_secret_write.elims)
    moreover from bs(2) have "applied_objects bs = []"
    proof (induction bs)
      case (Cons x xs) then show ?case by (cases x) auto
    qed simp
    ultimately show ?thesis using as(1) bs(1) by (simp add: applies_def)
  qed
  show thesis
  proof (cases herr)
    case (Some e)
    with rest have "only_does (keeps_hash pf) s2 t"
      using keepsD[OF only_does_sb_failures(1)[OF retry]] by fastforce
    with h1 h2 show thesis by (intro kept) (blast intro: act_rel.R_trans)
  next
    case None
    with rest obtain aerr r u where ap: "ApplyObjects pf (Sb_renderable a) s2 = (Return (aerr, r), u)"
      and fin: "(case aerr of Some e \<Rightarrow> sb_apply_failed pf b (GetBackupAggregate r) e
         | None \<Rightarrow> sb_apply_succeeded pf b (GetBackupAggregate r)) u = (Return x, t)"
      by (auto simp: bnd_eq_Return)
    have h3: "only_does (keeps_hash pf) s2 u"
      by (rule keepsD[OF only_does_apply ap]) (rule other_actions_keep)
    show thesis
    proof (cases aerr)
      case (Some e)
      with fin have "only_does (keeps_hash pf) u t"
        using keepsD[OF only_does_sb_failures(2)[OF retry]] by fastforce
      with h1 h2 h3 show thesis by (intro kept) (blast intro: act_rel.R_trans)
    next
      case None
      from ApplyObjects_spec[OF acc ap] None obtain ws where ws: "applies ws s2 u" "ws \<noteq> []"
        "list_all (well_applied pf (Sb_renderable a)) ws" by auto
      from yieldsD[OF yields_ApplyObjects ap] obtain a' where "r = Sb_renderable a'"
        and a': "sb_Meta (sba_Backup a') = sb_Meta b" "sb_Spec (sba_Backup a') = sb_Spec b"
        using without_refs_sb[of r a] b by auto
      with fin None have "sb_apply_succeeded pf b a' u = (Return x, t)" by simp
      from sb_apply_succeeded_spec[OF retry this] have x: "x = (no_requeue, None)"
        and od: "only_does (sb_update_action pf a'
          (new_condition ''True'' ''Successfully templated and applied objects to the cluster'')) u t" by auto
      have "claims b act" if "sb_update_action pf a'
          (new_condition ''True'' ''Successfully templated and applied objects to the cluster'') act" for act
        using that by (rule update_claims[OF _ _ a']) simp
      with od have "only_does (claims b) u t" by (auto simp: only_does_def list_all_iff)
      note x this
      moreover have "only_does (keeps_hash pf) s u" using h1 h2 h3 by (blast intro: act_rel.R_trans)
      moreover have "applies ws s u" using applies_append[OF a1 ws(1)] by simp
      ultimately show thesis using ws well_applied_backup[OF b, of pf] by (intro applied) auto
    qed
  qed
qed

section \<open>What a reconciliation returns\<close>

lemma yields_hydrate_failed:
  "yields (\<lambda>x. x = (requeue_after (time_Second * 5), None))
     (sb_hydrate_failed pf b a (Some ErrorActionRequeue) e err)"
  unfolding sb_hydrate_failed_def by (intro yields_rules) auto

lemma yields_sb_process:
  "yields (\<lambda>x. snd x = None \<and> (fst x = no_requeue \<or> fst x = requeue_after (time_Second * 5) \<or> fst x = requeue_after time_Minute))
     (sb_process pf b err)"
proof -
  have agg: "yields (\<lambda>(a, act, e). act = (if e = None then None else Some ErrorActionRequeue))
      (CreateScheduledBackupAggregate pf b [])"
    by (rule yieldsI) (auto dest: CreateScheduledBackupAggregate_action)
  have failed: "yields (\<lambda>x. snd x = None \<and> (fst x = no_requeue \<or> fst x = requeue_after (time_Second * 5) \<or> fst x = requeue_after time_Minute))
     (sb_hydrate_failed pf b a (Some ErrorActionRequeue) e err)" for a e
    by (rule yieldsI) (drule yieldsD[OF yields_hydrate_failed], simp)
  show ?thesis
    unfolding sb_process_def
    by (rule yields_bnd_with[OF agg], clarify, intro yields_rules)
       (auto intro!: failed yields_rules simp: sb_apply_failed_def sb_apply_succeeded_def)
qed

text \<open>The object the cache holds for a request.\<close>

definition cached_backup :: "('w, 'l) platform \<Rightarrow> request \<Rightarrow> ('w, 'l) sys \<Rightarrow> scheduled_backup" where
  "cached_backup pf req s = fst (fst (pf_cache_get_sb pf (world s) (req_Namespace req) (req_Name req)))"

text \<open>The body does nothing, or it processes the cached object, whose specification changed.\<close>

lemma sb_body_cases:
  assumes "sb_reconcile_body pf req s = (Return x, t)"
  obtains (idle) "trace t = trace s"
  | (process) s1 where "HasSpecChanged (cached_backup pf req s)" and "trace s1 = trace s"
      and "sb_process pf (cached_backup pf req s) None s1 = (Return x, t)"
      and "snd (fst (pf_cache_get_sb pf (world s) (req_Namespace req) (req_Name req))) = None"
proof -
  obtain b e w where get: "pf_cache_get_sb pf (world s) (req_Namespace req) (req_Name req) = ((b, e), w)"
    by (metis prod.collapse)
  then have b: "cached_backup pf req s = b" by (simp add: cached_backup_def)
  let ?s = "s\<lparr>world := w\<rparr>"
  have run: "(case e of Some e \<Rightarrow> ret (no_requeue, Some e)
     | None \<Rightarrow> bnd (if HasSpecChanged b then bnd (IsBeingReconciledAlready pf b) (\<lambda>b. ret (\<not> b)) else ret False)
         (\<lambda>changed. if changed then sb_process pf b e else ret (no_requeue, None))) ?s = (Return x, t)"
    using assms get by (simp add: sb_reconcile_body_def FetchScheduledBackup_def bnd_call)
  show thesis
  proof (cases "e = None \<and> HasSpecChanged b")
    case False
    with run show thesis by (intro idle) (auto simp: go_simps split: option.split_asm)
  next
    case True
    with run obtain c s1 where c: "IsBeingReconciledAlready pf b ?s = (Return c, s1)"
      and rest: "(if \<not> c then sb_process pf b None else ret (no_requeue, None)) s1 = (Return x, t)"
      by (auto simp: bnd_eq_Return go_simps bnd_assoc)
    from keepsD[OF only_does_recent_unknown[of "\<lambda>_. False"] c[unfolded IsBeingReconciledAlready_def]]
    have s1: "trace s1 = trace s" by (auto simp: only_does_def list_all_iff)
    show thesis
    proof (cases c)
      case True
      with rest s1 show thesis by (intro idle) (simp add: go_simps)
    next
      case False
      with True rest s1 b get show thesis by (intro process[of s1]) simp_all
    qed
  qed
qed

text \<open>
  A backup whose stored hash is the hash of its specification is left alone: nothing is
  written, no event is emitted, and nothing is requeued.
\<close>

lemma unchanged_backup_idle:
  assumes "pf_cache_get_sb pf (world s) (req_Namespace req) (req_Name req) = ((b, None), w)"
    and "sbst_LastAppliedSpecHash (sb_Status b) = CalculateHash (sb_Spec b)"
  shows "sb_reconcile_body pf req s = (Return (no_requeue, None), s\<lparr>world := w\<rparr>)"
  using assms by (simp add: sb_reconcile_body_def FetchScheduledBackup_def bnd_call HasSpecChanged_def go_simps)

text \<open>So is one with a recent condition that says Unknown, whether its specification changed or not.\<close>

lemma interrupted_backup_idle:
  assumes get: "pf_cache_get_sb pf (world s) (req_Namespace req) (req_Name req) = ((b, None), w)"
    and now: "\<And>w. fst (pf_now pf w) = now"
    and c: "c \<in> set (sbst_Conditions (sb_Status b))" "cond_Status c = ''Unknown''"
      "now - cond_LastTransitionTime c < 60 * time_Second"
  obtains u where "sb_reconcile_body pf req s = (Return (no_requeue, None), u)"
    and "trace u = trace s" and "locks u = locks s"
proof -
  have "\<exists>c \<in> set (sbst_Conditions (sb_Status b)).
     now - cond_LastTransitionTime c < 60 * time_Second \<and> cond_Status c = ''Unknown''" using c by blast
  with recent_unknown_spec[OF now, of "sbst_Conditions (sb_Status b)" "s\<lparr>world := w\<rparr>"] obtain u
    where u: "IsBeingReconciledAlready pf b (s\<lparr>world := w\<rparr>) = (Return True, u)"
    by (auto simp: IsBeingReconciledAlready_def)
  from keepsD[OF only_does_recent_unknown[of "\<lambda>_. False"] u[unfolded IsBeingReconciledAlready_def]]
  have tr: "trace u = trace s" by (auto simp: only_does_def list_all_iff)
  from keepsD[OF same_locks_recent_unknown u[unfolded IsBeingReconciledAlready_def]]
  have "locks u = locks s" by (simp add: same_locks_def)
  have checked: "bnd (bnd (IsBeingReconciledAlready pf b) (\<lambda>b. ret (\<not> b))) g (s\<lparr>world := w\<rparr>) = g False u"
    for g :: "bool \<Rightarrow> (('a, 'b) sys, result \<times> goerr option) go"
    using u by (simp add: bnd_def ret_def)
  have "sb_reconcile_body pf req s = (Return (no_requeue, None), if HasSpecChanged b then u else s\<lparr>world := w\<rparr>)"
    using checked by (simp add: sb_reconcile_body_def FetchScheduledBackup_def bnd_call get go_simps)
  then show thesis by (rule that) (use tr \<open>locks u = locks s\<close> in auto)
qed

text \<open>The observer does nothing but hydrate, or it puts the report on the cached status.\<close>

lemma FetchSBAggregate_backup:
  assumes "FetchSBAggregate pf req s = (Return (Inr a), t)"
  shows "sba_Backup a = cached_backup pf req s \<and>
     snd (fst (pf_cache_get_sb pf (world s) (req_Namespace req) (req_Name req))) = None"
  using assms
  by (auto simp: FetchSBAggregate_def FetchScheduledBackup_def bnd_call cached_backup_def bnd_eq_Return go_simps
      dest!: CreateScheduledBackupAggregate_backup split: prod.split_asm option.split_asm)

lemma sb_observer_actions:
  assumes retry: "retry_ok pf" and run: "sb_observer_body pf req s = (Return x, t)"
  obtains (secrets_only) as where "trace t = trace s @ as" and "list_all is_secret_write as"
  | (reported) a u v report healthy err as bs where "FetchSBAggregate pf req s = (Return (Inr a), u)"
      and "createOwnedReferencesHealthReport (NewAllSupportedJobResourceTypes pf)
         (sba_GetReferencesOfOwnedObjects a) (req_Namespace req) u = (Return (report, healthy, err), v)"
      and "trace t = trace s @ as @ bs" and "list_all is_secret_write as"
      and "list_all (sb_report_action a report healthy) bs" and "x = (no_requeue, None)"
proof -
  from run obtain r s1 where fetch: "FetchSBAggregate pf req s = (Return r, s1)"
    and rest: "(case r of
       Inl e \<Rightarrow> ret (no_requeue, Some (Wrapped_error ''cannot fetch ScheduledBackup from cache'' e))
     | Inr aggregate \<Rightarrow>
         bnd (createOwnedReferencesHealthReport (NewAllSupportedJobResourceTypes pf)
                (sba_GetReferencesOfOwnedObjects aggregate) (req_Namespace req)) (\<lambda>(report, healthy, err).
         if report_running report then ret (requeue_after (time_Second * 10), None)
         else bnd (sb_updateStatus pf aggregate report healthy) (\<lambda>_. ret (no_requeue, None)))) s1 = (Return x, t)"
    by (auto simp: sb_observer_body_def bnd_eq_Return)
  from keepsD[OF only_does_fetch(2) fetch] obtain as
    where as: "trace s1 = trace s @ as" "list_all is_secret_write as" by (auto simp: only_does_def)
  show thesis
  proof (cases r)
    case (Inl e)
    with rest as show thesis by (intro secrets_only[of as]) (auto simp: go_simps)
  next
    case (Inr a)
    with rest obtain report healthy err s2 where
      rep: "createOwnedReferencesHealthReport (NewAllSupportedJobResourceTypes pf)
         (sba_GetReferencesOfOwnedObjects a) (req_Namespace req) s1 = (Return (report, healthy, err), s2)"
      and fin: "(if report_running report then ret (requeue_after (time_Second * 10), None)
           else bnd (sb_updateStatus pf a report healthy) (\<lambda>_. ret (no_requeue, None))) s2 = (Return x, t)"
      by (auto simp: bnd_eq_Return)
    have s2: "trace s2 = trace s1"
      using keepsD[OF only_does_report[of "\<lambda>_. False"] rep] by (auto simp: only_does_def list_all_iff)
    show thesis
    proof (cases "report_running report")
      case True
      with fin s2 as show thesis by (intro secrets_only[of as]) (auto simp: go_simps)
    next
      case False
      with fin obtain w where "sb_updateStatus pf a report healthy s2 = (Return w, t)" and x: "x = (no_requeue, None)"
        by (auto simp: bnd_eq_Return go_simps)
      from keepsD[OF only_does_sb_report[OF retry] this(1)] obtain bs
        where "trace t = trace s2 @ bs" "list_all (sb_report_action a report healthy) bs"
        by (auto simp: only_does_def)
      with s2 as fetch rep Inr x show thesis
        by (intro reported[of a s1 report healthy err s2 as bs]) simp_all
    qed
  qed
qed

end
