(* ===== verification/App.thy ===== *)
theory App
  imports Rba_Controller Sb_Controller
begin

text \<open>
  The program around the controllers: \<^verbatim>\<open>main.go\<close>, \<^verbatim>\<open>cmd/root.go\<close>, the registrations of the
  five controllers (their \<^verbatim>\<open>SetupWithManager\<close>) and the controller of the templates, which does
  nothing. The libraries (flags, manager, configuration, clients) are the record \<open>host\<close>.
\<close>

section \<open>Controllers and what they watch\<close>

definition cbpt_Reconcile :: "request \<Rightarrow> ('s, result \<times> goerr option) go" where
  "cbpt_Reconcile req = ret (no_requeue, None)"

text \<open>The resource, the owned resources, and whether delete events pass the filter.\<close>

record controller_setup =
  cs_For :: string
  cs_Owns :: "string list"
  cs_DeleteFunc :: bool

definition cbpt_SetupWithManager :: controller_setup where
  "cbpt_SetupWithManager =
     \<lparr>cs_For = ''ClusterBackupProcedureTemplate'', cs_Owns = [], cs_DeleteFunc = True\<rparr>"

definition sb_SetupWithManager :: controller_setup where
  "sb_SetupWithManager = \<lparr>cs_For = ''ScheduledBackup'', cs_Owns = [], cs_DeleteFunc = False\<rparr>"

definition rba_SetupWithManager :: controller_setup where
  "rba_SetupWithManager = \<lparr>cs_For = ''RequestedBackupAction'', cs_Owns = [], cs_DeleteFunc = False\<rparr>"

definition rba_observer_SetupWithManager :: controller_setup where
  "rba_observer_SetupWithManager =
     \<lparr>cs_For = ''RequestedBackupAction'', cs_Owns = [''Job'', ''CronJob''], cs_DeleteFunc = False\<rparr>"

definition sb_observer_SetupWithManager :: controller_setup where
  "sb_observer_SetupWithManager =
     \<lparr>cs_For = ''ScheduledBackup'', cs_Owns = [''Job'', ''CronJob''], cs_DeleteFunc = False\<rparr>"

section \<open>The application\<close>

record app =
  app_debug :: bool
  app_metricsBindAddress :: string
  app_healthProbeBindAddress :: string
  app_leaderElect :: bool
  app_zapDevel :: bool
  app_redisHost :: string
  app_redisPort :: int
  app_disableRedis :: bool

text \<open>The defaults of the flags of \<^verbatim>\<open>NewRootCommand\<close>.\<close>

definition NewRootCommand :: app where
  "NewRootCommand =
     \<lparr>app_debug = True, app_metricsBindAddress = '':8080'', app_healthProbeBindAddress = '':8081'',
      app_leaderElect = False, app_zapDevel = False, app_redisHost = ''redis'', app_redisPort = 6379,
      app_disableRedis = False\<rparr>"

record manager_options =
  mo_MetricsBindAddress :: string
  mo_Port :: int
  mo_HealthProbeBindAddress :: string
  mo_LeaderElection :: bool
  mo_LeaderElectionID :: string
  mo_LeaderElectionReleaseOnCancel :: bool

definition options_of :: "app \<Rightarrow> manager_options" where
  "options_of a =
     \<lparr>mo_MetricsBindAddress = app_metricsBindAddress a, mo_Port = 9443,
      mo_HealthProbeBindAddress = app_healthProbeBindAddress a, mo_LeaderElection = app_leaderElect a,
      mo_LeaderElectionID = ''7b93e0c3.riotkit.org'', mo_LeaderElectionReleaseOnCancel = True\<rparr>"

datatype locker_choice = Use_in_memory | Use_redis string string int

datatype client_kind = Dynamic_client | Riotkit_client | Batch_client

text \<open>A client configuration, opaque.\<close>

datatype rest_config = Rest_config string

record 'm host =
  h_parse :: "string list \<Rightarrow> app \<Rightarrow> goerr + app"
  h_get_config :: "'m \<Rightarrow> bool \<times> 'm"
  h_new_manager :: "'m \<Rightarrow> manager_options \<Rightarrow> goerr option \<times> 'm"
  h_getenv :: "'m \<Rightarrow> string \<Rightarrow> string"
  h_config_from_flags :: "'m \<Rightarrow> string \<Rightarrow> string \<Rightarrow> (goerr + rest_config) \<times> 'm"
  h_in_cluster_config :: "'m \<Rightarrow> (goerr + rest_config) \<times> 'm"
  h_new_client :: "'m \<Rightarrow> client_kind \<Rightarrow> rest_config \<Rightarrow> goerr option \<times> 'm"
  h_complete :: "'m \<Rightarrow> controller_setup \<Rightarrow> goerr option \<times> 'm"
  h_add_check :: "'m \<Rightarrow> string \<Rightarrow> goerr option \<times> 'm"
  h_start :: "'m \<Rightarrow> goerr option \<times> 'm"

text \<open>What the process has done.\<close>

datatype proc_event =
    Debug_level
  | Locker_made locker_choice
  | Locker_closed locker_choice
  | Registered controller_setup
  | Manager_started

record 'm process =
  machine :: 'm
  events :: "proc_event list"

definition on_machine :: "('m \<Rightarrow> 'a \<times> 'm) \<Rightarrow> ('m process, 'a) go" where
  "on_machine f p = (case f (machine p) of (a, m) \<Rightarrow> (Return a, p\<lparr>machine := m\<rparr>))"

definition happened :: "proc_event \<Rightarrow> ('m process, unit) go" where
  "happened e = modify (\<lambda>p. p\<lparr>events := events p @ [e]\<rparr>)"

text \<open>
  \<^verbatim>\<open>os.Exit\<close> ends the process at once: it is the value \<open>Inl code\<close>, and deferred calls run
  only for \<open>Inr\<close> values and panics.
\<close>

definition deferring_live ::
  "('s, unit) go \<Rightarrow> ('s, int + 'a) go \<Rightarrow> ('s, int + 'a) go" where
  "deferring_live d m s =
     (case m s of
        (Return (Inl code), s1) \<Rightarrow> (Return (Inl code), s1)
      | (r, s1) \<Rightarrow> deferring d (\<lambda>_. (r, s1)) s1)"

definition buildConfig :: "'m host \<Rightarrow> string \<Rightarrow> ('m process, goerr + rest_config) go" where
  "buildConfig h kubeconfig =
     (if kubeconfig \<noteq> [] then on_machine (\<lambda>m. h_config_from_flags h m [] kubeconfig)
      else on_machine (h_in_cluster_config h))"

definition new_client :: "'m host \<Rightarrow> client_kind \<Rightarrow> rest_config \<Rightarrow> ('m process, unit) go" where
  "new_client h kind cfg =
     bnd (on_machine (\<lambda>m. h_new_client h m kind cfg)) (\<lambda>clErr.
     case clErr of None \<Rightarrow> ret () | Some e \<Rightarrow> crash (Panic_value (err_text e)))"

definition NewKubernetesJobResourceType :: "'m host \<Rightarrow> rest_config \<Rightarrow> ('m process, unit) go" where [simp]:
  "NewKubernetesJobResourceType h cfg = new_client h Batch_client cfg"

fun register_all :: "'m host \<Rightarrow> controller_setup list \<Rightarrow> ('m process, goerr option) go" where
  "register_all h [] = ret None"
| "register_all h (c # cs) =
     bnd (on_machine (\<lambda>m. h_complete h m c)) (\<lambda>err.
     case err of
       Some e \<Rightarrow> ret (Some e)
     | None \<Rightarrow> bnd (happened (Registered c)) (\<lambda>_. register_all h cs))"

fun add_checks :: "'m host \<Rightarrow> string list \<Rightarrow> ('m process, goerr option) go" where
  "add_checks h [] = ret None"
| "add_checks h (c # cs) =
     bnd (on_machine (\<lambda>m. h_add_check h m c)) (\<lambda>err.
     case err of Some e \<Rightarrow> ret (Some e) | None \<Rightarrow> add_checks h cs)"

definition all_controllers :: "controller_setup list" where
  "all_controllers =
     [cbpt_SetupWithManager, sb_SetupWithManager, rba_SetupWithManager,
      rba_observer_SetupWithManager, sb_observer_SetupWithManager]"

definition start_manager :: "'m host \<Rightarrow> ('m process, goerr option) go" where
  "start_manager h =
     bnd (register_all h all_controllers) (\<lambda>err.
     case err of
       Some e \<Rightarrow> ret (Some e)
     | None \<Rightarrow>
     bnd (add_checks h [''healthz'', ''readyz'']) (\<lambda>err.
     case err of
       Some e \<Rightarrow> ret (Some e)
     | None \<Rightarrow> bnd (happened Manager_started) (\<lambda>_. on_machine (h_start h))))"

definition run_manager :: "'m host \<Rightarrow> app \<Rightarrow> ('m process, int + goerr option) go" where
  "run_manager h a =
     bnd (on_machine (h_get_config h)) (\<lambda>have_config.
     if \<not> have_config then ret (Inl 1) else
     bnd (on_machine (\<lambda>m. h_new_manager h m (options_of a))) (\<lambda>err.
     case err of
       Some e \<Rightarrow> ret (Inl 1)
     | None \<Rightarrow>
     bnd (get_state (\<lambda>p. h_getenv h (machine p) ''KUBECONFIG'')) (\<lambda>env.
     bnd (buildConfig h env) (\<lambda>r.
     case r of
       Inl e \<Rightarrow> crash (Panic_value (err_text e))
     | Inr kubeconfig \<Rightarrow>
     bnd (new_client h Dynamic_client kubeconfig) (\<lambda>_.
     bnd (new_client h Riotkit_client kubeconfig) (\<lambda>_.
     bnd (NewKubernetesJobResourceType h kubeconfig) (\<lambda>_.
     bnd (start_manager h) (\<lambda>err. ret (Inr err)))))))))"

definition app_locker :: "app \<Rightarrow> locker_choice" where
  "app_locker a =
     (if app_disableRedis a then Use_in_memory else Use_redis ''tcp'' (app_redisHost a) (app_redisPort a))"

definition App_Run :: "'m host \<Rightarrow> app \<Rightarrow> ('m process, int + goerr option) go" where
  "App_Run h a =
     bnd (if app_debug a then happened Debug_level else ret ()) (\<lambda>_.
     bnd (happened (Locker_made (app_locker a))) (\<lambda>_.
     deferring_live (happened (Locker_closed (app_locker a))) (run_manager h a)))"

text \<open>\<^verbatim>\<open>main\<close>: the exit code of the process.\<close>

definition go_main :: "'m host \<Rightarrow> string list option \<Rightarrow> ('m process, int) go" where
  "go_main h args =
     (let flags = (case args of None \<Rightarrow> [] | Some as \<Rightarrow> drop 1 as) in
      case h_parse h flags NewRootCommand of
        Inl e \<Rightarrow> ret 1
      | Inr a \<Rightarrow>
          bnd (App_Run h a) (\<lambda>r.
          ret (case r of
                 Inl code \<Rightarrow> code
               | Inr None \<Rightarrow> 0
               | Inr (Some e) \<Rightarrow> 1)))"

section \<open>The locker is closed once\<close>

definition closes_of :: "'m process \<Rightarrow> nat" where
  "closes_of p = length (filter (\<lambda>e. \<exists>c. e = Locker_closed c) (events p))"

definition no_close :: "'m process \<Rightarrow> 'm process \<Rightarrow> bool" where
  "no_close p q \<longleftrightarrow> closes_of q = closes_of p"

interpretation close_rel: go_relation no_close
  by unfold_locales (auto simp: no_close_def)

lemma no_close_machine: "keeps no_close (on_machine f)"
  by (rule keepsI) (simp add: on_machine_def no_close_def closes_of_def split: prod.splits)

lemma no_close_happened: "(\<And>c. e \<noteq> Locker_closed c) \<Longrightarrow> keeps no_close (happened e)"
  by (rule keepsI) (simp add: happened_def go_simps no_close_def closes_of_def)

lemma no_close_register: "keeps no_close (register_all h cs)"
  by (induction cs) (auto intro!: close_rel.keeps_rules no_close_machine no_close_happened)

lemma no_close_checks: "keeps no_close (add_checks h cs)"
  by (induction cs) (auto intro!: close_rel.keeps_rules no_close_machine)

lemma no_close_run_manager: "keeps no_close (run_manager h a)"
  unfolding run_manager_def start_manager_def buildConfig_def NewKubernetesJobResourceType_def new_client_def
  by (intro close_rel.keeps_rules no_close_machine no_close_register no_close_checks no_close_happened) simp

lemma deferring_live_happened:
  "m p = (r, q) \<Longrightarrow> deferring_live (happened e) m p =
     (if \<exists>code. r = Return (Inl code) then (r, q) else (r, q\<lparr>events := events q @ [e]\<rparr>))"
  by (cases r; cases "\<exists>code. r = Return (Inl code)")
     (auto simp: deferring_live_def deferring_def happened_def go_simps split: sum.splits)

lemma App_Run_closes_once:
  assumes "App_Run h a p = (r, q)" and "closes_of p = 0"
  shows "closes_of q = (if \<exists>code. r = Return (Inl code) then 0 else 1)"
proof -
  define p1 where "p1 = (if app_debug a then p\<lparr>events := events p @ [Debug_level]\<rparr> else p)"
  define p2 where "p2 = p1\<lparr>events := events p1 @ [Locker_made (app_locker a)]\<rparr>"
  obtain r' q' where m: "run_manager h a p2 = (r', q')" by fastforce
  from keepsD[OF no_close_run_manager m] assms(2) have "closes_of q' = 0"
    by (auto simp: no_close_def p2_def p1_def closes_of_def split: if_splits)
  moreover have "App_Run h a p = deferring_live (happened (Locker_closed (app_locker a))) (run_manager h a) p2"
    by (simp add: App_Run_def happened_def bnd_def go_simps p2_def p1_def)
  ultimately show ?thesis
    using assms(1) deferring_live_happened[of "run_manager h a" p2 r' q'] m
    by (auto simp: closes_of_def split: if_splits)
qed

section \<open>The manager is started with all five controllers\<close>

lemma register_all_events:
  "register_all h cs p = (Return None, q) \<Longrightarrow> events q = events p @ map Registered cs"
proof (induction cs arbitrary: p)
  case Nil
  then show ?case by (simp add: go_simps)
next
  case (Cons c cs)
  then show ?case
    by (auto simp: bnd_eq_Return on_machine_def happened_def go_simps
        split: prod.split_asm option.split_asm dest!: Cons.IH)
qed

lemma add_checks_events: "add_checks h cs p = (Return None, q) \<Longrightarrow> events q = events p"
proof (induction cs arbitrary: p)
  case Nil
  then show ?case by (simp add: go_simps)
next
  case (Cons c cs)
  then show ?case
    by (auto simp: bnd_eq_Return on_machine_def go_simps split: prod.split_asm option.split_asm dest!: Cons.IH)
qed

end
