(* ===== verification/Lock_Protocol.thy ===== *)
theory Lock_Protocol
  imports Locking
begin

text \<open>
  Controllers and observers run in goroutines of their own and share one locker. Two step
  relations on the shared list: with \<^verbatim>\<open>Obtain\<close> as one step, and with the check and the append
  of \<^verbatim>\<open>inmemory.go\<close> as the two steps they are when nothing makes them atomic.
\<close>

section \<open>Configurations\<close>

datatype phase =
    Idle
  | Seen_free request
  | In_body request lock_session

record conf =
  cf_locks :: "string list"
  cf_phase :: "nat \<Rightarrow> phase"

definition start :: conf where
  "start = \<lparr>cf_locks = NewInMemoryLocker, cf_phase = (\<lambda>_. Idle)\<rparr>"

definition to_phase :: "conf \<Rightarrow> nat \<Rightarrow> phase \<Rightarrow> string list \<Rightarrow> conf" where
  "to_phase c t p l = \<lparr>cf_locks = l, cf_phase = (cf_phase c)(t := p)\<rparr>"

section \<open>Obtain in one step\<close>

inductive atomic_step :: "(request \<Rightarrow> string) \<Rightarrow> conf \<Rightarrow> conf \<Rightarrow> bool" for ns where
  enter: "cf_phase c t = Idle \<Longrightarrow> iml_Obtain ns (cf_locks c) req = (ls, l) \<Longrightarrow> ls_err ls = None \<Longrightarrow>
     atomic_step ns c (to_phase c t (In_body req ls) l)"
| refused: "cf_phase c t = Idle \<Longrightarrow> iml_Obtain ns (cf_locks c) req = (ls, l) \<Longrightarrow> AlreadyLocked ls \<Longrightarrow>
     atomic_step ns c (to_phase c t Idle l)"
| leave: "cf_phase c t = In_body req ls \<Longrightarrow> iml_Done (cf_locks c) ls = (Return (), l) \<Longrightarrow>
     atomic_step ns c (to_phase c t Idle l)"

inductive_cases atomic_stepE: "atomic_step ns c d"

text \<open>The sessions in use are the entries of the list, each once.\<close>

definition lock_inv :: "(request \<Rightarrow> string) \<Rightarrow> conf \<Rightarrow> bool" where
  "lock_inv ns c \<longleftrightarrow>
     distinct (cf_locks c) \<and>
     (\<forall>t req ls. cf_phase c t = In_body req ls \<longrightarrow>
        ls = mk_session (Id_string (ns req)) None \<and> ns req \<in> set (cf_locks c)) \<and>
     (\<forall>t u req req' ls ls'. t \<noteq> u \<longrightarrow> cf_phase c t = In_body req ls \<longrightarrow> cf_phase c u = In_body req' ls' \<longrightarrow>
        ns req \<noteq> ns req')"

lemma lock_inv_start: "lock_inv ns start"
  by (simp add: lock_inv_def start_def NewInMemoryLocker_def)

lemma lock_inv_step: "atomic_step ns c d \<Longrightarrow> lock_inv ns c \<Longrightarrow> lock_inv ns d"
proof (induction rule: atomic_step.induct)
  case (enter c t req ls l)
  then show ?case
    by (auto simp: lock_inv_def to_phase_def iml_Obtain_apply mk_session_def split: if_splits) metis+
next
  case (refused c t req ls l)
  then show ?case
    by (auto simp: lock_inv_def to_phase_def iml_Obtain_apply mk_session_def AlreadyLocked_def split: if_splits)
next
  case (leave c t req ls l)
  then have ls: "ls = mk_session (Id_string (ns req)) None" by (simp add: lock_inv_def)
  with leave have l: "l = remove1 (ns req) (cf_locks c)" by simp
  from leave have d: "distinct (cf_locks c)" by (simp add: lock_inv_def)
  from leave have other: "ns req' \<noteq> ns req" if "u \<noteq> t" "cf_phase c u = In_body req' ls'" for u req' ls'
    using that unfolding lock_inv_def by metis
  from leave(3) show ?case
    unfolding lock_inv_def to_phase_def using l d other by (auto simp: in_set_remove1)
qed

lemma lock_inv_reachable: "(atomic_step ns)\<^sup>*\<^sup>* start c \<Longrightarrow> lock_inv ns c"
  by (induction rule: rtranclp_induct) (auto intro: lock_inv_start lock_inv_step)

section \<open>Obtain as the code has it\<close>

inductive split_step :: "(request \<Rightarrow> string) \<Rightarrow> conf \<Rightarrow> conf \<Rightarrow> bool" for ns where
  check_free: "cf_phase c t = Idle \<Longrightarrow> \<not> isLocked (cf_locks c) (createLockingId ns req) \<Longrightarrow>
     split_step ns c (to_phase c t (Seen_free req) (cf_locks c))"
| check_held: "cf_phase c t = Idle \<Longrightarrow> isLocked (cf_locks c) (createLockingId ns req) \<Longrightarrow>
     split_step ns c (to_phase c t Idle (cf_locks c))"
| append_entry: "cf_phase c t = Seen_free req \<Longrightarrow>
     split_step ns c (to_phase c t (In_body req (mk_session (Id_string (createLockingId ns req)) None))
                      (cf_locks c @ [createLockingId ns req]))"
| leave_split: "cf_phase c t = In_body req ls \<Longrightarrow> iml_Done (cf_locks c) ls = (Return (), l) \<Longrightarrow>
     split_step ns c (to_phase c t Idle l)"

text \<open>Two goroutines that check before either appends are both let in.\<close>

lemma split_race:
  "\<exists>c. (split_step ns)\<^sup>*\<^sup>* start c \<and> (\<exists>ls ls'. cf_phase c 0 = In_body req ls \<and> cf_phase c 1 = In_body req ls')"
proof -
  let ?i = "createLockingId ns req"
  let ?s = "mk_session (Id_string ?i) None"
  let ?c1 = "to_phase start 0 (Seen_free req) []"
  let ?c2 = "to_phase ?c1 1 (Seen_free req) []"
  let ?c3 = "to_phase ?c2 0 (In_body req ?s) [?i]"
  let ?c4 = "to_phase ?c3 1 (In_body req ?s) [?i, ?i]"
  have "split_step ns start ?c1"
    using check_free[of start 0 ns req] by (simp add: start_def NewInMemoryLocker_def)
  moreover have "split_step ns ?c1 ?c2"
    using check_free[of ?c1 1 ns req] by (simp add: start_def to_phase_def)
  moreover have "split_step ns ?c2 ?c3"
    using append_entry[of ?c2 0 req ns] by (simp add: to_phase_def)
  moreover have "split_step ns ?c3 ?c4"
    using append_entry[of ?c3 1 req ns] by (simp add: to_phase_def)
  ultimately have "(split_step ns)\<^sup>*\<^sup>* start ?c4"
    by (meson converse_rtranclp_into_rtranclp rtranclp.rtrancl_refl)
  then show ?thesis by (intro exI[of _ ?c4]) (simp add: to_phase_def)
qed

end
