(* ===== verification/Sample_Platform.thy ===== *)
theory Sample_Platform
  imports App Lock_Protocol
begin

text \<open>
  A concrete platform on which the hypotheses of the theorems hold: a cluster with one
  backup, one requested action and their secrets, a generator that writes one manifest, and
  objects whose metadata is a JSON object. The theorems are applied to it in their witnesses.
\<close>

section \<open>Untyped objects\<close>

definition jstr :: "jval option \<Rightarrow> string" where
  "jstr v = (case v of Some (JStr s) \<Rightarrow> s | _ \<Rightarrow> [])"

definition meta_field :: "string \<Rightarrow> unstr \<Rightarrow> jval option" where
  "meta_field k d = (case metadata_of d of None \<Rightarrow> None | Some m \<Rightarrow> map_of m k)"

definition set_meta_field :: "string \<Rightarrow> jval \<Rightarrow> unstr \<Rightarrow> unstr" where
  "set_meta_field k v d =
     (case d of
        None \<Rightarrow> None
      | Some obj \<Rightarrow> (case metadata_of d of
          None \<Rightarrow> d
        | Some m \<Rightarrow> Some (gset ''metadata'' (JObj (gset k v m)) obj)))"

definition sample_labels :: "unstr \<Rightarrow> string gomap" where
  "sample_labels d =
     (case meta_field ''labels'' d of
        Some (JObj ls) \<Rightarrow> map (\<lambda>(k, v). (k, jstr (Some v))) ls
      | _ \<Rightarrow> [])"

definition sample_gvk :: "unstr \<Rightarrow> gvk" where
  "sample_gvk d =
     (case d of
        None \<Rightarrow> mk_gvk [] [] []
      | Some obj \<Rightarrow>
          (case strings_Split (jstr (map_of obj ''apiVersion'')) ''/'' of
             [g, v] \<Rightarrow> mk_gvk g v (jstr (map_of obj ''kind''))
           | ps \<Rightarrow> mk_gvk [] (concat ps) (jstr (map_of obj ''kind''))))"

definition gvk_text :: "gvk \<Rightarrow> string" where
  "gvk_text g = gvk_Group g @ ''/'' @ gvk_Version g @ '', Kind='' @ gvk_Kind g"

definition manifest :: "string \<Rightarrow> string \<Rightarrow> string \<Rightarrow> unstr" where
  "manifest apiVersion kind name =
     Some [(''apiVersion'', JStr apiVersion), (''kind'', JStr kind), (''metadata'', JObj [(''name'', JStr name)])]"

section \<open>The objects of the cluster\<close>

definition sample_gpg :: gpg_spec where
  "sample_gpg = \<lparr>gpg_SecretName = ''gpg'', gpg_PublicKey = ''pub'', gpg_PrivateKey = ''priv'',
     gpg_PassphraseKey = [], gpg_Email = ''me@example.org'', gpg_CreateIfNotExists = False\<rparr>"

definition sample_sb_spec :: sb_spec where
  "sample_sb_spec = \<lparr>sbs_CollectionId = ''c1'',
     sbs_TemplateRef = \<lparr>ts_Name = ''pg'', ts_Kind = ''ClusterBackupProcedureTemplate''\<rparr>,
     sbs_GPGKeySecretRef = sample_gpg,
     sbs_TokenSecretRef = \<lparr>tok_SecretName = ''token'', tok_TokenKey = ''token''\<rparr>,
     sbs_VarsSecretRef = \<lparr>vs_SecretName = [], vs_ImportOnlyKeys = []\<rparr>,
     sbs_Vars = ''vars'', sbs_CronJob = \<lparr>cj_Enabled = True, cj_ScheduleEvery = ''00 02 * * *''\<rparr>,
     sbs_Operation = ''backup''\<rparr>"

definition sample_sb :: scheduled_backup where
  "sample_sb = \<lparr>sb_TypeMeta = \<lparr>tm_APIVersion = ''riotkit.org/v1alpha1'', tm_Kind = ''ScheduledBackup''\<rparr>,
     sb_Meta = zero_meta\<lparr>om_Name := ''app'', om_Namespace := ''prod'', om_UID := ''u1''\<rparr>,
     sb_Spec = sample_sb_spec,
     sb_Status = \<lparr>sbst_LastAppliedSpecHash = [], sbst_Conditions = [], sbst_OwnedReferences = [],
       sbst_ChildrenResourcesHealth = [], sbst_Healthy = False\<rparr>\<rparr>"

definition sample_rba :: requested_action where
  "sample_rba = \<lparr>rba_TypeMeta = \<lparr>tm_APIVersion = [], tm_Kind = []\<rparr>,
     rba_Meta = zero_meta\<lparr>om_Name := ''now'', om_Namespace := ''prod'', om_UID := ''u2''\<rparr>,
     rba_Spec = \<lparr>rbas_Action = ''backup'', rbas_TargetVersion = [], rbas_ScheduledBackupRef = ''app'',
       rbas_KindType = []\<rparr>,
     rba_Status = \<lparr>rbast_Processed = False, rbast_Conditions = [], rbast_OwnedReferences = [],
       rbast_ChildrenResourcesHealth = [], rbast_Healthy = True\<rparr>\<rparr>"

definition sample_template :: cluster_template where
  "sample_template = \<lparr>cbpt_TypeMeta = \<lparr>tm_APIVersion = [], tm_Kind = []\<rparr>,
     cbpt_Meta = zero_meta\<lparr>om_Name := ''pg''\<rparr>,
     cbpt_Spec = \<lparr>cbpt_Image = ''postgres'', cbpt_Backup = ''pg_dump'', cbpt_Restore = ''psql''\<rparr>\<rparr>"

definition sample_secret :: "string \<Rightarrow> string \<Rightarrow> secret" where
  "sample_secret ns n = \<lparr>sec_Meta = zero_meta\<lparr>om_Name := n, om_Namespace := ns\<rparr>,
     sec_Data = Some (if n = ''token'' then [(''token'', ''t0k'')] else [(''pub'', ''P''), (''priv'', ''S'')]),
     sec_StringData = None\<rparr>"

section \<open>The platform\<close>

definition sample_client :: "'b \<Rightarrow> (unit, 'b) rest_client" where
  "sample_client b = \<lparr>rc_Into = (\<lambda>w rq. (Inr b, w)), rc_IntoList = (\<lambda>w rq. (Inr [b], w)),
     rc_Watch = (\<lambda>w rq. (Inr 0, w)), rc_Error = (\<lambda>w rq. (None, w))\<rparr>"

definition sample_manifests :: "string \<Rightarrow> string" where
  "sample_manifests op = ''Job'' @ newline @ doc_separator @ newline @ ''ConfigMap'' @ newline @ doc_separator"

definition sample_decode :: "string \<Rightarrow> goerr + unstr" where
  "sample_decode doc = Inr (manifest (if doc = ''Job'' then ''batch/v1'' else ''v1'') doc ''x'')"

definition sample_generate ::
  "unit \<Rightarrow> gen_command \<Rightarrow> fsys \<Rightarrow> (goerr option \<times> fsys) \<times> unit" where
  "sample_generate w c fs =
     (os_WriteFile (gc_OutputDir c @ ''/'' @ gc_Operation c @ ''.yaml'') (sample_manifests (gc_Operation c)) fs, w)"

definition sample :: "(unit, string list) platform" where
  "sample = \<lparr>
     pf_now = (\<lambda>w. (0, w)), pf_uuid = (\<lambda>w. (''id'', w)), pf_temp_name = (\<lambda>w. (''7'', w)),
     pf_range = (\<lambda>w m. (m, w)),
     pf_cache_get_sb = (\<lambda>w ns n. ((sample_sb, None), w)),
     pf_cache_get_template = (\<lambda>w n. ((sample_template, None), w)),
     pf_cache_get_secret = (\<lambda>w ns n. ((sample_secret ns n, None), w)),
     pf_secret_get = (\<lambda>w ns n s. ((sample_secret ns n, None), w)),
     pf_secret_create = (\<lambda>w s. ((s, None), w)),
     pf_secret_update = (\<lambda>w s. ((s, None), w)),
     pf_sb = sample_client sample_sb, pf_rba = sample_client sample_rba,
     pf_list_jobs = (\<lambda>w ns sel. (Inr [], w)),
     pf_discovery = (\<lambda>w. (None, w)),
     pf_rest_mapping = (\<lambda>w g k v. (Inr \<lparr>gvr_Group = g, gvr_Version = v, gvr_Resource = k\<rparr>, w)),
     pf_dyn_get = (\<lambda>w r ns n. (Some (Api_error Reason_NotFound ''not found''), w)),
     pf_dyn_create = (\<lambda>w r ns x. (None, w)), pf_dyn_update = (\<lambda>w r ns x. (None, w)),
     pf_retry = (\<lambda>fn. fn),
     pf_set_condition = (\<lambda>w cs c. ((cs @ [c], cs), w)),
     pf_generate_key = (\<lambda>w a b c n. (Inr (Gpg_key a), w)),
     pf_armor = (\<lambda>k. Inr ''S''), pf_armor_public = (\<lambda>k. Inr ''P''),
     pf_yaml_unmarshal = (\<lambda>s. Inr (JObj [])), pf_yaml_marshal = (\<lambda>v. Inr ''yaml''),
     pf_jp_parse = (\<lambda>s. Inr (Jp_expr s)), pf_jp_set = (\<lambda>x v s. (None, v)),
     pf_template_json = (\<lambda>a b c. Inr ''{}''), pf_decode = sample_decode,
     pf_extract_resources = (\<lambda>w fs. ((None, fs), w)), pf_generate = sample_generate,
     pf_os_refuses = (\<lambda>w n p. None),
     pf_get_labels = sample_labels,
     pf_set_labels = (\<lambda>d l. set_meta_field ''labels'' (JObj (map (\<lambda>(k, v). (k, JStr v)) l)) d),
     pf_set_namespace = (\<lambda>d n. set_meta_field ''namespace'' (JStr n) d),
     pf_get_namespace = (\<lambda>d. jstr (meta_field ''namespace'' d)),
     pf_get_name = (\<lambda>d. jstr (meta_field ''name'' d)),
     pf_get_generate_name = (\<lambda>d. jstr (meta_field ''generateName'' d)),
     pf_gvk_of = sample_gvk, pf_gvk_string = gvk_text, pf_meta_gvk_string = gvk_text,
     pf_api_version_kind = (\<lambda>g. (gvk_Group g @ ''/'' @ gvk_Version g, gvk_Kind g)),
     pf_request_string = (\<lambda>r. req_Namespace r @ ''/'' @ req_Name r)\<rparr>"

definition sample_fs :: fsys where
  "sample_fs = \<lparr>fs_nodes = (\<lambda>p. if p = [] \<or> p = [''tmp''] \<or> p = [''work''] then Some Dir else None),
     fs_cwd = [''work'']\<rparr>"

definition sample_state :: "(unit, string list) sys" where
  "sample_state = \<lparr>world = (), locks = [], fsys = sample_fs, trace = [], captured = []\<rparr>"

definition sample_request :: request where
  "sample_request = \<lparr>req_Namespace = ''prod'', req_Name = ''now''\<rparr>"

abbreviation sample_locker :: "string list locker" where
  "sample_locker \<equiv> InMemoryLocker (pf_request_string sample)"

lemma sample_key [simp]: "pf_request_string sample sample_request = ''prod/now''"
  by (simp add: sample_def sample_request_def)

section \<open>The sample meets the documented behaviour\<close>

lemma sample_retry: "retry_ok sample"
  by (auto simp: retry_ok_def sample_def intro: last_run)

lemma metadata_set: "metadata_of d = Some m \<Longrightarrow> metadata_of (set_meta_field k v d) = Some (gset k v m)"
  by (auto simp: set_meta_field_def metadata_of_def split: option.splits)

lemma sample_gvk_metadata: "sample_gvk (Some (gset ''metadata'' v obj)) = sample_gvk (Some obj)"
  by (simp add: sample_gvk_def split: list.split)

lemma sample_gvk_set: "metadata_of d = Some m \<Longrightarrow> sample_gvk (set_meta_field k v d) = sample_gvk d"
  by (cases d) (simp_all add: set_meta_field_def sample_gvk_metadata)

lemma sample_accessors: "accessors_ok sample"
  by (auto simp: accessors_ok_def same_identity_def sample_def sample_labels_def meta_field_def owners_of_def
      metadata_set sample_gvk_set sample_gvk_metadata o_def case_prod_unfold jstr_def)

lemma sample_others:
  "printing_ok sample" "names_ok sample" "ranging_ok sample" "armor_ok sample"
  "os_willing sample" "temp_names_ok sample"
  by (simp_all add: printing_ok_def names_ok_def ranging_ok_def armor_ok_def os_willing_def
      temp_names_ok_def sample_def gvk_text_def)

lemma sample_generator: "generator_ok sample"
  by (simp add: generator_ok_def sample_def sample_generate_def dirs_kept_os)

section \<open>A run of the ScheduledBackup controller on the sample\<close>

text \<open>
  The hash of the specification is never computed here: it is not the empty string, which is
  all the run depends on.
\<close>

lemma length_CalculateHash: "length (CalculateHash spec) = 64"
  by (simp add: CalculateHash_def length_hex_EncodeToString length_sha256)

lemma CalculateHash_not_Nil [simp]: "CalculateHash spec \<noteq> []"
  using length_CalculateHash[of spec] by fastforce

lemma sample_world [simp]: "s\<lparr>world := ()\<rparr> = (s :: (unit, 'l) sys)"
  by (cases s) simp

definition sample_condition :: "condition \<Rightarrow> condition" where
  "sample_condition c = c\<lparr>cond_Reason := ''SpecWasUpdated'', cond_Type := ''BackupObjectsInstallation'',
     cond_ObservedGeneration := 0\<rparr>"

lemma sample_updateObject:
  "sb_updateObject sample a c s = (Return (), s\<lparr>trace := trace s @ [Sb_status_put (sb_obj_namespace a)
     (sample_sb\<lparr>sb_Status := (sb_Status sample_sb)\<lparr>sbst_Conditions := [sample_condition c],
        sbst_LastAppliedSpecHash := (if cond_Status c = ''True''
          then CalculateHash (sb_Spec (sba_Backup a)) else [])\<rparr>\<rparr>) True]\<rparr>)"
  by (simp add: sb_updateObject_def sb_status_attempt_def sb_Get_def put_sb_status_def sb_UpdateStatus_def
      sample_def sample_client_def bnd_call go_simps Let_def sum_ok_def sample_sb_def zero_meta_def
      sample_condition_def)

definition sample_sb_aggregate :: "sb_aggregate" where
  "sample_sb_aggregate = \<lparr>sba_Backup = sample_sb,
     sba_Template = Some (ClusterTemplate sample_template),
     sba_GPGSecret = Some (sample_secret ''prod'' ''gpg''),
     sba_TokenSecret = Some (sample_secret ''prod'' ''token''),
     sba_VarsListSecret = None,
     sba_AdditionalVarsList = [(''Repository.token'', ''t0k''), (''HelmValues.gpgKeyContent'', ''P'')]\<rparr>"

lemma sample_hydrate:
  "CreateScheduledBackupAggregate sample sample_sb [] s = (Return (sample_sb_aggregate, None, None), s)"
  by (simp add: CreateScheduledBackupAggregate_def hydrate_defs fetch_defs new_sb_aggregate_def
      sample_def bnd_call go_simps Let_def err_IsNotFound_def sample_sb_aggregate_def token_vars_def gpg_var_def
      sample_sb_def sample_sb_spec_def sample_gpg_def zero_meta_def InternalTemplateKind_def sample_secret_def
      gget_def data_of_def)

definition sample_unknown :: condition where
  "sample_unknown = new_condition ''Unknown''
     (''Reconciling to template and push target objects to the cluster '' @
      ''(Jobs/CronJobs and related things)'')"

definition sample_sb_start :: "(unit, string list) sys" where
  "sample_sb_start = sample_state\<lparr>locks := [''prod/now''], trace := [Sb_status_put ''prod''
     (sample_sb\<lparr>sb_Status := (sb_Status sample_sb)\<lparr>sbst_Conditions := [sample_condition sample_unknown],
        sbst_LastAppliedSpecHash := []\<rparr>\<rparr>) True]\<rparr>"

fun renders :: "nat \<Rightarrow> ((goerr + unstr list) \<times> renderable) outcome \<Rightarrow> bool" where
  "renders n (Return (Inr docs, r)) = (length docs = n \<and> list_all may_own docs)"
| "renders n r = False"

lemma sample_render:
  "renders 2 (fst (RenderKubernetesResourcesFor sample (Sb_renderable sample_sb_aggregate) sample_sb_start))"
  by code_simp

lemma sample_CreateOrUpdate: "\<exists>t. CreateOrUpdate sample obj b s = (Return None, t)"
  by (auto simp: CreateOrUpdate_def dyn_Create_def sample_def bnd_call go_simps Let_def bnd_assoc)

lemma sample_apply_docs: "\<exists>b' t. apply_docs sample docs b s = (Return (None, b'), t)"
proof (induction docs arbitrary: b s)
  case Nil
  then show ?case by (simp add: go_simps)
next
  case (Cons d ds)
  obtain e s1 where e: "AppendJobIdTo sample d s = (Return e, s1)"
    by (metis AppendJobIdTo_apply prod.collapse)
  obtain s2 where "CreateOrUpdate sample e (GetScheduledBackup b) s1 = (Return None, s2)"
    using sample_CreateOrUpdate by blast
  with e show ?case using Cons.IH by (simp add: bnd_Return)
qed

lemma add_metadata_returns:
  "list_all may_own docs \<Longrightarrow> \<exists>es. add_metadata pf b docs s = (Return es, s) \<and> length es = length docs"
proof (induction docs)
  case (Cons d ds)
  then obtain es where es: "add_metadata pf b ds s = (Return es, s)" "length es = length ds" by auto
  from Cons.prems obtain e where "addOwnerReferences d b s = (Return e, s)"
    by (simp add: addOwnerReferences_cases)
  with es show ?case by (simp add: bnd_Return Let_def go_simps)
qed (simp add: go_simps)

lemma sample_apply:
  obtains r u where "ApplyObjects sample (Sb_renderable sample_sb_aggregate) sample_sb_start = (Return (None, r), u)"
proof -
  obtain docs b s where ren: "RenderKubernetesResourcesFor sample (Sb_renderable sample_sb_aggregate) sample_sb_start =
      (Return (Inr docs, b), s)" and docs: "length docs = 2" "list_all may_own docs"
    using sample_render
    by (cases "RenderKubernetesResourcesFor sample (Sb_renderable sample_sb_aggregate) sample_sb_start")
       (auto elim!: renders.elims)
  obtain es where es: "add_metadata sample b docs s = (Return es, s)" "length es = 2"
    using add_metadata_returns docs by metis
  obtain r u where "apply_docs sample es b s = (Return (None, r), u)" using sample_apply_docs by blast
  with ren es show thesis
    by (intro that[of r u]) (auto simp: ApplyObjects_def bnd_def)
qed

lemma sample_obtain:
  "locker_Obtain sample_locker sample_request sample_state =
     (Return (mk_session (Id_string ''prod/now'') None), sample_state\<lparr>locks := [''prod/now'']\<rparr>)"
  by (simp add: locker_Obtain_def InMemoryLocker_def iml_Obtain_def createLockingId_def sample_state_def
      sample_def sample_request_def Let_def)

text \<open>The run: it returns without an error or a warning and puts the hash of the specification.\<close>

lemma sample_sb_run_quiet:
  obtains s' y where
    "sb_Reconcile sample sample_locker sample_request sample_state = (Return (no_requeue, None), s')"
    and "Sb_status_put ''prod'' y True \<in> set (trace s')"
    and "sbst_LastAppliedSpecHash (sb_Status y) = CalculateHash sample_sb_spec"
    and "sb_Spec y = sample_sb_spec"
    and "\<forall>n r m. Event_emitted n ''Warning'' r m \<notin> set (trace s')"
proof -
  obtain r u where ap: "ApplyObjects sample (Sb_renderable sample_sb_aggregate) sample_sb_start = (Return (None, r), u)"
    by (rule sample_apply)
  from yieldsD[OF yields_ApplyObjects ap] obtain a where r: "r = Sb_renderable a"
    and a: "sb_Meta (sba_Backup a) = sb_Meta sample_sb" "sb_Spec (sba_Backup a) = sb_Spec sample_sb"
    using without_refs_sb[of r sample_sb_aggregate] by (auto simp: sample_sb_aggregate_def)
  let ?c = "new_condition ''True'' ''Successfully templated and applied objects to the cluster''"
  let ?y = "sample_sb\<lparr>sb_Status := (sb_Status sample_sb)\<lparr>sbst_Conditions := [sample_condition ?c],
        sbst_LastAppliedSpecHash := CalculateHash sample_sb_spec\<rparr>\<rparr>"
  have spec: "sb_Spec sample_sb = sample_sb_spec" and ns: "om_Namespace (sb_Meta sample_sb) = ''prod''"
    by (simp_all add: sample_sb_def)
  obtain t where fin: "sb_apply_succeeded sample sample_sb a u = (Return (no_requeue, None), t)"
    and t: "Sb_status_put ''prod'' ?y True \<in> set (trace t)"
    and tr: "\<exists>n m. trace t = trace u @ [Sb_status_put ''prod'' ?y True, Event_emitted n ''Normal'' ''Updated'' m]"
    by (simp add: sb_apply_succeeded_def bnd_Return[OF sample_updateObject] go_simps a spec ns sb_obj_namespace_def)
  have start: "sb_updateObject sample sample_sb_aggregate sample_unknown (sample_state\<lparr>locks := [''prod/now'']\<rparr>)
      = (Return (), sample_sb_start)"
    by (simp add: sample_updateObject sample_sb_start_def sample_state_def sample_unknown_def
        sb_obj_namespace_def sample_sb_aggregate_def ns new_condition_def)
  have process: "sb_process sample sample_sb None (sample_state\<lparr>locks := [''prod/now'']\<rparr>) =
      (Return (no_requeue, None), t)"
    unfolding sb_process_def sample_unknown_def[symmetric]
    using ap r fin start
    by (simp add: bnd_Return[OF sample_hydrate] bnd_Return)
  have body: "sb_reconcile_body sample sample_request (sample_state\<lparr>locks := [''prod/now'']\<rparr>) =
      (Return (no_requeue, None), t)"
    using process
    by (simp add: sb_reconcile_body_def FetchScheduledBackup_def bnd_call sample_def[symmetric])
       (simp add: sample_def IsBeingReconciledAlready_def HasSpecChanged_def sample_sb_def go_simps)
  have "sb_Reconcile sample sample_locker sample_request sample_state =
      deferring (locker_Done sample_locker (mk_session (Id_string ''prod/now'') None))
        (sb_reconcile_body sample sample_request) (sample_state\<lparr>locks := [''prod/now'']\<rparr>)"
    using sample_obtain
    by (simp add: sb_Reconcile_def with_lock_def bnd_Return AlreadyLocked_def HasFailure_def mk_session_def)
  also have "\<dots> = (Return (no_requeue, None), t\<lparr>locks := remove1 ''prod/now'' (locks t)\<rparr>)"
    using body by (simp add: deferring_def locker_Done_def InMemoryLocker_def)
  finally have run: "sb_Reconcile sample sample_locker sample_request sample_state =
      (Return (no_requeue, None), t\<lparr>locks := remove1 ''prod/now'' (locks t)\<rparr>)" .
  from keepsD[OF only_does_ApplyObjects ap] obtain as
    where as: "trace u = trace sample_sb_start @ as" "list_all is_object_action as" by (auto simp: only_does_def)
  from as(2) have "Event_emitted n ''Warning'' r m \<notin> set as" for n r m by (induction as) auto
  with as(1) tr have "\<forall>n r m. Event_emitted n ''Warning'' r m \<notin> set (trace t)" by (auto simp: sample_sb_start_def)
  with run t show thesis
    by (intro that[of "t\<lparr>locks := remove1 ''prod/now'' (locks t)\<rparr>" ?y]) (simp_all add: spec)
qed

lemma sample_sb_run:
  obtains s' y where
    "sb_Reconcile sample sample_locker sample_request sample_state = (Return (no_requeue, None), s')"
    and "Sb_status_put ''prod'' y True \<in> set (trace s')"
    and "sbst_LastAppliedSpecHash (sb_Status y) = CalculateHash sample_sb_spec"
    and "sb_Spec y = sample_sb_spec"
  by (rule sample_sb_run_quiet) (rule that; assumption)

text \<open>The sample backup with the hash of its specification stored.\<close>

definition sample_applied_backup :: scheduled_backup where
  "sample_applied_backup = sample_sb\<lparr>sb_Status := (sb_Status sample_sb)
     \<lparr>sbst_LastAppliedSpecHash := CalculateHash sample_sb_spec\<rparr>\<rparr>"

lemma sample_applied_hash:
  "sbst_LastAppliedSpecHash (sb_Status sample_applied_backup) = CalculateHash (sb_Spec sample_applied_backup)"
  by (simp add: sample_applied_backup_def sample_sb_def)

text \<open>The sample platform with another object in its cache.\<close>

definition caching :: "scheduled_backup \<Rightarrow> (unit, string list) platform" where
  "caching b = sample\<lparr>pf_cache_get_sb := (\<lambda>w ns n. ((b, None), w))\<rparr>"

lemma caching_sel [simp]:
  "pf_cache_get_sb (caching b) w ns n = ((b, None), w)" "pf_request_string (caching b) = pf_request_string sample"
  "pf_now (caching b) w = (0, w)"
  by (simp_all add: caching_def sample_def)

lemma caching_retry: "retry_ok (caching b)"
  using sample_retry by (simp add: retry_ok_def caching_def)

end
