(* ===== verification/Component_Properties.thy ===== *)
theory Component_Properties
  imports Sample_Platform
begin

text \<open>
  Properties of the single components, each with its claim and, where it has hypotheses, a
  witness on the sample platform. The properties that span components are in the root theory.
\<close>

section \<open>Hydrated aggregates\<close>

text \<open>The shape of an aggregate that rendering can use: which pointers are set, and to what.\<close>

definition complete_aggregate :: "scheduled_backup \<Rightarrow> sb_aggregate \<Rightarrow> bool" where
  "complete_aggregate b a \<longleftrightarrow>
     sba_Backup a = b \<and> sba_GPGSecret a \<noteq> None \<and> sba_TokenSecret a \<noteq> None \<and>
     (case sba_Template a of
        None \<Rightarrow> False
      | Some (InternalTemplate n) \<Rightarrow>
          ts_Kind (sbs_TemplateRef (sb_Spec b)) = InternalTemplateKind \<and> n = ts_Name (sbs_TemplateRef (sb_Spec b))
      | Some (ClusterTemplate t) \<Rightarrow> ts_Kind (sbs_TemplateRef (sb_Spec b)) \<noteq> InternalTemplateKind) \<and>
     (sba_VarsListSecret a \<noteq> None \<longleftrightarrow> vs_SecretName (sbs_VarsSecretRef (sb_Spec b)) \<noteq> []) \<and>
     gmap_ok (sba_AdditionalVarsList a) \<and>
     fst ` set (sba_AdditionalVarsList a) \<subseteq> {''Repository.token'', ''HelmValues.gpgKeyContent''}"



section \<open>GPG secrets\<close>

text \<open>
  C36. A GPG secret whose two keys are there is used as it is: hydrating writes nothing and
  generates nothing, whether or not a key may be created.
\<close>

theorem existing_gpg_keys_are_kept:
  assumes "pf_cache_get_secret pf (world s) (om_Namespace (sb_Meta (sba_Backup a)))
      (gpg_SecretName (sbs_GPGKeySecretRef (sb_Spec (sba_Backup a)))) = ((x, None), w)"
    and "as_stored x" and "has_keys (sbs_GPGKeySecretRef (sb_Spec (sba_Backup a))) (data_of x)"
  shows "hydrateGPGSecret pf a s = (Return (None, a\<lparr>sba_GPGSecret := Some x\<rparr>), s\<lparr>world := w\<rparr>)"
  using assms
  by (simp add: hydrateGPGSecret_def fetchSecret_def bnd_call err_IsNotFound_def updateGPGSecret_def
      ShouldUpdate_stored go_simps Let_def)

theorem existing_gpg_keys_are_kept_witness:
  "hydrateGPGSecret sample sample_sb_aggregate sample_state =
     (Return (None, sample_sb_aggregate\<lparr>sba_GPGSecret := Some (sample_secret ''prod'' ''gpg'')\<rparr>), sample_state\<lparr>world := ()\<rparr>)"
  by (rule existing_gpg_keys_are_kept)
     (simp_all add: sample_def sample_sb_aggregate_def sample_sb_def sample_sb_spec_def sample_gpg_def zero_meta_def
        as_stored_def sample_secret_def has_keys_def missing_key_def data_of_def
        GetPrivateKeyIndex_def GetPublicKeyIndex_def)

text \<open>
  A secret that was updated needs no update afterwards, whatever it held before; its
  metadata stays.
\<close>

theorem repaired_gpg_secret_is_stable:
  assumes "UpdateGPGSecretWithRecreatedGPGKey pf x spec email force s = (Return ((upd, None), x'), s')"
    and "armor_ok pf" and "as_stored x"
  shows "\<not> fst (ShouldUpdate x' spec) \<and> sec_Meta x' = sec_Meta x"
  using Update_completes[OF assms(1,2)] assms(3) by (simp add: ShouldUpdate_stored as_stored_def)

theorem repaired_gpg_secret_is_stable_witness:
  "\<not> fst (ShouldUpdate (snd (case fst (UpdateGPGSecretWithRecreatedGPGKey sample
     (sample_secret ''prod'' ''token'') sample_gpg ''me'' False sample_state) of Return r \<Rightarrow> r)) sample_gpg)"
proof -
  have "fst (UpdateGPGSecretWithRecreatedGPGKey sample (sample_secret ''prod'' ''token'') sample_gpg
      ''me'' False sample_state) = Return ((True, None), (sample_secret ''prod'' ''token'')\<lparr>sec_Data :=
        Some [(''token'', ''t0k''), (''e-mail.txt'', ''me''), (''passphrase'', []), (''pub'', ''P''), (''priv'', ''S'')]\<rparr>)"
    by code_simp
  then obtain x' s' where run: "UpdateGPGSecretWithRecreatedGPGKey sample (sample_secret ''prod'' ''token'')
      sample_gpg ''me'' False sample_state = (Return ((True, None), x'), s')"
    by (metis prod.collapse)
  from repaired_gpg_secret_is_stable[OF run sample_others(4)] run show ?thesis
    by (simp add: as_stored_def sample_secret_def)
qed

text \<open>When the specification does not allow to create the key, hydrating a backup writes nothing.\<close>

theorem no_key_creation_no_write:
  assumes "\<not> gpg_CreateIfNotExists (sbs_GPGKeySecretRef (sb_Spec b))"
  shows "trace (snd (CreateScheduledBackupAggregate pf b op s)) = trace s"
proof -
  have "hydration_action b = (\<lambda>_. False)" using assms by (auto simp: hydration_action_def)
  with only_does_CreateScheduledBackupAggregate[of b pf op] show ?thesis
    by (fastforce simp: keeps_def only_does_def list_all_iff)
qed

theorem no_key_creation_no_write_witness:
  "trace (snd (CreateScheduledBackupAggregate sample sample_sb [] sample_state)) = []"
  using no_key_creation_no_write[of sample_sb sample "[]" sample_state]
  by (simp add: sample_sb_def sample_sb_spec_def sample_gpg_def sample_state_def)

text \<open>
  The error of generating a key is dropped: when the key cannot be generated, a secret
  without keys is created all the same, and hydrating goes on with it.
\<close>

theorem gpg_generation_error_is_dropped:
  assumes gen: "pf_generate_key pf (world s) email email ''x25519'' 0 = (Inl e, w1)"
    and create: "\<And>x. pf_secret_create pf w1 x = ((x, None), w2)"
    and ref: "ref = sbs_GPGKeySecretRef (sb_Spec b)" and email: "email = gpg_Email ref"
    and i: "GetPrivateKeyIndex ref \<noteq> GetEmailIndex ref"
  shows "\<exists>x t. createGPGSecret pf b s = (Return (Inr x), t) \<and> trace t = trace s @ [Secret_created x True] \<and>
     \<not> has_keys ref (data_of x)"
proof -
  have "(GetPrivateKeyIndex ref = GetEmailIndex ref) = False" using i by simp
  then show ?thesis
    using gen create
    by (simp add: createGPGSecret_def CreateNewGPGSecret_def UpdateGPGSecretWithRecreatedGPGKey_def
        generateFullGPGIdentity_def ShouldUpdate_def client_Create_def data_of_def ref[symmetric] email[symmetric]
        bnd_call go_simps Let_def bnd_assoc has_keys_def missing_key_gset)
       (simp add: missing_key_def)
qed

definition without_entropy :: "(unit, string list) platform" where
  "without_entropy = sample\<lparr>pf_generate_key := (\<lambda>w a b c n. (Inl (Text_error ''no entropy''), w))\<rparr>"

theorem gpg_generation_error_is_dropped_witness:
  "\<exists>x t. createGPGSecret without_entropy sample_sb sample_state = (Return (Inr x), t) \<and>
     \<not> has_keys sample_gpg (data_of x)"
proof -
  have gen: "pf_generate_key without_entropy (world sample_state) ''me@example.org'' ''me@example.org'' ''x25519'' 0
      = (Inl (Text_error ''no entropy''), world sample_state)"
    by (simp add: without_entropy_def)
  have create: "pf_secret_create without_entropy (world sample_state) x = ((x, None), ())" for x
    by (simp add: without_entropy_def sample_def)
  have ref: "sample_gpg = sbs_GPGKeySecretRef (sb_Spec sample_sb)"
    by (simp add: sample_sb_def sample_sb_spec_def)
  have email: "''me@example.org'' = gpg_Email sample_gpg" by (simp add: sample_gpg_def)
  have i: "GetPrivateKeyIndex sample_gpg \<noteq> GetEmailIndex sample_gpg"
    by (simp add: sample_gpg_def GetPrivateKeyIndex_def GetEmailIndex_def)
  from gpg_generation_error_is_dropped[OF gen create ref email i] show ?thesis by blast
qed

text \<open>
  An error of the cache that is not \<^verbatim>\<open>NotFound\<close> is dropped when no key may be created: the
  object the failed read left behind becomes the GPG secret.
\<close>

theorem gpg_cache_error_is_dropped:
  assumes "pf_cache_get_secret pf (world s) (om_Namespace (sb_Meta (sba_Backup a)))
      (gpg_SecretName (sbs_GPGKeySecretRef (sb_Spec (sba_Backup a)))) = ((x, Some e), w)"
    and "\<not> IsNotFound e" and "\<not> gpg_CreateIfNotExists (sbs_GPGKeySecretRef (sb_Spec (sba_Backup a)))"
  shows "hydrateGPGSecret pf a s = (Return (None, a\<lparr>sba_GPGSecret := Some x\<rparr>), s\<lparr>world := w\<rparr>)"
  using assms
  by (simp add: hydrateGPGSecret_def fetchSecret_def bnd_call err_IsNotFound_def go_simps Let_def)

theorem gpg_cache_error_is_dropped_witness:
  "hydrateGPGSecret (sample\<lparr>pf_cache_get_secret := (\<lambda>w ns n. ((zero_secret, Some (Text_error ''timeout'')), w))\<rparr>)
     sample_sb_aggregate sample_state =
     (Return (None, sample_sb_aggregate\<lparr>sba_GPGSecret := Some zero_secret\<rparr>), sample_state\<lparr>world := ()\<rparr>)"
  by (rule gpg_cache_error_is_dropped[where e = "Text_error ''timeout''"])
     (simp_all add: sample_sb_aggregate_def sample_sb_def sample_sb_spec_def sample_gpg_def)

section \<open>Detecting changes\<close>



text \<open>
  A backup is taken for being reconciled exactly when one of its conditions is unknown
  and younger than 60 seconds, at any one time.
\<close>

theorem being_reconciled_iff_recent_unknown:
  assumes "\<And>w. fst (pf_now pf w) = now"
  shows "fst (IsBeingReconciledAlready pf b s) = Return (\<exists>c \<in> set (sbst_Conditions (sb_Status b)).
     now - cond_LastTransitionTime c < 60 * time_Second \<and> cond_Status c = ''Unknown'')"
proof -
  obtain s' where "recent_unknown pf (sbst_Conditions (sb_Status b)) s =
      (Return (\<exists>c \<in> set (sbst_Conditions (sb_Status b)).
         now - cond_LastTransitionTime c < 60 * time_Second \<and> cond_Status c = ''Unknown''), s')"
    using recent_unknown_spec[where pf = pf and now = now, OF assms] by blast
  then show ?thesis by (simp add: IsBeingReconciledAlready_def)
qed

theorem being_reconciled_iff_recent_unknown_witness:
  "fst (IsBeingReconciledAlready sample (sample_sb\<lparr>sb_Status := (sb_Status sample_sb)\<lparr>sbst_Conditions :=
     [new_condition ''Unknown'' ''x'']\<rparr>\<rparr>) sample_state) = Return True"
  using being_reconciled_iff_recent_unknown[of sample 0]
  by (simp add: sample_def new_condition_def time_Second_def)

section \<open>Rendering\<close>

text \<open>
  A backup gets the public key and any other operation the private key: the key file of
  the workspace holds the data stored under that name, and so does the variable of the chart.
\<close>

theorem key_of_the_operation:
  assumes "writeGPGKey pf a path operation s = (Return (None, vs), s')" and "sba_GPGSecret a = Some key"
  shows "os_ReadFile path (fsys s') = Inr (gget [] (data_of key)
       ((if operation = op_Backup then gpg_PublicKey else gpg_PrivateKey) (sbs_GPGKeySecretRef (sb_Spec (sba_Backup a)))))
     \<and> map_of vs ''HelmValues.gpgKeyContent'' = Some (gget [] (data_of key)
       ((if operation = op_Backup then gpg_PublicKey else gpg_PrivateKey) (sbs_GPGKeySecretRef (sb_Spec (sba_Backup a)))))"
  using writeGPGKey_spec[OF assms] by (simp add: operation_key_def split: if_splits)

theorem key_of_the_operation_witness:
  "\<exists>vs s'. writeGPGKey sample sample_sb_aggregate ''/tmp/gpg.key'' op_Backup sample_state = (Return (None, vs), s')
     \<and> os_ReadFile ''/tmp/gpg.key'' (fsys s') = Inr ''P''"
proof -
  have "(case fst (writeGPGKey sample sample_sb_aggregate ''/tmp/gpg.key'' op_Backup sample_state) of
      Return (None, vs) \<Rightarrow> True | _ \<Rightarrow> False)" by code_simp
  then obtain vs s' where run: "writeGPGKey sample sample_sb_aggregate ''/tmp/gpg.key'' op_Backup sample_state =
      (Return (None, vs), s')"
    by (cases "writeGPGKey sample sample_sb_aggregate ''/tmp/gpg.key'' op_Backup sample_state")
       (auto split: outcome.split_asm option.split_asm)
  from key_of_the_operation[OF run, of "sample_secret ''prod'' ''gpg''"] run show ?thesis
    by (auto simp: sample_sb_aggregate_def sample_sb_def sample_sb_spec_def sample_gpg_def sample_secret_def
        data_of_def gget_def)
qed

text \<open>
  Parsing the rendered manifests returns objects exactly when every document that is not
  empty can be decoded, and then the decoded objects of the wanted kinds, in order; no kind
  at all means every kind.
\<close>

theorem parse_rendered_manifests_spec:
  "parseRenderedManifests pf content kinds = Inr objs \<longleftrightarrow>
     list_all sum_ok (decoded_docs pf (strings_Split content doc_separator)) \<and>
     objs = filter (accepted pf kinds) (map projr (decoded_docs pf (strings_Split content doc_separator)))"
  by (simp add: parseRenderedManifests_def parse_docs_iff)

text \<open>
  Entries of the variables secret that are not among the keys to import have no
  influence: two secrets that agree on the imported entries lead to the same variables.
\<close>

theorem only_imported_keys_matter:
  assumes "filter (\<lambda>(path, val). imported ref True path) es = filter (\<lambda>(path, val). imported ref True path) es'"
  shows "set_vars pf (imported ref True) es vars = set_vars pf (imported ref True) es' vars"
  using assms set_vars_filter[of pf "imported ref True"] by simp

theorem only_imported_keys_matter_witness:
  "set_vars sample (imported \<lparr>vs_SecretName = ''v'', vs_ImportOnlyKeys = [''a'']\<rparr> True) [(''a'', ''1''), (''b'', ''2'')] (JObj [])
   = set_vars sample (imported \<lparr>vs_SecretName = ''v'', vs_ImportOnlyKeys = [''a'']\<rparr> True) [(''a'', ''1'')] (JObj [])"
  by (rule only_imported_keys_matter) (simp add: imported_def)

text \<open>The script of the operation is what the generator finds at the template's path.\<close>

theorem template_script_written:
  assumes "writeTemplate pf tpl operation path s = (Return None, s')" and "ProvidesScript tpl"
  shows "os_ReadFile path (fsys s') =
     Inr (if operation = op_Backup then GetBackupScript tpl else GetRestoreScript tpl)"
  using writeTemplate_content[OF assms] by (simp add: template_content_def)

theorem template_script_written_witness:
  "\<exists>s'. writeTemplate sample (ClusterTemplate sample_template) op_Restore ''/tmp/x.tmpl'' sample_state = (Return None, s')
     \<and> os_ReadFile ''/tmp/x.tmpl'' (fsys s') = Inr ''psql''"
proof -
  have "fst (writeTemplate sample (ClusterTemplate sample_template) op_Restore ''/tmp/x.tmpl'' sample_state) = Return None"
    by code_simp
  then obtain s' where run: "writeTemplate sample (ClusterTemplate sample_template) op_Restore ''/tmp/x.tmpl''
      sample_state = (Return None, s')" by (metis prod.collapse)
  from template_script_written[OF run] run show ?thesis
    by (simp add: cbpt_ProvidesScript_def cbpt_GetRestoreScript_def sample_template_def)
qed

section \<open>Applying\<close>

text \<open>
  \<^verbatim>\<open>CreateOrUpdate\<close> applies its object exactly when it returns no error, and applies
  nothing else.
\<close>

theorem create_or_update_applies:
  assumes "CreateOrUpdate pf obj b s = (Return err, t)"
  shows "\<exists>as. trace t = trace s @ as \<and> applied_objects as = (if err = None then [obj] else [])"
  using CreateOrUpdate_applies[OF assms] by (simp add: applies_def)

theorem create_or_update_applies_witness:
  "\<exists>t as. CreateOrUpdate sample (manifest ''v1'' ''Secret'' ''x'') sample_sb sample_state = (Return None, t) \<and>
     trace t = trace sample_state @ as \<and> applied_objects as = [manifest ''v1'' ''Secret'' ''x'']"
proof -
  obtain t where run: "CreateOrUpdate sample (manifest ''v1'' ''Secret'' ''x'') sample_sb sample_state = (Return None, t)"
    using sample_CreateOrUpdate by blast
  from create_or_update_applies[OF run] run show ?thesis by auto
qed

text \<open>
  A kind the cluster does not know makes \<^verbatim>\<open>CreateOrUpdate\<close> panic: the error of the REST
  mapping is not looked at and the nil mapping is read.
\<close>

theorem unknown_kind_panics:
  assumes "pf_discovery pf (world s) = (None, w1)"
    and "pf_rest_mapping pf w1 (gvk_Group (pf_gvk_of pf obj)) (gvk_Kind (pf_gvk_of pf obj))
           (gvk_Version (pf_gvk_of pf obj)) = (Inl e, w2)"
  shows "CreateOrUpdate pf obj b s = (Panic Nil_dereference, s\<lparr>world := w2\<rparr>)"
  using assms by (simp add: CreateOrUpdate_def bnd_call deref_def crash_def Let_def)

theorem unknown_kind_panics_witness:
  "CreateOrUpdate (sample\<lparr>pf_rest_mapping := (\<lambda>w g k v. (Inl (Text_error ''no match''), w))\<rparr>)
     (manifest ''x/v1'' ''Unknown'' ''n'') sample_sb sample_state = (Panic Nil_dereference, sample_state\<lparr>world := ()\<rparr>)"
  by (rule unknown_kind_panics) (simp_all add: sample_def)

text \<open>The REST mapping has no resource for the kind of the object.\<close>

definition kind_unknown :: "('w, 'l) platform \<Rightarrow> unstr \<Rightarrow> ('w, 'l) sys \<Rightarrow> bool" where
  "kind_unknown pf obj s =
     (case pf_discovery pf (world s) of
        (None, w) \<Rightarrow>
          (let g = pf_gvk_of pf obj in
           case pf_rest_mapping pf w (gvk_Group g) (gvk_Kind g) (gvk_Version g) of (Inl e, w') \<Rightarrow> True | _ \<Rightarrow> False)
      | _ \<Rightarrow> False)"

lemma CreateOrUpdate_panics:
  "if kind_unknown pf obj s then \<exists>w. CreateOrUpdate pf obj b s = (Panic Nil_dereference, s\<lparr>world := w\<rparr>)
   else \<exists>err t. CreateOrUpdate pf obj b s = (Return err, t)"
proof -
  let ?g = "pf_gvk_of pf obj"
  obtain d w where d: "pf_discovery pf (world s) = (d, w)" by fastforce
  obtain m w' where m: "pf_rest_mapping pf w (gvk_Group ?g) (gvk_Kind ?g) (gvk_Version ?g) = (m, w')" by fastforce
  show ?thesis
  proof (cases "d = None \<and> (\<exists>res. m = Inr res)")
    case False
    with d m show ?thesis
      by (cases d; cases m) (auto simp: kind_unknown_def CreateOrUpdate_def bnd_call deref_def crash_def go_simps Let_def)
  next
    case True
    then obtain res where res: "d = None" "m = Inr res" by blast
    have "\<exists>err t. CreateOrUpdate pf obj b s = (Return err, t)"
      using d m res
      by (simp add: CreateOrUpdate_def bnd_call deref_def go_simps Let_def dyn_Create_def dyn_Update_def bnd_assoc
          split: prod.split option.split)
    with d m res show ?thesis by (simp add: kind_unknown_def)
  qed
qed

text \<open>
  C38. The three ways out of \<^verbatim>\<open>CreateOrUpdate\<close>: it panics exactly for a kind the cluster does not
  know, before anything is done (the error of the REST mapping is not looked at and the nil
  mapping is read); it returns no error exactly when its object, and nothing else, was
  created or updated; with an error it has applied nothing.
\<close>

theorem create_or_update_outcome:
  "case CreateOrUpdate pf obj b s of
     (Panic p, t) \<Rightarrow> kind_unknown pf obj s \<and> p = Nil_dereference \<and> trace t = trace s
   | (Return err, t) \<Rightarrow> \<not> kind_unknown pf obj s \<and>
       (\<exists>as. trace t = trace s @ as \<and> applied_objects as = (if err = None then [obj] else []))"
proof (cases "kind_unknown pf obj s")
  case True
  with CreateOrUpdate_panics[of pf obj s b] show ?thesis by auto
next
  case False
  with CreateOrUpdate_panics[of pf obj s b] obtain err t where run: "CreateOrUpdate pf obj b s = (Return err, t)" by auto
  from CreateOrUpdate_applies[OF run] run False show ?thesis by (simp add: applies_def)
qed

text \<open>
  Adding the owner returns exactly for the objects whose metadata is missing or is a JSON
  object; for the others, and for an object without fields, it panics.
\<close>

theorem owner_panics_iff:
  "fst (addOwnerReferences doc b s) =
     (if may_own doc then Return (Some (gset ''metadata'' (JObj (gset ''ownerReferences''
              (owner_json (GetObjectForOwnerReference b))
              (case metadata_of doc of None \<Rightarrow> [] | Some m \<Rightarrow> m)))
              (if metadata_of doc = None then gset ''metadata'' (JObj []) (the doc) else the doc)))
      else Panic (if doc = None then Nil_map_write else Bad_type_assertion))"
  by (simp add: addOwnerReferences_cases)

section \<open>Job health and references\<close>

text \<open>
  C39. The health of the jobs with a tracking id is the worst verdict over the single jobs, in
  whatever order they are listed: failed before running before succeeded. Exactly one flag of
  the status is set. A job that is still pending (nothing active, nothing failed, nothing
  succeeded) has the verdict succeeded.
\<close>

theorem kubernetes_job_health:
  assumes "pf_list_jobs pf (world s) ns (LabelTrackingId @ ''='' @ i) = (Inr jobs, w)" and "jobs \<noteq> []"
  shows "\<exists>h. kj_GetScheduledJobHealthStatus pf i ns s = (Return (Inr h), s\<lparr>world := w\<rparr>) \<and> one_flag h \<and>
     health_verdict h = Max (job_verdict ` set jobs)"
  using kj_status_cases[OF assms(1)] assms(2) kj_loop_flags[of i ns jobs False] kj_loop_Max by simp

definition pending_job :: job where
  "pending_job = \<lparr>job_APIVersion = [], job_Kind = [], job_Name = ''j'', job_Namespace = ''prod'',
     job_Labels = [], job_Failed = 0, job_Active = 0, job_Succeeded = 0\<rparr>"

theorem kubernetes_job_health_witness:
  "\<exists>h t. kj_GetScheduledJobHealthStatus (sample\<lparr>pf_list_jobs := (\<lambda>w ns sel. (Inr [pending_job], w))\<rparr>) ''id'' ''prod''
     sample_state = (Return (Inr h), t) \<and> health_verdict h = Succeeded"
  using kubernetes_job_health[of "sample\<lparr>pf_list_jobs := (\<lambda>w ns sel. (Inr [pending_job], w))\<rparr>" sample_state
      "''prod''" "''id''" "[pending_job]" "()"]
  by (auto simp: pending_job_def job_verdict_def)

text \<open>
  A health report without an error is healthy exactly when no status in it has failed; one
  with an error is not healthy. Every status in it has exactly one of the three flags, and
  there are at most as many as references.
\<close>

theorem health_report_verdict:
  assumes "createOwnedReferencesHealthReport (NewAllSupportedJobResourceTypes pf) refs ns s =
     (Return (report, healthy, err), s')"
  shows "(healthy \<longleftrightarrow> err = None \<and> \<not> list_ex jh_Failed report) \<and> list_all one_flag report \<and>
     length report \<le> length refs"
  using kubernetes_report[OF assms] by (simp add: report_ok_def)

theorem health_report_verdict_witness:
  "\<exists>report s'. createOwnedReferencesHealthReport (NewAllSupportedJobResourceTypes sample)
     [\<lparr>cr_APIVersion = ''/v1'', cr_Kind = ''Secret'', cr_TrackingId = ''id''\<rparr>] ''prod'' sample_state
     = (Return (report, True, None), s') \<and> \<not> list_ex jh_Failed report"
proof -
  have "fst (createOwnedReferencesHealthReport (NewAllSupportedJobResourceTypes sample)
     [\<lparr>cr_APIVersion = ''/v1'', cr_Kind = ''Secret'', cr_TrackingId = ''id''\<rparr>] ''prod'' sample_state)
     = Return ([], True, None)" by code_simp
  then obtain s' where run: "createOwnedReferencesHealthReport (NewAllSupportedJobResourceTypes sample)
     [\<lparr>cr_APIVersion = ''/v1'', cr_Kind = ''Secret'', cr_TrackingId = ''id''\<rparr>] ''prod'' sample_state
     = (Return ([], True, None), s')" by (metis prod.collapse)
  from health_report_verdict[OF run] run show ?thesis by auto
qed

text \<open>
  C40. A labelled object adds one reference to its owner, and reading the kind back from that
  reference gives the kind of the object, core kinds with an empty group included.
\<close>

theorem child_reference_round_trip:
  assumes "map_of (pf_get_labels pf doc) LabelTrackingId = Some tracking"
    and "CHR ''/'' \<notin> set (gvk_Group (pf_gvk_of pf doc))" and "CHR ''/'' \<notin> set (gvk_Version (pf_gvk_of pf doc))"
  shows "\<exists>cr. AddOwnedObject pf refs doc = refs @ [cr] \<and> cr_TrackingId cr = tracking \<and>
     GetGVK cr s = (Return (pf_gvk_of pf doc), s)"
  using AddOwnedObject_round_trip[OF assms, of refs] by (metis ret_apply)

definition labelled_secret :: unstr where
  "labelled_secret = pf_set_labels sample (manifest ''v1'' ''Secret'' ''x'') [(LabelTrackingId, ''id'')]"

lemma labelled_secret_facts:
  "map_of (pf_get_labels sample labelled_secret) LabelTrackingId = Some ''id''"
  "pf_gvk_of sample labelled_secret = mk_gvk [] ''v1'' ''Secret''"
  by code_simp+

theorem child_reference_round_trip_witness:
  "\<exists>cr. AddOwnedObject sample [] labelled_secret = [cr] \<and>
     GetGVK cr sample_state = (Return (mk_gvk [] ''v1'' ''Secret''), sample_state)"
  using child_reference_round_trip[OF labelled_secret_facts(1), of "[]" sample_state]
  by (auto simp: labelled_secret_facts(2))

text \<open>Reading the kind of a reference panics exactly when its API version has no slash.\<close>

theorem get_gvk_panics_iff:
  "(\<exists>p. fst (GetGVK cr s) = Panic p) \<longleftrightarrow> CHR ''/'' \<notin> set (cr_APIVersion cr)"
proof -
  have "(\<exists>g. fst (GetGVK cr s) = Return g) \<longleftrightarrow> CHR ''/'' \<in> set (cr_APIVersion cr)"
    using GetGVK_outcome[of cr s] GetGVK_state[of cr s] by (metis prod.collapse fst_conv)
  then show ?thesis by (cases "fst (GetGVK cr s)") auto
qed

section \<open>Clients and lockers\<close>

text \<open>
  The timeout of a list or watch request is the number of seconds in nanoseconds, without
  wrapping around, up to 9223372036 seconds either way; without one it is zero.
\<close>

theorem list_timeout_bounds:
  assumes "lo_TimeoutSeconds opts = Some n" and "\<bar>sint n\<bar> \<le> 9223372036"
  shows "sint (list_timeout opts) = sint n * 1000000000 \<and>
     rq_Timeout (list_request res ns opts) = Some (list_timeout opts) \<and>
     list_timeout (opts\<lparr>lo_TimeoutSeconds := None\<rparr>) = 0"
  using list_timeout_exact[OF assms] by (simp add: list_request_def list_timeout_def)

theorem list_timeout_bounds_witness:
  "sint (list_timeout \<lparr>lo_Params = [], lo_TimeoutSeconds = Some 9223372036, lo_Watch = False\<rparr>) = 9223372036000000000"
proof -
  have n: "\<bar>sint (9223372036 :: 64 word)\<bar> \<le> 9223372036" by simp
  have o: "lo_TimeoutSeconds \<lparr>lo_Params = [], lo_TimeoutSeconds = Some 9223372036, lo_Watch = False\<rparr> = Some 9223372036"
    by simp
  from list_timeout_bounds[OF o n]
  have "sint (list_timeout \<lparr>lo_Params = [], lo_TimeoutSeconds = Some 9223372036, lo_Watch = False\<rparr>) =
      sint (9223372036 :: 64 word) * 1000000000" by (rule conjunct1)
  then show ?thesis by (rule trans) simp
qed

text \<open>
  A session of the Redis locker: it is locked already when the client answers
  \<^verbatim>\<open>ErrNotObtained\<close>, it failed or is locked already for any other error, it is free of errors
  otherwise, and giving it back never panics, whatever happened in between.
\<close>

theorem redis_session:
  assumes "rd_Obtain rc r (ns req) (60 * time_Second) = ((lock, err), r')"
  shows "(err = Some ErrNotObtained \<longrightarrow> AlreadyLocked (fst (rdl_Obtain rc ns r req))) \<and>
     (err = None \<longleftrightarrow> \<not> AlreadyLocked (fst (rdl_Obtain rc ns r req)) \<and> \<not> HasFailure (fst (rdl_Obtain rc ns r req))) \<and>
     (\<forall>r2. fst (rdl_Done rc r2 (fst (rdl_Obtain rc ns r req))) = Return ())"
  using assms
  by (auto simp: rdl_Obtain_def createLockingId_def mk_session_def AlreadyLocked_def HasFailure_def rdl_Done_def
      mult.commute[of _ "60 :: int"] split: option.splits redis_error.splits)

definition busy_redis :: "unit redis_client" where
  "busy_redis = \<lparr>rd_Obtain = (\<lambda>r k ttl. ((None, Some ErrNotObtained), r)),
     rd_Release = (\<lambda>r l. (None, r)), rd_Close = (\<lambda>r. (None, r))\<rparr>"

theorem redis_session_witness:
  "AlreadyLocked (fst (rdl_Obtain busy_redis (pf_request_string sample) () sample_request))"
  using redis_session[of busy_redis "()" "pf_request_string sample" sample_request None "Some ErrNotObtained" "()"]
  by (simp add: busy_redis_def)

section \<open>The process\<close>

text \<open>
  The locker is closed exactly once when \<^verbatim>\<open>Run\<close> returns or panics, and not at all when
  the process exits because there is no configuration or no manager.
\<close>

theorem locker_closed_once:
  assumes "App_Run h a p = (r, q)" and "closes_of p = 0"
  shows "closes_of q = (if \<exists>code. r = Return (Inl code) then 0 else 1)"
  by (rule App_Run_closes_once[OF assms])

definition willing_host :: "unit host" where
  "willing_host = \<lparr>h_parse = (\<lambda>as a. Inr a), h_get_config = (\<lambda>m. (True, m)),
     h_new_manager = (\<lambda>m mo. (None, m)), h_getenv = (\<lambda>m k. []),
     h_config_from_flags = (\<lambda>m a b. (Inr (Rest_config b), m)),
     h_in_cluster_config = (\<lambda>m. (Inr (Rest_config ''in-cluster''), m)),
     h_new_client = (\<lambda>m k c. (None, m)), h_complete = (\<lambda>m c. (None, m)),
     h_add_check = (\<lambda>m c. (None, m)), h_start = (\<lambda>m. (None, m))\<rparr>"

definition new_process :: "unit process" where
  "new_process = \<lparr>machine = (), events = []\<rparr>"

lemma on_machine_bnd: "h (machine p) = (a, m) \<Longrightarrow> bnd (on_machine h) f p = f a (p\<lparr>machine := m\<rparr>)"
  by (simp add: on_machine_def bnd_def)

lemma willing_register: "\<exists>q. register_all willing_host cs p = (Return None, q)"
  by (induction cs arbitrary: p)
     (auto simp: willing_host_def on_machine_bnd happened_def go_simps)

lemma willing_checks: "\<exists>q. add_checks willing_host cs p = (Return None, q)"
  by (induction cs arbitrary: p)
     (auto simp: willing_host_def on_machine_bnd go_simps)

lemma willing_start: "\<exists>q. start_manager willing_host p = (Return None, q) \<and> Manager_started \<in> set (events q)"
proof -
  obtain q where q: "register_all willing_host all_controllers p = (Return None, q)" using willing_register by blast
  obtain q2 where q2: "add_checks willing_host [''healthz'', ''readyz''] q = (Return None, q2)" using willing_checks by blast
  show ?thesis
    using q q2
    by (simp add: start_manager_def bnd_Return happened_def go_simps del: register_all.simps add_checks.simps)
       (simp add: willing_host_def on_machine_def)
qed

lemma machine_unit [simp]: "p\<lparr>machine := ()\<rparr> = (p :: unit process)"
  by (cases p) simp

lemma willing_manager: "\<exists>q. run_manager willing_host a p = (Return (Inr None), q)"
proof -
  have [simp]: "h_get_config willing_host = (\<lambda>m. (True, m))"
    "h_new_manager willing_host = (\<lambda>m mo. (None, m))" "h_getenv willing_host = (\<lambda>m k. [])"
    "h_in_cluster_config willing_host = (\<lambda>m. (Inr (Rest_config ''in-cluster''), m))"
    "h_new_client willing_host = (\<lambda>m k c. (None, m))"
    by (simp_all add: willing_host_def)
  obtain q where "start_manager willing_host p = (Return None, q)" using willing_start by blast
  then show ?thesis
    by (simp add: run_manager_def on_machine_bnd go_simps buildConfig_def new_client_def bnd_assoc bnd_Return)
qed

lemma willing_run: "fst (App_Run willing_host a p) = Return (Inr None)"
proof -
  define p1 where "p1 = (if app_debug a then p\<lparr>events := events p @ [Debug_level]\<rparr> else p)"
  obtain q where q: "run_manager willing_host a (p1\<lparr>events := events p1 @ [Locker_made (app_locker a)]\<rparr>) = (Return (Inr None), q)"
    using willing_manager by blast
  have "App_Run willing_host a p = deferring_live (happened (Locker_closed (app_locker a)))
     (run_manager willing_host a) (p1\<lparr>events := events p1 @ [Locker_made (app_locker a)]\<rparr>)"
    by (simp add: App_Run_def p1_def happened_def go_simps)
  also have "fst \<dots> = Return (Inr None)" using q by (simp add: deferring_live_happened)
  finally show ?thesis .
qed

theorem locker_closed_once_witness:
  "closes_of (snd (App_Run willing_host NewRootCommand new_process)) = 1"
proof -
  obtain q where run: "App_Run willing_host NewRootCommand new_process = (Return (Inr None), q)"
    using willing_run by (metis prod.collapse)
  have "closes_of new_process = 0" by (simp add: new_process_def closes_of_def)
  from locker_closed_once[OF run this] show ?thesis by (simp add: run)
qed

text \<open>
  The manager is only started with all five controllers registered, in order; none but
  the template controller passes delete events on.
\<close>

theorem manager_started_with_all_controllers:
  assumes "start_manager h p = (Return err, q)" and "Manager_started \<in> set (events q)"
    and "Manager_started \<notin> set (events p)"
  shows "events q = events p @ map Registered all_controllers @ [Manager_started] \<and>
     filter cs_DeleteFunc all_controllers = [cbpt_SetupWithManager]"
proof -
  have only: "register_all h cs p = (Return (Some e), u) \<Longrightarrow> Manager_started \<notin> set (events p) \<Longrightarrow>
      Manager_started \<notin> set (events u)" for cs p e u
  proof (induction cs arbitrary: p)
    case (Cons c cs)
    then show ?case
      by (auto simp: bnd_eq_Return on_machine_def happened_def go_simps
          split: prod.split_asm option.split_asm dest!: Cons.IH)
  qed (simp add: go_simps)
  have checks: "add_checks h cs p = (Return e, u) \<Longrightarrow> events u = events p" for cs p e u
  proof (induction cs arbitrary: p)
    case (Cons c cs)
    then show ?case
      by (auto simp: bnd_eq_Return on_machine_def go_simps split: prod.split_asm option.split_asm dest!: Cons.IH)
  qed (simp add: go_simps)
  from assms(1) obtain e u where reg: "register_all h all_controllers p = (Return e, u)"
    and rest: "(case e of
       Some e \<Rightarrow> ret (Some e)
     | None \<Rightarrow>
     bnd (add_checks h [''healthz'', ''readyz'']) (\<lambda>err.
     case err of
       Some e \<Rightarrow> ret (Some e)
     | None \<Rightarrow> bnd (happened Manager_started) (\<lambda>_. on_machine (h_start h)))) u = (Return err, q)"
    by (auto simp: start_manager_def bnd_eq_Return)
  show ?thesis
  proof (cases e)
    case (Some x)
    with reg rest assms(2,3) only show ?thesis by (auto simp: go_simps)
  next
    case None
    with reg have ev: "events u = events p @ map Registered all_controllers" by (simp add: register_all_events)
    moreover have "Manager_started \<notin> set (events u)" using ev assms(3) by auto
    ultimately have "events q = events p @ map Registered all_controllers @ [Manager_started]"
      using None rest assms(2)
      by (auto simp: bnd_eq_Return happened_def on_machine_def go_simps case_prod_unfold
          simp del: add_checks.simps split: option.split_asm dest!: checks)
    moreover have "filter cs_DeleteFunc all_controllers = [cbpt_SetupWithManager]"
      by (simp add: all_controllers_def cbpt_SetupWithManager_def sb_SetupWithManager_def
          rba_SetupWithManager_def rba_observer_SetupWithManager_def sb_observer_SetupWithManager_def)
    ultimately show ?thesis by blast
  qed
qed

theorem manager_started_with_all_controllers_witness:
  "\<exists>q. start_manager willing_host new_process = (Return None, q) \<and>
     events q = map Registered all_controllers @ [Manager_started]"
proof -
  obtain q where run: "start_manager willing_host new_process = (Return None, q)" "Manager_started \<in> set (events q)"
    using willing_start by blast
  from manager_started_with_all_controllers[OF run] run(1) show ?thesis by (simp add: new_process_def)
qed

end
