(* ===== verification/Histories.thy ===== *)
theory Histories
  imports Main
begin

text \<open>
  Traces of actions in which some put a value that is stored, generically in the actions. A
  trace is settled when every action after the first final stored value is quiet. The locale
  \<open>one_way\<close> is interpreted on the processed flag of an action.
\<close>

text \<open>The value stored last, if there is one.\<close>

definition last_accepted :: "('a \<Rightarrow> 'v option) \<Rightarrow> 'a list \<Rightarrow> 'v option" where
  "last_accepted accepted as = fold (\<lambda>a v. case accepted a of Some x \<Rightarrow> Some x | None \<Rightarrow> v) as None"

lemma last_accepted_Nil [simp]: "last_accepted accepted [] = None"
  by (simp add: last_accepted_def)

lemma last_accepted_snoc [simp]:
  "last_accepted accepted (as @ [a]) = (case accepted a of Some x \<Rightarrow> Some x | None \<Rightarrow> last_accepted accepted as)"
  by (simp add: last_accepted_def split: option.split)

lemma last_accepted_append:
  "last_accepted accepted (as @ bs) =
     (case last_accepted accepted bs of Some x \<Rightarrow> Some x | None \<Rightarrow> last_accepted accepted as)"
  by (induction bs rule: rev_induct) (auto simp flip: append_assoc split: option.split)

lemma last_accepted_in:
  "last_accepted accepted as = Some x \<Longrightarrow> \<exists>a \<in> set as. accepted a = Some x"
  by (induction as rule: rev_induct) (auto split: option.split_asm)

definition accepts_final :: "('a \<Rightarrow> 'v option) \<Rightarrow> ('v \<Rightarrow> bool) \<Rightarrow> 'a \<Rightarrow> bool" where
  "accepts_final accepted final a = (case accepted a of None \<Rightarrow> False | Some v \<Rightarrow> final v)"

fun settled :: "('a \<Rightarrow> bool) \<Rightarrow> ('a \<Rightarrow> bool) \<Rightarrow> bool \<Rightarrow> 'a list \<Rightarrow> bool" where
  "settled quiet marks p [] = True"
| "settled quiet marks p (a # as) = ((p \<longrightarrow> quiet a) \<and> settled quiet marks (p \<or> marks a) as)"

lemma settled_append:
  "settled quiet marks p (as @ bs) \<longleftrightarrow>
     settled quiet marks p as \<and> settled quiet marks (p \<or> list_ex marks as) bs"
  by (induction as arbitrary: p) (auto simp: disj_assoc)

lemma settled_quiet: "list_all quiet as \<Longrightarrow> settled quiet marks p as"
  by (induction as arbitrary: p) auto

lemma settled_unmarked: "\<not> list_ex marks as \<Longrightarrow> settled quiet marks False as"
  by (induction as) auto

lemma settled_TrueD: "settled quiet marks True as \<Longrightarrow> list_all quiet as"
  by (induction as) auto

text \<open>When quiet actions store final values only, a settled trace that was marked stays final.\<close>

locale one_way =
  fixes accepted :: "'a \<Rightarrow> 'v option" and final :: "'v \<Rightarrow> bool" and quiet :: "'a \<Rightarrow> bool"
  assumes quiet_final: "quiet a \<Longrightarrow> accepted a = Some v \<Longrightarrow> final v"
begin

lemma stored_final:
  assumes "settled quiet (accepts_final accepted final) False as"
    and "list_ex (accepts_final accepted final) as"
  shows "\<exists>v. last_accepted accepted as = Some v \<and> final v"
  using assms
proof (induction as rule: rev_induct)
  case (snoc a as)
  show ?case
  proof (cases "accepted a")
    case None
    then have "\<not> accepts_final accepted final a" by (simp add: accepts_final_def)
    with snoc None show ?thesis by (auto simp: settled_append)
  next
    case (Some v)
    with snoc.prems have "final v"
      by (cases "list_ex (accepts_final accepted final) as")
         (auto simp: settled_append accepts_final_def dest: quiet_final)
    with Some show ?thesis by simp
  qed
qed simp

text \<open>Quiet actions keep the stored value final.\<close>

lemma quiet_keeps_final:
  assumes "list_all quiet as" and "last_accepted accepted as = Some v"
  shows "final v"
  using last_accepted_in[OF assms(2)] assms(1) by (auto simp: list_all_iff dest: quiet_final)

end

end
