(* ===== verification/Backup_History.thy ===== *)
theory Backup_History
  imports Sample_Platform Histories
begin

text \<open>
  The life of one ScheduledBackup after its specification was applied: reconciliations of the
  controller and of the observer in any order. A status counts as stored when the API server
  accepted the put.
\<close>

section \<open>The stored status\<close>

fun accepted_sb_put :: "action \<Rightarrow> sb_status option" where
  "accepted_sb_put (Sb_status_put ns y True) = Some (sb_Status y)"
| "accepted_sb_put a = None"

text \<open>The status that is stored after a trace that began with the status \<open>st\<close>.\<close>

definition stored_backup_status :: "sb_status \<Rightarrow> action list \<Rightarrow> sb_status" where
  "stored_backup_status st as = (case last_accepted accepted_sb_put as of Some x \<Rightarrow> x | None \<Rightarrow> st)"

text \<open>
  The cache is current: it answers with the specification \<open>spec\<close> and with the status that is
  stored. (Caches of controller-runtime are current in the end, not always.)
\<close>

definition cache_current ::
  "('w, 'l) platform \<Rightarrow> request \<Rightarrow> sb_spec \<Rightarrow> sb_status \<Rightarrow> ('w, 'l) sys \<Rightarrow> bool" where
  "cache_current pf req spec st s \<longleftrightarrow>
     snd (fst (pf_cache_get_sb pf (world s) (req_Namespace req) (req_Name req))) = None \<longrightarrow>
       sb_Spec (cached_backup pf req s) = spec \<and>
       sb_Status (cached_backup pf req s) = stored_backup_status st (trace s)"

section \<open>Histories\<close>

inductive backup_history ::
  "('w, 'l) platform \<Rightarrow> 'l locker \<Rightarrow> request \<Rightarrow> sb_spec \<Rightarrow> sb_status \<Rightarrow> ('w, 'l) sys \<Rightarrow> ('w, 'l) sys \<Rightarrow> bool"
  for pf lk req spec st s0 where
  backup_begins: "backup_history pf lk req spec st s0 s0"
| backup_controller_runs: "backup_history pf lk req spec st s0 s \<Longrightarrow> cache_current pf req spec st s \<Longrightarrow>
    sb_Reconcile pf lk req s = (Return x, s') \<Longrightarrow> backup_history pf lk req spec st s0 s'"
| backup_observer_runs: "backup_history pf lk req spec st s0 s \<Longrightarrow> cache_current pf req spec st s \<Longrightarrow>
    sb_observer_Reconcile pf lk req s = (Return x, s') \<Longrightarrow> backup_history pf lk req spec st s0 s'"
| backup_elsewhere: "backup_history pf lk req spec st s0 s \<Longrightarrow>
    backup_history pf lk req spec st s0 (s\<lparr>world := w, locks := l, fsys := f, captured := c\<rparr>)"

text \<open>The actions that leave the backup applied: no object, and no status with another hash.\<close>

fun puts_hash :: "string \<Rightarrow> action \<Rightarrow> bool" where
  "puts_hash h (Sb_status_put ns y ok) = (sbst_LastAppliedSpecHash (sb_Status y) = h)"
| "puts_hash h a = True"

definition leaves_applied :: "string \<Rightarrow> action \<Rightarrow> bool" where
  "leaves_applied h a \<longleftrightarrow> applied_objects [a] = [] \<and> puts_hash h a"

abbreviation has_hash :: "string \<Rightarrow> sb_status \<Rightarrow> bool" where
  "has_hash h st \<equiv> sbst_LastAppliedSpecHash st = h"

interpretation hash_stored: one_way accepted_sb_put "has_hash h" "leaves_applied h" for h
  by unfold_locales (auto simp: leaves_applied_def elim!: accepted_sb_put.elims)

lemma stored_hash:
  assumes "has_hash h st" and "list_all (leaves_applied h) as"
  shows "has_hash h (stored_backup_status st as)"
  using assms hash_stored.quiet_keeps_final[OF assms(2)]
  by (auto simp: stored_backup_status_def split: option.split)

lemma secret_write_leaves: "is_secret_write a \<Longrightarrow> leaves_applied h a"
  by (cases a) (auto simp: leaves_applied_def)

lemma report_leaves:
  "sb_report_action a report healthy act \<Longrightarrow> has_hash h (sb_Status (sba_Backup a)) \<Longrightarrow> leaves_applied h act"
  by (cases act) (auto simp: leaves_applied_def)

lemma leaves_applied_none: "list_all (leaves_applied h) as \<Longrightarrow> applied_objects as = []"
proof (induction as)
  case (Cons a as)
  then show ?case using applied_objects_append[of "[a]" as] by (simp add: leaves_applied_def)
qed simp

section \<open>One reconciliation\<close>

lemma current_hash:
  assumes "cache_current pf req spec st s" and "list_all (leaves_applied (CalculateHash spec)) (trace s)"
    and "has_hash (CalculateHash spec) st"
    and "snd (fst (pf_cache_get_sb pf (world s) (req_Namespace req) (req_Name req))) = None"
  shows "sb_Spec (cached_backup pf req s) = spec \<and> has_hash (CalculateHash spec) (sb_Status (cached_backup pf req s))"
  using assms stored_hash[OF assms(3,2)] by (simp add: cache_current_def)

lemma relocked:
  "cached_backup pf req (s\<lparr>locks := l\<rparr>) = cached_backup pf req s"
  "cache_current pf req spec st (s\<lparr>locks := l\<rparr>) = cache_current pf req spec st s"
  by (simp_all add: cache_current_def cached_backup_def)

lemma controller_leaves_applied:
  assumes cur: "cache_current pf req spec st s" and st: "has_hash (CalculateHash spec) st"
    and tr: "list_all (leaves_applied (CalculateHash spec)) (trace s)"
    and run: "sb_Reconcile pf lk req s = (Return x, s')"
  shows "trace s' = trace s"
proof (rule ccontr)
  assume "trace s' \<noteq> trace s"
  with run obtain l t where body: "sb_reconcile_body pf req (s\<lparr>locks := l\<rparr>) = (Return x, t)"
    and t: "trace t = trace s'" unfolding sb_Reconcile_def by (rule with_lock_ran)
  from body show False
  proof (cases rule: sb_body_cases)
    case idle
    with t \<open>trace s' \<noteq> trace s\<close> show False by simp
  next
    case (process s1)
    with current_hash[OF cur tr st] show False by (simp add: relocked HasSpecChanged_def)
  qed
qed

lemma observer_leaves_applied:
  assumes retry: "retry_ok pf"
    and cur: "cache_current pf req spec st s" and st: "has_hash (CalculateHash spec) st"
    and tr: "list_all (leaves_applied (CalculateHash spec)) (trace s)"
    and run: "sb_observer_Reconcile pf lk req s = (Return x, s')"
  shows "list_all (leaves_applied (CalculateHash spec)) (trace s')"
proof (cases "trace s' = trace s")
  case False
  with run obtain l t where body: "sb_observer_body pf req (s\<lparr>locks := l\<rparr>) = (Return x, t)"
    and t: "trace t = trace s'" unfolding sb_observer_Reconcile_def by (rule with_lock_ran)
  from retry body show ?thesis
  proof (cases rule: sb_observer_actions)
    case (secrets_only as)
    then have "list_all (leaves_applied (CalculateHash spec)) as" by (auto simp: list_all_iff secret_write_leaves)
    with secrets_only(1) t tr show ?thesis by simp
  next
    case (reported a u v report healthy err as bs)
    from FetchSBAggregate_backup[OF reported(1)] current_hash[OF cur tr st]
    have "has_hash (CalculateHash spec) (sb_Status (sba_Backup a))" by (simp add: relocked)
    with reported(5) have "list_all (leaves_applied (CalculateHash spec)) bs"
      by (auto simp: list_all_iff intro: report_leaves)
    moreover have "list_all (leaves_applied (CalculateHash spec)) as"
      using reported(4) by (auto simp: list_all_iff secret_write_leaves)
    moreover have "trace s' = trace s @ as @ bs" using reported(3) t by simp
    ultimately show ?thesis using tr by simp
  qed
qed (use tr in simp)

lemma history_leaves_applied:
  assumes "backup_history pf lk req spec st s0 s" and "retry_ok pf" and "trace s0 = []"
    and "has_hash (CalculateHash spec) st"
  shows "list_all (leaves_applied (CalculateHash spec)) (trace s)"
  using assms(1)
proof induction
  case (backup_controller_runs s x s')
  from controller_leaves_applied[OF this(2) assms(4) this(4,3)] this(4) show ?case by simp
next
  case (backup_observer_runs s x s')
  from observer_leaves_applied[OF assms(2) this(2) assms(4) this(4,3)] show ?case .
qed (use assms(3) in simp_all)

section \<open>Properties\<close>

text \<open>
  C18. A backup that was applied is left alone: in every history of its controller and its
  observer in which the cache is current and the specification stays, once the hash of the
  specification is stored no object is applied, and every status put has that hash.
\<close>

theorem applied_backup_is_left_alone:
  assumes "retry_ok pf" and "backup_history pf lk req spec st s0 s" and "trace s0 = []"
    and "sbst_LastAppliedSpecHash st = CalculateHash spec"
  shows "applied_objects (trace s) = [] \<and>
     (\<forall>ns y ok. Sb_status_put ns y ok \<in> set (trace s) \<longrightarrow>
        sbst_LastAppliedSpecHash (sb_Status y) = CalculateHash spec)"
proof -
  from history_leaves_applied[OF assms(2,1,3,4)]
  have leaves: "list_all (leaves_applied (CalculateHash spec)) (trace s)" .
  then show ?thesis using leaves_applied_none[OF leaves] by (auto simp: list_all_iff leaves_applied_def)
qed

text \<open>The controller on the sample, when the cache has the backup with its hash.\<close>

definition applied_run ::
  "(unit, string list) sys \<Rightarrow> (result \<times> goerr option) outcome \<times> (unit, string list) sys" where
  "applied_run = sb_Reconcile (caching sample_applied_backup) (InMemoryLocker (pf_request_string sample)) sample_request"

lemma applied_run_idle: "applied_run sample_state = (Return (no_requeue, None), sample_state)"
proof -
  have "lk_Obtain (InMemoryLocker (pf_request_string sample)) (locks sample_state) sample_request
      = (mk_session (Id_string ''prod/now'') None, [''prod/now''])"
    by (simp add: InMemoryLocker_def iml_Obtain_apply sample_state_def)
  from iml.with_lock_run[OF _ this unchanged_backup_idle[OF caching_sel(1) sample_applied_hash]]
  show ?thesis by (simp add: applied_run_def sb_Reconcile_def sample_state_def)
qed

theorem applied_backup_is_left_alone_witness:
  "\<exists>s. backup_history (caching sample_applied_backup) (InMemoryLocker (pf_request_string sample)) sample_request
     sample_sb_spec (sb_Status sample_applied_backup) sample_state s \<and> applied_objects (trace s) = []"
proof -
  let ?st = "sb_Status sample_applied_backup"
  have "cache_current (caching sample_applied_backup) sample_request sample_sb_spec ?st sample_state"
    by (simp add: cache_current_def cached_backup_def stored_backup_status_def sample_state_def
        sample_applied_backup_def sample_sb_def)
  from backup_controller_runs[OF backup_begins this applied_run_idle[unfolded applied_run_def]]
  have hist: "backup_history (caching sample_applied_backup) (InMemoryLocker (pf_request_string sample)) sample_request
     sample_sb_spec ?st sample_state sample_state" .
  have "sbst_LastAppliedSpecHash ?st = CalculateHash sample_sb_spec"
    by (simp add: sample_applied_backup_def)
  from applied_backup_is_left_alone[OF caching_retry hist _ this] hist show ?thesis
    by (auto simp: sample_state_def)
qed

text \<open>
  C19. Every status the observer puts is the one of the cached backup, but for the health it
  reports: also its hash, its conditions and its references, whatever the API server holds by
  then. The object it is put on is fetched anew, so no conflict tells that the cache was stale.
\<close>

theorem observer_stores_the_cached_status:
  assumes "retry_ok pf" and run: "sb_observer_Reconcile pf lk req s = (Return x, s')"
    and tr: "trace s' = trace s @ as" and put: "Sb_status_put ns y ok \<in> set as"
  shows "\<exists>report healthy. sb_Status y = (sb_Status (cached_backup pf req s))
     \<lparr>sbst_ChildrenResourcesHealth := report, sbst_Healthy := healthy\<rparr>"
proof -
  from put tr have "trace s' \<noteq> trace s" by auto
  with run obtain l t where body: "sb_observer_body pf req (s\<lparr>locks := l\<rparr>) = (Return x, t)"
    and t: "trace t = trace s'" unfolding sb_observer_Reconcile_def by (rule with_lock_ran)
  from assms(1) body show ?thesis
  proof (cases rule: sb_observer_actions)
    case (secrets_only bs)
    with t tr put show ?thesis by (auto simp: list_all_iff)
  next
    case (reported a u v report healthy err bs cs)
    have "Sb_status_put ns y ok \<notin> set bs" using reported(4) by (auto simp: list_all_iff)
    with reported(3) t tr put have "Sb_status_put ns y ok \<in> set cs" by auto
    with reported(5) have "sb_report_action a report healthy (Sb_status_put ns y ok)"
      unfolding list_all_iff by blast
    then have "sb_Status y = (sb_Status (sba_Backup a))\<lparr>sbst_ChildrenResourcesHealth := report, sbst_Healthy := healthy\<rparr>"
      by simp
    with FetchSBAggregate_backup[OF reported(1)] show ?thesis by (auto simp: relocked)
  qed
qed

text \<open>The API server holds a new hash, the cache is stale and has none.\<close>

definition stale :: "(unit, string list) platform" where
  "stale = sample\<lparr>pf_sb := sample_client (sample_sb\<lparr>sb_Status := (sb_Status sample_sb)\<lparr>sbst_LastAppliedSpecHash := ''new''\<rparr>\<rparr>)\<rparr>"

fun puts_a_status :: "action \<Rightarrow> bool" where
  "puts_a_status (Sb_status_put ns y ok) = True"
| "puts_a_status a = False"

definition stale_run :: "(result \<times> goerr option) outcome \<times> (unit, string list) sys" where
  "stale_run = sb_observer_Reconcile stale sample_locker sample_request sample_state"

lemma stale_run_facts:
  "fst stale_run = Return (no_requeue, None)" "list_ex puts_a_status (trace (snd stale_run))"
  by code_simp+

theorem observer_stores_the_cached_status_witness:
  "\<exists>t ns y ok b w. sb_observer_Reconcile stale sample_locker sample_request sample_state = (Return (no_requeue, None), t) \<and>
     Sb_status_put ns y ok \<in> set (trace t) \<and> sbst_LastAppliedSpecHash (sb_Status y) = [] \<and>
     sb_Get (pf_sb stale) ''prod'' ''now'' [] () = (Inr b, w) \<and> sbst_LastAppliedSpecHash (sb_Status b) = ''new''"
proof -
  obtain t where run: "sb_observer_Reconcile stale sample_locker sample_request sample_state = (Return (no_requeue, None), t)"
    and tr: "trace t = trace (snd stale_run)"
    using stale_run_facts(1) by (cases stale_run) (auto simp: stale_run_def)
  with stale_run_facts(2) obtain ns y ok where put: "Sb_status_put ns y ok \<in> set (trace t)"
    by (auto simp: list_ex_iff elim!: puts_a_status.elims)
  have retry: "retry_ok stale" using sample_retry by (simp add: retry_ok_def stale_def)
  have "trace t = trace sample_state @ trace t" by (simp add: sample_state_def)
  from observer_stores_the_cached_status[OF retry run this put]
  have "sbst_LastAppliedSpecHash (sb_Status y) = []"
    by (auto simp: cached_backup_def stale_def sample_def sample_sb_def)
  moreover obtain b where "sb_Get (pf_sb stale) ''prod'' ''now'' [] () = (Inr b, ())"
    and "sbst_LastAppliedSpecHash (sb_Status b) = ''new''"
    by (simp add: sb_Get_def stale_def sample_client_def)
  ultimately show ?thesis using run put by blast
qed

end
