(* ===== verification/Action_History.thy ===== *)
theory Action_History
  imports Rba_Controller Histories
begin

text \<open>
  The life of one RequestedBackupAction: reconciliations of the controller and of the observer
  in any order, with anything happening to the world in between. A stored status is the one of
  the last put the API server accepted.
\<close>

section \<open>The stored status\<close>

fun accepted_put :: "action \<Rightarrow> rba_status option" where
  "accepted_put (Rba_status_put ns y True) = Some (rba_Status y)"
| "accepted_put a = None"

abbreviation stored_status :: "action list \<Rightarrow> rba_status option" where
  "stored_status \<equiv> last_accepted accepted_put"

text \<open>Documented behaviour of the API server: a read answers with the status that is stored.\<close>

definition reads_last_write :: "('w, 'l) platform \<Rightarrow> request \<Rightarrow> ('w, 'l) sys \<Rightarrow> bool" where
  "reads_last_write pf req s \<longleftrightarrow>
     (\<forall>a w st. rba_Get (pf_rba pf) (req_Namespace req) (req_Name req) [] (world s) = (Inr a, w) \<longrightarrow>
        stored_status (trace s) = Some st \<longrightarrow> rba_Status a = st)"

section \<open>Histories\<close>

inductive rba_history :: "('w, 'l) platform \<Rightarrow> 'l locker \<Rightarrow> request \<Rightarrow> ('w, 'l) sys \<Rightarrow> ('w, 'l) sys \<Rightarrow> bool"
  for pf lk req s0 where
  history_begins: "rba_history pf lk req s0 s0"
| controller_runs: "rba_history pf lk req s0 s \<Longrightarrow> reads_last_write pf req s \<Longrightarrow>
    rba_Reconcile pf lk req s = (Return x, s') \<Longrightarrow> rba_history pf lk req s0 s'"
| observer_runs: "rba_history pf lk req s0 s \<Longrightarrow> reads_last_write pf req s \<Longrightarrow>
    rba_observer_Reconcile pf lk req s = (Return x, s') \<Longrightarrow> rba_history pf lk req s0 s'"
| elsewhere: "rba_history pf lk req s0 s \<Longrightarrow>
    rba_history pf lk req s0 (s\<lparr>world := w, locks := l, fsys := f, captured := c\<rparr>)"

text \<open>
  Once a processed status is stored, a history is settled: nothing is applied any more, and
  every status put is processed.
\<close>

fun processed_put :: "action \<Rightarrow> bool" where
  "processed_put (Rba_status_put ns y ok) = rbast_Processed (rba_Status y)"
| "processed_put a = True"

definition quiet :: "action \<Rightarrow> bool" where
  "quiet a \<longleftrightarrow> applied_objects [a] = [] \<and> processed_put a"

definition marks :: "action \<Rightarrow> bool" where
  "marks = accepts_final accepted_put rbast_Processed"

lemma marks_iff: "marks a \<longleftrightarrow> (\<exists>st. accepted_put a = Some st \<and> rbast_Processed st)"
  by (auto simp: marks_def accepts_final_def split: option.split)

abbreviation settled_action :: "bool \<Rightarrow> action list \<Rightarrow> bool" where
  "settled_action \<equiv> settled quiet marks"

interpretation processed: one_way accepted_put rbast_Processed quiet
  by unfold_locales (auto simp: quiet_def elim!: accepted_put.elims)

lemma quiet_applied: "list_all quiet as \<Longrightarrow> applied_objects as = []"
proof (induction as)
  case (Cons a as)
  then show ?case using applied_objects_append[of "[a]" as] by (simp add: quiet_def)
qed simp

section \<open>One reconciliation\<close>

lemma NewRequestedBackupActionAggregate_status:
  "rba_Status (rbag_Action (NewRequestedBackupActionAggregate pf action sa)) = rba_Status action"
  by (simp add: NewRequestedBackupActionAggregate_def SetTargetKindType_def Let_def split: prod.split)

lemma CreateRequestedBackupActionAggregate_status:
  "CreateRequestedBackupActionAggregate pf action b s = (Return (a, c, e), t) \<Longrightarrow>
     rba_Status (rbag_Action a) = rba_Status action"
  by (auto simp: CreateRequestedBackupActionAggregate_def bnd_eq_Return go_simps Let_def
      NewRequestedBackupActionAggregate_status split: option.split_asm)

lemma FetchRBAAggregate_status:
  assumes "FetchRBAAggregate pf req s = (Return (Inr a), t)"
  shows "\<exists>r w. rba_Get (pf_rba pf) (req_Namespace req) (req_Name req) [] (world s) = (Inr r, w) \<and>
     rba_Status (rbag_Action a) = rba_Status r"
  using assms
  by (auto simp: FetchRBAAggregate_def FetchRequestedBackupAction_def bnd_call bnd_eq_Return go_simps
      dest!: CreateRequestedBackupActionAggregate_status
      split: prod.split_asm sum.split_asm option.split_asm)

lemma fetched_processed:
  assumes "reads_last_write pf req s" and "settled_action False (trace s)" and "list_ex marks (trace s)"
    and "FetchRBAAggregate pf req (s\<lparr>locks := l\<rparr>) = (Return (Inr a), t)"
  shows "WasAlreadyProcessed a"
proof -
  from FetchRBAAggregate_status[OF assms(4)] obtain r w
    where "rba_Get (pf_rba pf) (req_Namespace req) (req_Name req) [] (world s) = (Inr r, w)"
      "rba_Status (rbag_Action a) = rba_Status r" by auto
  with assms(1) processed.stored_final[folded marks_def, OF assms(2,3)] show ?thesis
    by (auto simp: reads_last_write_def WasAlreadyProcessed_def)
qed

lemma secret_write_quiet: "is_secret_write a \<Longrightarrow> quiet a \<and> \<not> marks a"
  by (cases a) (auto simp: quiet_def marks_iff)

lemma event_quiet: "quiet (Event_emitted n t r m)"
  by (simp add: quiet_def)

lemma verdict_quiet: "rba_verdict refs True a \<Longrightarrow> quiet a"
  by (cases a) (auto simp: rba_verdict_def quiet_def)

lemma verdict_unmarked: "rba_verdict refs False a \<Longrightarrow> \<not> marks a"
  by (auto simp: rba_verdict_def marks_iff elim!: accepted_put.elims)

lemma object_action_unmarked: "is_object_action a \<Longrightarrow> \<not> marks a"
  by (cases a) (auto simp: marks_iff)

lemma secrets_quiet: "list_all is_secret_write as \<Longrightarrow> list_all quiet as"
  by (auto simp: list_all_iff secret_write_quiet)

lemma controller_settles:
  assumes "accessors_ok pf" and "retry_ok pf" and reads: "reads_last_write pf req s"
    and st: "settled_action False (trace s)" and run: "rba_Reconcile pf lk req s = (Return x, s')"
  shows "settled_action False (trace s')"
proof (cases "trace s' = trace s")
  case False
  with run obtain l t where body: "rba_reconcile_body pf req (s\<lparr>locks := l\<rparr>) = (Return x, t)"
    and t: "trace t = trace s'" unfolding rba_Reconcile_def by (rule with_lock_ran)
  show ?thesis
  proof (cases "list_ex marks (trace s)")
    case True
    from body obtain r u where fetch: "FetchRBAAggregate pf req (s\<lparr>locks := l\<rparr>) = (Return r, u)"
      and rest: "(case r of Inl (ctrlResult, e) \<Rightarrow> ret (ctrlResult, Some e)
         | Inr aggregate \<Rightarrow> rba_process pf aggregate) u = (Return x, t)"
      by (auto simp: rba_reconcile_body_def bnd_eq_Return)
    from keepsD[OF only_does_fetch(3) fetch] obtain as
      where as: "trace u = trace s @ as" "list_all is_secret_write as" by (auto simp: only_does_def)
    have "\<exists>bs. trace t = trace u @ bs \<and> list_all quiet bs"
    proof (cases r)
      case (Inl e)
      with rest show ?thesis by (auto simp: go_simps split: prod.split_asm)
    next
      case (Inr a)
      with fetch have "WasAlreadyProcessed a" by (intro fetched_processed[OF reads st True]) simp
      with rest Inr show ?thesis by (auto simp: rba_process_done quiet_def)
    qed
    with as have "\<exists>bs. trace t = trace s @ bs \<and> list_all quiet bs"
      by (auto simp: secrets_quiet)
    with t st True show ?thesis by (auto simp: settled_append intro: settled_quiet)
  next
    case none: False
    from assms(1,2) body show ?thesis
    proof (cases rule: rba_body_actions)
      case idle
      then obtain as where "trace t = trace s @ as"
        "list_all (\<lambda>a. is_secret_write a \<or> (\<exists>n ty r m. a = Event_emitted n ty r m)) as"
        by (auto simp: only_does_def)
      moreover from this(2) have "list_all quiet as"
        by (auto simp: list_all_iff secret_write_quiet event_quiet)
      ultimately show ?thesis using t st by (auto simp: settled_append intro: settled_quiet)
    next
      case (worked ag err as1 as2 as3)
      have "settled_action False as1" by (rule settled_quiet) (rule secrets_quiet[OF worked(2)])
      moreover have "\<not> list_ex marks as1" "\<not> list_ex marks as2"
        using worked(2,3) by (auto simp: list_all_iff list_ex_iff dest: secret_write_quiet object_action_unmarked)
      moreover have "settled_action False as3"
      proof (cases "err = None")
        case True
        with worked(7) have "list_all quiet as3" by (auto simp: list_all_iff dest: verdict_quiet)
        then show ?thesis by (rule settled_quiet)
      next
        case False
        with worked(7) have "\<not> list_ex marks as3" by (auto simp: list_all_iff list_ex_iff dest: verdict_unmarked)
        then show ?thesis by (rule settled_unmarked)
      qed
      ultimately show ?thesis using worked(1) t st none
        by (simp add: settled_append settled_unmarked)
    qed
  qed
qed (use st in simp)

text \<open>What the observer does to the trace.\<close>

lemma rba_observer_actions:
  assumes retry: "retry_ok pf" and run: "rba_observer_body pf req s = (Return x, t)"
  obtains (secrets_only) as where "trace t = trace s @ as" and "list_all is_secret_write as"
  | (reported) a u report healthy as bs where "FetchRBAAggregate pf req s = (Return (Inr a), u)"
      and "trace t = trace s @ as @ bs" and "list_all is_secret_write as"
      and "list_all (rba_report_action a report healthy) bs"
proof -
  from run obtain r s1 where fetch: "FetchRBAAggregate pf req s = (Return r, s1)"
    and rest: "(case r of
       Inl (_, e) \<Rightarrow>
         ret (no_requeue, Some (Wrapped_error ''cannot fetch RequestedBackupAction from cache'' e))
     | Inr aggregate \<Rightarrow>
         bnd (createOwnedReferencesHealthReport (NewAllSupportedJobResourceTypes pf)
                (rbag_GetReferencesOfOwnedObjects aggregate) (req_Namespace req)) (\<lambda>(report, healthy, err).
         if any_running report then ret (requeue_after (time_Second * 10), None)
         else bnd (rba_updateStatus pf aggregate report healthy) (\<lambda>_. ret (no_requeue, None)))) s1 = (Return x, t)"
    by (auto simp: rba_observer_body_def bnd_eq_Return)
  from keepsD[OF only_does_fetch(3) fetch] obtain as
    where as: "trace s1 = trace s @ as" "list_all is_secret_write as" by (auto simp: only_does_def)
  show thesis
  proof (cases r)
    case (Inl e)
    with rest have "trace t = trace s1" by (cases e) (simp add: go_simps)
    with as show thesis by (intro secrets_only) simp_all
  next
    case (Inr a)
    with rest obtain report healthy err s2 where
      rep: "createOwnedReferencesHealthReport (NewAllSupportedJobResourceTypes pf)
         (rbag_GetReferencesOfOwnedObjects a) (req_Namespace req) s1 = (Return (report, healthy, err), s2)"
      and fin: "(if any_running report then ret (requeue_after (time_Second * 10), None)
           else bnd (rba_updateStatus pf a report healthy) (\<lambda>_. ret (no_requeue, None))) s2 = (Return x, t)"
      by (auto simp: bnd_eq_Return)
    have s2: "trace s2 = trace s1"
      using keepsD[OF only_does_report[of "\<lambda>_. False"] rep] by (auto simp: only_does_def list_all_iff)
    show thesis
    proof (cases "any_running report")
      case True
      with fin s2 have "trace t = trace s1" by (simp add: go_simps)
      with as show thesis by (intro secrets_only) simp_all
    next
      case False
      with fin obtain v where "rba_updateStatus pf a report healthy s2 = (Return v, t)"
        by (auto simp: bnd_eq_Return go_simps)
      from keepsD[OF only_does_rba_report[OF retry] this] obtain bs
        where "trace t = trace s2 @ bs" "list_all (rba_report_action a report healthy) bs"
        by (auto simp: only_does_def)
      with s2 as fetch Inr show thesis by (intro reported[of a s1 as bs report healthy]) simp_all
    qed
  qed
qed

lemma report_action_cases:
  assumes "rba_report_action a report healthy act"
  shows "(marks act \<longrightarrow> WasAlreadyProcessed a) \<and> (WasAlreadyProcessed a \<longrightarrow> quiet act)"
  using assms
  by (cases act) (auto simp: marks_iff quiet_def WasAlreadyProcessed_def elim!: accepted_put.elims)

lemma observer_settles:
  assumes "retry_ok pf" and reads: "reads_last_write pf req s"
    and st: "settled_action False (trace s)" and run: "rba_observer_Reconcile pf lk req s = (Return x, s')"
  shows "settled_action False (trace s')"
proof (cases "trace s' = trace s")
  case False
  with run obtain l t where body: "rba_observer_body pf req (s\<lparr>locks := l\<rparr>) = (Return x, t)"
    and t: "trace t = trace s'" unfolding rba_observer_Reconcile_def by (rule with_lock_ran)
  from assms(1) body show ?thesis
  proof (cases rule: rba_observer_actions)
    case (secrets_only as)
    have "settled_action False (trace s @ as)"
      using st settled_quiet[OF secrets_quiet[OF secrets_only(2)]] by (simp add: settled_append)
    with t secrets_only(1) show ?thesis by simp
  next
    case (reported a u report healthy as bs)
    have unmarked: "\<not> list_ex marks as"
      using reported(3) by (auto simp: list_all_iff list_ex_iff dest: secret_write_quiet)
    have "settled_action p bs" if "list_ex marks (trace s) = p" for p
    proof (cases "WasAlreadyProcessed a")
      case True
      with reported(4) have "list_all quiet bs" by (auto simp: list_all_iff dest: report_action_cases)
      then show ?thesis by (rule settled_quiet)
    next
      case False
      with fetched_processed[OF reads st _ reported(1)] that have "p = False" by blast
      moreover from False reported(4) have "\<not> list_ex marks bs"
        by (auto simp: list_all_iff list_ex_iff dest: report_action_cases)
      ultimately show ?thesis by (simp add: settled_unmarked)
    qed
    then have "settled_action False (trace s @ as @ bs)"
      using st unmarked settled_quiet[OF secrets_quiet[OF reported(3)]] by (simp add: settled_append)
    with t reported(2) show ?thesis by simp
  qed
qed (use st in simp)

lemma history_settled:
  assumes "rba_history pf lk req s0 s" and "accessors_ok pf" and "retry_ok pf" and "trace s0 = []"
  shows "settled_action False (trace s)"
  using assms(1)
proof induction
  case (controller_runs s x s')
  then show ?case using assms(2,3) by (blast intro: controller_settles)
next
  case (observer_runs s x s')
  then show ?case using assms(3) by (blast intro: observer_settles)
qed (simp_all add: assms(4))

end
