(* ===== verification/Work_Queue.thy ===== *)
theory Work_Queue
  imports Reconciling
begin

text \<open>
  The work queue of controller-runtime around a controller: a request whose reconciliation
  ended with an error or asked for a requeue is given to it again, with anything happening in
  between. The locale \<open>queued_reconciler\<close> states when the body of a reconciliation is the last
  one; its theorem, that the queue comes to rest, is interpreted on the four controllers.
\<close>

section \<open>The work queue\<close>

text \<open>
  The rounds of the queue until one ends without an error and without a requeue, which are the
  number of that round and the state after it; a panic ends the process. \<open>env n\<close> is what
  happens before round \<open>n\<close>.
\<close>

partial_function (option) work_queue ::
  "('s, result \<times> goerr option) go \<Rightarrow> (nat \<Rightarrow> 's \<Rightarrow> 's) \<Rightarrow> nat \<Rightarrow> 's \<Rightarrow> (nat \<times> 's) option" where
  "work_queue reconcile env n s =
     (case reconcile (env n s) of
        (Return x, t) \<Rightarrow> if x = (no_requeue, None) then Some (n, t) else work_queue reconcile env (Suc n) t
      | (Panic p, t) \<Rightarrow> None)"

text \<open>The state before the \<open>k\<close>-th round from now, round \<open>n\<close> being the next one.\<close>

fun before_round ::
  "('s, result \<times> goerr option) go \<Rightarrow> (nat \<Rightarrow> 's \<Rightarrow> 's) \<Rightarrow> nat \<Rightarrow> 's \<Rightarrow> nat \<Rightarrow> 's" where
  "before_round reconcile env n s 0 = env n s"
| "before_round reconcile env n s (Suc k) = before_round reconcile env (Suc n) (snd (reconcile (env n s))) k"

text \<open>A round after which the queue forgets the request, and one that does not panic.\<close>

definition last_round :: "('s, result \<times> goerr option) go \<Rightarrow> 's \<Rightarrow> bool" where
  "last_round reconcile s = (fst (reconcile s) = Return (no_requeue, None))"

definition returns :: "('s, result \<times> goerr option) go \<Rightarrow> 's \<Rightarrow> bool" where
  "returns reconcile s = (case fst (reconcile s) of Return x \<Rightarrow> True | Panic p \<Rightarrow> False)"

text \<open>The queue stops with the first round that returns with neither, if none before it panics.\<close>

lemma work_queue_stops:
  assumes "\<And>i. i < k \<Longrightarrow> returns reconcile (before_round reconcile env n s i) \<and>
      \<not> last_round reconcile (before_round reconcile env n s i)"
    and "last_round reconcile (before_round reconcile env n s k)"
  shows "work_queue reconcile env n s = Some (n + k, snd (reconcile (before_round reconcile env n s k)))"
  using assms
proof (induction k arbitrary: n s)
  case 0
  then show ?case
    by (subst work_queue.simps) (auto simp: last_round_def split: prod.split)
next
  case (Suc k)
  have "work_queue reconcile env (Suc n) (snd (reconcile (env n s)))
      = Some (Suc n + k, snd (reconcile (before_round reconcile env (Suc n) (snd (reconcile (env n s))) k)))"
    using Suc.prems(1)[of "Suc _"] Suc.prems(2) by (intro Suc.IH) auto
  with Suc.prems(1)[of 0] show ?case
    by (subst work_queue.simps)
       (auto simp: returns_def last_round_def split: prod.split outcome.splits)
qed

lemma work_queue_terminates:
  assumes "\<And>i. i \<le> k \<Longrightarrow> returns reconcile (before_round reconcile env n s i)"
    and "last_round reconcile (before_round reconcile env n s k)"
  obtains i where "i \<le> k" and "last_round reconcile (before_round reconcile env n s i)"
    and "\<And>j. j < i \<Longrightarrow> \<not> last_round reconcile (before_round reconcile env n s j)"
    and "work_queue reconcile env n s = Some (n + i, snd (reconcile (before_round reconcile env n s i)))"
proof -
  let ?i = "LEAST i. last_round reconcile (before_round reconcile env n s i)"
  have last: "last_round reconcile (before_round reconcile env n s ?i)" using assms(2) by (rule LeastI)
  have le: "?i \<le> k" using assms(2) by (rule Least_le)
  have first: "\<not> last_round reconcile (before_round reconcile env n s j)" if "j < ?i" for j
    using that by (rule not_less_Least)
  from work_queue_stops[of ?i reconcile env n s] last first assms(1) le
  have "work_queue reconcile env n s = Some (n + ?i, snd (reconcile (before_round reconcile env n s ?i)))"
    by simp
  with le last first show thesis by (rule that)
qed

section \<open>A body under a lock\<close>

text \<open>
  \<open>completes req s\<close>: a run of the body in the state \<open>s\<close> that returns is the last one. It is
  entered with the key held, \<open>entered\<close>.
\<close>

locale queued_reconciler = lock_service lk held ident
  for lk :: "'l locker" and held :: "'l \<Rightarrow> string set" and ident :: "request \<Rightarrow> string" +
  fixes body :: "request \<Rightarrow> (('w, 'l) sys, result \<times> goerr option) go"
    and completes :: "request \<Rightarrow> ('w, 'l) sys \<Rightarrow> bool"
  assumes body_result: "body req s = (Return x, t) \<Longrightarrow> x = (no_requeue, None) \<longleftrightarrow> completes req s"
begin

lemma last_round_iff:
  assumes "returns (with_lock lk req (body req)) s"
  shows "last_round (with_lock lk req (body req)) s \<longleftrightarrow>
     ident req \<notin> held (locks s) \<and> completes req (s\<lparr>locks := snd (lk_Obtain lk (locks s) req)\<rparr>)"
proof -
  from assms obtain x t where run: "with_lock lk req (body req) s = (Return x, t)"
    by (cases "with_lock lk req (body req) s") (auto simp: returns_def split: outcome.split_asm)
  have "requeue_after (time_Second * 10) \<noteq> no_requeue"
    by (simp add: no_requeue_def requeue_after_def time_Second_def)
  with with_lock_result[OF run] run show ?thesis
    by (auto simp: last_round_def dest: body_result split: if_split_asm)
qed

text \<open>
  If no round up to the \<open>k\<close>-th panics, and the \<open>k\<close>-th finds the key free and the work complete,
  then the queue stops there or before, in the first round that finds both.
\<close>

lemma queue_terminates:
  fixes env :: "nat \<Rightarrow> ('w, 'l) sys \<Rightarrow> ('w, 'l) sys"
  assumes before: "before = before_round (with_lock lk req (body req)) env n s"
    and "\<And>i. i \<le> k \<Longrightarrow> returns (with_lock lk req (body req)) (before i)"
    and "ident req \<notin> held (locks (before k))"
    and "completes req ((before k)\<lparr>locks := snd (lk_Obtain lk (locks (before k)) req)\<rparr>)"
  shows "\<exists>i\<le>k. work_queue (with_lock lk req (body req)) env n s =
       Some (n + i, snd (with_lock lk req (body req) (before i))) \<and>
     ident req \<notin> held (locks (before i)) \<and>
     completes req ((before i)\<lparr>locks := snd (lk_Obtain lk (locks (before i)) req)\<rparr>)"
proof -
  have "last_round (with_lock lk req (body req)) (before k)"
    using last_round_iff[OF assms(2)[of k]] assms(3,4) by simp
  with assms(2) obtain i where i: "i \<le> k" "last_round (with_lock lk req (body req)) (before i)"
      "work_queue (with_lock lk req (body req)) env n s =
         Some (n + i, snd (with_lock lk req (body req) (before i)))"
    unfolding before by (rule work_queue_terminates)
  with last_round_iff[OF assms(2)[OF i(1)]] show ?thesis by blast
qed

end

end
