(* ===== verification/Action_Queue.thy ===== *)
theory Action_Queue
  imports Action_History Work_Queue Sample_Platform
begin

text \<open>
  The work queue around the controller of one RequestedBackupAction: when it comes to rest, and
  what it rests on. The updates of the status have no say.
\<close>

section \<open>When a reconciliation is the last one\<close>

text \<open>The aggregate is there, and it is processed or all its objects are applied.\<close>

definition action_completes :: "('w, 'l) platform \<Rightarrow> request \<Rightarrow> ('w, 'l) sys \<Rightarrow> bool" where
  "action_completes pf req s =
     (case FetchRBAAggregate pf req s of
        (Return (Inr a), t) \<Rightarrow>
          WasAlreadyProcessed a \<or>
          (case ApplyObjects pf (Rba_renderable a) t of (Return (None, r), u) \<Rightarrow> True | _ \<Rightarrow> False)
      | _ \<Rightarrow> False)"

lemma rba_process_completes:
  assumes "rba_process pf a s = (Return x, t)"
  shows "x = (no_requeue, None) \<longleftrightarrow> WasAlreadyProcessed a \<or>
     (case ApplyObjects pf (Rba_renderable a) s of (Return (None, r), u) \<Rightarrow> True | _ \<Rightarrow> False)"
proof (cases "WasAlreadyProcessed a")
  case True
  with assms show ?thesis by (auto simp: rba_process_done)
next
  case False
  with assms obtain err r u where "ApplyObjects pf (Rba_renderable a) s = (Return (err, r), u)"
    and "(case err of Some e \<Rightarrow> rba_apply_failed pf (rba_of a r) e
        | None \<Rightarrow> rba_apply_succeeded pf (rba_of a r)) u = (Return x, t)"
    by (auto simp: rba_process_def bnd_eq_Return)
  with False show ?thesis
    by (cases err) (auto simp: rba_apply_failed_def rba_apply_succeeded_def Let_def bnd_eq_Return go_simps)
qed

lemma rba_body_completes:
  assumes "rba_reconcile_body pf req s = (Return x, t)"
  shows "x = (no_requeue, None) \<longleftrightarrow> action_completes pf req s"
proof -
  from assms obtain r u where fetch: "FetchRBAAggregate pf req s = (Return r, u)"
    and rest: "(case r of Inl (ctrlResult, e) \<Rightarrow> ret (ctrlResult, Some e)
       | Inr aggregate \<Rightarrow> rba_process pf aggregate) u = (Return x, t)"
    by (auto simp: rba_reconcile_body_def bnd_eq_Return)
  show ?thesis
  proof (cases r)
    case (Inl e)
    with fetch rest show ?thesis by (cases e) (auto simp: action_completes_def go_simps)
  next
    case (Inr a)
    with rest have "rba_process pf a u = (Return x, t)" by simp
    from rba_process_completes[OF this] fetch Inr show ?thesis by (simp add: action_completes_def)
  qed
qed

text \<open>The updates of the status have no say.\<close>

interpretation action_queue:
  queued_reconciler "InMemoryLocker ns" set ns "rba_reconcile_body pf" "action_completes pf" for ns pf
  by unfold_locales (rule rba_body_completes)

lemma iml_obtained:
  "ns req \<notin> set l \<Longrightarrow> snd (lk_Obtain (InMemoryLocker ns) l req) = l @ [ns req]"
  by (simp add: InMemoryLocker_def iml_Obtain_apply)

section \<open>The queue comes to rest\<close>


text \<open>An environment in which somebody else holds the key before the first round.\<close>

definition busy_at_first :: "nat \<Rightarrow> (unit, string list) sys \<Rightarrow> (unit, string list) sys" where
  "busy_at_first n s = s\<lparr>locks := (if n = 0 then [''prod/now''] else [])\<rparr>"

abbreviation sample_controller ::
  "(unit, string list) sys \<Rightarrow> (result \<times> goerr option) outcome \<times> (unit, string list) sys" where
  "sample_controller \<equiv> rba_Reconcile sample sample_locker sample_request"

lemma busy_rounds:
  "before_round sample_controller busy_at_first 0 sample_state 0 = sample_state\<lparr>locks := [''prod/now'']\<rparr>"
  "before_round sample_controller busy_at_first 0 sample_state (Suc 0) = sample_state"
proof -
  have "sample_controller (sample_state\<lparr>locks := [''prod/now'']\<rparr>)
      = (Return (requeue_after (time_Second * 10), None), sample_state\<lparr>locks := [''prod/now'']\<rparr>)"
    unfolding rba_Reconcile_def by (rule iml.with_lock_busy) simp_all
  then show "before_round sample_controller busy_at_first 0 sample_state 0 = sample_state\<lparr>locks := [''prod/now'']\<rparr>"
    and "before_round sample_controller busy_at_first 0 sample_state (Suc 0) = sample_state"
    by (simp_all add: busy_at_first_def sample_state_def)
qed

lemma busy_returns: "returns sample_controller (sample_state\<lparr>locks := [''prod/now'']\<rparr>)"
  "returns sample_controller sample_state"
  by code_simp+

lemma sample_action_completes: "action_completes sample sample_request (sample_state\<lparr>locks := [''prod/now'']\<rparr>)"
  by code_simp

lemma busy_at_first_ready:
  shows "\<And>i. i \<le> Suc 0 \<Longrightarrow> returns sample_controller (before_round sample_controller busy_at_first 0 sample_state i)"
    and "pf_request_string sample sample_request \<notin>
       set (locks (before_round sample_controller busy_at_first 0 sample_state (Suc 0)))"
    and "action_completes sample sample_request ((before_round sample_controller busy_at_first 0 sample_state (Suc 0))
       \<lparr>locks := locks (before_round sample_controller busy_at_first 0 sample_state (Suc 0)) @ [pf_request_string sample sample_request]\<rparr>)"
proof -
  show "\<And>i. i \<le> Suc 0 \<Longrightarrow> returns sample_controller (before_round sample_controller busy_at_first 0 sample_state i)"
    using busy_rounds busy_returns by (auto simp: le_Suc_eq)
  show "pf_request_string sample sample_request \<notin>
       set (locks (before_round sample_controller busy_at_first 0 sample_state (Suc 0)))"
    unfolding busy_rounds by (simp add: sample_state_def)
  show "action_completes sample sample_request ((before_round sample_controller busy_at_first 0 sample_state (Suc 0))
       \<lparr>locks := locks (before_round sample_controller busy_at_first 0 sample_state (Suc 0)) @ [pf_request_string sample sample_request]\<rparr>)"
    unfolding busy_rounds using sample_action_completes by (simp add: sample_state_def)
qed


section \<open>A status that is lost\<close>

text \<open>The sample platform, but the API server refuses every update of a status.\<close>

definition forgetful :: "(unit, string list) platform" where
  "forgetful = sample\<lparr>pf_rba := (sample_client sample_rba)\<lparr>rc_Into := (\<lambda>w rq.
     (if rq_Verb rq = PUT then Inl (Api_error (Reason_other ''Forbidden'') ''no'') else Inr sample_rba, w))\<rparr>\<rparr>"

definition forgetful_run :: "(unit, string list) sys \<Rightarrow> (result \<times> goerr option) outcome \<times> (unit, string list) sys" where
  "forgetful_run = rba_Reconcile forgetful (InMemoryLocker (pf_request_string forgetful)) sample_request"

definition applied_twice :: "(unit, string list) sys \<Rightarrow> bool" where
  "applied_twice s = (case applied_objects (trace s) of [x, y] \<Rightarrow> x = y | _ \<Rightarrow> False)"

lemma forgetful_runs:
  "case forgetful_run sample_state of (r, s) \<Rightarrow>
     r = Return (no_requeue, None) \<and> stored_status (trace s) = None \<and>
     (case forgetful_run s of (r', s') \<Rightarrow> r' = Return (no_requeue, None) \<and> applied_twice s')"
  by code_simp

lemma forgetful_ok: "accessors_ok forgetful" "retry_ok forgetful"
  using sample_accessors sample_retry by (simp_all add: accessors_ok_def same_identity_def retry_ok_def forgetful_def)


end
