(* ===== verification/Backup_Queue.thy ===== *)
theory Backup_Queue
  imports Backup_History Action_Queue
begin

text \<open>
  The work queue around the controller of ScheduledBackup, and around the observers: which
  round is the last one.
\<close>

section \<open>The controller\<close>

text \<open>The aggregate is there, and all its objects are applied.\<close>

definition backup_applies :: "('w, 'l) platform \<Rightarrow> scheduled_backup \<Rightarrow> ('w, 'l) sys \<Rightarrow> bool" where
  "backup_applies pf b s =
     (case CreateScheduledBackupAggregate pf b [] s of
        (Return (a, act, None), t) \<Rightarrow>
          (case sb_updateObject pf a (new_condition ''Unknown''
             (''Reconciling to template and push target objects to the cluster '' @
              ''(Jobs/CronJobs and related things)'')) t of
             (Return _, u) \<Rightarrow>
               (case ApplyObjects pf (Sb_renderable a) u of (Return (None, r), v) \<Rightarrow> True | _ \<Rightarrow> False)
           | _ \<Rightarrow> False)
      | _ \<Rightarrow> False)"

text \<open>There is nothing to do, somebody seems to be at it, or it is done.\<close>

definition backup_completes :: "('w, 'l) platform \<Rightarrow> request \<Rightarrow> ('w, 'l) sys \<Rightarrow> bool" where
  "backup_completes pf req s =
     (case FetchScheduledBackup pf req s of
        (Return (b, None), t) \<Rightarrow>
          \<not> HasSpecChanged b \<or>
          (case IsBeingReconciledAlready pf b t of
             (Return being, u) \<Rightarrow> being \<or> backup_applies pf b u
           | _ \<Rightarrow> False)
      | _ \<Rightarrow> False)"

lemma sb_process_applies:
  assumes "sb_process pf b None s = (Return x, t)"
  shows "x = (no_requeue, None) \<longleftrightarrow> backup_applies pf b s"
proof -
  let ?unknown = "new_condition ''Unknown'' (''Reconciling to template and push target objects to the cluster '' @
    ''(Jobs/CronJobs and related things)'')"
  from assms obtain a act herr s1 v s2 where
    agg: "CreateScheduledBackupAggregate pf b [] s = (Return (a, act, herr), s1)"
    and upd: "sb_updateObject pf a ?unknown s1 = (Return v, s2)"
    and rest: "(case herr of
       Some e \<Rightarrow> sb_hydrate_failed pf b a act e None
     | None \<Rightarrow>
         bnd (ApplyObjects pf (Sb_renderable a)) (\<lambda>(applyErr, r).
         case applyErr of
           Some e \<Rightarrow> sb_apply_failed pf b (GetBackupAggregate r) e
         | None \<Rightarrow> sb_apply_succeeded pf b (GetBackupAggregate r))) s2 = (Return x, t)"
    by (auto simp: sb_process_def bnd_eq_Return)
  show ?thesis
  proof (cases herr)
    case (Some e)
    with rest have "x \<noteq> (no_requeue, None)"
      by (auto simp: sb_hydrate_failed_def bnd_eq_Return go_simps time_Second_def time_Minute_def split: if_split_asm)
    with agg Some show ?thesis by (simp add: backup_applies_def)
  next
    case None
    with rest obtain aerr r u where "ApplyObjects pf (Sb_renderable a) s2 = (Return (aerr, r), u)"
      and "(case aerr of Some e \<Rightarrow> sb_apply_failed pf b (GetBackupAggregate r) e
         | None \<Rightarrow> sb_apply_succeeded pf b (GetBackupAggregate r)) u = (Return x, t)"
      by (auto simp: bnd_eq_Return)
    with agg upd None show ?thesis
      by (cases aerr)
         (auto simp: backup_applies_def sb_apply_failed_def sb_apply_succeeded_def bnd_eq_Return go_simps
           time_Minute_def time_Second_def)
  qed
qed

lemma sb_body_completes:
  assumes "sb_reconcile_body pf req s = (Return x, t)"
  shows "x = (no_requeue, None) \<longleftrightarrow> backup_completes pf req s"
proof -
  from assms obtain b e s1 where fetch: "FetchScheduledBackup pf req s = (Return (b, e), s1)"
    and rest: "(case e of
       Some e \<Rightarrow> ret (no_requeue, Some e)
     | None \<Rightarrow>
         bnd (if HasSpecChanged b then bnd (IsBeingReconciledAlready pf b) (\<lambda>b. ret (\<not> b)) else ret False)
           (\<lambda>changed. if changed then sb_process pf b e else ret (no_requeue, None))) s1 = (Return x, t)"
    by (auto simp: sb_reconcile_body_def bnd_eq_Return)
  show ?thesis
  proof (cases "e = None \<and> HasSpecChanged b")
    case False
    with fetch rest show ?thesis by (cases e) (auto simp: backup_completes_def go_simps)
  next
    case True
    with rest obtain being s2 where being: "IsBeingReconciledAlready pf b s1 = (Return being, s2)"
      and cont: "(if \<not> being then sb_process pf b None else ret (no_requeue, None)) s2 = (Return x, t)"
      by (auto simp: bnd_eq_Return go_simps bnd_assoc)
    show ?thesis
    proof (cases being)
      case True
      with cont fetch being \<open>e = None \<and> _\<close> show ?thesis by (auto simp: backup_completes_def go_simps)
    next
      case False
      with cont have "sb_process pf b None s2 = (Return x, t)" by simp
      from sb_process_applies[OF this] fetch being True False show ?thesis by (simp add: backup_completes_def)
    qed
  qed
qed

interpretation backup_queue:
  queued_reconciler "InMemoryLocker ns" set ns "sb_reconcile_body pf" "backup_completes pf" for ns pf
  by unfold_locales (rule sb_body_completes)

section \<open>The observers\<close>

definition action_observed :: "('w, 'l) platform \<Rightarrow> request \<Rightarrow> ('w, 'l) sys \<Rightarrow> bool" where
  "action_observed pf req s =
     (case FetchRBAAggregate pf req s of
        (Return (Inr a), t) \<Rightarrow>
          (case createOwnedReferencesHealthReport (NewAllSupportedJobResourceTypes pf)
             (rbag_GetReferencesOfOwnedObjects a) (req_Namespace req) t of
             (Return (report, healthy, err), u) \<Rightarrow> \<not> any_running report
           | _ \<Rightarrow> False)
      | _ \<Rightarrow> False)"

definition backup_observed :: "('w, 'l) platform \<Rightarrow> request \<Rightarrow> ('w, 'l) sys \<Rightarrow> bool" where
  "backup_observed pf req s =
     (case FetchSBAggregate pf req s of
        (Return (Inr a), t) \<Rightarrow>
          (case createOwnedReferencesHealthReport (NewAllSupportedJobResourceTypes pf)
             (sba_GetReferencesOfOwnedObjects a) (req_Namespace req) t of
             (Return (report, healthy, err), u) \<Rightarrow> \<not> report_running report
           | _ \<Rightarrow> False)
      | _ \<Rightarrow> False)"

lemma rba_observer_completes:
  assumes "rba_observer_body pf req s = (Return x, t)"
  shows "x = (no_requeue, None) \<longleftrightarrow> action_observed pf req s"
proof -
  from assms obtain r s1 where "FetchRBAAggregate pf req s = (Return r, s1)"
    and "(case r of
       Inl (_, e) \<Rightarrow> ret (no_requeue, Some (Wrapped_error ''cannot fetch RequestedBackupAction from cache'' e))
     | Inr aggregate \<Rightarrow>
         bnd (createOwnedReferencesHealthReport (NewAllSupportedJobResourceTypes pf)
                (rbag_GetReferencesOfOwnedObjects aggregate) (req_Namespace req)) (\<lambda>(report, healthy, err).
         if any_running report then ret (requeue_after (time_Second * 10), None)
         else bnd (rba_updateStatus pf aggregate report healthy) (\<lambda>_. ret (no_requeue, None)))) s1 = (Return x, t)"
    by (auto simp: rba_observer_body_def bnd_eq_Return)
  then show ?thesis
    by (auto simp: action_observed_def bnd_eq_Return go_simps time_Second_def split: sum.split_asm prod.split_asm if_split_asm)
qed

lemma sb_observer_completes:
  assumes "sb_observer_body pf req s = (Return x, t)"
  shows "x = (no_requeue, None) \<longleftrightarrow> backup_observed pf req s"
proof -
  from assms obtain r s1 where "FetchSBAggregate pf req s = (Return r, s1)"
    and "(case r of
       Inl e \<Rightarrow> ret (no_requeue, Some (Wrapped_error ''cannot fetch ScheduledBackup from cache'' e))
     | Inr aggregate \<Rightarrow>
         bnd (createOwnedReferencesHealthReport (NewAllSupportedJobResourceTypes pf)
                (sba_GetReferencesOfOwnedObjects aggregate) (req_Namespace req)) (\<lambda>(report, healthy, err).
         if report_running report then ret (requeue_after (time_Second * 10), None)
         else bnd (sb_updateStatus pf aggregate report healthy) (\<lambda>_. ret (no_requeue, None)))) s1 = (Return x, t)"
    by (auto simp: sb_observer_body_def bnd_eq_Return)
  then show ?thesis
    by (auto simp: backup_observed_def bnd_eq_Return go_simps time_Second_def split: sum.split_asm if_split_asm)
qed

interpretation action_observer_queue:
  queued_reconciler "InMemoryLocker ns" set ns "rba_observer_body pf" "action_observed pf" for ns pf
  by unfold_locales (rule rba_observer_completes)

interpretation backup_observer_queue:
  queued_reconciler "InMemoryLocker ns" set ns "sb_observer_body pf" "backup_observed pf" for ns pf
  by unfold_locales (rule sb_observer_completes)

section \<open>Properties\<close>




definition interrupted_backup :: scheduled_backup where
  "interrupted_backup = sample_sb\<lparr>sb_Status := (sb_Status sample_sb)\<lparr>sbst_Conditions := [new_condition ''Unknown'' ''x'']\<rparr>\<rparr>"


end
