(* ===== verification/Completion.thy ===== *)
theory Completion
  imports Backup_Queue
begin

text \<open>
  What the last round of a work queue leaves behind: the outcome is in the status that is
  stored, or the warning event of \<^verbatim>\<open>updateObjectStatus\<close> and \<^verbatim>\<open>updateObject\<close> says that it could
  not be stored.
\<close>

section \<open>A retried update\<close>

fun update_warning :: "action \<Rightarrow> bool" where
  "update_warning (Event_emitted n ty reason m) =
     (ty = ''Warning'' \<and> reason = ''ErrorOccurred'' \<and> prefix ''Cannot update .status field: '' m)"
| "update_warning a = False"

text \<open>Among the actions that were added, a status update is reported as failed.\<close>

definition warned :: "action list \<Rightarrow> action list \<Rightarrow> bool" where
  "warned before after = list_ex update_warning (drop (length before) after)"

lemma warned_append [simp]: "warned as (as @ bs) = list_ex update_warning bs"
  by (simp add: warned_def)

lemma warned_before: "only_does Q s u \<Longrightarrow> warned (trace u) as \<Longrightarrow> warned (trace s) as"
  using set_drop_subset_set_drop[of "length (trace s)" "length (trace u)" as]
  by (fastforce simp: warned_def only_does_def list_ex_iff)

lemma warned_after: "warned as bs \<Longrightarrow> warned as (bs @ cs)"
  by (auto simp: warned_def)

lemma retried_last:
  assumes "retried fn s p"
  obtains s' where "fn s' = p"
  using assms by induction auto

text \<open>
  A retried update that returns: its last attempt put a status that was accepted, or the
  warning is emitted.
\<close>

lemma retried_update:
  assumes retry: "retry_ok pf" and frame: "keeps (only_does Q) fn"
    and stored: "\<And>s t. fn s = (Return None, t) \<Longrightarrow> P (trace t)"
    and run: "bnd (pf_retry pf fn) (\<lambda>updateErr. case updateErr of None \<Rightarrow> ret ()
      | Some e \<Rightarrow> emit_event n ''Warning'' ''ErrorOccurred'' (''Cannot update .status field: '' @ err_text e)) s = (Return v, t)"
  shows "P (trace t) \<or> warned (trace s) (trace t)"
proof -
  from run obtain r u where r: "pf_retry pf fn s = (Return r, u)"
    and rest: "(case r of None \<Rightarrow> ret () | Some e \<Rightarrow>
       emit_event n ''Warning'' ''ErrorOccurred'' (''Cannot update .status field: '' @ err_text e)) u = (Return v, t)"
    by (auto simp: bnd_eq_Return)
  show ?thesis
  proof (cases r)
    case None
    from retry have "retried fn s (Return r, u)" by (metis r retry_ok_def)
    then obtain s' where "fn s' = (Return r, u)" by (rule retried_last)
    with None rest stored show ?thesis by (simp add: go_simps)
  next
    case (Some e)
    from keepsD[OF only_does_retry[OF retry frame] r] obtain as where "trace u = trace s @ as"
      by (auto simp: only_does_def)
    with Some rest show ?thesis by (auto simp: go_simps)
  qed
qed

section \<open>The last round under a lock\<close>

lemma last_round_body:
  assumes "last_round (with_lock (InMemoryLocker ns) req body) s" and "keeps same_locks body"
  obtains t where "ns req \<notin> set (locks s)"
    and "body (s\<lparr>locks := locks s @ [ns req]\<rparr>) = (Return (no_requeue, None), t)"
    and "trace (snd (with_lock (InMemoryLocker ns) req body s)) = trace t"
proof -
  have free: "ns req \<notin> set (locks s)"
  proof
    assume "ns req \<in> set (locks s)"
    with assms(1) show False
      by (simp add: last_round_def iml.with_lock_busy no_requeue_def requeue_after_def time_Second_def)
  qed
  obtain ls l where o: "lk_Obtain (InMemoryLocker ns) (locks s) req = (ls, l)" by fastforce
  with iml_obtained[of ns req "locks s"] free have l: "l = locks s @ [ns req]" by simp
  obtain r t where b: "body (s\<lparr>locks := l\<rparr>) = (r, t)" by fastforce
  from keepsD[OF assms(2)] b have "locks t = l" by (simp add: same_locks_def)
  from free o b this have "with_lock (InMemoryLocker ns) req body s = (r, t\<lparr>locks := locks s\<rparr>)"
    by (rule iml.with_lock_run)
  with assms(1) free b l show thesis
    by (intro that[of t]) (simp_all add: last_round_def)
qed


lemma queue_records:
  fixes s :: "('w, string list) sys"
  assumes r: "r = with_lock (InMemoryLocker ns) req body" and frame: "keeps same_locks body"
    and outcome: "\<And>s t. body s = (Return (no_requeue, None), t) \<Longrightarrow> Q s (trace t)"
    and returns: "\<And>i. i \<le> k \<Longrightarrow> returns r (before_round r env n s i)"
    and last: "last_round r (before_round r env n s k)"
  shows "\<exists>i\<le>k. \<exists>u u'. u = before_round r env n s i \<and> u' = snd (r u) \<and>
     work_queue r env n s = Some (n + i, u') \<and> ns req \<notin> set (locks u) \<and> Q (u\<lparr>locks := locks u @ [ns req]\<rparr>) (trace u')"
proof -
  from returns last obtain i where i: "i \<le> k" "last_round r (before_round r env n s i)"
    and "work_queue r env n s = Some (n + i, snd (r (before_round r env n s i)))"
    by (rule work_queue_terminates)
  moreover from i(2) frame obtain v where "ns req \<notin> set (locks (before_round r env n s i))"
    and "body ((before_round r env n s i)\<lparr>locks := locks (before_round r env n s i) @ [ns req]\<rparr>) = (Return (no_requeue, None), v)"
    and "trace (snd (r (before_round r env n s i))) = trace v"
    unfolding r by (rule last_round_body)
  ultimately show ?thesis using outcome by fastforce
qed

section \<open>The last round of an action\<close>

definition recorded :: "action list \<Rightarrow> bool" where
  "recorded as = (case stored_status as of None \<Rightarrow> False | Some st \<Rightarrow> rbast_Processed st)"

lemma recorded_event [simp]: "recorded (as @ [Event_emitted n t r m]) = recorded as"
  by (simp add: recorded_def)

lemma rba_attempt_records:
  assumes "rba_status_attempt pf a c s = (Return None, t)" and "WasAlreadyProcessed a"
  shows "recorded (trace t)"
  using assms
  by (auto simp: rba_status_attempt_def put_rba_status_def bnd_call bnd_eq_Return go_simps Let_def recorded_def
      WasAlreadyProcessed_def get_state_def modify_def sum_ok_def split: prod.split_asm sum.split_asm)


lemma rba_update_records:
  assumes "retry_ok pf" and "rba_updateObjectStatus pf a c s = (Return v, t)" and "WasAlreadyProcessed a"
  shows "recorded (trace t) \<or> warned (trace s) (trace t)"
proof -
  let ?fn = "rba_status_attempt pf a c"
  have frame: "keeps (only_does (rba_update_action a c)) ?fn"
    unfolding rba_status_attempt_def Let_def
    by (intro act_rules only_does_put_rba only_does_captured) (auto simp: Let_def)
  let ?u = "s\<lparr>captured := rbast_Conditions (rba_Status (rbag_Action a))\<rparr>"
  have "bnd (pf_retry pf ?fn) (\<lambda>updateErr. case updateErr of None \<Rightarrow> ret ()
      | Some e \<Rightarrow> emit_event (rba_obj_name a) ''Warning'' ''ErrorOccurred'' (''Cannot update .status field: '' @ err_text e)) ?u
      = (Return v, t)"
    using assms(2) by (simp add: rba_updateObjectStatus_def go_simps del: append_Cons)
  from retried_update[OF assms(1) frame _ this, of recorded] rba_attempt_records[OF _ assms(3)]
  show ?thesis by (simp del: append_Cons) blast
qed

lemma MarkAsProcessed_processed [simp]: "WasAlreadyProcessed (MarkAsProcessed a)"
  by (simp add: WasAlreadyProcessed_def MarkAsProcessed_def)

lemma rba_success_records:
  assumes "retry_ok pf" and "rba_apply_succeeded pf a s = (Return x, t)"
  shows "recorded (trace t) \<or> warned (trace s) (trace t)"
  using assms
  by (auto simp: rba_apply_succeeded_def Let_def bnd_eq_Return go_simps warned_after dest!: rba_update_records)

text \<open>The action was fetched, and is processed.\<close>

definition found_processed :: "('w, 'l) platform \<Rightarrow> request \<Rightarrow> ('w, 'l) sys \<Rightarrow> bool" where
  "found_processed pf req s =
     (case FetchRBAAggregate pf req s of (Return (Inr a), t) \<Rightarrow> WasAlreadyProcessed a | _ \<Rightarrow> False)"

lemma rba_body_records:
  assumes retry: "retry_ok pf" and run: "rba_reconcile_body pf req s = (Return (no_requeue, None), t)"
  shows "found_processed pf req s \<or> recorded (trace t) \<or> warned (trace s) (trace t)"
proof -
  from run obtain r u where fetch: "FetchRBAAggregate pf req s = (Return r, u)"
    and rest: "(case r of Inl (ctrlResult, e) \<Rightarrow> ret (ctrlResult, Some e)
       | Inr aggregate \<Rightarrow> rba_process pf aggregate) u = (Return (no_requeue, None), t)"
    by (auto simp: rba_reconcile_body_def bnd_eq_Return)
  from rest obtain a where r: "r = Inr a" by (cases r) (auto simp: go_simps split: prod.split_asm)
  with fetch rest show ?thesis
  proof (cases "WasAlreadyProcessed a")
    case False
    with r rest obtain err b v where ap: "ApplyObjects pf (Rba_renderable a) u = (Return (err, b), v)"
      and fin: "(case err of Some e \<Rightarrow> rba_apply_failed pf (rba_of a b) e
        | None \<Rightarrow> rba_apply_succeeded pf (rba_of a b)) v = (Return (no_requeue, None), t)"
      by (auto simp: rba_process_def bnd_eq_Return)
    have "err = None"
      using fin by (cases err) (auto simp del: append_Cons dest!: rba_apply_failed_spec[OF retry])
    with fin have "recorded (trace t) \<or> warned (trace v) (trace t)"
      using rba_success_records[OF retry] by simp
    then show ?thesis
      using keepsD[OF only_does_fetch(3) fetch] keepsD[OF only_does_ApplyObjects ap] by (blast intro: warned_before)
  qed (simp add: found_processed_def)
qed

section \<open>The last round of a backup\<close>

definition hash_recorded :: "string \<Rightarrow> action list \<Rightarrow> bool" where
  "hash_recorded h as = (case last_accepted accepted_sb_put as of None \<Rightarrow> False | Some st \<Rightarrow> has_hash h st)"

lemma hash_recorded_event [simp]: "hash_recorded h (as @ [Event_emitted n t r m]) = hash_recorded h as"
  by (simp add: hash_recorded_def)

lemma sb_attempt_records:
  assumes "sb_status_attempt pf a c s = (Return None, t)" and "cond_Status c = ''True''"
  shows "hash_recorded (CalculateHash (sb_Spec (sba_Backup a))) (trace t)"
  using assms
  by (auto simp: sb_status_attempt_def put_sb_status_def bnd_call bnd_eq_Return go_simps Let_def hash_recorded_def
      sum_ok_def split: prod.split_asm sum.split_asm)

lemma sb_update_records:
  assumes "retry_ok pf" and "sb_updateObject pf a c s = (Return v, t)" and "cond_Status c = ''True''"
  shows "hash_recorded (CalculateHash (sb_Spec (sba_Backup a))) (trace t) \<or> warned (trace s) (trace t)"
  using retried_update[OF assms(1) only_does_sb_attempt _ assms(2)[unfolded sb_updateObject_def],
      of "hash_recorded (CalculateHash (sb_Spec (sba_Backup a)))"] sb_attempt_records[OF _ assms(3)]
  by blast

lemma sb_success_records:
  assumes "retry_ok pf" and "sb_apply_succeeded pf b a s = (Return x, t)"
  shows "hash_recorded (CalculateHash (sb_Spec (sba_Backup a))) (trace t) \<or> warned (trace s) (trace t)"
  using assms
  by (auto simp: sb_apply_succeeded_def bnd_eq_Return go_simps warned_after dest!: sb_update_records simp del: append_Cons)

lemma sb_process_records:
  assumes retry: "retry_ok pf" and run: "sb_process pf b None s = (Return (no_requeue, None), t)"
  shows "hash_recorded (CalculateHash (sb_Spec b)) (trace t) \<or> warned (trace s) (trace t)"
proof -
  let ?unknown = "new_condition ''Unknown'' (''Reconciling to template and push target objects to the cluster '' @
    ''(Jobs/CronJobs and related things)'')"
  from run sb_process_applies[OF run] obtain a act s1 v s2 where
    agg: "CreateScheduledBackupAggregate pf b [] s = (Return (a, act, None), s1)"
    and upd: "sb_updateObject pf a ?unknown s1 = (Return v, s2)"
    and rest: "bnd (ApplyObjects pf (Sb_renderable a)) (\<lambda>(applyErr, r).
         case applyErr of
           Some e \<Rightarrow> sb_apply_failed pf b (GetBackupAggregate r) e
         | None \<Rightarrow> sb_apply_succeeded pf b (GetBackupAggregate r)) s2 = (Return (no_requeue, None), t)"
    by (auto simp: sb_process_def bnd_eq_Return backup_applies_def split: option.split_asm simp del: append_Cons)
  from rest obtain err r u where ap: "ApplyObjects pf (Sb_renderable a) s2 = (Return (err, r), u)"
    and fin: "(case err of Some e \<Rightarrow> sb_apply_failed pf b (GetBackupAggregate r) e
       | None \<Rightarrow> sb_apply_succeeded pf b (GetBackupAggregate r)) u = (Return (no_requeue, None), t)"
    by (auto simp: bnd_eq_Return)
  have "err = None"
    using fin by (cases err) (auto simp: sb_apply_failed_def bnd_eq_Return go_simps time_Minute_def time_Second_def)
  moreover obtain a' where "r = Sb_renderable a'" and "sb_Spec (sba_Backup a') = sb_Spec b"
    using yieldsD[OF yields_ApplyObjects ap] without_refs_sb[of r a] CreateScheduledBackupAggregate_backup[OF agg]
    by auto
  ultimately have "hash_recorded (CalculateHash (sb_Spec b)) (trace t) \<or> warned (trace u) (trace t)"
    using fin sb_success_records[OF retry, of b a' u] by simp
  then show ?thesis
    using keepsD[OF only_does_CreateScheduledBackupAggregate agg] keepsD[OF only_does_sb_update[OF retry] upd]
      keepsD[OF only_does_ApplyObjects ap] by (blast intro: warned_before)
qed

text \<open>There was nothing to do, or a condition said that somebody was at it.\<close>

definition found_settled :: "('w, 'l) platform \<Rightarrow> request \<Rightarrow> ('w, 'l) sys \<Rightarrow> bool" where
  "found_settled pf req s =
     (case FetchScheduledBackup pf req s of
        (Return (b, None), t) \<Rightarrow>
          \<not> HasSpecChanged b \<or> (case IsBeingReconciledAlready pf b t of (Return being, u) \<Rightarrow> being | _ \<Rightarrow> False)
      | _ \<Rightarrow> False)"

lemma sb_body_records:
  assumes retry: "retry_ok pf" and run: "sb_reconcile_body pf req s = (Return (no_requeue, None), t)"
  shows "found_settled pf req s \<or> hash_recorded (CalculateHash (sb_Spec (cached_backup pf req s))) (trace t) \<or>
     warned (trace s) (trace t)"
proof (cases "found_settled pf req s")
  case False
  from run obtain b e s1 where fetch: "FetchScheduledBackup pf req s = (Return (b, e), s1)"
    and rest: "(case e of
       Some e \<Rightarrow> ret (no_requeue, Some e)
     | None \<Rightarrow>
         bnd (if HasSpecChanged b then bnd (IsBeingReconciledAlready pf b) (\<lambda>b. ret (\<not> b)) else ret False)
           (\<lambda>changed. if changed then sb_process pf b e else ret (no_requeue, None))) s1 = (Return (no_requeue, None), t)"
    by (auto simp: sb_reconcile_body_def bnd_eq_Return)
  then have e: "e = None" by (cases e) (auto simp: go_simps)
  from fetch have b: "b = cached_backup pf req s"
    by (auto simp: FetchScheduledBackup_def call_def cached_backup_def split: prod.split_asm)
  from False fetch rest e obtain being s2 where being: "IsBeingReconciledAlready pf b s1 = (Return being, s2)"
    and process: "sb_process pf b None s2 = (Return (no_requeue, None), t)"
    by (auto simp: found_settled_def bnd_eq_Return go_simps bnd_assoc split: if_split_asm)
  have "trace s2 = trace s"
    using keepsD[OF only_does_recent_unknown[of "\<lambda>_. False"] being[unfolded IsBeingReconciledAlready_def]]
      keepsD[OF only_does_fetch(1)[of "\<lambda>_. False"] fetch]
    by (auto simp: only_does_def list_all_iff)
  with sb_process_records[OF retry process] b show ?thesis by simp
qed simp

section \<open>Properties\<close>

text \<open>
  C14. The work queue of an action does its work. If no round up to the \<open>k\<close>-th panics, and the
  \<open>k\<close>-th finds the key free and the action complete, then the queue forgets the request in that
  round or before it, and in that round the action was found processed, or the status that is
  stored after it is processed, or a warning says that the status could not be updated.
\<close>

theorem finished_action_is_recorded:
  fixes pf :: "('w, string list) platform"
  assumes "retry_ok pf" and r: "r = rba_Reconcile pf (InMemoryLocker ns) req"
    and returns: "\<And>i. i \<le> k \<Longrightarrow> returns r (before_round r env n s i)"
    and t: "t = before_round r env n s k" and free: "ns req \<notin> set (locks t)"
    and complete: "action_completes pf req (t\<lparr>locks := locks t @ [ns req]\<rparr>)"
  shows "\<exists>i\<le>k. \<exists>u u'. u = before_round r env n s i \<and> u' = snd (r u) \<and> work_queue r env n s = Some (n + i, u') \<and>
     ns req \<notin> set (locks u) \<and>
     (found_processed pf req (u\<lparr>locks := locks u @ [ns req]\<rparr>) \<or> recorded (trace u') \<or> warned (trace u) (trace u'))"
proof -
  have "last_round r (before_round r env n s k)"
    using action_queue.last_round_iff[of ns req pf t] returns[of k] free complete
    by (simp add: r rba_Reconcile_def t iml_obtained)
  from queue_records[OF r[unfolded rba_Reconcile_def] same_locks_rba_body[OF assms(1)] _ returns this,
      of "\<lambda>s as. found_processed pf req s \<or> recorded as \<or> warned (trace s) as"]
  show ?thesis using rba_body_records[OF assms(1)] by simp
qed

lemma sample_action_recorded:
  "\<not> found_processed sample sample_request (sample_state\<lparr>locks := [''prod/now'']\<rparr>)"
  "\<not> warned (trace sample_state) (trace (snd (sample_controller sample_state)))"
  by code_simp+

theorem finished_action_is_recorded_witness:
  "\<exists>t. work_queue sample_controller busy_at_first 0 sample_state = Some (1, t) \<and> recorded (trace t)"
proof -
  from finished_action_is_recorded[OF sample_retry refl busy_at_first_ready(1) refl busy_at_first_ready(2,3)]
  obtain i u u' where u: "i \<le> Suc 0" "u = before_round sample_controller busy_at_first 0 sample_state i"
    and q: "u' = snd (sample_controller u)" "work_queue sample_controller busy_at_first 0 sample_state = Some (0 + i, u')"
    and free: "''prod/now'' \<notin> set (locks u)"
    and outcome: "found_processed sample sample_request (u\<lparr>locks := locks u @ [''prod/now'']\<rparr>) \<or> recorded (trace u') \<or>
       warned (trace u) (trace u')"
    by auto
  from u free have "i = 1" "u = sample_state" by (auto simp: le_Suc_eq busy_rounds simp del: before_round.simps)
  with q outcome sample_action_recorded show ?thesis by (auto simp: sample_state_def)
qed

text \<open>
  C15. The work queue of a backup does its work. Under the same conditions, in the round in
  which the queue forgets the request there was nothing to do or somebody seemed to be at it,
  or the status that is stored after it has the hash of the specification that the cache had,
  or a warning says that the status could not be updated.
\<close>

theorem finished_backup_is_recorded:
  fixes pf :: "('w, string list) platform"
  assumes "retry_ok pf" and r: "r = sb_Reconcile pf (InMemoryLocker ns) req"
    and returns: "\<And>i. i \<le> k \<Longrightarrow> returns r (before_round r env n s i)"
    and t: "t = before_round r env n s k" and free: "ns req \<notin> set (locks t)"
    and complete: "backup_completes pf req (t\<lparr>locks := locks t @ [ns req]\<rparr>)"
  shows "\<exists>i\<le>k. \<exists>u u'. u = before_round r env n s i \<and> u' = snd (r u) \<and> work_queue r env n s = Some (n + i, u') \<and>
     ns req \<notin> set (locks u) \<and>
     (found_settled pf req (u\<lparr>locks := locks u @ [ns req]\<rparr>) \<or>
      hash_recorded (CalculateHash (sb_Spec (cached_backup pf req u))) (trace u') \<or> warned (trace u) (trace u'))"
proof -
  have "last_round r (before_round r env n s k)"
    using backup_queue.last_round_iff[of ns req pf t] returns[of k] free complete
    by (simp add: r sb_Reconcile_def t iml_obtained)
  from queue_records[OF r[unfolded sb_Reconcile_def] same_locks_sb_body[OF assms(1)] _ returns this,
      of "\<lambda>s as. found_settled pf req s \<or>
        hash_recorded (CalculateHash (sb_Spec (cached_backup pf req s))) as \<or> warned (trace s) as"]
  show ?thesis using sb_body_records[OF assms(1)] by (simp add: relocked)
qed

theorem finished_backup_is_recorded_witness:
  "\<exists>t. work_queue (sb_Reconcile sample sample_locker sample_request) (\<lambda>n s. s) 0 sample_state = Some (0, t) \<and>
     hash_recorded (CalculateHash sample_sb_spec) (trace t)"
proof -
  let ?r = "sb_Reconcile sample sample_locker sample_request"
  obtain t where run: "?r sample_state = (Return (no_requeue, None), t)"
    and quiet: "\<forall>n r m. Event_emitted n ''Warning'' r m \<notin> set (trace t)"
    by (rule sample_sb_run_quiet)
  then have returns: "returns ?r sample_state" and last: "last_round ?r sample_state"
    by (simp_all add: returns_def last_round_def)
  have "backup_completes sample sample_request
      (sample_state\<lparr>locks := locks sample_state @ [pf_request_string sample sample_request]\<rparr>)"
    using backup_queue.last_round_iff[of "pf_request_string sample" sample_request sample sample_state] returns last
    by (simp add: sb_Reconcile_def iml_obtained sample_state_def)
  moreover have "\<not> warned (trace sample_state) (trace t)"
    using quiet by (auto simp: warned_def sample_state_def list_ex_iff elim!: update_warning.elims)
  moreover have "\<not> found_settled sample sample_request
      (sample_state\<lparr>locks := locks sample_state @ [pf_request_string sample sample_request]\<rparr>)"
    by (simp add: found_settled_def FetchScheduledBackup_def call_def sample_def sample_sb_def
        HasSpecChanged_def IsBeingReconciledAlready_def ret_def)
  moreover have "cached_backup sample sample_request sample_state = sample_sb"
    by (simp add: cached_backup_def sample_def)
  ultimately show ?thesis
    using finished_backup_is_recorded[OF sample_retry refl, of 0 "pf_request_string sample" sample_request
      "\<lambda>n s. s" 0 sample_state] returns run
    by (simp add: sample_state_def sample_sb_def)
qed

end
