(* ===== verification/Redis_Lock.thy ===== *)
theory Redis_Lock
  imports Lock_Protocol Sample_Platform
begin

text \<open>
  The Redis locker: how it is made, that it keeps the promise of \<open>lock_service\<close> when redislock
  behaves as documented, so that the reconcilers give the lock back, that its lock ends
  after a minute, also under a reconciliation that is still running, and that until then it
  excludes.
\<close>

section \<open>Making the locker\<close>

text \<open>\<^verbatim>\<open>redis.Options\<close>, the fields that are set, and the printing of a port with \<^verbatim>\<open>%v\<close>.\<close>

record redis_options =
  ro_Network :: string
  ro_Addr :: string

definition decimal_digit :: "nat \<Rightarrow> char" where
  "decimal_digit d = ''0123456789'' ! d"

fun print_nat :: "nat \<Rightarrow> string" where
  "print_nat n = (if n < 10 then [decimal_digit n] else print_nat (n div 10) @ [decimal_digit (n mod 10)])"

declare print_nat.simps [simp del]

definition print_int :: "int \<Rightarrow> string" where
  "print_int i = (if i < 0 then ''-'' @ print_nat (nat (- i)) else print_nat (nat i))"

text \<open>\<open>connect\<close> is \<^verbatim>\<open>redis.NewClient\<close> with \<^verbatim>\<open>redislock.New\<close> on top of it.\<close>

definition NewRedisDistributedLocker ::
  "(redis_options \<Rightarrow> 'r redis_client) \<Rightarrow> (request \<Rightarrow> string) \<Rightarrow> string \<Rightarrow> string \<Rightarrow> int \<Rightarrow> 'r locker" where
  "NewRedisDistributedLocker connect name_string proto host port =
     RedisDistributedLocker
       (connect \<lparr>ro_Network = proto, ro_Addr = host @ '':'' @ print_int port\<rparr>) name_string"

lemma default_redis_address:
  "NewRedisDistributedLocker connect ns ''tcp'' ''redis'' 6379 =
     RedisDistributedLocker (connect \<lparr>ro_Network = ''tcp'', ro_Addr = ''redis:6379''\<rparr>) ns"
proof -
  have "print_int 6379 = ''6379''"
    by (simp add: print_int_def print_nat.simps decimal_digit_def)
  then show ?thesis by (simp add: NewRedisDistributedLocker_def)
qed

section \<open>Documented behaviour of redislock\<close>

text \<open>
  While the server answers and no time passes: a key that nobody holds is obtained with a lock
  whose release gives back this key, and a key that somebody holds is not obtained. \<open>held\<close> are
  the keys the server has.
\<close>

definition redislock_ok :: "'r redis_client \<Rightarrow> ('r \<Rightarrow> string set) \<Rightarrow> bool" where
  "redislock_ok rc held \<longleftrightarrow>
     (\<forall>r key ttl. key \<notin> held r \<longrightarrow>
        (\<exists>lock r'. rd_Obtain rc r key ttl = ((Some lock, None), r') \<and> held r' = insert key (held r) \<and>
           held (snd (rd_Release rc r' (Some lock))) = held r)) \<and>
     (\<forall>r key ttl. key \<in> held r \<longrightarrow> rd_Obtain rc r key ttl = ((None, Some ErrNotObtained), r))"

lemma redis_obtain_free:
  assumes "redislock_ok rc held" and "ns req \<notin> held r"
  obtains lock r' where "rdl_Obtain rc ns r req = (mk_session (Id_lock (Some lock)) None, r')"
    and "rd_Obtain rc r (ns req) (time_Second * 60) = ((Some lock, None), r')"
    and "held r' = insert (ns req) (held r)" and "held (snd (rd_Release rc r' (Some lock))) = held r"
proof -
  from assms obtain lock r' where "rd_Obtain rc r (ns req) (time_Second * 60) = ((Some lock, None), r')"
    and "held r' = insert (ns req) (held r)" and "held (snd (rd_Release rc r' (Some lock))) = held r"
    unfolding redislock_ok_def by meson
  then show thesis by (intro that) (simp_all add: rdl_Obtain_def createLockingId_def)
qed

lemma redis_obtain_held:
  assumes "redislock_ok rc held" and "ns req \<in> held r"
  shows "rdl_Obtain rc ns r req = (mk_session (Id_lock None) (Some (Text_error ErrAlreadyLocked)), r)"
  using assms by (simp add: redislock_ok_def rdl_Obtain_def createLockingId_def)

lemma redis_lock_service:
  assumes ok: "redislock_ok rc held"
  shows "lock_service (RedisDistributedLocker rc ns) held ns"
proof
  fix req l ls l'
  assume free: "ns req \<notin> held l" and o: "lk_Obtain (RedisDistributedLocker rc ns) l req = (ls, l')"
  from ok free obtain lock where own: "ls = mk_session (Id_lock (Some lock)) None"
      "held l' = insert (ns req) (held l)" "held (snd (rd_Release rc l' (Some lock))) = held l"
    by (rule redis_obtain_free) (use o in \<open>auto simp: RedisDistributedLocker_def\<close>)
  then show "ls_err ls = None \<and> held l' = insert (ns req) (held l)" by (simp add: mk_session_def)
  from own show "\<exists>l''. lk_Done (RedisDistributedLocker rc ns) l' ls = (Return (), l'') \<and> held l'' = held l"
    by (simp add: RedisDistributedLocker_def mk_session_def rdl_Done_def)
next
  fix req l ls l'
  assume "ns req \<in> held l" "lk_Obtain (RedisDistributedLocker rc ns) l req = (ls, l')"
  then show "AlreadyLocked ls \<and> l' = l"
    by (auto simp: RedisDistributedLocker_def redis_obtain_held[OF ok] mk_session_def AlreadyLocked_def)
qed

section \<open>Goroutines and time\<close>

text \<open>The server, where every goroutine is and since when, and the time.\<close>

record 'r redis_conf =
  rcf_server :: 'r
  rcf_phase :: "nat \<Rightarrow> phase"
  rcf_since :: "nat \<Rightarrow> int"
  rcf_now :: int

definition redis_start :: "'r \<Rightarrow> 'r redis_conf" where
  "redis_start r = \<lparr>rcf_server = r, rcf_phase = (\<lambda>_. Idle), rcf_since = (\<lambda>_. 0), rcf_now = 0\<rparr>"

definition redis_phase :: "'r redis_conf \<Rightarrow> nat \<Rightarrow> phase \<Rightarrow> 'r \<Rightarrow> 'r redis_conf" where
  "redis_phase c t p r = c\<lparr>rcf_server := r, rcf_phase := (rcf_phase c)(t := p), rcf_since := (rcf_since c)(t := rcf_now c)\<rparr>"

definition redis_wait :: "(int \<Rightarrow> 'r \<Rightarrow> 'r) \<Rightarrow> int \<Rightarrow> 'r redis_conf \<Rightarrow> 'r redis_conf" where
  "redis_wait elapse d c = c\<lparr>rcf_server := elapse d (rcf_server c), rcf_now := rcf_now c + d\<rparr>"

text \<open>A goroutine obtains or gives back its key, or time passes, by \<open>elapse\<close> on the server.\<close>

inductive redis_step ::
  "'r redis_client \<Rightarrow> (request \<Rightarrow> string) \<Rightarrow> (int \<Rightarrow> 'r \<Rightarrow> 'r) \<Rightarrow> 'r redis_conf \<Rightarrow> 'r redis_conf \<Rightarrow> bool"
  for rc ns elapse where
  redis_enter: "rcf_phase c t = Idle \<Longrightarrow> rdl_Obtain rc ns (rcf_server c) req = (ls, r) \<Longrightarrow> ls_err ls = None \<Longrightarrow>
     redis_step rc ns elapse c (redis_phase c t (In_body req ls) r)"
| redis_refused: "rcf_phase c t = Idle \<Longrightarrow> rdl_Obtain rc ns (rcf_server c) req = (ls, r) \<Longrightarrow> ls_err ls \<noteq> None \<Longrightarrow>
     redis_step rc ns elapse c (redis_phase c t Idle r)"
| redis_leave: "rcf_phase c t = In_body req ls \<Longrightarrow> rdl_Done rc (rcf_server c) ls = (Return (), r) \<Longrightarrow>
     redis_step rc ns elapse c (redis_phase c t Idle r)"
| time_passes: "0 \<le> d \<Longrightarrow> redis_step rc ns elapse c (redis_wait elapse d c)"

text \<open>Documented: a lock that is not refreshed ends with its time to live.\<close>

definition locks_expire :: "'r redis_client \<Rightarrow> ('r \<Rightarrow> string set) \<Rightarrow> (int \<Rightarrow> 'r \<Rightarrow> 'r) \<Rightarrow> bool" where
  "locks_expire rc held elapse \<longleftrightarrow>
     (\<forall>r key ttl lock r'. rd_Obtain rc r key ttl = ((Some lock, None), r') \<longrightarrow> key \<notin> held (elapse ttl r'))"

text \<open>
  Documented: a lock is a lease. \<open>lease r key\<close> is the lock that has the key and the time it has
  left, \<open>issued r\<close> are the locks given out, no two of which have one token. A key with a lease
  is refused, an \<^verbatim>\<open>Obtain\<close> that fails changes nothing, a release ends the lease of this very lock and
  of no other, and a lease ends with its time and not before.
\<close>

definition obtains_lease ::
  "'r redis_client \<Rightarrow> ('r \<Rightarrow> string \<Rightarrow> (redis_lock \<times> int) option) \<Rightarrow> ('r \<Rightarrow> redis_lock set) \<Rightarrow> bool" where
  "obtains_lease rc lease issued \<longleftrightarrow>
     (\<forall>r key ttl x r'. rd_Obtain rc r key ttl = ((x, None), r') \<longrightarrow>
        (\<exists>lock. x = Some lock \<and> rl_Key lock = key \<and> lock \<notin> issued r \<and> insert lock (issued r) \<subseteq> issued r' \<and>
           lease r key = None \<and> lease r' = (lease r)(key \<mapsto> (lock, ttl))))"

definition refuses_unchanged ::
  "'r redis_client \<Rightarrow> ('r \<Rightarrow> string \<Rightarrow> (redis_lock \<times> int) option) \<Rightarrow> ('r \<Rightarrow> redis_lock set) \<Rightarrow> bool" where
  "refuses_unchanged rc lease issued \<longleftrightarrow>
     (\<forall>r key ttl x e r'. rd_Obtain rc r key ttl = ((x, Some e), r') \<longrightarrow> issued r' = issued r \<and> lease r' = lease r)"

definition releases_own ::
  "'r redis_client \<Rightarrow> ('r \<Rightarrow> string \<Rightarrow> (redis_lock \<times> int) option) \<Rightarrow> ('r \<Rightarrow> redis_lock set) \<Rightarrow> bool" where
  "releases_own rc lease issued \<longleftrightarrow>
     (\<forall>r lock. issued (snd (rd_Release rc r (Some lock))) = issued r \<and>
        lease (snd (rd_Release rc r (Some lock))) =
          (if map_option fst (lease r (rl_Key lock)) = Some lock then (lease r)(rl_Key lock := None) else lease r))"

definition leases_elapse ::
  "('r \<Rightarrow> string \<Rightarrow> (redis_lock \<times> int) option) \<Rightarrow> ('r \<Rightarrow> redis_lock set) \<Rightarrow> (int \<Rightarrow> 'r \<Rightarrow> 'r) \<Rightarrow> bool" where
  "leases_elapse lease issued elapse \<longleftrightarrow>
     (\<forall>r d key. 0 \<le> d \<longrightarrow> issued (elapse d r) = issued r \<and>
        lease (elapse d r) key = (case lease r key of None \<Rightarrow> None
          | Some (lock, left) \<Rightarrow> if d < left then Some (lock, left - d) else None))"

definition leases_ok ::
  "'r redis_client \<Rightarrow> ('r \<Rightarrow> string \<Rightarrow> (redis_lock \<times> int) option) \<Rightarrow> ('r \<Rightarrow> redis_lock set) \<Rightarrow>
     (int \<Rightarrow> 'r \<Rightarrow> 'r) \<Rightarrow> bool" where
  "leases_ok rc lease issued elapse \<longleftrightarrow> obtains_lease rc lease issued \<and> refuses_unchanged rc lease issued \<and>
     releases_own rc lease issued \<and> leases_elapse lease issued elapse"

lemma lease_elapsed:
  assumes "leases_ok rc lease issued elapse" and "0 \<le> d"
  shows "issued (elapse d r) = issued r"
    and "lease r key = Some (lock, left) \<Longrightarrow> d < left \<Longrightarrow> lease (elapse d r) key = Some (lock, left - d)"
  using assms unfolding leases_ok_def leases_elapse_def by auto

section \<open>A minute apart\<close>

text \<open>
  Inside the key of its request for less than a minute, a goroutine has the lease with the rest
  of the minute. Goroutines inside one key obtained it at least a minute apart.
\<close>

abbreviation minute :: int where
  "minute \<equiv> time_Second * 60"

definition inside :: "'r redis_conf \<Rightarrow> nat \<Rightarrow> request \<Rightarrow> redis_lock \<Rightarrow> bool" where
  "inside c t req lock \<longleftrightarrow> rcf_phase c t = In_body req (mk_session (Id_lock (Some lock)) None)"

definition lease_inv ::
  "('r \<Rightarrow> string \<Rightarrow> (redis_lock \<times> int) option) \<Rightarrow> ('r \<Rightarrow> redis_lock set) \<Rightarrow> (request \<Rightarrow> string) \<Rightarrow>
     'r redis_conf \<Rightarrow> bool" where
  "lease_inv lease issued ns c \<longleftrightarrow>
     (\<forall>t req ls. rcf_phase c t = In_body req ls \<longrightarrow> (\<exists>lock. inside c t req lock)) \<and>
     (\<forall>t req lock. inside c t req lock \<longrightarrow>
        rl_Key lock = ns req \<and> lock \<in> issued (rcf_server c) \<and> rcf_since c t \<le> rcf_now c \<and>
        (rcf_now c - rcf_since c t < minute \<longrightarrow>
           lease (rcf_server c) (ns req) = Some (lock, minute - (rcf_now c - rcf_since c t)))) \<and>
     (\<forall>t u req req' lock lock'. t \<noteq> u \<longrightarrow> inside c t req lock \<longrightarrow> inside c u req' lock' \<longrightarrow>
        lock \<noteq> lock' \<and> (ns req = ns req' \<longrightarrow> minute \<le> \<bar>rcf_since c t - rcf_since c u\<bar>))"

lemma redis_phase_sel [simp]:
  "rcf_server (redis_phase c t p r) = r" "rcf_phase (redis_phase c t p r) = (rcf_phase c)(t := p)"
  "rcf_since (redis_phase c t p r) = (rcf_since c)(t := rcf_now c)" "rcf_now (redis_phase c t p r) = rcf_now c"
  by (simp_all add: redis_phase_def)

lemma redis_wait_sel [simp]:
  "rcf_server (redis_wait elapse d c) = elapse d (rcf_server c)" "rcf_phase (redis_wait elapse d c) = rcf_phase c"
  "rcf_since (redis_wait elapse d c) = rcf_since c" "rcf_now (redis_wait elapse d c) = rcf_now c + d"
  by (simp_all add: redis_wait_def)

lemma inside_phase [simp]:
  "inside (redis_phase c t p r) u req lock \<longleftrightarrow>
     (if u = t then p = In_body req (mk_session (Id_lock (Some lock)) None) else inside c u req lock)"
  by (simp add: inside_def)

lemma inside_wait [simp]: "inside (redis_wait elapse d c) u req lock = inside c u req lock"
  by (simp add: inside_def)

lemma session_eq [simp]: "mk_session i e = mk_session i' e' \<longleftrightarrow> i = i' \<and> e = e'"
  by (simp add: mk_session_def)

lemma rdl_Obtain_free:
  assumes "leases_ok rc lease issued elapse" and "rdl_Obtain rc ns r req = (ls, r')" and "ls_err ls = None"
  obtains lock where "ls = mk_session (Id_lock (Some lock)) None" and "rl_Key lock = ns req" and "lock \<notin> issued r"
    and "insert lock (issued r) \<subseteq> issued r'" and "lease r (ns req) = None"
    and "lease r' = (lease r)(ns req \<mapsto> (lock, minute))"
proof -
  from assms(2,3) obtain x where x: "rd_Obtain rc r (ns req) minute = ((x, None), r')"
    and ls: "ls = mk_session (Id_lock x) None"
    by (auto simp: rdl_Obtain_def createLockingId_def mk_session_def
        split: prod.split_asm option.split_asm redis_error.split_asm)
  from assms(1) have "obtains_lease rc lease issued" by (simp add: leases_ok_def)
  with x obtain lock where "x = Some lock \<and> rl_Key lock = ns req \<and> lock \<notin> issued r \<and>
      insert lock (issued r) \<subseteq> issued r' \<and> lease r (ns req) = None \<and> lease r' = (lease r)(ns req \<mapsto> (lock, minute))"
    unfolding obtains_lease_def by blast
  with ls show thesis by (intro that) auto
qed

lemma rdl_Obtain_refused:
  assumes "leases_ok rc lease issued elapse" and "rdl_Obtain rc ns r req = (ls, r')" and "ls_err ls \<noteq> None"
  shows "issued r' = issued r \<and> lease r' = lease r"
proof -
  from assms(2,3) obtain x e where "rd_Obtain rc r (ns req) minute = ((x, Some e), r')"
    by (auto simp: rdl_Obtain_def createLockingId_def mk_session_def
        split: prod.split_asm option.split_asm redis_error.split_asm)
  with assms(1) show ?thesis unfolding leases_ok_def refuses_unchanged_def by blast
qed

lemma rdl_Done_released:
  assumes "leases_ok rc lease issued elapse" and "rdl_Done rc r (mk_session (Id_lock (Some lock)) None) = (Return (), r')"
  shows "issued r' = issued r"
    and "lease r key = Some (l, left) \<Longrightarrow> l \<noteq> lock \<Longrightarrow> lease r' key = Some (l, left)"
  using assms unfolding leases_ok_def releases_own_def by (auto simp: rdl_Done_def mk_session_def)

lemma lease_inv_start: "lease_inv lease issued ns (redis_start r)"
  by (simp add: lease_inv_def inside_def redis_start_def)

text \<open>What the invariant says of the goroutines, one by one.\<close>

lemma lease_invI:
  assumes "\<And>t req ls. rcf_phase c t = In_body req ls \<Longrightarrow> \<exists>lock. inside c t req lock"
    and "\<And>t req lock. inside c t req lock \<Longrightarrow>
       rl_Key lock = ns req \<and> lock \<in> issued (rcf_server c) \<and> rcf_since c t \<le> rcf_now c"
    and "\<And>t req lock. inside c t req lock \<Longrightarrow> rcf_now c - rcf_since c t < minute \<Longrightarrow>
       lease (rcf_server c) (ns req) = Some (lock, minute - (rcf_now c - rcf_since c t))"
    and "\<And>t u req lock req' lock'. t \<noteq> u \<Longrightarrow> inside c t req lock \<Longrightarrow> inside c u req' lock' \<Longrightarrow> lock \<noteq> lock'"
    and "\<And>t u req lock req' lock'. t \<noteq> u \<Longrightarrow> inside c t req lock \<Longrightarrow> inside c u req' lock' \<Longrightarrow> ns req = ns req' \<Longrightarrow>
       minute \<le> \<bar>rcf_since c t - rcf_since c u\<bar>"
  shows "lease_inv lease issued ns c"
  unfolding lease_inv_def
proof (intro conjI allI impI, goal_cases)
  case (1 t req ls)
  then show ?case by (rule assms(1))
next
  case (5 t req lock)
  then show ?case by (rule assms(3))
next
  case (6 t u req req' lock lock')
  then show ?case by (rule assms(4))
next
  case (7 t u req req' lock lock')
  then show ?case by (rule assms(5))
qed (use assms(2) in simp_all)

lemma lease_invD:
  assumes "lease_inv lease issued ns c"
  shows "rcf_phase c t = In_body req ls \<Longrightarrow> \<exists>lock. inside c t req lock"
    and "inside c t req lock \<Longrightarrow> rl_Key lock = ns req \<and> lock \<in> issued (rcf_server c) \<and> rcf_since c t \<le> rcf_now c"
    and "inside c t req lock \<Longrightarrow> rcf_now c - rcf_since c t < minute \<Longrightarrow>
       lease (rcf_server c) (ns req) = Some (lock, minute - (rcf_now c - rcf_since c t))"
    and "t \<noteq> u \<Longrightarrow> inside c t req lock \<Longrightarrow> inside c u req' lock' \<Longrightarrow> lock \<noteq> lock'"
    and "t \<noteq> u \<Longrightarrow> inside c t req lock \<Longrightarrow> inside c u req' lock' \<Longrightarrow> ns req = ns req' \<Longrightarrow>
       minute \<le> \<bar>rcf_since c t - rcf_since c u\<bar>"
  using assms unfolding lease_inv_def by blast+

lemma lease_inv_idle:
  assumes inv: "lease_inv lease issued ns c" and "issued r = issued (rcf_server c)"
    and keep: "\<And>u req lock left. u \<noteq> t \<Longrightarrow> inside c u req lock \<Longrightarrow>
       lease (rcf_server c) (ns req) = Some (lock, left) \<Longrightarrow> lease r (ns req) = Some (lock, left)"
  shows "lease_inv lease issued ns (redis_phase c t Idle r)"
  using assms(2) lease_invD[OF inv] by (intro lease_invI) (auto split: if_split_asm intro!: keep)

lemma lease_inv_enter:
  assumes inv: "lease_inv lease issued ns c" and new: "rl_Key lock = ns req" "lock \<notin> issued (rcf_server c)"
    and r: "insert lock (issued (rcf_server c)) \<subseteq> issued r" "lease (rcf_server c) (ns req) = None"
      "lease r = (lease (rcf_server c))(ns req \<mapsto> (lock, minute))"
  shows "lease_inv lease issued ns (redis_phase c t (In_body req (mk_session (Id_lock (Some lock)) None)) r)"
proof -
  have old: "lock' \<noteq> lock" "ns req' = ns req \<Longrightarrow> minute \<le> rcf_now c - rcf_since c u"
    if "inside c u req' lock'" for u req' lock'
    using lease_invD(2,3)[OF inv that] new(2) r(2) by (cases "rcf_now c - rcf_since c u < minute"; auto)+
  show ?thesis
  proof (rule lease_invI, goal_cases)
    case (1 u q ls)
    then show ?case using lease_invD(1)[OF inv, of u q ls] by (auto split: if_split_asm)
  next
    case (2 u q l)
    then show ?case using lease_invD(2)[OF inv, of u q l] new(1) r(1) by (auto split: if_split_asm)
  next
    case (3 u q l)
    then show ?case using lease_invD(3)[OF inv, of u q l] old(2)[of u q l] r(3) by (auto split: if_split_asm)
  next
    case (4 u v q l q' l')
    then show ?case using lease_invD(4)[OF inv, of u v q l q' l'] old(1) by (auto split: if_split_asm)
  next
    case (5 u v q l q' l')
    then show ?case
      using lease_invD(5)[OF inv, of u v q l q' l'] old(2)[of u q l] old(2)[of v q' l'] by (auto split: if_split_asm)
  qed
qed

lemma lease_inv_wait:
  assumes ok: "leases_ok rc lease issued elapse" and inv: "lease_inv lease issued ns c" and d: "0 \<le> d"
  shows "lease_inv lease issued ns (redis_wait elapse d c)"
proof (rule lease_invI, goal_cases)
  case (3 u q l)
  then have "inside c u q l" "rcf_now c - rcf_since c u < minute" using d by simp_all
  from lease_elapsed(2)[OF ok d lease_invD(3)[OF inv this]] 3 show ?case by (simp add: algebra_simps)
next
  case (2 u q l)
  then show ?case using lease_invD(2)[OF inv, of u q l] d by (simp add: lease_elapsed(1)[OF ok d])
next
  case (5 u v q l q' l')
  then show ?case using lease_invD(5)[OF inv, of u v q l q' l'] by simp
qed (use lease_invD(1,4)[OF inv] in auto)

lemma lease_inv_step:
  assumes ok: "leases_ok rc lease issued elapse" and inv: "lease_inv lease issued ns c"
    and step: "redis_step rc ns elapse c c'"
  shows "lease_inv lease issued ns c'"
  using step
proof cases
  case (redis_enter t req ls r)
  from ok redis_enter(3,4) show ?thesis
    unfolding redis_enter(1) by (rule rdl_Obtain_free) (simp add: lease_inv_enter[OF inv])
next
  case (redis_refused t req ls r)
  from rdl_Obtain_refused[OF ok this(3,4)] show ?thesis
    unfolding redis_refused(1) by (intro lease_inv_idle[OF inv]) simp_all
next
  case (redis_leave t req ls r)
  from lease_invD(1)[OF inv redis_leave(2)] obtain lock where lock: "inside c t req lock" by blast
  with redis_leave have r: "rdl_Done rc (rcf_server c) (mk_session (Id_lock (Some lock)) None) = (Return (), r)"
    by (simp add: inside_def)
  have "lease r (ns q) = Some (l, left)"
    if "u \<noteq> t" "inside c u q l" "lease (rcf_server c) (ns q) = Some (l, left)" for u q l left
    using that(3) lease_invD(4)[OF inv that(1,2) lock] by (rule rdl_Done_released(2)[OF ok r])
  then show ?thesis
    unfolding redis_leave(1) by (rule lease_inv_idle[OF inv rdl_Done_released(1)[OF ok r]])
next
  case (time_passes d)
  with lease_inv_wait[OF ok inv] show ?thesis by simp
qed

lemma lease_inv_reachable:
  assumes "leases_ok rc lease issued elapse" and "(redis_step rc ns elapse)\<^sup>*\<^sup>* (redis_start r) c"
  shows "lease_inv lease issued ns c"
  using assms(2)
proof induction
  case base
  show ?case by (rule lease_inv_start)
next
  case (step c c')
  from lease_inv_step[OF assms(1) step(3,2)] show ?case .
qed

section \<open>A server with keys that expire\<close>

text \<open>The sample server: the lock that has a key with the time it has left, and a counter for tokens.\<close>

type_synonym sample_server = "(string \<Rightarrow> (redis_lock \<times> int) option) \<times> nat"

definition sample_redis :: "sample_server redis_client" where
  "sample_redis = \<lparr>
     rd_Obtain = (\<lambda>r key ttl. if fst r key \<noteq> None then ((None, Some ErrNotObtained), r)
       else let lock = \<lparr>rl_Key = key, rl_Token = replicate (snd r) CHR ''t''\<rparr>
            in ((Some lock, None), ((fst r)(key \<mapsto> (lock, ttl)), Suc (snd r)))),
     rd_Release = (\<lambda>r lock. (None, case lock of None \<Rightarrow> r
       | Some l \<Rightarrow> (if map_option fst (fst r (rl_Key l)) = Some l then (fst r)(rl_Key l := None) else fst r, snd r))),
     rd_Close = (\<lambda>r. (None, r))\<rparr>"

abbreviation sample_held :: "sample_server \<Rightarrow> string set" where
  "sample_held r \<equiv> dom (fst r)"

definition sample_issued :: "sample_server \<Rightarrow> redis_lock set" where
  "sample_issued r = {lock. length (rl_Token lock) < snd r}"

definition sample_elapse :: "int \<Rightarrow> sample_server \<Rightarrow> sample_server" where
  "sample_elapse d r = ((\<lambda>key. case fst r key of None \<Rightarrow> None
     | Some (lock, left) \<Rightarrow> if d < left then Some (lock, left - d) else None), snd r)"

abbreviation empty_server :: sample_server where
  "empty_server \<equiv> (\<lambda>key. None, 0)"

lemma sample_redis_ok: "redislock_ok sample_redis sample_held"
  by (auto simp: redislock_ok_def sample_redis_def Let_def)

lemma sample_redis_expires: "locks_expire sample_redis sample_held sample_elapse"
  by (auto simp: locks_expire_def sample_redis_def sample_elapse_def Let_def dom_def split: if_split_asm)

lemma sample_redis_leases: "leases_ok sample_redis fst sample_issued sample_elapse"
  unfolding leases_ok_def
proof (intro conjI)
  show "obtains_lease sample_redis fst sample_issued"
    by (auto simp: obtains_lease_def sample_redis_def sample_issued_def Let_def simp del: not_None_eq split: if_split_asm)
  show "refuses_unchanged sample_redis fst sample_issued"
    by (auto simp: refuses_unchanged_def sample_redis_def sample_issued_def Let_def split: if_split_asm)
  show "releases_own sample_redis fst sample_issued"
    by (auto simp: releases_own_def sample_redis_def sample_issued_def)
  show "leases_elapse fst sample_issued sample_elapse"
    by (auto simp: leases_elapse_def sample_elapse_def sample_issued_def)
qed

section \<open>Properties\<close>

text \<open>
  C7. With the Redis locker, when redislock behaves as documented: the four reconcilers give
  the key back on every path, a panic included, and while it is held they touch nothing and
  ask to be called again in ten seconds.
\<close>

theorem redis_lock_is_released:
  fixes s :: "('w, 'r) sys"
  assumes "redislock_ok rc held" and "retry_ok pf"
    and "m \<in> {rba_Reconcile pf (RedisDistributedLocker rc ns) req, rba_observer_Reconcile pf (RedisDistributedLocker rc ns) req,
       sb_Reconcile pf (RedisDistributedLocker rc ns) req, sb_observer_Reconcile pf (RedisDistributedLocker rc ns) req}"
  shows "held (locks (snd (m s))) = held (locks s) \<and>
     (ns req \<in> held (locks s) \<longrightarrow> m s = (Return (requeue_after (time_Second * 10), None), s))"
  using assms(3) lock_service.with_lock_releases[OF redis_lock_service[OF assms(1)]]
    lock_service.with_lock_busy[OF redis_lock_service[OF assms(1)]]
    same_locks_rba_body[OF assms(2)] same_locks_rba_observer[OF assms(2)]
    same_locks_sb_body[OF assms(2)] same_locks_sb_observer[OF assms(2)]
  unfolding rba_Reconcile_def rba_observer_Reconcile_def sb_Reconcile_def sb_observer_Reconcile_def
  by blast

text \<open>A server on which no time passes, with the keys only, and a run while the key is free.\<close>

definition timeless_redis :: "string list redis_client" where
  "timeless_redis = \<lparr>
     rd_Obtain = (\<lambda>r key ttl. if key \<in> set r then ((None, Some ErrNotObtained), r)
       else ((Some \<lparr>rl_Key = key, rl_Token = ''t''\<rparr>, None), key # r)),
     rd_Release = (\<lambda>r lock. (None, case lock of None \<Rightarrow> r | Some l \<Rightarrow> removeAll (rl_Key l) r)),
     rd_Close = (\<lambda>r. (None, r))\<rparr>"

lemma timeless_redis_ok: "redislock_ok timeless_redis set"
  by (auto simp: redislock_ok_def timeless_redis_def)

theorem redis_lock_is_released_witness:
  "set (locks (snd (rba_Reconcile sample (RedisDistributedLocker timeless_redis (pf_request_string sample)) sample_request
     (sample_state\<lparr>locks := [''prod/x'']\<rparr>)))) = {''prod/x''}"
  using redis_lock_is_released[OF timeless_redis_ok sample_retry, where ns = "pf_request_string sample"
      and req = sample_request and s = "sample_state\<lparr>locks := [''prod/x'']\<rparr>"]
  by auto

text \<open>One goroutine stays inside for a minute, and another one joins it.\<close>

lemma redis_joined:
  assumes ok: "redislock_ok rc held" and ex: "locks_expire rc held elapse" and free: "ns req \<notin> held r"
  obtains c ls ls' where "(redis_step rc ns elapse)\<^sup>*\<^sup>* (redis_start r) c"
    and "rcf_phase c 0 = In_body req ls" and "rcf_phase c 1 = In_body req ls'"
    and "rcf_since c 0 = 0" and "rcf_since c 1 = minute" and "rcf_now c = minute"
proof -
  from ok free obtain lock r1 where o: "rdl_Obtain rc ns r req = (mk_session (Id_lock (Some lock)) None, r1)"
    and rd: "rd_Obtain rc r (ns req) minute = ((Some lock, None), r1)"
    by (rule redis_obtain_free)
  let ?ls = "mk_session (Id_lock (Some lock)) None" and ?r2 = "elapse minute r1"
  from ex rd have "ns req \<notin> held ?r2" by (simp add: locks_expire_def)
  with ok obtain lock' r3 where o': "rdl_Obtain rc ns ?r2 req = (mk_session (Id_lock (Some lock')) None, r3)"
    by (rule redis_obtain_free)
  let ?ls' = "mk_session (Id_lock (Some lock')) None"
  let ?c1 = "redis_phase (redis_start r) 0 (In_body req ?ls) r1"
  let ?c2 = "redis_wait elapse minute ?c1" and ?c3 = "redis_phase (redis_wait elapse minute ?c1) 1 (In_body req ?ls') r3"
  have "redis_step rc ns elapse (redis_start r) ?c1"
    using o by (intro redis_enter) (simp_all add: redis_start_def mk_session_def)
  moreover have "redis_step rc ns elapse ?c1 ?c2"
    by (rule time_passes) (simp add: time_Second_def)
  moreover have "redis_step rc ns elapse ?c2 ?c3"
    using o' by (intro redis_enter) (simp_all add: redis_start_def mk_session_def)
  ultimately have "(redis_step rc ns elapse)\<^sup>*\<^sup>* (redis_start r) ?c3"
    by (meson converse_rtranclp_into_rtranclp rtranclp.rtrancl_refl)
  then show thesis by (rule that) (simp_all add: redis_start_def)
qed

text \<open>
  C8. The lock in Redis is for a minute and nothing refreshes it: when redislock behaves as
  documented, a goroutine that is inside the key for a minute is joined by another one.
\<close>

theorem redis_lock_expires:
  assumes "redislock_ok rc held" and "locks_expire rc held elapse" and "ns req \<notin> held r"
  shows "\<exists>c ls ls'. (redis_step rc ns elapse)\<^sup>*\<^sup>* (redis_start r) c \<and>
     rcf_phase c 0 = In_body req ls \<and> rcf_phase c 1 = In_body req ls' \<and> rcf_now c = minute"
  using assms by (rule redis_joined) blast

theorem redis_lock_expires_witness:
  "\<exists>c ls ls'. (redis_step sample_redis (pf_request_string sample) sample_elapse)\<^sup>*\<^sup>* (redis_start empty_server) c \<and>
     rcf_phase c 0 = In_body sample_request ls \<and> rcf_phase c 1 = In_body sample_request ls' \<and> rcf_now c = minute"
  using sample_redis_ok sample_redis_expires by (rule redis_lock_expires) simp

text \<open>
  C9. But for a minute it excludes. When locks in Redis are leases, as documented, then in every
  state that goroutines and time can reach, two goroutines that are inside one key obtained it
  at least a minute apart, so one of them has been inside for a minute or longer: whoever gives
  the key back in time was alone with it all the time.
\<close>

theorem redis_lock_excludes:
  assumes "leases_ok rc lease issued elapse" and "(redis_step rc ns elapse)\<^sup>*\<^sup>* (redis_start r) c"
    and "t \<noteq> u" and "rcf_phase c t = In_body req ls" and "rcf_phase c u = In_body req' ls'" and "ns req = ns req'"
  shows "time_Second * 60 \<le> \<bar>rcf_since c t - rcf_since c u\<bar> \<and>
     time_Second * 60 \<le> rcf_now c - min (rcf_since c t) (rcf_since c u)"
proof -
  from assms(1,2) have inv: "lease_inv lease issued ns c" by (rule lease_inv_reachable)
  from lease_invD(1)[OF inv] assms(4,5) obtain lock lock'
    where i: "inside c t req lock" "inside c u req' lock'" by blast
  from lease_invD(5)[OF inv assms(3) i assms(6)] lease_invD(2)[OF inv i(1)] lease_invD(2)[OF inv i(2)]
  show ?thesis by auto
qed

theorem redis_lock_excludes_witness:
  "\<exists>c ls ls'. (redis_step sample_redis (pf_request_string sample) sample_elapse)\<^sup>*\<^sup>* (redis_start empty_server) c \<and>
     rcf_phase c 0 = In_body sample_request ls \<and> rcf_phase c 1 = In_body sample_request ls' \<and>
     rcf_now c = minute \<and> minute \<le> rcf_now c - rcf_since c 0"
proof -
  obtain c ls ls' where run: "(redis_step sample_redis (pf_request_string sample) sample_elapse)\<^sup>*\<^sup>* (redis_start empty_server) c"
    and inside: "rcf_phase c 0 = In_body sample_request ls" "rcf_phase c 1 = In_body sample_request ls'"
    and times: "rcf_since c 0 = 0" "rcf_since c 1 = minute" "rcf_now c = minute"
    using sample_redis_ok sample_redis_expires by (rule redis_joined[of _ _ _ "pf_request_string sample" sample_request empty_server]) simp
  from redis_lock_excludes[OF sample_redis_leases run _ inside] times
  have "minute \<le> rcf_now c - rcf_since c 0" by simp
  with run inside times(3) show ?thesis by blast
qed

end
