(* ===== verification/Slices.thy ===== *)
theory Slices
  imports Api_Types
begin

text \<open>
  Go slices as windows into arrays on a heap, and what it means for a copy to be deep: the
  locale \<open>deep_copy\<close>. Deep copies compose: a slice of deeply copied elements, two fields of
  a struct, a struct that wraps a field.
\<close>

section \<open>Arrays and slices\<close>

datatype slice = Nil_slice | Slice nat nat nat
  \<comment> \<open>array, offset, length\<close>

record 'c store =
  arrays :: "nat \<Rightarrow> 'c list"
  next_array :: nat

fun slice_len :: "slice \<Rightarrow> nat" where
  "slice_len Nil_slice = 0"
| "slice_len (Slice a off n) = n"

fun elems :: "'c store \<Rightarrow> slice \<Rightarrow> 'c list" where
  "elems h Nil_slice = []"
| "elems h (Slice a off n) = take n (drop off (arrays h a))"

text \<open>\<^verbatim>\<open>make([]T, n)\<close> with the zero value \<open>z\<close>, \<^verbatim>\<open>s[i] = c\<close> and \<^verbatim>\<open>copy(dst, src)\<close>.\<close>

definition slice_make :: "'c \<Rightarrow> nat \<Rightarrow> 'c store \<Rightarrow> slice \<times> 'c store" where
  "slice_make z n h =
     (Slice (next_array h) 0 n,
      h\<lparr>arrays := (arrays h)(next_array h := replicate n z), next_array := Suc (next_array h)\<rparr>)"

fun slice_set :: "slice \<Rightarrow> nat \<Rightarrow> 'c \<Rightarrow> 'c store \<Rightarrow> 'c store" where
  "slice_set Nil_slice i c h = h"
| "slice_set (Slice a off n) i c h = h\<lparr>arrays := (arrays h)(a := (arrays h a)[off + i := c])\<rparr>"

definition slice_copy :: "slice \<Rightarrow> slice \<Rightarrow> 'c store \<Rightarrow> 'c store" where
  "slice_copy dst src h =
     fold (\<lambda>i. slice_set dst i (elems h src ! i)) [0..<min (slice_len dst) (slice_len src)] h"

text \<open>\<^verbatim>\<open>for i := range src { f(&src[i], &dst[i]) }\<close>.\<close>

fun copy_loop :: "('c \<Rightarrow> 'c store \<Rightarrow> 'c \<times> 'c store) \<Rightarrow> slice \<Rightarrow> slice \<Rightarrow> nat list \<Rightarrow> 'c store \<Rightarrow> 'c store" where
  "copy_loop f src dst [] h = h"
| "copy_loop f src dst (i # is) h =
     (case f (elems h src ! i) h of (c, h') \<Rightarrow> copy_loop f src dst is (slice_set dst i c h'))"

text \<open>The two ways a slice field is copied when it is not nil.\<close>

definition clone_with :: "('c \<Rightarrow> 'c store \<Rightarrow> 'c \<times> 'c store) \<Rightarrow> 'c \<Rightarrow> slice \<Rightarrow> 'c store \<Rightarrow> slice \<times> 'c store" where
  "clone_with f z s h =
     (if s = Nil_slice then (Nil_slice, h)
      else (case slice_make z (slice_len s) h of
        (out, h1) \<Rightarrow> (out, copy_loop f s out [0..<slice_len s] h1)))"

definition clone_plain :: "'c \<Rightarrow> slice \<Rightarrow> 'c store \<Rightarrow> slice \<times> 'c store" where
  "clone_plain z s h =
     (if s = Nil_slice then (Nil_slice, h)
      else (case slice_make z (slice_len s) h of (out, h1) \<Rightarrow> (out, slice_copy out s h1)))"

section \<open>Deep copies\<close>

definition grows :: "'c store \<Rightarrow> 'c store \<Rightarrow> bool" where
  "grows h h' \<longleftrightarrow> next_array h \<le> next_array h' \<and> (\<forall>a < next_array h. arrays h' a = arrays h a)"

definition agree :: "'c store \<Rightarrow> 'c store \<Rightarrow> nat set \<Rightarrow> bool" where
  "agree h h' A \<longleftrightarrow> next_array h \<le> next_array h' \<and> (\<forall>a \<in> A. arrays h' a = arrays h a)"

lemma grows_refl [simp]: "grows h h"
  by (simp add: grows_def)

lemma grows_trans: "grows h h' \<Longrightarrow> grows h' h'' \<Longrightarrow> grows h h''"
  unfolding grows_def by (metis order_trans order_less_le_trans)

lemma grows_agree: "grows h h' \<Longrightarrow> A \<subseteq> {..<next_array h} \<Longrightarrow> agree h h' A"
  by (auto simp: grows_def agree_def)

text \<open>
  \<open>ok h x\<close>: what \<open>x\<close> refers to is allocated; \<open>foot h x\<close>: the arrays it refers to;
  \<open>val h x\<close>: the value it stands for, read through its slices.
\<close>

locale deep_copy =
  fixes into :: "'a \<Rightarrow> 'c store \<Rightarrow> 'a \<times> 'c store"
    and ok :: "'c store \<Rightarrow> 'a \<Rightarrow> bool"
    and foot :: "'c store \<Rightarrow> 'a \<Rightarrow> nat set"
    and val :: "'c store \<Rightarrow> 'a \<Rightarrow> 'v"
  assumes copy_grows: "ok h x \<Longrightarrow> into x h = (y, h') \<Longrightarrow> grows h h'"
    and copy_ok: "ok h x \<Longrightarrow> into x h = (y, h') \<Longrightarrow> ok h' y"
    and copy_fresh: "ok h x \<Longrightarrow> into x h = (y, h') \<Longrightarrow> foot h' y \<inter> {..<next_array h} = {}"
    and copy_value: "ok h x \<Longrightarrow> into x h = (y, h') \<Longrightarrow> val h' y = val h x"
    and foot_allocated: "ok h x \<Longrightarrow> foot h x \<subseteq> {..<next_array h}"
    and local_ok: "ok h x \<Longrightarrow> agree h h2 (foot h x) \<Longrightarrow> ok h2 x"
    and local_foot: "ok h x \<Longrightarrow> agree h h2 (foot h x) \<Longrightarrow> foot h2 x = foot h x"
    and local_value: "ok h x \<Longrightarrow> agree h h2 (foot h x) \<Longrightarrow> val h2 x = val h x"
begin

lemma keeps_along:
  assumes "ok h x" and "grows h h'"
  shows "ok h' x" and "foot h' x = foot h x" and "val h' x = val h x"
  using assms foot_allocated[OF assms(1)] local_ok local_foot local_value grows_agree by metis+

text \<open>Whatever happens to the memory of the original, the copy stands for the value it had.\<close>

lemma copy_survives:
  assumes "ok h x" and "into x h = (y, h')" and "next_array h' \<le> next_array h2"
    and "\<And>a. next_array h \<le> a \<Longrightarrow> arrays h2 a = arrays h' a"
  shows "val h2 y = val h x"
proof -
  have "agree h' h2 (foot h' y)"
    unfolding agree_def using copy_fresh[OF assms(1,2)] assms(3,4) by (meson disjoint_iff lessThan_iff not_less)
  from local_value[OF copy_ok[OF assms(1,2)] this] show ?thesis
    by (simp add: copy_value[OF assms(1,2)])
qed

text \<open>Whatever happens to the memory of the copy, the original stands for its value.\<close>

lemma original_survives:
  assumes "ok h x" and "next_array h \<le> next_array h2"
    and "\<And>a. a < next_array h \<Longrightarrow> arrays h2 a = arrays h a"
  shows "val h2 x = val h x"
  using keeps_along(3)[OF assms(1), of h2] assms(2,3) by (simp add: grows_def)

end

section \<open>Elements and slices\<close>

definition slice_ok :: "('c store \<Rightarrow> 'c \<Rightarrow> bool) \<Rightarrow> 'c store \<Rightarrow> slice \<Rightarrow> bool" where
  "slice_ok ok h s \<longleftrightarrow>
     (case s of Nil_slice \<Rightarrow> True
      | Slice a off n \<Rightarrow> a < next_array h \<and> off + n \<le> length (arrays h a) \<and> list_all (ok h) (elems h s))"

definition slice_foot :: "('c store \<Rightarrow> 'c \<Rightarrow> nat set) \<Rightarrow> 'c store \<Rightarrow> slice \<Rightarrow> nat set" where
  "slice_foot foot h s =
     (case s of Nil_slice \<Rightarrow> {} | Slice a off n \<Rightarrow> insert a (\<Union>c \<in> set (elems h s). foot h c))"

definition slice_val :: "('c store \<Rightarrow> 'c \<Rightarrow> 'v) \<Rightarrow> 'c store \<Rightarrow> slice \<Rightarrow> bool \<times> 'v list" where
  "slice_val val h s = (s = Nil_slice, map (val h) (elems h s))"

lemma length_elems [simp]: "slice_ok ok h s \<Longrightarrow> length (elems h s) = slice_len s"
  by (auto simp: slice_ok_def split: slice.splits)

text \<open>
  What holds in the loop: the first elements of the new array \<open>d\<close> are copies, and nothing
  that was allocated before it has changed.
\<close>

definition cloned ::
  "('c store \<Rightarrow> 'c \<Rightarrow> bool) \<Rightarrow> ('c store \<Rightarrow> 'c \<Rightarrow> nat set) \<Rightarrow> ('c store \<Rightarrow> 'c \<Rightarrow> 'v) \<Rightarrow>
     'v list \<Rightarrow> nat \<Rightarrow> nat \<Rightarrow> 'c store \<Rightarrow> bool" where
  "cloned ok foot val vs d k h \<longleftrightarrow> length (arrays h d) = length vs \<and> d < next_array h \<and>
     (\<forall>j < k. ok h (arrays h d ! j) \<and> foot h (arrays h d ! j) \<inter> {..d} = {} \<and>
        val h (arrays h d ! j) = vs ! j)"

lemma elems_grows: "grows h h' \<Longrightarrow> slice_ok ok h s \<Longrightarrow> elems h' s = elems h s"
  by (cases s) (auto simp: slice_ok_def grows_def)

lemma deep_copy_other_array:
  assumes dc: "deep_copy f ok foot val" and "ok h x" and "d \<notin> foot h x"
  shows "ok (h\<lparr>arrays := (arrays h)(d := ys)\<rparr>) x"
    and "foot (h\<lparr>arrays := (arrays h)(d := ys)\<rparr>) x = foot h x"
    and "val (h\<lparr>arrays := (arrays h)(d := ys)\<rparr>) x = val h x"
proof -
  have "agree h (h\<lparr>arrays := (arrays h)(d := ys)\<rparr>) (foot h x)" using assms(3) by (auto simp: agree_def)
  with assms(2) show "ok (h\<lparr>arrays := (arrays h)(d := ys)\<rparr>) x"
    "foot (h\<lparr>arrays := (arrays h)(d := ys)\<rparr>) x = foot h x"
    "val (h\<lparr>arrays := (arrays h)(d := ys)\<rparr>) x = val h x"
    by (rule deep_copy.local_ok[OF dc] deep_copy.local_foot[OF dc] deep_copy.local_value[OF dc])+
qed

lemma copy_loop_step:
  assumes dc: "deep_copy f ok foot val" and cl: "cloned ok foot val vs d k h" and k: "k < length vs"
    and x: "ok h x" "val h x = vs ! k" and f: "f x h = (c, h')"
  shows "cloned ok foot val vs d (Suc k) (slice_set (Slice d 0 n) k c h')"
    and "a < d \<Longrightarrow> arrays (slice_set (Slice d 0 n) k c h') a = arrays h a"
    and "next_array h \<le> next_array (slice_set (Slice d 0 n) k c h')"
proof -
  have g: "grows h h'" by (rule deep_copy.copy_grows[OF dc x(1) f])
  from cl have d: "d < next_array h" "length (arrays h d) = length vs" by (auto simp: cloned_def)
  with g have same: "arrays h' d = arrays h d" "d < next_array h'" by (auto simp: grows_def)
  have c: "ok h' c" "foot h' c \<inter> {..d} = {}" "val h' c = vs ! k"
    using deep_copy.copy_ok[OF dc x(1) f] deep_copy.copy_fresh[OF dc x(1) f] d(1)
      deep_copy.copy_value[OF dc x(1) f] x(2) by auto
  have old: "ok h' (arrays h d ! j)" "foot h' (arrays h d ! j) \<inter> {..d} = {}" "val h' (arrays h d ! j) = vs ! j"
    if "j < k" for j
    using cl that deep_copy.keeps_along[OF dc _ g, of "arrays h d ! j"] by (auto simp: cloned_def)
  let ?h = "h'\<lparr>arrays := (arrays h')(d := (arrays h' d)[k := c])\<rparr>"
  have upd: "ok ?h y" "foot ?h y \<inter> {..d} = {}" "val ?h y = val h' y"
    if "ok h' y" "foot h' y \<inter> {..d} = {}" for y
    using deep_copy_other_array[OF dc that(1), of d "(arrays h' d)[k := c]"] that(2) by auto
  show "cloned ok foot val vs d (Suc k) (slice_set (Slice d 0 n) k c h')"
    using k d same c old upd
    by (auto simp: cloned_def nth_list_update less_Suc_eq)
  show "a < d \<Longrightarrow> arrays (slice_set (Slice d 0 n) k c h') a = arrays h a"
    using g d(1) by (auto simp: grows_def)
  show "next_array h \<le> next_array (slice_set (Slice d 0 n) k c h')"
    using g by (simp add: grows_def)
qed

text \<open>The loop over the rest of the indexes.\<close>

lemma copy_loop_cloned:
  assumes dc: "deep_copy f ok foot val" and "k \<le> length vs"
    and "cloned ok foot val vs d k h"
    and src: "slice_ok ok h0 src" "vs = map (val h0) (elems h0 src)" "d = next_array h0"
    and old: "\<And>a. a < d \<Longrightarrow> arrays h a = arrays h0 a" "d \<le> next_array h"
    and h2: "h2 = copy_loop f src (Slice d 0 n) [k..<length vs] h"
  shows "cloned ok foot val vs d (length vs) h2 \<and> (\<forall>a < d. arrays h2 a = arrays h0 a) \<and> next_array h \<le> next_array h2"
  using assms(2,3) old h2
proof (induction "length vs - k" arbitrary: k h)
  case 0
  then show ?case by simp
next
  case (Suc m)
  then have k: "k < length vs" by simp
  have g: "grows h0 h" using Suc.prems(3,4) src(3) by (simp add: grows_def)
  let ?x = "elems h src ! k"
  have x: "?x = elems h0 src ! k" using elems_grows[OF g src(1)] by simp
  have "ok h0 ?x" using src(1,2) k x by (auto simp: slice_ok_def list_all_length split: slice.splits)
  then have ok: "ok h ?x" "val h ?x = vs ! k"
    using deep_copy.keeps_along[OF dc _ g, of ?x] k x src(2) by auto
  obtain c h' where f: "f ?x h = (c, h')" by fastforce
  let ?h = "slice_set (Slice d 0 n) k c h'"
  note step = copy_loop_step[OF dc Suc.prems(2) k ok f]
  have "[k..<length vs] = k # [Suc k..<length vs]" using k by (simp add: upt_conv_Cons)
  with Suc.prems(5) f have h2: "h2 = copy_loop f src (Slice d 0 n) [Suc k..<length vs] ?h" by simp
  have "cloned ok foot val vs d (length vs) h2 \<and> (\<forall>a < d. arrays h2 a = arrays h0 a) \<and> next_array ?h \<le> next_array h2"
  proof (rule Suc.hyps(1)[OF _ _ step(1) _ _ h2])
    show "m = length vs - Suc k" using Suc.hyps(2) by simp
    show "Suc k \<le> length vs" using k by simp
    show "arrays ?h a = arrays h0 a" if "a < d" for a
      using step(2)[OF that] Suc.prems(3)[OF that] by simp
    show "d \<le> next_array ?h" using step(3)[where n = n] Suc.prems(4) by linarith
  qed
  with step(3)[where n = n] show ?case by (meson order_trans)
qed

text \<open>A slice of deeply copied elements is deeply copied.\<close>

lemma clone_with_deep:
  assumes dc: "deep_copy f ok foot val"
  shows "deep_copy (clone_with f z) (slice_ok ok) (slice_foot foot) (slice_val val)"
proof
  fix h s y h'
  assume ok: "slice_ok ok h s" and run: "clone_with f z s h = (y, h')"
  let ?d = "next_array h" and ?vs = "map (val h) (elems h s)"
  have all: "grows h h' \<and> slice_ok ok h' y \<and> slice_foot foot h' y \<inter> {..<next_array h} = {} \<and>
      slice_val val h' y = slice_val val h s"
  proof (cases "s = Nil_slice")
    case True
    with run show ?thesis by (auto simp: clone_with_def slice_ok_def slice_foot_def slice_val_def)
  next
    case False
    let ?h1 = "snd (slice_make z (slice_len s) h)"
    have len: "length ?vs = slice_len s" using ok by simp
    from run False have y: "y = Slice ?d 0 (slice_len s)"
      and h': "h' = copy_loop f s (Slice ?d 0 (slice_len s)) [0..<length ?vs] ?h1"
      by (auto simp: clone_with_def slice_make_def len simp del: length_map)
    have "cloned ok foot val ?vs ?d (length ?vs) h' \<and> (\<forall>a < ?d. arrays h' a = arrays h a) \<and> next_array ?h1 \<le> next_array h'"
      by (rule copy_loop_cloned[OF dc _ _ ok refl refl _ _ h'])
         (auto simp: cloned_def slice_make_def len simp del: length_map)
    then have res: "length (arrays h' ?d) = length ?vs" "?d < next_array h'"
      "\<And>j. j < length ?vs \<Longrightarrow> ok h' (arrays h' ?d ! j) \<and> foot h' (arrays h' ?d ! j) \<inter> {..?d} = {} \<and>
        val h' (arrays h' ?d ! j) = ?vs ! j"
      "\<And>a. a < ?d \<Longrightarrow> arrays h' a = arrays h a"
      by (auto simp: cloned_def slice_make_def)
    have e: "elems h' y = arrays h' ?d" using res(1) len y by simp
    have "slice_ok ok h' y" using res e y len by (auto simp: slice_ok_def list_all_length)
    moreover have "slice_foot foot h' y \<inter> {..<?d} = {}"
      using res(1,3) e y by (fastforce simp: slice_foot_def in_set_conv_nth)
    moreover have "map (val h') (elems h' y) = ?vs"
      using res(1,3) e by (intro nth_equalityI) auto
    ultimately show ?thesis using res(2,4) False y by (auto simp: grows_def slice_val_def)
  qed
  then show "grows h h'" "slice_ok ok h' y" "slice_foot foot h' y \<inter> {..<next_array h} = {}"
    "slice_val val h' y = slice_val val h s" by auto
next
  fix h s
  assume ok: "slice_ok ok h s"
  then show "slice_foot foot h s \<subseteq> {..<next_array h}"
    using deep_copy.foot_allocated[OF dc]
    by (fastforce simp: slice_ok_def slice_foot_def list_all_iff split: slice.splits)
  fix h2
  assume ag: "agree h h2 (slice_foot foot h s)"
  have e: "elems h2 s = elems h s"
    using ag by (cases s) (auto simp: slice_foot_def agree_def)
  have each: "ok h2 c \<and> foot h2 c = foot h c \<and> val h2 c = val h c" if "c \<in> set (elems h s)" for c
  proof -
    from ok that have c: "ok h c" by (auto simp: slice_ok_def list_all_iff split: slice.splits)
    from ag that have "agree h h2 (foot h c)"
      by (cases s) (auto simp: slice_foot_def agree_def)
    with c show ?thesis
      using deep_copy.local_ok[OF dc] deep_copy.local_foot[OF dc] deep_copy.local_value[OF dc] by metis
  qed
  show "slice_ok ok h2 s"
    using ok ag e each by (cases s) (auto simp: slice_ok_def slice_foot_def agree_def list_all_iff)
  show "slice_foot foot h2 s = slice_foot foot h s"
    using e each by (cases s) (auto simp: slice_foot_def)
  show "slice_val val h2 s = slice_val val h s"
    using e each by (simp add: slice_val_def)
qed


section \<open>Composing copies\<close>

lemma plain_deep: "deep_copy (\<lambda>c h. (c, h)) (\<lambda>h c. P c) (\<lambda>h c. {}) (\<lambda>h c. v c)"
  by unfold_locales auto

lemma deep_copy_cong:
  assumes dc: "deep_copy f ok foot val" and "\<And>h x. ok h x \<Longrightarrow> g x h = f x h"
  shows "deep_copy g ok foot val"
proof
  fix h x y h'
  assume ok: "ok h x" and "g x h = (y, h')"
  with assms(2) have run: "f x h = (y, h')" by simp
  show "grows h h'" "ok h' y" "foot h' y \<inter> {..<next_array h} = {}" "val h' y = val h x"
    by (rule deep_copy.copy_grows[OF dc ok run] deep_copy.copy_ok[OF dc ok run]
        deep_copy.copy_fresh[OF dc ok run] deep_copy.copy_value[OF dc ok run])+
qed (erule deep_copy.foot_allocated[OF dc] deep_copy.local_ok[OF dc] deep_copy.local_foot[OF dc]
      deep_copy.local_value[OF dc]; assumption?)+

lemma plain_loop:
  fixes h :: "'c store"
  assumes "elems h src = es" and "\<And>(h :: 'c store) i c. elems (slice_set dst i c h) src = elems h src"
  shows "copy_loop (\<lambda>c h. (c, h)) src dst idxs h = fold (\<lambda>i. slice_set dst i (es ! i)) idxs h"
  using assms(1)
proof (induction idxs arbitrary: h)
  case (Cons i idxs)
  have "elems (slice_set dst i (es ! i) h) src = es" using assms(2) Cons.prems by simp
  from Cons.IH[OF this] Cons.prems show ?case by simp
qed simp

text \<open>The builtin \<^verbatim>\<open>copy\<close> into a new array is the loop that copies the elements as they are.\<close>

lemma clone_plain_loop:
  assumes "slice_ok ok h s"
  shows "clone_plain z s h = clone_with (\<lambda>c h. (c, h)) z s h"
proof (cases s)
  case (Slice a off n)
  with assms have "a \<noteq> next_array h" by (auto simp: slice_ok_def)
  with Slice show ?thesis
    by (auto simp: clone_plain_def clone_with_def slice_make_def slice_copy_def intro!: plain_loop[symmetric])
qed (simp add: clone_plain_def clone_with_def)

lemma clone_plain_deep:
  "deep_copy (clone_plain z) (slice_ok (\<lambda>h c. P c)) (slice_foot (\<lambda>h c. {})) (slice_val (\<lambda>h c. v c))"
  by (rule deep_copy_cong[OF clone_with_deep[OF plain_deep]]) (rule clone_plain_loop)

text \<open>Two parts, one after the other.\<close>

definition both ::
  "('a \<Rightarrow> 's \<Rightarrow> 'a \<times> 's) \<Rightarrow> ('b \<Rightarrow> 's \<Rightarrow> 'b \<times> 's) \<Rightarrow> 'a \<times> 'b \<Rightarrow> 's \<Rightarrow> ('a \<times> 'b) \<times> 's" where
  "both f g p h = (case p of (x, y) \<Rightarrow>
     (case f x h of (x', h1) \<Rightarrow> (case g y h1 of (y', h2) \<Rightarrow> ((x', y'), h2))))"

lemma both_deep:
  assumes f: "deep_copy f okf footf valf" and g: "deep_copy g okg footg valg"
  shows "deep_copy (both f g) (\<lambda>h p. okf h (fst p) \<and> okg h (snd p)) (\<lambda>h p. footf h (fst p) \<union> footg h (snd p))
     (\<lambda>h p. (valf h (fst p), valg h (snd p)))"
proof
  fix h p q h'
  assume ok: "okf h (fst p) \<and> okg h (snd p)" and "both f g p h = (q, h')"
  then obtain h1 where r1: "f (fst p) h = (fst q, h1)" and r2: "g (snd p) h1 = (snd q, h')"
    by (auto simp: both_def split: prod.splits)
  from ok have ok1: "okf h (fst p)" and ok2: "okg h (snd p)" by auto
  have g1: "grows h h1" by (rule deep_copy.copy_grows[OF f ok1 r1])
  note k = deep_copy.keeps_along[OF g ok2 g1]
  have g2: "grows h1 h'" by (rule deep_copy.copy_grows[OF g k(1) r2])
  note q = deep_copy.keeps_along[OF f deep_copy.copy_ok[OF f ok1 r1] g2]
  show "grows h h'" using g1 g2 by (rule grows_trans)
  show "okf h' (fst q) \<and> okg h' (snd q)" using q(1) deep_copy.copy_ok[OF g k(1) r2] by simp
  have "next_array h \<le> next_array h1" using g1 by (simp add: grows_def)
  then show "(footf h' (fst q) \<union> footg h' (snd q)) \<inter> {..<next_array h} = {}"
    using q(2) deep_copy.copy_fresh[OF f ok1 r1] deep_copy.copy_fresh[OF g k(1) r2] by fastforce
  show "(valf h' (fst q), valg h' (snd q)) = (valf h (fst p), valg h (snd p))"
    using q(3) deep_copy.copy_value[OF f ok1 r1] deep_copy.copy_value[OF g k(1) r2] k(3) by simp
next
  fix h p h2
  assume "okf h (fst p) \<and> okg h (snd p)" and "agree h h2 (footf h (fst p) \<union> footg h (snd p))"
  then have "okf h (fst p)" "okg h (snd p)" "agree h h2 (footf h (fst p))" "agree h h2 (footg h (snd p))"
    by (auto simp: agree_def)
  then show "okf h2 (fst p) \<and> okg h2 (snd p)"
    "footf h2 (fst p) \<union> footg h2 (snd p) = footf h (fst p) \<union> footg h (snd p)"
    "(valf h2 (fst p), valg h2 (snd p)) = (valf h (fst p), valg h (snd p))"
    using deep_copy.local_ok[OF f] deep_copy.local_ok[OF g] deep_copy.local_foot[OF f]
      deep_copy.local_foot[OF g] deep_copy.local_value[OF f] deep_copy.local_value[OF g] by metis+
qed (use deep_copy.foot_allocated[OF f] deep_copy.foot_allocated[OF g] in blast)

text \<open>
  A struct of which one part is copied and the rest assigned. \<open>P\<close> is what is known of the
  struct beforehand, e.g. the constructor of an element.
\<close>

lemma struct_deep_if:
  assumes f: "deep_copy f ok foot val"
    and into: "\<And>r h. P r \<Longrightarrow> into r h = (case f (get r) h of (y, h') \<Rightarrow> (put y r, h'))"
    and P: "\<And>r y. P r \<Longrightarrow> P (put y r)" and get: "\<And>r y. P r \<Longrightarrow> get (put y r) = y"
    and rest: "\<And>r y v. P r \<Longrightarrow> wrap (put y r) v = wrap r v"
  shows "deep_copy into (\<lambda>h r. P r \<and> ok h (get r)) (\<lambda>h r. foot h (get r)) (\<lambda>h r. wrap r (val h (get r)))"
proof
  fix h r r' h'
  assume "P r \<and> ok h (get r)" and "into r h = (r', h')"
  then obtain y where p: "P r" and ok: "ok h (get r)" and run: "f (get r) h = (y, h')" and r': "r' = put y r"
    by (auto simp: into split: prod.splits)
  show "grows h h'" "P r' \<and> ok h' (get r')" "foot h' (get r') \<inter> {..<next_array h} = {}"
    "wrap r' (val h' (get r')) = wrap r (val h (get r))"
    using deep_copy.copy_grows[OF f ok run] deep_copy.copy_ok[OF f ok run]
      deep_copy.copy_fresh[OF f ok run] deep_copy.copy_value[OF f ok run] P[OF p]
    by (simp_all add: r' get[OF p] rest[OF p])
next
  fix h r h2
  assume p: "P r \<and> ok h (get r)" and ag: "agree h h2 (foot h (get r))"
  then have ok: "ok h (get r)" by simp
  show "P r \<and> ok h2 (get r)" "foot h2 (get r) = foot h (get r)"
    "wrap r (val h2 (get r)) = wrap r (val h (get r))"
    using p deep_copy.local_ok[OF f ok ag] deep_copy.local_foot[OF f ok ag] deep_copy.local_value[OF f ok ag]
    by simp_all
qed (use deep_copy.foot_allocated[OF f] in blast)

lemma struct_deep:
  assumes f: "deep_copy f ok foot val"
    and into: "\<And>r h. into r h = (case f (get r) h of (y, h') \<Rightarrow> (put y r, h'))"
    and get: "\<And>r y. get (put y r) = y" and rest: "\<And>r y v. wrap (put y r) v = wrap r v"
  shows "deep_copy into (\<lambda>h r. ok h (get r)) (\<lambda>h r. foot h (get r)) (\<lambda>h r. wrap r (val h (get r)))"
  using struct_deep_if[OF f, where P = "\<lambda>_. True" and into = into and get = get and put = put and wrap = wrap]
    into get rest by simp

text \<open>An element of the heap that is the struct \<open>C b\<close>.\<close>

lemma cell_deep:
  assumes "deep_copy f ok foot val" and "\<And>b. prj (C b) = b"
    and "\<And>b h. into (C b) h = (case f b h of (b', h') \<Rightarrow> (C b', h'))"
  shows "deep_copy into (\<lambda>h c. c = C (prj c) \<and> ok h (prj c)) (\<lambda>h c. foot h (prj c)) (\<lambda>h c. val h (prj c))"
  by (rule struct_deep_if[OF assms(1), where P = "\<lambda>c. c = C (prj c)" and put = "\<lambda>b c. C b" and wrap = "\<lambda>c v. v"])
     (use assms(2,3) in metis)+

end
