(* ===== verification/Deep_Copy.thy ===== *)
theory Deep_Copy
  imports Slices
begin

text \<open>
  The generated \<^verbatim>\<open>zz_generated.deepcopy.go\<close>. The structs that hold slices get a record with
  \<open>slice\<close> fields; the others are the records of \<open>Api_Types\<close>. A function \<open>T_DeepCopyInto\<close> gives
  what is stored in \<^verbatim>\<open>*out\<close>; a pointer is \<open>None\<close> or the struct it points to, so that \<open>new(T)\<close>
  is the struct returned. Copying the metadata and conditions of the Kubernetes library is a
  parameter, the record \<open>meta_lib\<close> over an opaque type of metadata.
\<close>

section \<open>Structs with slices\<close>

record mem_vars_spec =
  mvs_SecretName :: string
  mvs_ImportOnlyKeys :: slice

record mem_sb_spec =
  msb_CollectionId :: string
  msb_TemplateRef :: template_spec
  msb_GPGKeySecretRef :: gpg_spec
  msb_TokenSecretRef :: token_spec
  msb_VarsSecretRef :: mem_vars_spec
  msb_Vars :: string
  msb_CronJob :: cronjob_spec
  msb_Operation :: string

record mem_sb_status =
  mss_LastAppliedSpecHash :: string
  mss_Conditions :: slice
  mss_OwnedReferences :: slice
  mss_ChildrenResourcesHealth :: slice
  mss_Healthy :: bool

record 'm mem_backup =
  mb_TypeMeta :: type_meta
  mb_Meta :: 'm
  mb_Spec :: mem_sb_spec
  mb_Status :: mem_sb_status

record mem_rba_status =
  mrs_Processed :: bool
  mrs_Conditions :: slice
  mrs_OwnedReferences :: slice
  mrs_ChildrenResourcesHealth :: slice
  mrs_Healthy :: bool

record 'm mem_action =
  ma_TypeMeta :: type_meta
  ma_Meta :: 'm
  ma_Spec :: rba_spec
  ma_Status :: mem_rba_status

record 'm mem_template =
  mt_TypeMeta :: type_meta
  mt_Meta :: 'm
  mt_Spec :: cbpt_spec
  mt_Status :: unit

record 'm mem_list =
  ml_TypeMeta :: type_meta
  ml_Meta :: 'm
  ml_Items :: slice

type_synonym 'm mem_backup_list = "'m mem_list"
type_synonym 'm mem_action_list = "'m mem_list"
type_synonym 'm mem_template_list = "'m mem_list"

datatype 'm cell =
    Cell_string (cell_string: string)
  | Cell_condition (cell_condition: condition)
  | Cell_reference (cell_reference: child_reference)
  | Cell_health (cell_health: job_health)
  | Cell_backup (cell_backup: "'m mem_backup")
  | Cell_action (cell_action: "'m mem_action")
  | Cell_template (cell_template: "'m mem_template")

type_synonym 'm go_heap = "'m cell store"

record 'm meta_lib =
  lib_copy_meta :: "'m \<Rightarrow> 'm go_heap \<Rightarrow> 'm \<times> 'm go_heap"
  lib_copy_list_meta :: "'m \<Rightarrow> 'm go_heap \<Rightarrow> 'm \<times> 'm go_heap"
  lib_copy_condition :: "condition \<Rightarrow> condition"
  lib_zero_meta :: 'm

section \<open>Zero values\<close>

definition zero_condition :: condition where
  "zero_condition = new_condition [] []"

definition zero_reference :: child_reference where
  "zero_reference = \<lparr>cr_APIVersion = [], cr_Kind = [], cr_TrackingId = []\<rparr>"

definition zero_health :: job_health where
  "zero_health = \<lparr>jh_Ref = zero_reference, jh_Message = [], jh_Succeeded = False, jh_Running = False, jh_Failed = False\<rparr>"

definition zero_type_meta :: type_meta where
  "zero_type_meta = \<lparr>tm_APIVersion = [], tm_Kind = []\<rparr>"

definition zero_backup :: "'m meta_lib \<Rightarrow> 'm mem_backup" where
  "zero_backup lib = \<lparr>mb_TypeMeta = zero_type_meta, mb_Meta = lib_zero_meta lib,
     mb_Spec = \<lparr>msb_CollectionId = [], msb_TemplateRef = \<lparr>ts_Name = [], ts_Kind = []\<rparr>,
       msb_GPGKeySecretRef = \<lparr>gpg_SecretName = [], gpg_PublicKey = [], gpg_PrivateKey = [],
         gpg_PassphraseKey = [], gpg_Email = [], gpg_CreateIfNotExists = False\<rparr>,
       msb_TokenSecretRef = \<lparr>tok_SecretName = [], tok_TokenKey = []\<rparr>,
       msb_VarsSecretRef = \<lparr>mvs_SecretName = [], mvs_ImportOnlyKeys = Nil_slice\<rparr>,
       msb_Vars = [], msb_CronJob = \<lparr>cj_Enabled = False, cj_ScheduleEvery = []\<rparr>, msb_Operation = []\<rparr>,
     mb_Status = \<lparr>mss_LastAppliedSpecHash = [], mss_Conditions = Nil_slice, mss_OwnedReferences = Nil_slice,
       mss_ChildrenResourcesHealth = Nil_slice, mss_Healthy = False\<rparr>\<rparr>"

definition zero_action :: "'m meta_lib \<Rightarrow> 'm mem_action" where
  "zero_action lib = \<lparr>ma_TypeMeta = zero_type_meta, ma_Meta = lib_zero_meta lib,
     ma_Spec = \<lparr>rbas_Action = [], rbas_TargetVersion = [], rbas_ScheduledBackupRef = [], rbas_KindType = []\<rparr>,
     ma_Status = \<lparr>mrs_Processed = False, mrs_Conditions = Nil_slice, mrs_OwnedReferences = Nil_slice,
       mrs_ChildrenResourcesHealth = Nil_slice, mrs_Healthy = False\<rparr>\<rparr>"

definition zero_template :: "'m meta_lib \<Rightarrow> 'm mem_template" where
  "zero_template lib = \<lparr>mt_TypeMeta = zero_type_meta, mt_Meta = lib_zero_meta lib,
     mt_Spec = \<lparr>cbpt_Image = [], cbpt_Backup = [], cbpt_Restore = []\<rparr>, mt_Status = ()\<rparr>"

section \<open>DeepCopyInto\<close>

text \<open>\<^verbatim>\<open>*out = *in\<close> for the structs without slices.\<close>

definition BackupRefSpec_DeepCopyInto :: "string \<Rightarrow> 'm go_heap \<Rightarrow> string \<times> 'm go_heap" where
  "BackupRefSpec_DeepCopyInto x h = (x, h)"

definition ClusterBackupProcedureTemplateSpec_DeepCopyInto :: "cbpt_spec \<Rightarrow> 'm go_heap \<Rightarrow> cbpt_spec \<times> 'm go_heap" where
  "ClusterBackupProcedureTemplateSpec_DeepCopyInto x h = (x, h)"

definition CronJobSpec_DeepCopyInto :: "cronjob_spec \<Rightarrow> 'm go_heap \<Rightarrow> cronjob_spec \<times> 'm go_heap" where
  "CronJobSpec_DeepCopyInto x h = (x, h)"

definition GPGKeySecretSpec_DeepCopyInto :: "gpg_spec \<Rightarrow> 'm go_heap \<Rightarrow> gpg_spec \<times> 'm go_heap" where
  "GPGKeySecretSpec_DeepCopyInto x h = (x, h)"

definition TemplateSpec_DeepCopyInto :: "template_spec \<Rightarrow> 'm go_heap \<Rightarrow> template_spec \<times> 'm go_heap" where
  "TemplateSpec_DeepCopyInto x h = (x, h)"

definition TokenSecretSpec_DeepCopyInto :: "token_spec \<Rightarrow> 'm go_heap \<Rightarrow> token_spec \<times> 'm go_heap" where
  "TokenSecretSpec_DeepCopyInto x h = (x, h)"

definition ChildReference_DeepCopyInto :: "child_reference \<Rightarrow> 'm go_heap \<Rightarrow> child_reference \<times> 'm go_heap" where
  "ChildReference_DeepCopyInto x h = (x, h)"

definition ClusterBackupProcedureTemplateStatus_DeepCopyInto :: "unit \<Rightarrow> 'm go_heap \<Rightarrow> unit \<times> 'm go_heap" where
  "ClusterBackupProcedureTemplateStatus_DeepCopyInto x h = (x, h)"

definition JobHealthStatus_DeepCopyInto :: "job_health \<Rightarrow> 'm go_heap \<Rightarrow> job_health \<times> 'm go_heap" where
  "JobHealthStatus_DeepCopyInto x h = (x\<lparr>jh_Ref := jh_Ref x\<rparr>, h)"

definition RequestedBackupActionSpec_DeepCopyInto :: "rba_spec \<Rightarrow> 'm go_heap \<Rightarrow> rba_spec \<times> 'm go_heap" where
  "RequestedBackupActionSpec_DeepCopyInto x h =
     (x\<lparr>rbas_ScheduledBackupRef := rbas_ScheduledBackupRef x\<rparr>, h)"

text \<open>Without a check for nil: a nil list of references becomes an empty one.\<close>

definition ChildrenReferences_DeepCopyInto :: "slice \<Rightarrow> 'm go_heap \<Rightarrow> slice \<times> 'm go_heap" where
  "ChildrenReferences_DeepCopyInto s h =
     (case slice_make (Cell_reference zero_reference) (slice_len s) h of (out, h1) \<Rightarrow> (out, slice_copy out s h1))"

definition VarsSecretSpec_DeepCopyInto :: "mem_vars_spec \<Rightarrow> 'm go_heap \<Rightarrow> mem_vars_spec \<times> 'm go_heap" where
  "VarsSecretSpec_DeepCopyInto x h =
     (case clone_plain (Cell_string []) (mvs_ImportOnlyKeys x) h of (s, h') \<Rightarrow> (x\<lparr>mvs_ImportOnlyKeys := s\<rparr>, h'))"

definition ScheduledBackupSpec_DeepCopyInto :: "mem_sb_spec \<Rightarrow> 'm go_heap \<Rightarrow> mem_sb_spec \<times> 'm go_heap" where
  "ScheduledBackupSpec_DeepCopyInto x h =
     (case VarsSecretSpec_DeepCopyInto (msb_VarsSecretRef x) h of (v, h') \<Rightarrow> (x\<lparr>msb_VarsSecretRef := v\<rparr>, h'))"

text \<open>\<^verbatim>\<open>(*in)[i].DeepCopyInto(&(*out)[i])\<close> for conditions, a method of the library.\<close>

fun copy_condition :: "'m meta_lib \<Rightarrow> 'm cell \<Rightarrow> 'm go_heap \<Rightarrow> 'm cell \<times> 'm go_heap" where
  "copy_condition lib (Cell_condition c) h = (Cell_condition (lib_copy_condition lib c), h)"
| "copy_condition lib c h = (c, h)"

definition ScheduledBackupStatus_DeepCopyInto ::
  "'m meta_lib \<Rightarrow> mem_sb_status \<Rightarrow> 'm go_heap \<Rightarrow> mem_sb_status \<times> 'm go_heap" where
  "ScheduledBackupStatus_DeepCopyInto lib x h =
     (case clone_with (copy_condition lib) (Cell_condition zero_condition) (mss_Conditions x) h of (cs, h1) \<Rightarrow>
      case clone_plain (Cell_reference zero_reference) (mss_OwnedReferences x) h1 of (rs, h2) \<Rightarrow>
      case clone_plain (Cell_health zero_health) (mss_ChildrenResourcesHealth x) h2 of (js, h3) \<Rightarrow>
        (x\<lparr>mss_Conditions := cs, mss_OwnedReferences := rs, mss_ChildrenResourcesHealth := js\<rparr>, h3))"

definition RequestedBackupActionStatus_DeepCopyInto ::
  "'m meta_lib \<Rightarrow> mem_rba_status \<Rightarrow> 'm go_heap \<Rightarrow> mem_rba_status \<times> 'm go_heap" where
  "RequestedBackupActionStatus_DeepCopyInto lib x h =
     (case clone_with (copy_condition lib) (Cell_condition zero_condition) (mrs_Conditions x) h of (cs, h1) \<Rightarrow>
      case clone_plain (Cell_reference zero_reference) (mrs_OwnedReferences x) h1 of (rs, h2) \<Rightarrow>
      case clone_plain (Cell_health zero_health) (mrs_ChildrenResourcesHealth x) h2 of (js, h3) \<Rightarrow>
        (x\<lparr>mrs_Conditions := cs, mrs_OwnedReferences := rs, mrs_ChildrenResourcesHealth := js\<rparr>, h3))"

definition ScheduledBackup_DeepCopyInto ::
  "'m meta_lib \<Rightarrow> 'm mem_backup \<Rightarrow> 'm go_heap \<Rightarrow> 'm mem_backup \<times> 'm go_heap" where
  "ScheduledBackup_DeepCopyInto lib x h =
     (case lib_copy_meta lib (mb_Meta x) h of (m, h1) \<Rightarrow>
      case ScheduledBackupSpec_DeepCopyInto (mb_Spec x) h1 of (sp, h2) \<Rightarrow>
      case ScheduledBackupStatus_DeepCopyInto lib (mb_Status x) h2 of (st, h3) \<Rightarrow>
        (x\<lparr>mb_Meta := m, mb_Spec := sp, mb_Status := st\<rparr>, h3))"

definition RequestedBackupAction_DeepCopyInto ::
  "'m meta_lib \<Rightarrow> 'm mem_action \<Rightarrow> 'm go_heap \<Rightarrow> 'm mem_action \<times> 'm go_heap" where
  "RequestedBackupAction_DeepCopyInto lib x h =
     (case lib_copy_meta lib (ma_Meta x) h of (m, h1) \<Rightarrow>
      case RequestedBackupActionStatus_DeepCopyInto lib (ma_Status x) h1 of (st, h2) \<Rightarrow>
        (x\<lparr>ma_Meta := m, ma_Spec := ma_Spec x, ma_Status := st\<rparr>, h2))"

definition ClusterBackupProcedureTemplate_DeepCopyInto ::
  "'m meta_lib \<Rightarrow> 'm mem_template \<Rightarrow> 'm go_heap \<Rightarrow> 'm mem_template \<times> 'm go_heap" where
  "ClusterBackupProcedureTemplate_DeepCopyInto lib x h =
     (case lib_copy_meta lib (mt_Meta x) h of (m, h1) \<Rightarrow>
        (x\<lparr>mt_Meta := m, mt_Spec := mt_Spec x, mt_Status := mt_Status x\<rparr>, h1))"

fun copy_backup :: "'m meta_lib \<Rightarrow> 'm cell \<Rightarrow> 'm go_heap \<Rightarrow> 'm cell \<times> 'm go_heap" where
  "copy_backup lib (Cell_backup b) h =
     (case ScheduledBackup_DeepCopyInto lib b h of (b', h') \<Rightarrow> (Cell_backup b', h'))"
| "copy_backup lib c h = (c, h)"

fun copy_action :: "'m meta_lib \<Rightarrow> 'm cell \<Rightarrow> 'm go_heap \<Rightarrow> 'm cell \<times> 'm go_heap" where
  "copy_action lib (Cell_action b) h =
     (case RequestedBackupAction_DeepCopyInto lib b h of (b', h') \<Rightarrow> (Cell_action b', h'))"
| "copy_action lib c h = (c, h)"

fun copy_template :: "'m meta_lib \<Rightarrow> 'm cell \<Rightarrow> 'm go_heap \<Rightarrow> 'm cell \<times> 'm go_heap" where
  "copy_template lib (Cell_template b) h =
     (case ClusterBackupProcedureTemplate_DeepCopyInto lib b h of (b', h') \<Rightarrow> (Cell_template b', h'))"
| "copy_template lib c h = (c, h)"

text \<open>The lists: a copy of the list's metadata and of every item.\<close>

definition copy_list ::
  "'m meta_lib \<Rightarrow> ('m cell \<Rightarrow> 'm go_heap \<Rightarrow> 'm cell \<times> 'm go_heap) \<Rightarrow> 'm cell \<Rightarrow>
     'm mem_list \<Rightarrow> 'm go_heap \<Rightarrow> 'm mem_list \<times> 'm go_heap" where
  "copy_list lib item z x h =
     (case lib_copy_list_meta lib (ml_Meta x) h of (m, h1) \<Rightarrow>
      case clone_with item z (ml_Items x) h1 of (items, h2) \<Rightarrow> (x\<lparr>ml_Meta := m, ml_Items := items\<rparr>, h2))"

definition ScheduledBackupList_DeepCopyInto ::
  "'m meta_lib \<Rightarrow> 'm mem_backup_list \<Rightarrow> 'm go_heap \<Rightarrow> 'm mem_backup_list \<times> 'm go_heap" where
  "ScheduledBackupList_DeepCopyInto lib = copy_list lib (copy_backup lib) (Cell_backup (zero_backup lib))"

definition RequestedBackupActionList_DeepCopyInto ::
  "'m meta_lib \<Rightarrow> 'm mem_action_list \<Rightarrow> 'm go_heap \<Rightarrow> 'm mem_action_list \<times> 'm go_heap" where
  "RequestedBackupActionList_DeepCopyInto lib = copy_list lib (copy_action lib) (Cell_action (zero_action lib))"

definition ClusterBackupProcedureTemplateList_DeepCopyInto ::
  "'m meta_lib \<Rightarrow> 'm mem_template_list \<Rightarrow> 'm go_heap \<Rightarrow> 'm mem_template_list \<times> 'm go_heap" where
  "ClusterBackupProcedureTemplateList_DeepCopyInto lib =
     copy_list lib (copy_template lib) (Cell_template (zero_template lib))"

section \<open>DeepCopy and DeepCopyObject\<close>

text \<open>
  \<^verbatim>\<open>if in == nil { return nil }; out := new(T); in.DeepCopyInto(out); return out\<close>, and the
  interface value made of it, nil for a nil pointer.
\<close>

definition deep_copy_of :: "('x \<Rightarrow> 's \<Rightarrow> 'x \<times> 's) \<Rightarrow> 'x option \<Rightarrow> 's \<Rightarrow> 'x option \<times> 's" where
  "deep_copy_of into p h =
     (case p of None \<Rightarrow> (None, h) | Some x \<Rightarrow> (case into x h of (y, h') \<Rightarrow> (Some y, h')))"

definition object_copy_of :: "('x option \<Rightarrow> 's \<Rightarrow> 'x option \<times> 's) \<Rightarrow> 'x option \<Rightarrow> 's \<Rightarrow> 'x option \<times> 's" where
  "object_copy_of copy p h = (case copy p h of (Some c, h') \<Rightarrow> (Some c, h') | (None, h') \<Rightarrow> (None, h'))"

definition ChildrenReferences_DeepCopy :: "slice \<Rightarrow> 'm go_heap \<Rightarrow> slice \<times> 'm go_heap" where
  "ChildrenReferences_DeepCopy s h = (if s = Nil_slice then (Nil_slice, h) else ChildrenReferences_DeepCopyInto s h)"

definition BackupRefSpec_DeepCopy :: "string option \<Rightarrow> 'm go_heap \<Rightarrow> string option \<times> 'm go_heap" where
  "BackupRefSpec_DeepCopy = deep_copy_of BackupRefSpec_DeepCopyInto"

definition ClusterBackupProcedureTemplateSpec_DeepCopy :: "cbpt_spec option \<Rightarrow> 'm go_heap \<Rightarrow> cbpt_spec option \<times> 'm go_heap" where
  "ClusterBackupProcedureTemplateSpec_DeepCopy = deep_copy_of ClusterBackupProcedureTemplateSpec_DeepCopyInto"

definition CronJobSpec_DeepCopy :: "cronjob_spec option \<Rightarrow> 'm go_heap \<Rightarrow> cronjob_spec option \<times> 'm go_heap" where
  "CronJobSpec_DeepCopy = deep_copy_of CronJobSpec_DeepCopyInto"

definition GPGKeySecretSpec_DeepCopy :: "gpg_spec option \<Rightarrow> 'm go_heap \<Rightarrow> gpg_spec option \<times> 'm go_heap" where
  "GPGKeySecretSpec_DeepCopy = deep_copy_of GPGKeySecretSpec_DeepCopyInto"

definition TemplateSpec_DeepCopy :: "template_spec option \<Rightarrow> 'm go_heap \<Rightarrow> template_spec option \<times> 'm go_heap" where
  "TemplateSpec_DeepCopy = deep_copy_of TemplateSpec_DeepCopyInto"

definition TokenSecretSpec_DeepCopy :: "token_spec option \<Rightarrow> 'm go_heap \<Rightarrow> token_spec option \<times> 'm go_heap" where
  "TokenSecretSpec_DeepCopy = deep_copy_of TokenSecretSpec_DeepCopyInto"

definition ChildReference_DeepCopy :: "child_reference option \<Rightarrow> 'm go_heap \<Rightarrow> child_reference option \<times> 'm go_heap" where
  "ChildReference_DeepCopy = deep_copy_of ChildReference_DeepCopyInto"

definition ClusterBackupProcedureTemplateStatus_DeepCopy :: "unit option \<Rightarrow> 'm go_heap \<Rightarrow> unit option \<times> 'm go_heap" where
  "ClusterBackupProcedureTemplateStatus_DeepCopy = deep_copy_of ClusterBackupProcedureTemplateStatus_DeepCopyInto"

definition JobHealthStatus_DeepCopy :: "job_health option \<Rightarrow> 'm go_heap \<Rightarrow> job_health option \<times> 'm go_heap" where
  "JobHealthStatus_DeepCopy = deep_copy_of JobHealthStatus_DeepCopyInto"

definition RequestedBackupActionSpec_DeepCopy :: "rba_spec option \<Rightarrow> 'm go_heap \<Rightarrow> rba_spec option \<times> 'm go_heap" where
  "RequestedBackupActionSpec_DeepCopy = deep_copy_of RequestedBackupActionSpec_DeepCopyInto"

definition VarsSecretSpec_DeepCopy :: "mem_vars_spec option \<Rightarrow> 'm go_heap \<Rightarrow> mem_vars_spec option \<times> 'm go_heap" where
  "VarsSecretSpec_DeepCopy = deep_copy_of VarsSecretSpec_DeepCopyInto"

definition ScheduledBackupSpec_DeepCopy :: "mem_sb_spec option \<Rightarrow> 'm go_heap \<Rightarrow> mem_sb_spec option \<times> 'm go_heap" where
  "ScheduledBackupSpec_DeepCopy = deep_copy_of ScheduledBackupSpec_DeepCopyInto"

definition ScheduledBackupStatus_DeepCopy :: "'m meta_lib \<Rightarrow> mem_sb_status option \<Rightarrow> 'm go_heap \<Rightarrow> mem_sb_status option \<times> 'm go_heap" where
  "ScheduledBackupStatus_DeepCopy lib = deep_copy_of (ScheduledBackupStatus_DeepCopyInto lib)"

definition RequestedBackupActionStatus_DeepCopy :: "'m meta_lib \<Rightarrow> mem_rba_status option \<Rightarrow> 'm go_heap \<Rightarrow> mem_rba_status option \<times> 'm go_heap" where
  "RequestedBackupActionStatus_DeepCopy lib = deep_copy_of (RequestedBackupActionStatus_DeepCopyInto lib)"

definition ScheduledBackup_DeepCopy :: "'m meta_lib \<Rightarrow> 'm mem_backup option \<Rightarrow> 'm go_heap \<Rightarrow> 'm mem_backup option \<times> 'm go_heap" where
  "ScheduledBackup_DeepCopy lib = deep_copy_of (ScheduledBackup_DeepCopyInto lib)"

definition RequestedBackupAction_DeepCopy :: "'m meta_lib \<Rightarrow> 'm mem_action option \<Rightarrow> 'm go_heap \<Rightarrow> 'm mem_action option \<times> 'm go_heap" where
  "RequestedBackupAction_DeepCopy lib = deep_copy_of (RequestedBackupAction_DeepCopyInto lib)"

definition ClusterBackupProcedureTemplate_DeepCopy :: "'m meta_lib \<Rightarrow> 'm mem_template option \<Rightarrow> 'm go_heap \<Rightarrow> 'm mem_template option \<times> 'm go_heap" where
  "ClusterBackupProcedureTemplate_DeepCopy lib = deep_copy_of (ClusterBackupProcedureTemplate_DeepCopyInto lib)"

definition ScheduledBackupList_DeepCopy :: "'m meta_lib \<Rightarrow> 'm mem_backup_list option \<Rightarrow> 'm go_heap \<Rightarrow> 'm mem_backup_list option \<times> 'm go_heap" where
  "ScheduledBackupList_DeepCopy lib = deep_copy_of (ScheduledBackupList_DeepCopyInto lib)"

definition RequestedBackupActionList_DeepCopy :: "'m meta_lib \<Rightarrow> 'm mem_action_list option \<Rightarrow> 'm go_heap \<Rightarrow> 'm mem_action_list option \<times> 'm go_heap" where
  "RequestedBackupActionList_DeepCopy lib = deep_copy_of (RequestedBackupActionList_DeepCopyInto lib)"

definition ClusterBackupProcedureTemplateList_DeepCopy :: "'m meta_lib \<Rightarrow> 'm mem_template_list option \<Rightarrow> 'm go_heap \<Rightarrow> 'm mem_template_list option \<times> 'm go_heap" where
  "ClusterBackupProcedureTemplateList_DeepCopy lib = deep_copy_of (ClusterBackupProcedureTemplateList_DeepCopyInto lib)"

definition ScheduledBackup_DeepCopyObject :: "'m meta_lib \<Rightarrow> 'm mem_backup option \<Rightarrow> 'm go_heap \<Rightarrow> 'm mem_backup option \<times> 'm go_heap" where
  "ScheduledBackup_DeepCopyObject lib = object_copy_of (ScheduledBackup_DeepCopy lib)"

definition RequestedBackupAction_DeepCopyObject :: "'m meta_lib \<Rightarrow> 'm mem_action option \<Rightarrow> 'm go_heap \<Rightarrow> 'm mem_action option \<times> 'm go_heap" where
  "RequestedBackupAction_DeepCopyObject lib = object_copy_of (RequestedBackupAction_DeepCopy lib)"

definition ClusterBackupProcedureTemplate_DeepCopyObject :: "'m meta_lib \<Rightarrow> 'm mem_template option \<Rightarrow> 'm go_heap \<Rightarrow> 'm mem_template option \<times> 'm go_heap" where
  "ClusterBackupProcedureTemplate_DeepCopyObject lib = object_copy_of (ClusterBackupProcedureTemplate_DeepCopy lib)"

definition ScheduledBackupList_DeepCopyObject :: "'m meta_lib \<Rightarrow> 'm mem_backup_list option \<Rightarrow> 'm go_heap \<Rightarrow> 'm mem_backup_list option \<times> 'm go_heap" where
  "ScheduledBackupList_DeepCopyObject lib = object_copy_of (ScheduledBackupList_DeepCopy lib)"

definition RequestedBackupActionList_DeepCopyObject :: "'m meta_lib \<Rightarrow> 'm mem_action_list option \<Rightarrow> 'm go_heap \<Rightarrow> 'm mem_action_list option \<times> 'm go_heap" where
  "RequestedBackupActionList_DeepCopyObject lib = object_copy_of (RequestedBackupActionList_DeepCopy lib)"

definition ClusterBackupProcedureTemplateList_DeepCopyObject :: "'m meta_lib \<Rightarrow> 'm mem_template_list option \<Rightarrow> 'm go_heap \<Rightarrow> 'm mem_template_list option \<times> 'm go_heap" where
  "ClusterBackupProcedureTemplateList_DeepCopyObject lib = object_copy_of (ClusterBackupProcedureTemplateList_DeepCopy lib)"

end
