(* ===== verification/Copy_Facts.thy ===== *)
theory Copy_Facts
  imports Deep_Copy
begin

text \<open>
  Deep copies refine the assignment of values: a copied object stands for the same
  \<open>scheduled_backup\<close>, \<open>requested_action\<close> or \<open>cluster_template\<close>, the records the other theories
  compute with, and shares no memory with the original.
\<close>

section \<open>What the structs stand for\<close>

definition abs_vars :: "'m go_heap \<Rightarrow> mem_vars_spec \<Rightarrow> vars_spec" where
  "abs_vars h x = \<lparr>vs_SecretName = mvs_SecretName x,
     vs_ImportOnlyKeys = map cell_string (elems h (mvs_ImportOnlyKeys x))\<rparr>"

definition abs_sb_spec :: "'m go_heap \<Rightarrow> mem_sb_spec \<Rightarrow> sb_spec" where
  "abs_sb_spec h x = \<lparr>sbs_CollectionId = msb_CollectionId x, sbs_TemplateRef = msb_TemplateRef x,
     sbs_GPGKeySecretRef = msb_GPGKeySecretRef x, sbs_TokenSecretRef = msb_TokenSecretRef x,
     sbs_VarsSecretRef = abs_vars h (msb_VarsSecretRef x), sbs_Vars = msb_Vars x,
     sbs_CronJob = msb_CronJob x, sbs_Operation = msb_Operation x\<rparr>"

definition abs_sb_status :: "'m go_heap \<Rightarrow> mem_sb_status \<Rightarrow> sb_status" where
  "abs_sb_status h x = \<lparr>sbst_LastAppliedSpecHash = mss_LastAppliedSpecHash x,
     sbst_Conditions = map cell_condition (elems h (mss_Conditions x)),
     sbst_OwnedReferences = map cell_reference (elems h (mss_OwnedReferences x)),
     sbst_ChildrenResourcesHealth = map cell_health (elems h (mss_ChildrenResourcesHealth x)),
     sbst_Healthy = mss_Healthy x\<rparr>"

definition abs_rba_status :: "'m go_heap \<Rightarrow> mem_rba_status \<Rightarrow> rba_status" where
  "abs_rba_status h x = \<lparr>rbast_Processed = mrs_Processed x,
     rbast_Conditions = map cell_condition (elems h (mrs_Conditions x)),
     rbast_OwnedReferences = map cell_reference (elems h (mrs_OwnedReferences x)),
     rbast_ChildrenResourcesHealth = map cell_health (elems h (mrs_ChildrenResourcesHealth x)),
     rbast_Healthy = mrs_Healthy x\<rparr>"

definition abs_backup :: "('m go_heap \<Rightarrow> 'm \<Rightarrow> object_meta) \<Rightarrow> 'm go_heap \<Rightarrow> 'm mem_backup \<Rightarrow> scheduled_backup" where
  "abs_backup read h x = \<lparr>sb_TypeMeta = mb_TypeMeta x, sb_Meta = read h (mb_Meta x),
     sb_Spec = abs_sb_spec h (mb_Spec x), sb_Status = abs_sb_status h (mb_Status x)\<rparr>"

definition abs_action :: "('m go_heap \<Rightarrow> 'm \<Rightarrow> object_meta) \<Rightarrow> 'm go_heap \<Rightarrow> 'm mem_action \<Rightarrow> requested_action" where
  "abs_action read h x = \<lparr>rba_TypeMeta = ma_TypeMeta x, rba_Meta = read h (ma_Meta x),
     rba_Spec = ma_Spec x, rba_Status = abs_rba_status h (ma_Status x)\<rparr>"

definition abs_template :: "('m go_heap \<Rightarrow> 'm \<Rightarrow> object_meta) \<Rightarrow> 'm go_heap \<Rightarrow> 'm mem_template \<Rightarrow> cluster_template" where
  "abs_template read h x = \<lparr>cbpt_TypeMeta = mt_TypeMeta x, cbpt_Meta = read h (mt_Meta x), cbpt_Spec = mt_Spec x\<rparr>"

text \<open>Which slices are nil, which a record of lists does not show but the JSON of the object does.\<close>

definition nils :: "slice list \<Rightarrow> bool list" where
  "nils ss = map (\<lambda>s. s = Nil_slice) ss"

definition sb_slices :: "mem_sb_status \<Rightarrow> slice list" where
  "sb_slices x = [mss_Conditions x, mss_OwnedReferences x, mss_ChildrenResourcesHealth x]"

definition rba_slices :: "mem_rba_status \<Rightarrow> slice list" where
  "rba_slices x = [mrs_Conditions x, mrs_OwnedReferences x, mrs_ChildrenResourcesHealth x]"

section \<open>What the structs refer to\<close>

abbreviation plain_ok :: "('c \<Rightarrow> bool) \<Rightarrow> 'c store \<Rightarrow> slice \<Rightarrow> bool" where
  "plain_ok P \<equiv> slice_ok (\<lambda>h. P)"

abbreviation plain_foot :: "'c store \<Rightarrow> slice \<Rightarrow> nat set" where
  "plain_foot \<equiv> slice_foot (\<lambda>h c. {})"

abbreviation plain_val :: "('c \<Rightarrow> 'v) \<Rightarrow> 'c store \<Rightarrow> slice \<Rightarrow> bool \<times> 'v list" where
  "plain_val v \<equiv> slice_val (\<lambda>h. v)"

definition sb_spec_ok :: "'m go_heap \<Rightarrow> mem_sb_spec \<Rightarrow> bool" where
  "sb_spec_ok h x = plain_ok is_Cell_string h (mvs_ImportOnlyKeys (msb_VarsSecretRef x))"

definition sb_spec_foot :: "'m go_heap \<Rightarrow> mem_sb_spec \<Rightarrow> nat set" where
  "sb_spec_foot h x = plain_foot h (mvs_ImportOnlyKeys (msb_VarsSecretRef x))"

definition sb_spec_val :: "'m go_heap \<Rightarrow> mem_sb_spec \<Rightarrow> sb_spec \<times> bool list" where
  "sb_spec_val h x = (abs_sb_spec h x, nils [mvs_ImportOnlyKeys (msb_VarsSecretRef x)])"

definition status_ok :: "'m go_heap \<Rightarrow> slice list \<Rightarrow> bool" where
  "status_ok h ss = (plain_ok is_Cell_condition h (ss ! 0) \<and> plain_ok is_Cell_reference h (ss ! 1) \<and>
     plain_ok is_Cell_health h (ss ! 2))"

definition status_foot :: "'m go_heap \<Rightarrow> slice list \<Rightarrow> nat set" where
  "status_foot h ss = plain_foot h (ss ! 0) \<union> (plain_foot h (ss ! 1) \<union> plain_foot h (ss ! 2))"

section \<open>The copies are deep\<close>

lemma vars_deep:
  "deep_copy VarsSecretSpec_DeepCopyInto (\<lambda>h x. plain_ok is_Cell_string h (mvs_ImportOnlyKeys x))
     (\<lambda>h x. plain_foot h (mvs_ImportOnlyKeys x)) (\<lambda>h x. (abs_vars h x, nils [mvs_ImportOnlyKeys x]))"
proof -
  have "deep_copy VarsSecretSpec_DeepCopyInto (\<lambda>h x. plain_ok is_Cell_string h (mvs_ImportOnlyKeys x))
     (\<lambda>h x. plain_foot h (mvs_ImportOnlyKeys x))
     (\<lambda>h x. (\<lambda>r v. (\<lparr>vs_SecretName = mvs_SecretName r, vs_ImportOnlyKeys = snd v\<rparr>, [fst v])) x
        (plain_val cell_string h (mvs_ImportOnlyKeys x)))"
    by (rule struct_deep[OF clone_plain_deep, where put = "\<lambda>s x. x\<lparr>mvs_ImportOnlyKeys := s\<rparr>"])
       (auto simp: VarsSecretSpec_DeepCopyInto_def split: prod.splits)
  then show ?thesis by (simp add: abs_vars_def slice_val_def nils_def)
qed

lemma sb_spec_deep: "deep_copy ScheduledBackupSpec_DeepCopyInto sb_spec_ok sb_spec_foot sb_spec_val"
proof -
  have "deep_copy ScheduledBackupSpec_DeepCopyInto
     (\<lambda>h x. plain_ok is_Cell_string h (mvs_ImportOnlyKeys (msb_VarsSecretRef x)))
     (\<lambda>h x. plain_foot h (mvs_ImportOnlyKeys (msb_VarsSecretRef x)))
     (\<lambda>h x. (\<lambda>r v. (\<lparr>sbs_CollectionId = msb_CollectionId r, sbs_TemplateRef = msb_TemplateRef r,
     sbs_GPGKeySecretRef = msb_GPGKeySecretRef r, sbs_TokenSecretRef = msb_TokenSecretRef r,
     sbs_VarsSecretRef = fst v, sbs_Vars = msb_Vars r,
     sbs_CronJob = msb_CronJob r, sbs_Operation = msb_Operation r\<rparr>, snd v)) x
        (abs_vars h (msb_VarsSecretRef x), nils [mvs_ImportOnlyKeys (msb_VarsSecretRef x)]))"
    by (rule struct_deep[OF vars_deep, where put = "\<lambda>s x. x\<lparr>msb_VarsSecretRef := s\<rparr>"])
       (auto simp: ScheduledBackupSpec_DeepCopyInto_def split: prod.splits)
  then show ?thesis
    by (simp add: sb_spec_ok_def[abs_def] sb_spec_foot_def[abs_def] sb_spec_val_def[abs_def] abs_sb_spec_def)
qed

interpretation spec_copy: deep_copy ScheduledBackupSpec_DeepCopyInto sb_spec_ok sb_spec_foot sb_spec_val
  by (rule sb_spec_deep)

definition conditions_kept :: "'m meta_lib \<Rightarrow> bool" where
  "conditions_kept lib \<longleftrightarrow> (\<forall>c. lib_copy_condition lib c = c)"

lemma copy_condition_deep:
  assumes "conditions_kept lib"
  shows "deep_copy (copy_condition lib) (\<lambda>h. is_Cell_condition) (\<lambda>h c. {}) (\<lambda>h. cell_condition)"
proof (rule deep_copy_cong[OF plain_deep])
  fix h :: "'a go_heap" and c :: "'a cell"
  assume "is_Cell_condition c"
  then show "copy_condition lib c h = (c, h)" using assms by (cases c) (auto simp: conditions_kept_def)
qed

text \<open>The three slices of a status, one after the other.\<close>

definition copy_status_slices ::
  "'m meta_lib \<Rightarrow> slice \<times> slice \<times> slice \<Rightarrow> 'm go_heap \<Rightarrow> (slice \<times> slice \<times> slice) \<times> 'm go_heap" where
  "copy_status_slices lib = both (clone_with (copy_condition lib) (Cell_condition zero_condition))
     (both (clone_plain (Cell_reference zero_reference)) (clone_plain (Cell_health zero_health)))"

lemma status_slices_deep:
  assumes "conditions_kept lib"
  shows "deep_copy (copy_status_slices lib)
     (\<lambda>h p. plain_ok is_Cell_condition h (fst p) \<and> plain_ok is_Cell_reference h (fst (snd p)) \<and>
        plain_ok is_Cell_health h (snd (snd p)))
     (\<lambda>h p. plain_foot h (fst p) \<union> (plain_foot h (fst (snd p)) \<union> plain_foot h (snd (snd p))))
     (\<lambda>h p. (plain_val cell_condition h (fst p),
        (plain_val cell_reference h (fst (snd p)), plain_val cell_health h (snd (snd p)))))"
  unfolding copy_status_slices_def
  by (rule both_deep[OF clone_with_deep[OF copy_condition_deep[OF assms]] both_deep[OF clone_plain_deep clone_plain_deep]])

lemma sb_status_deep:
  assumes "conditions_kept lib"
  shows "deep_copy (ScheduledBackupStatus_DeepCopyInto lib) (\<lambda>h x. status_ok h (sb_slices x))
     (\<lambda>h x. status_foot h (sb_slices x)) (\<lambda>h x. (abs_sb_status h x, nils (sb_slices x)))"
proof -
  have "deep_copy (ScheduledBackupStatus_DeepCopyInto lib)
     (\<lambda>h x. (\<lambda>p. plain_ok is_Cell_condition h (fst p) \<and> plain_ok is_Cell_reference h (fst (snd p)) \<and>
        plain_ok is_Cell_health h (snd (snd p))) (mss_Conditions x, mss_OwnedReferences x, mss_ChildrenResourcesHealth x))
     (\<lambda>h x. (\<lambda>p. plain_foot h (fst p) \<union> (plain_foot h (fst (snd p)) \<union> plain_foot h (snd (snd p))))
        (mss_Conditions x, mss_OwnedReferences x, mss_ChildrenResourcesHealth x))
     (\<lambda>h x. (\<lambda>r v. (\<lparr>sbst_LastAppliedSpecHash = mss_LastAppliedSpecHash r, sbst_Conditions = snd (fst v),
        sbst_OwnedReferences = snd (fst (snd v)), sbst_ChildrenResourcesHealth = snd (snd (snd v)),
        sbst_Healthy = mss_Healthy r\<rparr>, [fst (fst v), fst (fst (snd v)), fst (snd (snd v))])) x
        ((\<lambda>p. (plain_val cell_condition h (fst p),
        (plain_val cell_reference h (fst (snd p)), plain_val cell_health h (snd (snd p)))))
          (mss_Conditions x, mss_OwnedReferences x, mss_ChildrenResourcesHealth x)))"
    by (rule struct_deep[OF status_slices_deep[OF assms],
          where put = "\<lambda>(cs, rs, js) x. x\<lparr>mss_Conditions := cs, mss_OwnedReferences := rs, mss_ChildrenResourcesHealth := js\<rparr>"])
       (auto simp: ScheduledBackupStatus_DeepCopyInto_def copy_status_slices_def both_def split: prod.splits)
  then show ?thesis
    by (simp add: status_ok_def status_foot_def sb_slices_def abs_sb_status_def slice_val_def nils_def)
qed

lemma rba_status_deep:
  assumes "conditions_kept lib"
  shows "deep_copy (RequestedBackupActionStatus_DeepCopyInto lib) (\<lambda>h x. status_ok h (rba_slices x))
     (\<lambda>h x. status_foot h (rba_slices x)) (\<lambda>h x. (abs_rba_status h x, nils (rba_slices x)))"
proof -
  have "deep_copy (RequestedBackupActionStatus_DeepCopyInto lib)
     (\<lambda>h x. (\<lambda>p. plain_ok is_Cell_condition h (fst p) \<and> plain_ok is_Cell_reference h (fst (snd p)) \<and>
        plain_ok is_Cell_health h (snd (snd p))) (mrs_Conditions x, mrs_OwnedReferences x, mrs_ChildrenResourcesHealth x))
     (\<lambda>h x. (\<lambda>p. plain_foot h (fst p) \<union> (plain_foot h (fst (snd p)) \<union> plain_foot h (snd (snd p))))
        (mrs_Conditions x, mrs_OwnedReferences x, mrs_ChildrenResourcesHealth x))
     (\<lambda>h x. (\<lambda>r v. (\<lparr>rbast_Processed = mrs_Processed r, rbast_Conditions = snd (fst v),
        rbast_OwnedReferences = snd (fst (snd v)), rbast_ChildrenResourcesHealth = snd (snd (snd v)),
        rbast_Healthy = mrs_Healthy r\<rparr>, [fst (fst v), fst (fst (snd v)), fst (snd (snd v))])) x
        ((\<lambda>p. (plain_val cell_condition h (fst p),
        (plain_val cell_reference h (fst (snd p)), plain_val cell_health h (snd (snd p)))))
          (mrs_Conditions x, mrs_OwnedReferences x, mrs_ChildrenResourcesHealth x)))"
    by (rule struct_deep[OF status_slices_deep[OF assms],
          where put = "\<lambda>(cs, rs, js) x. x\<lparr>mrs_Conditions := cs, mrs_OwnedReferences := rs, mrs_ChildrenResourcesHealth := js\<rparr>"])
       (auto simp: RequestedBackupActionStatus_DeepCopyInto_def copy_status_slices_def both_def split: prod.splits)
  then show ?thesis
    by (simp add: status_ok_def status_foot_def rba_slices_def abs_rba_status_def slice_val_def nils_def)
qed


section \<open>Objects and lists of objects\<close>

definition backup_ok :: "('m go_heap \<Rightarrow> 'm \<Rightarrow> bool) \<Rightarrow> 'm go_heap \<Rightarrow> 'm mem_backup \<Rightarrow> bool" where
  "backup_ok okm h x \<longleftrightarrow> okm h (mb_Meta x) \<and> sb_spec_ok h (mb_Spec x) \<and> status_ok h (sb_slices (mb_Status x))"

definition backup_foot :: "('m go_heap \<Rightarrow> 'm \<Rightarrow> nat set) \<Rightarrow> 'm go_heap \<Rightarrow> 'm mem_backup \<Rightarrow> nat set" where
  "backup_foot footm h x = footm h (mb_Meta x) \<union> (sb_spec_foot h (mb_Spec x) \<union> status_foot h (sb_slices (mb_Status x)))"

definition backup_val :: "('m go_heap \<Rightarrow> 'm \<Rightarrow> object_meta) \<Rightarrow> 'm go_heap \<Rightarrow> 'm mem_backup \<Rightarrow> scheduled_backup \<times> bool list" where
  "backup_val read h x = (abs_backup read h x,
     nils (mvs_ImportOnlyKeys (msb_VarsSecretRef (mb_Spec x)) # sb_slices (mb_Status x)))"

definition action_ok :: "('m go_heap \<Rightarrow> 'm \<Rightarrow> bool) \<Rightarrow> 'm go_heap \<Rightarrow> 'm mem_action \<Rightarrow> bool" where
  "action_ok okm h x \<longleftrightarrow> okm h (ma_Meta x) \<and> status_ok h (rba_slices (ma_Status x))"

definition action_foot :: "('m go_heap \<Rightarrow> 'm \<Rightarrow> nat set) \<Rightarrow> 'm go_heap \<Rightarrow> 'm mem_action \<Rightarrow> nat set" where
  "action_foot footm h x = footm h (ma_Meta x) \<union> status_foot h (rba_slices (ma_Status x))"

definition action_val :: "('m go_heap \<Rightarrow> 'm \<Rightarrow> object_meta) \<Rightarrow> 'm go_heap \<Rightarrow> 'm mem_action \<Rightarrow> requested_action \<times> bool list" where
  "action_val read h x = (abs_action read h x, nils (rba_slices (ma_Status x)))"

lemma backup_deep:
  assumes meta: "deep_copy (lib_copy_meta lib) okm footm read" and cond: "conditions_kept lib"
  shows "deep_copy (ScheduledBackup_DeepCopyInto lib) (backup_ok okm) (backup_foot footm) (backup_val read)"
proof -
  note parts = both_deep[OF meta both_deep[OF sb_spec_deep sb_status_deep[OF cond]]]
  have "deep_copy (ScheduledBackup_DeepCopyInto lib)
     (\<lambda>h x. (\<lambda>p. okm h (fst p) \<and> sb_spec_ok h (fst (snd p)) \<and> status_ok h (sb_slices (snd (snd p))))
        (mb_Meta x, mb_Spec x, mb_Status x))
     (\<lambda>h x. (\<lambda>p. footm h (fst p) \<union> (sb_spec_foot h (fst (snd p)) \<union> status_foot h (sb_slices (snd (snd p)))))
        (mb_Meta x, mb_Spec x, mb_Status x))
     (\<lambda>h x. (\<lambda>r v. (\<lparr>sb_TypeMeta = mb_TypeMeta r, sb_Meta = fst v, sb_Spec = fst (fst (snd v)),
         sb_Status = fst (snd (snd v))\<rparr>, snd (fst (snd v)) @ snd (snd (snd v)))) x
        ((\<lambda>p. (read h (fst p), (sb_spec_val h (fst (snd p)),
           (\<lambda>y. (abs_sb_status h y, nils (sb_slices y))) (snd (snd p))))) (mb_Meta x, mb_Spec x, mb_Status x)))"
    by (rule struct_deep[OF parts, where put = "\<lambda>(m, sp, st) x. x\<lparr>mb_Meta := m, mb_Spec := sp, mb_Status := st\<rparr>"])
       (auto simp: ScheduledBackup_DeepCopyInto_def both_def split: prod.splits)
  then show ?thesis
    by (simp add: backup_ok_def[abs_def] backup_foot_def[abs_def] backup_val_def[abs_def] abs_backup_def
        sb_spec_val_def nils_def)
qed

lemma action_deep:
  assumes meta: "deep_copy (lib_copy_meta lib) okm footm read" and cond: "conditions_kept lib"
  shows "deep_copy (RequestedBackupAction_DeepCopyInto lib) (action_ok okm) (action_foot footm) (action_val read)"
proof -
  note parts = both_deep[OF meta rba_status_deep[OF cond]]
  have "deep_copy (RequestedBackupAction_DeepCopyInto lib)
     (\<lambda>h x. (\<lambda>p. okm h (fst p) \<and> status_ok h (rba_slices (snd p))) (ma_Meta x, ma_Status x))
     (\<lambda>h x. (\<lambda>p. footm h (fst p) \<union> status_foot h (rba_slices (snd p))) (ma_Meta x, ma_Status x))
     (\<lambda>h x. (\<lambda>r v. (\<lparr>rba_TypeMeta = ma_TypeMeta r, rba_Meta = fst v, rba_Spec = ma_Spec r,
         rba_Status = fst (snd v)\<rparr>, snd (snd v))) x
        ((\<lambda>p. (read h (fst p), (\<lambda>y. (abs_rba_status h y, nils (rba_slices y))) (snd p))) (ma_Meta x, ma_Status x)))"
    by (rule struct_deep[OF parts, where put = "\<lambda>(m, st) x. x\<lparr>ma_Meta := m, ma_Spec := ma_Spec x, ma_Status := st\<rparr>"])
       (auto simp: RequestedBackupAction_DeepCopyInto_def both_def split: prod.splits)
  then show ?thesis
    by (simp add: action_ok_def[abs_def] action_foot_def[abs_def] action_val_def[abs_def] abs_action_def)
qed

lemma template_deep:
  assumes meta: "deep_copy (lib_copy_meta lib) okm footm read"
  shows "deep_copy (ClusterBackupProcedureTemplate_DeepCopyInto lib) (\<lambda>h x. okm h (mt_Meta x))
     (\<lambda>h x. footm h (mt_Meta x)) (\<lambda>h x. abs_template read h x)"
proof -
  have "deep_copy (ClusterBackupProcedureTemplate_DeepCopyInto lib) (\<lambda>h x. okm h (mt_Meta x))
     (\<lambda>h x. footm h (mt_Meta x))
     (\<lambda>h x. (\<lambda>r v. \<lparr>cbpt_TypeMeta = mt_TypeMeta r, cbpt_Meta = v, cbpt_Spec = mt_Spec r\<rparr>) x (read h (mt_Meta x)))"
    by (rule struct_deep[OF meta, where put = "\<lambda>m x. x\<lparr>mt_Meta := m, mt_Spec := mt_Spec x, mt_Status := mt_Status x\<rparr>"])
       (auto simp: ClusterBackupProcedureTemplate_DeepCopyInto_def split: prod.splits)
  then show ?thesis by (simp add: abs_template_def)
qed

text \<open>A list: its items are objects of the heap.\<close>

lemma list_deep:
  assumes meta: "deep_copy (lib_copy_list_meta lib) okl footl readl" and item: "deep_copy f ok foot val"
  shows "deep_copy (copy_list lib f z) (\<lambda>h x. okl h (ml_Meta x) \<and> slice_ok ok h (ml_Items x))
     (\<lambda>h x. footl h (ml_Meta x) \<union> slice_foot foot h (ml_Items x))
     (\<lambda>h x. (ml_TypeMeta x, readl h (ml_Meta x), slice_val val h (ml_Items x)))"
proof -
  note parts = both_deep[OF meta clone_with_deep[OF item, where z = z]]
  have "deep_copy (copy_list lib f z)
     (\<lambda>h x. (\<lambda>p. okl h (fst p) \<and> slice_ok ok h (snd p)) (ml_Meta x, ml_Items x))
     (\<lambda>h x. (\<lambda>p. footl h (fst p) \<union> slice_foot foot h (snd p)) (ml_Meta x, ml_Items x))
     (\<lambda>h x. (\<lambda>r v. (ml_TypeMeta r, v)) x ((\<lambda>p. (readl h (fst p), slice_val val h (snd p))) (ml_Meta x, ml_Items x)))"
    by (rule struct_deep[OF parts, where put = "\<lambda>(m, s) x. x\<lparr>ml_Meta := m, ml_Items := s\<rparr>"])
       (auto simp: copy_list_def both_def split: prod.splits)
  then show ?thesis by simp
qed

lemma backup_cell_deep:
  assumes "deep_copy (lib_copy_meta lib) okm footm read" and "conditions_kept lib"
  shows "deep_copy (copy_backup lib) (\<lambda>h c. c = Cell_backup (cell_backup c) \<and> backup_ok okm h (cell_backup c))
     (\<lambda>h c. backup_foot footm h (cell_backup c)) (\<lambda>h c. backup_val read h (cell_backup c))"
  by (rule cell_deep[OF backup_deep[OF assms]]) simp_all


text \<open>
  C28. A deep copy of a backup stands for the same value, and the two share no memory: whatever
  is written into arrays that existed before the copy never shows in the copy, and whatever is
  written into arrays made since never shows in the original.
\<close>

theorem backup_copies_are_independent:
  assumes meta: "deep_copy (lib_copy_meta lib) okm footm read" and cond: "conditions_kept lib"
    and ok: "backup_ok okm h x" and run: "ScheduledBackup_DeepCopy lib (Some x) h = (p, h')"
  shows "\<exists>y. p = Some y \<and> abs_backup read h' y = abs_backup read h x \<and>
     (\<forall>h2. next_array h' \<le> next_array h2 \<and> (\<forall>a. next_array h \<le> a \<longrightarrow> arrays h2 a = arrays h' a) \<longrightarrow>
        abs_backup read h2 y = abs_backup read h x) \<and>
     (\<forall>h2. next_array h \<le> next_array h2 \<and> (\<forall>a < next_array h. arrays h2 a = arrays h a) \<longrightarrow>
        abs_backup read h2 x = abs_backup read h x)"
proof -
  note dc = backup_deep[OF meta cond]
  from run obtain y where p: "p = Some y" and y: "ScheduledBackup_DeepCopyInto lib x h = (y, h')"
    by (auto simp: ScheduledBackup_DeepCopy_def deep_copy_of_def split: prod.splits)
  have "abs_backup read h' y = abs_backup read h x"
    using deep_copy.copy_value[OF dc ok y] by (simp add: backup_val_def)
  moreover have "abs_backup read h2 y = abs_backup read h x"
    if "next_array h' \<le> next_array h2 \<and> (\<forall>a. next_array h \<le> a \<longrightarrow> arrays h2 a = arrays h' a)" for h2
    using deep_copy.copy_survives[OF dc ok y, of h2] that by (simp add: backup_val_def)
  moreover have "abs_backup read h2 x = abs_backup read h x"
    if "next_array h \<le> next_array h2 \<and> (\<forall>a < next_array h. arrays h2 a = arrays h a)" for h2
    using deep_copy.original_survives[OF dc ok, of h2] that by (simp add: backup_val_def)
  ultimately show ?thesis using p by blast
qed

text \<open>A heap with one array, and a backup that imports the key in it.\<close>

definition sample_lib :: "unit meta_lib" where
  "sample_lib = \<lparr>lib_copy_meta = (\<lambda>m h. (m, h)), lib_copy_list_meta = (\<lambda>m h. (m, h)),
     lib_copy_condition = (\<lambda>c. c), lib_zero_meta = ()\<rparr>"

definition sample_heap :: "unit go_heap" where
  "sample_heap = \<lparr>arrays = (\<lambda>a. if a = 0 then [Cell_string ''a''] else []), next_array = 1\<rparr>"

definition sample_mem_backup :: "unit mem_backup" where
  "sample_mem_backup = (zero_backup sample_lib)\<lparr>mb_Spec := (mb_Spec (zero_backup sample_lib))
     \<lparr>msb_VarsSecretRef := \<lparr>mvs_SecretName = ''v'', mvs_ImportOnlyKeys = Slice 0 0 1\<rparr>\<rparr>\<rparr>"

lemma sample_lib_deep: "deep_copy (lib_copy_meta sample_lib) (\<lambda>h m. True) (\<lambda>h m. {}) (\<lambda>h m. zero_meta)"
  using plain_deep[of "\<lambda>_. True" "\<lambda>_. zero_meta"] by (simp add: sample_lib_def)

theorem backup_copies_are_independent_witness:
  "\<exists>y h'. ScheduledBackup_DeepCopy sample_lib (Some sample_mem_backup) sample_heap = (Some y, h') \<and>
     vs_ImportOnlyKeys (sbs_VarsSecretRef (sb_Spec (abs_backup (\<lambda>h m. zero_meta) h' y))) = [''a'']"
proof -
  obtain p h' where run: "ScheduledBackup_DeepCopy sample_lib (Some sample_mem_backup) sample_heap = (p, h')"
    by fastforce
  have cond: "conditions_kept sample_lib" by (simp add: conditions_kept_def sample_lib_def)
  have ok: "backup_ok (\<lambda>h m. True) sample_heap sample_mem_backup"
    by (simp add: backup_ok_def sb_spec_ok_def status_ok_def sb_slices_def slice_ok_def sample_mem_backup_def
        zero_backup_def sample_heap_def)
  have "abs_backup (\<lambda>h m. zero_meta) sample_heap sample_mem_backup = abs_backup (\<lambda>h m. zero_meta) sample_heap sample_mem_backup
    \<and> vs_ImportOnlyKeys (sbs_VarsSecretRef (sb_Spec (abs_backup (\<lambda>h m. zero_meta) sample_heap sample_mem_backup))) = [''a'']"
    by (simp add: abs_backup_def abs_sb_spec_def abs_vars_def sample_mem_backup_def zero_backup_def sample_heap_def)
  with backup_copies_are_independent[OF sample_lib_deep cond ok run] run show ?thesis by metis
qed

text \<open>
  The list of a lister or of a watch can be copied the same way: every item of a copied list
  stands for the same backup, the items are nil exactly when they were, and no write to memory
  from before the copy shows in it.
\<close>

theorem list_copies_are_independent:
  assumes meta: "deep_copy (lib_copy_meta lib) okm footm read" and cond: "conditions_kept lib"
    and lmeta: "deep_copy (lib_copy_list_meta lib) okl footl readl"
    and ok: "okl h (ml_Meta x)" "slice_ok (\<lambda>h c. c = Cell_backup (cell_backup c) \<and> backup_ok okm h (cell_backup c)) h (ml_Items x)"
    and run: "ScheduledBackupList_DeepCopyObject lib (Some x) h = (Some y, h')"
    and h2: "next_array h' \<le> next_array h2" "\<And>a. next_array h \<le> a \<Longrightarrow> arrays h2 a = arrays h' a"
  shows "map (\<lambda>c. abs_backup read h2 (cell_backup c)) (elems h2 (ml_Items y)) =
       map (\<lambda>c. abs_backup read h (cell_backup c)) (elems h (ml_Items x)) \<and>
     (ml_Items y = Nil_slice \<longleftrightarrow> ml_Items x = Nil_slice)"
proof -
  note dc = list_deep[OF lmeta backup_cell_deep[OF meta cond], where z = "Cell_backup (zero_backup lib)"]
  from run have y: "copy_list lib (copy_backup lib) (Cell_backup (zero_backup lib)) x h = (y, h')"
    by (auto simp: ScheduledBackupList_DeepCopyObject_def ScheduledBackupList_DeepCopy_def object_copy_of_def
        deep_copy_of_def ScheduledBackupList_DeepCopyInto_def split: prod.splits option.splits)
  have "okl h (ml_Meta x) \<and> slice_ok (\<lambda>h c. c = Cell_backup (cell_backup c) \<and> backup_ok okm h (cell_backup c)) h (ml_Items x)"
    using ok by simp
  from deep_copy.copy_survives[OF dc this y h2]
  have val: "slice_val (\<lambda>h c. backup_val read h (cell_backup c)) h2 (ml_Items y) =
      slice_val (\<lambda>h c. backup_val read h (cell_backup c)) h (ml_Items x)" by simp
  then have "map fst (snd (slice_val (\<lambda>h c. backup_val read h (cell_backup c)) h2 (ml_Items y))) =
      map fst (snd (slice_val (\<lambda>h c. backup_val read h (cell_backup c)) h (ml_Items x)))"
    by (rule arg_cong)
  moreover from val have "(ml_Items y = Nil_slice) = (ml_Items x = Nil_slice)" by (simp add: slice_val_def)
  ultimately show ?thesis by (simp add: slice_val_def backup_val_def o_def)
qed

definition sample_list_heap :: "unit go_heap" where
  "sample_list_heap = \<lparr>arrays = (\<lambda>a. if a = 0 then [Cell_string ''a''] else
     if a = 1 then [Cell_backup sample_mem_backup] else []), next_array = 2\<rparr>"

lemma sample_list_meta_deep:
  "deep_copy (lib_copy_list_meta sample_lib) (\<lambda>h m. True) (\<lambda>h m. {}) (\<lambda>h m. ())"
  using plain_deep[of "\<lambda>_. True" "\<lambda>_. ()"] by (simp add: sample_lib_def)

theorem list_copies_are_independent_witness:
  "\<exists>y h'. ScheduledBackupList_DeepCopyObject sample_lib
        (Some \<lparr>ml_TypeMeta = zero_type_meta, ml_Meta = (), ml_Items = Slice 1 0 1\<rparr>) sample_list_heap = (Some y, h') \<and>
     map (\<lambda>c. abs_backup (\<lambda>h m. zero_meta) h' (cell_backup c)) (elems h' (ml_Items y)) =
     [abs_backup (\<lambda>h m. zero_meta) sample_list_heap sample_mem_backup]"
proof -
  let ?l = "\<lparr>ml_TypeMeta = zero_type_meta, ml_Meta = (), ml_Items = Slice 1 0 1\<rparr>"
  obtain y h' where run: "ScheduledBackupList_DeepCopyObject sample_lib (Some ?l) sample_list_heap = (Some y, h')"
    by (cases "ScheduledBackupList_DeepCopyInto sample_lib ?l sample_list_heap")
       (simp add: ScheduledBackupList_DeepCopyObject_def ScheduledBackupList_DeepCopy_def object_copy_of_def deep_copy_of_def)
  have cond: "conditions_kept sample_lib" by (simp add: conditions_kept_def sample_lib_def)
  have "backup_ok (\<lambda>h m. True) sample_list_heap sample_mem_backup"
    by (simp add: backup_ok_def sb_spec_ok_def status_ok_def sb_slices_def slice_ok_def sample_mem_backup_def
        zero_backup_def sample_list_heap_def)
  then have ok: "slice_ok (\<lambda>h c. c = Cell_backup (cell_backup c) \<and> backup_ok (\<lambda>h m. True) h (cell_backup c))
      sample_list_heap (ml_Items ?l)"
    by (simp add: slice_ok_def sample_list_heap_def)
  have "map (\<lambda>c. abs_backup (\<lambda>h m. zero_meta) h' (cell_backup c)) (elems h' (ml_Items y)) =
      map (\<lambda>c. abs_backup (\<lambda>h m. zero_meta) sample_list_heap (cell_backup c)) (elems sample_list_heap (ml_Items ?l))"
    using list_copies_are_independent[OF sample_lib_deep cond sample_list_meta_deep _ ok run, of h'] by simp
  then show ?thesis using run by (simp add: sample_list_heap_def)
qed

end
