(* ===== verification/Registration.thy ===== *)
theory Registration
  imports Api_Types
begin

text \<open>
  \<^verbatim>\<open>register.go\<close> of the API package: the group and version of the resources, and their
  registration with a scheme of \<^verbatim>\<open>k8s.io/apimachinery\<close>, which is a parameter (a record of the
  two calls made on it). A Go type is its full name. \<^verbatim>\<open>log.Fatal\<close> ends the process: the value
  \<open>Inl\<close> with the exit code.
\<close>

type_synonym go_type = string

record group_version =
  gv_Group :: string
  gv_Version :: string

record group_kind =
  gk_Group :: string
  gk_Kind :: string

record group_resource =
  gr_Group :: string
  gr_Resource :: string

definition GroupName :: string where
  "GroupName = ''riotkit.org''"

definition api_Version :: string where
  "api_Version = ''v1alpha1''"

definition GroupAndVersion :: string where
  "GroupAndVersion = GroupName @ ''/'' @ api_Version"

definition SchemeGroupVersion :: group_version where
  "SchemeGroupVersion = \<lparr>gv_Group = ''riotkit.org'', gv_Version = ''v1alpha1''\<rparr>"

text \<open>\<^verbatim>\<open>GroupVersion.WithKind\<close>, \<^verbatim>\<open>WithResource\<close> and the parts of their results.\<close>

definition WithKind :: "group_version \<Rightarrow> string \<Rightarrow> gvk" where
  "WithKind gv k = mk_gvk (gv_Group gv) (gv_Version gv) k"

definition WithResource :: "group_version \<Rightarrow> string \<Rightarrow> gvr" where
  "WithResource gv r = \<lparr>gvr_Group = gv_Group gv, gvr_Version = gv_Version gv, gvr_Resource = r\<rparr>"

definition GroupResource :: "gvr \<Rightarrow> group_resource" where
  "GroupResource r = \<lparr>gr_Group = gvr_Group r, gr_Resource = gvr_Resource r\<rparr>"

definition GroupKind :: "gvk \<Rightarrow> group_kind" where
  "GroupKind k = \<lparr>gk_Group = gvk_Group k, gk_Kind = gvk_Kind k\<rparr>"

definition log_Fatal :: "string \<Rightarrow> int + unit" where
  "log_Fatal m = Inl 1"

definition Kind :: "string \<Rightarrow> int + group_kind" where
  "Kind kind = (case log_Fatal ''OOOO'' of Inl code \<Rightarrow> Inl code
     | Inr _ \<Rightarrow> Inr (GroupKind (WithKind SchemeGroupVersion kind)))"

definition Resource :: "string \<Rightarrow> group_resource" where
  "Resource resource = GroupResource (WithResource SchemeGroupVersion resource)"

section \<open>The scheme\<close>

text \<open>The full names of the API types.\<close>

definition type_ScheduledBackup :: go_type where
  "type_ScheduledBackup = ''*v1alpha1.ScheduledBackup''"

definition type_ScheduledBackupList :: go_type where
  "type_ScheduledBackupList = ''*v1alpha1.ScheduledBackupList''"

definition type_RequestedBackupAction :: go_type where
  "type_RequestedBackupAction = ''*v1alpha1.RequestedBackupAction''"

definition type_RequestedBackupActionList :: go_type where
  "type_RequestedBackupActionList = ''*v1alpha1.RequestedBackupActionList''"

definition type_ClusterBackupProcedureTemplate :: go_type where
  "type_ClusterBackupProcedureTemplate = ''*v1alpha1.ClusterBackupProcedureTemplate''"

definition type_ClusterBackupProcedureTemplateList :: go_type where
  "type_ClusterBackupProcedureTemplateList = ''*v1alpha1.ClusterBackupProcedureTemplateList''"

lemmas type_names = type_ScheduledBackup_def type_RequestedBackupAction_def type_ClusterBackupProcedureTemplate_def

record 'c scheme_lib =
  sl_AddKnownTypes :: "'c \<Rightarrow> group_version \<Rightarrow> go_type list \<Rightarrow> 'c"
  sl_AddToGroupVersion :: "'c \<Rightarrow> group_version \<Rightarrow> 'c"

definition addKnownTypes :: "'c scheme_lib \<Rightarrow> 'c \<Rightarrow> goerr option \<times> 'c" where
  "addKnownTypes lib scheme =
     (let scheme = sl_AddKnownTypes lib scheme SchemeGroupVersion
        [type_ClusterBackupProcedureTemplate, type_ClusterBackupProcedureTemplateList,
         type_RequestedBackupAction, type_RequestedBackupActionList,
         type_ScheduledBackup, type_ScheduledBackupList];
      scheme = sl_AddToGroupVersion lib scheme SchemeGroupVersion
      in (None, scheme))"

text \<open>A \<^verbatim>\<open>runtime.SchemeBuilder\<close> is a list of functions; \<^verbatim>\<open>AddToScheme\<close> runs them up to the first error.\<close>

fun builder_AddToScheme :: "('c \<Rightarrow> goerr option \<times> 'c) list \<Rightarrow> 'c \<Rightarrow> goerr option \<times> 'c" where
  "builder_AddToScheme [] scheme = (None, scheme)"
| "builder_AddToScheme (f # fs) scheme =
     (case f scheme of (None, scheme) \<Rightarrow> builder_AddToScheme fs scheme | (Some err, scheme) \<Rightarrow> (Some err, scheme))"

definition SchemeBuilder :: "'c scheme_lib \<Rightarrow> ('c \<Rightarrow> goerr option \<times> 'c) list" where
  "SchemeBuilder lib = [addKnownTypes lib]"

definition AddToScheme :: "'c scheme_lib \<Rightarrow> 'c \<Rightarrow> goerr option \<times> 'c" where
  "AddToScheme lib = builder_AddToScheme (SchemeBuilder lib)"

text \<open>
  The scheme of the clientset (\<^verbatim>\<open>scheme/register.go\<close>) and the one of the fake clientset
  (\<^verbatim>\<open>fake/register.go\<close>): \<^verbatim>\<open>init()\<close>, with \<^verbatim>\<open>utilruntime.Must\<close> panicking on an error.
\<close>

definition localSchemeBuilder :: "'c scheme_lib \<Rightarrow> ('c \<Rightarrow> goerr option \<times> 'c) list" where
  "localSchemeBuilder lib = [AddToScheme lib]"

definition clientset_AddToScheme :: "'c scheme_lib \<Rightarrow> 'c \<Rightarrow> goerr option \<times> 'c" where
  "clientset_AddToScheme lib = builder_AddToScheme (localSchemeBuilder lib)"

definition must :: "('c \<Rightarrow> goerr option \<times> 'c) \<Rightarrow> ('c, unit) go" where
  "must f scheme =
     (case f scheme of
        (None, scheme) \<Rightarrow> (Return (), scheme)
      | (Some err, scheme) \<Rightarrow> (Panic (Panic_value (err_text err)), scheme))"

definition scheme_init :: "'c scheme_lib \<Rightarrow> ('c, unit) go" where
  "scheme_init lib scheme =
     must (clientset_AddToScheme lib) (sl_AddToGroupVersion lib scheme \<lparr>gv_Group = [], gv_Version = ''v1''\<rparr>)"

text \<open>
  \<^verbatim>\<open>init()\<close> of \<^verbatim>\<open>cmd/root.go\<close> on the scheme of the manager; \<open>core\<close> is \<^verbatim>\<open>clientgoscheme.AddToScheme\<close>.
\<close>

definition root_init :: "'c scheme_lib \<Rightarrow> ('c \<Rightarrow> goerr option \<times> 'c) \<Rightarrow> ('c, unit) go" where
  "root_init lib core = bnd (must core) (\<lambda>_. must (AddToScheme lib))"

lemma addKnownTypes_ok [simp]: "fst (addKnownTypes lib c) = None"
  by (simp add: addKnownTypes_def Let_def)

lemma AddToScheme_ok: "AddToScheme lib c = addKnownTypes lib c"
  by (simp add: AddToScheme_def SchemeBuilder_def split: prod.splits option.splits)

text \<open>
  Initialising either scheme never panics, and registers the six types of the API and the
  options of both group versions.
\<close>

lemma scheme_init_spec:
  "scheme_init lib c = (Return (), snd (addKnownTypes lib (sl_AddToGroupVersion lib c \<lparr>gv_Group = [], gv_Version = ''v1''\<rparr>)))"
  by (simp add: scheme_init_def must_def clientset_AddToScheme_def localSchemeBuilder_def AddToScheme_ok
      addKnownTypes_def)

text \<open>The process gets past \<^verbatim>\<open>init()\<close> exactly when the types of client-go can be added.\<close>

lemma root_init_panics_iff:
  "root_init lib core c =
     (case core c of
        (None, c) \<Rightarrow> (Return (), snd (addKnownTypes lib c))
      | (Some err, c) \<Rightarrow> (Panic (Panic_value (err_text err)), c))"
  by (auto simp: root_init_def must_def bnd_def AddToScheme_ok addKnownTypes_def Let_def split: option.split prod.split)

lemma Kind_never_returns: "Kind k = Inl 1"
  by (simp add: Kind_def log_Fatal_def)

end
