(* ===== verification/Listers.thy ===== *)
theory Listers
  imports Registration
begin

text \<open>
  The listers of \<^verbatim>\<open>pkg/client/listers\<close>: typed reads of the indexer of an informer. The
  indexer of \<^verbatim>\<open>k8s.io/client-go/tools/cache\<close> is a parameter; \<open>None\<close> is an object that does not
  exist. The three generated files differ in the type they assert and the resource they name.
\<close>

section \<open>Objects behind an interface\<close>

datatype api_object =
    Obj_backup scheduled_backup
  | Obj_action requested_action
  | Obj_template cluster_template
  | Obj_other object_meta

fun obj_meta :: "api_object \<Rightarrow> object_meta" where
  "obj_meta (Obj_backup b) = sb_Meta b"
| "obj_meta (Obj_action a) = rba_Meta a"
| "obj_meta (Obj_template t) = cbpt_Meta t"
| "obj_meta (Obj_other m) = m"

text \<open>Type assertions \<^verbatim>\<open>m.(*v1alpha1.T)\<close> without a check.\<close>

fun as_backup :: "api_object \<Rightarrow> ('s, scheduled_backup) go" where
  "as_backup (Obj_backup b) = ret b"
| "as_backup _ = crash Bad_type_assertion"

fun as_action :: "api_object \<Rightarrow> ('s, requested_action) go" where
  "as_action (Obj_action b) = ret b"
| "as_action _ = crash Bad_type_assertion"

fun as_template :: "api_object \<Rightarrow> ('s, cluster_template) go" where
  "as_template (Obj_template b) = ret b"
| "as_template _ = crash Bad_type_assertion"

section \<open>The indexer\<close>

text \<open>
  \<^verbatim>\<open>cache.ListAll\<close> and \<^verbatim>\<open>cache.ListAllByNamespace\<close> call a function on every selected object,
  here the list of those objects in the order of the calls, and return an error.
\<close>

record ('x, 'l, 's) indexer_lib =
  ix_ListAll :: "'x \<Rightarrow> 'l \<Rightarrow> 's \<Rightarrow> api_object list \<times> goerr option"
  ix_ListAllByNamespace :: "'x \<Rightarrow> string \<Rightarrow> 'l \<Rightarrow> 's \<Rightarrow> api_object list \<times> goerr option"
  ix_GetByKey :: "'x \<Rightarrow> string \<Rightarrow> 's \<Rightarrow> api_object option \<times> goerr option"
  ix_NotFound :: "group_resource \<Rightarrow> string \<Rightarrow> goerr"

section \<open>What the three listers share\<close>

record 'x lister =
  ls_indexer :: 'x

record 'x namespace_lister =
  nl_indexer :: 'x
  nl_namespace :: string

text \<open>The structs of the three files have these fields.\<close>

type_synonym 'x backup_lister = "'x lister"
type_synonym 'x backup_namespace_lister = "'x namespace_lister"
type_synonym 'x action_lister = "'x lister"
type_synonym 'x action_namespace_lister = "'x namespace_lister"
type_synonym 'x template_lister = "'x lister"
type_synonym 'x template_namespace_lister = "'x namespace_lister"

text \<open>\<^verbatim>\<open>func(m interface{}) { ret = append(ret, m.(*T)) }\<close> on every object.\<close>

fun append_each :: "(api_object \<Rightarrow> ('s, 'b) go) \<Rightarrow> api_object list \<Rightarrow> 'b list \<Rightarrow> ('s, 'b list) go" where
  "append_each as [] acc = ret acc"
| "append_each as (m # ms) acc = bnd (as m) (\<lambda>b. append_each as ms (acc @ [b]))"

definition lister_List ::
  "(api_object \<Rightarrow> ('s, 'b) go) \<Rightarrow> ('x, 'l, 's) indexer_lib \<Rightarrow> 'x lister \<Rightarrow> 'l \<Rightarrow> ('s, 'b list \<times> goerr option) go" where
  "lister_List as lib l selector =
     bnd (get_state (ix_ListAll lib (ls_indexer l) selector)) (\<lambda>(ms, err).
     bnd (append_each as ms []) (\<lambda>r. ret (r, err)))"

definition namespace_lister_List ::
  "(api_object \<Rightarrow> ('s, 'b) go) \<Rightarrow> ('x, 'l, 's) indexer_lib \<Rightarrow> 'x namespace_lister \<Rightarrow> 'l \<Rightarrow>
     ('s, 'b list \<times> goerr option) go" where
  "namespace_lister_List as lib l selector =
     bnd (get_state (ix_ListAllByNamespace lib (nl_indexer l) (nl_namespace l) selector)) (\<lambda>(ms, err).
     bnd (append_each as ms []) (\<lambda>r. ret (r, err)))"

definition namespace_lister_Get ::
  "(api_object \<Rightarrow> ('s, 'b) go) \<Rightarrow> string \<Rightarrow> ('x, 'l, 's) indexer_lib \<Rightarrow> 'x namespace_lister \<Rightarrow> string \<Rightarrow>
     ('s, goerr + 'b) go" where
  "namespace_lister_Get as singular lib l name =
     bnd (get_state (ix_GetByKey lib (nl_indexer l) (nl_namespace l @ ''/'' @ name))) (\<lambda>(obj, err).
       case err of Some e \<Rightarrow> ret (Inl e)
       | None \<Rightarrow> (case obj of None \<Rightarrow> ret (Inl (ix_NotFound lib (Resource singular) name))
                 | Some m \<Rightarrow> bnd (as m) (\<lambda>b. ret (Inr b))))"

section \<open>The lister of ScheduledBackup\<close>

definition NewScheduledBackupLister :: "'x \<Rightarrow> 'x backup_lister" where
  "NewScheduledBackupLister indexer = \<lparr>ls_indexer = indexer\<rparr>"

definition ScheduledBackupLister_List ::
  "('x, 'l, 's) indexer_lib \<Rightarrow> 'x backup_lister \<Rightarrow> 'l \<Rightarrow> ('s, scheduled_backup list \<times> goerr option) go" where
  "ScheduledBackupLister_List = lister_List as_backup"

definition ScheduledBackupLister_ScheduledBackups :: "'x backup_lister \<Rightarrow> string \<Rightarrow> 'x backup_namespace_lister" where
  "ScheduledBackupLister_ScheduledBackups s namespace = \<lparr>nl_indexer = ls_indexer s, nl_namespace = namespace\<rparr>"

definition ScheduledBackupNamespaceLister_List ::
  "('x, 'l, 's) indexer_lib \<Rightarrow> 'x backup_namespace_lister \<Rightarrow> 'l \<Rightarrow> ('s, scheduled_backup list \<times> goerr option) go" where
  "ScheduledBackupNamespaceLister_List = namespace_lister_List as_backup"

definition ScheduledBackupNamespaceLister_Get ::
  "('x, 'l, 's) indexer_lib \<Rightarrow> 'x backup_namespace_lister \<Rightarrow> string \<Rightarrow> ('s, goerr + scheduled_backup) go" where
  "ScheduledBackupNamespaceLister_Get = namespace_lister_Get as_backup ''scheduledbackup''"

section \<open>The lister of RequestedBackupAction\<close>

definition NewRequestedBackupActionLister :: "'x \<Rightarrow> 'x action_lister" where
  "NewRequestedBackupActionLister indexer = \<lparr>ls_indexer = indexer\<rparr>"

definition RequestedBackupActionLister_List ::
  "('x, 'l, 's) indexer_lib \<Rightarrow> 'x action_lister \<Rightarrow> 'l \<Rightarrow> ('s, requested_action list \<times> goerr option) go" where
  "RequestedBackupActionLister_List = lister_List as_action"

definition RequestedBackupActionLister_RequestedBackupActions :: "'x action_lister \<Rightarrow> string \<Rightarrow> 'x action_namespace_lister" where
  "RequestedBackupActionLister_RequestedBackupActions s namespace = \<lparr>nl_indexer = ls_indexer s, nl_namespace = namespace\<rparr>"

definition RequestedBackupActionNamespaceLister_List ::
  "('x, 'l, 's) indexer_lib \<Rightarrow> 'x action_namespace_lister \<Rightarrow> 'l \<Rightarrow> ('s, requested_action list \<times> goerr option) go" where
  "RequestedBackupActionNamespaceLister_List = namespace_lister_List as_action"

definition RequestedBackupActionNamespaceLister_Get ::
  "('x, 'l, 's) indexer_lib \<Rightarrow> 'x action_namespace_lister \<Rightarrow> string \<Rightarrow> ('s, goerr + requested_action) go" where
  "RequestedBackupActionNamespaceLister_Get = namespace_lister_Get as_action ''requestedbackupaction''"

section \<open>The lister of ClusterBackupProcedureTemplate\<close>

definition NewClusterBackupProcedureTemplateLister :: "'x \<Rightarrow> 'x template_lister" where
  "NewClusterBackupProcedureTemplateLister indexer = \<lparr>ls_indexer = indexer\<rparr>"

definition ClusterBackupProcedureTemplateLister_List ::
  "('x, 'l, 's) indexer_lib \<Rightarrow> 'x template_lister \<Rightarrow> 'l \<Rightarrow> ('s, cluster_template list \<times> goerr option) go" where
  "ClusterBackupProcedureTemplateLister_List = lister_List as_template"

definition ClusterBackupProcedureTemplateLister_ClusterBackupProcedureTemplates :: "'x template_lister \<Rightarrow> string \<Rightarrow> 'x template_namespace_lister" where
  "ClusterBackupProcedureTemplateLister_ClusterBackupProcedureTemplates s namespace = \<lparr>nl_indexer = ls_indexer s, nl_namespace = namespace\<rparr>"

definition ClusterBackupProcedureTemplateNamespaceLister_List ::
  "('x, 'l, 's) indexer_lib \<Rightarrow> 'x template_namespace_lister \<Rightarrow> 'l \<Rightarrow> ('s, cluster_template list \<times> goerr option) go" where
  "ClusterBackupProcedureTemplateNamespaceLister_List = namespace_lister_List as_template"

definition ClusterBackupProcedureTemplateNamespaceLister_Get ::
  "('x, 'l, 's) indexer_lib \<Rightarrow> 'x template_namespace_lister \<Rightarrow> string \<Rightarrow> ('s, goerr + cluster_template) go" where
  "ClusterBackupProcedureTemplateNamespaceLister_Get = namespace_lister_Get as_template ''clusterbackupproceduretemplate''"

section \<open>What a lister finds\<close>

text \<open>
  The store behind an informer holds each object under the key of \<^verbatim>\<open>MetaNamespaceKeyFunc\<close>: its
  name, after the namespace and a slash when it has a namespace. Listing selects by label and
  by namespace, where the empty namespace is all of them.
\<close>

definition meta_key :: "api_object \<Rightarrow> string" where
  "meta_key m = (if om_Namespace (obj_meta m) = [] then om_Name (obj_meta m)
     else om_Namespace (obj_meta m) @ ''/'' @ om_Name (obj_meta m))"

definition holds ::
  "('x, 'l, 's) indexer_lib \<Rightarrow> ('l \<Rightarrow> string gomap \<Rightarrow> bool) \<Rightarrow> 'x \<Rightarrow> 's \<Rightarrow> api_object list \<Rightarrow> bool" where
  "holds lib matches x s ms \<longleftrightarrow>
     (\<forall>sel. ix_ListAll lib x sel s = (filter (\<lambda>m. matches sel (om_Labels (obj_meta m))) ms, None)) \<and>
     (\<forall>ns sel. ix_ListAllByNamespace lib x ns sel s =
        (filter (\<lambda>m. (ns = [] \<or> om_Namespace (obj_meta m) = ns) \<and> matches sel (om_Labels (obj_meta m))) ms, None)) \<and>
     (\<forall>k. ix_GetByKey lib x k s = (find (\<lambda>m. meta_key m = k) ms, None))"

text \<open>Names of objects and namespaces have no slash, and no two objects have the same key.\<close>

definition well_named :: "api_object list \<Rightarrow> bool" where
  "well_named ms \<longleftrightarrow> distinct (map meta_key ms) \<and>
     (\<forall>m \<in> set ms. CHR ''/'' \<notin> set (om_Name (obj_meta m)) \<and> CHR ''/'' \<notin> set (om_Namespace (obj_meta m)))"

text \<open>Splitting a string at its first slash is unique.\<close>

lemma slash_split:
  assumes "a @ CHR ''/'' # b = c @ CHR ''/'' # d" and "CHR ''/'' \<notin> set a" and "CHR ''/'' \<notin> set c"
  shows "a = c \<and> b = d"
  using assms
proof (induction a arbitrary: c)
  case Nil
  then show ?case by (cases c) auto
next
  case (Cons x a)
  then show ?case by (cases c) auto
qed

lemma meta_key_eq:
  assumes "well_named ms" and "m \<in> set ms" and "CHR ''/'' \<notin> set ns"
  shows "meta_key m = ns @ ''/'' @ name \<longleftrightarrow>
     om_Namespace (obj_meta m) = ns \<and> om_Name (obj_meta m) = name \<and> ns \<noteq> []"
proof -
  from assms(1,2) have "CHR ''/'' \<notin> set (om_Name (obj_meta m))" "CHR ''/'' \<notin> set (om_Namespace (obj_meta m))"
    by (auto simp: well_named_def)
  then show ?thesis using assms(3) slash_split[of "om_Namespace (obj_meta m)" "om_Name (obj_meta m)" ns name]
    by (auto simp: meta_key_def)
qed

text \<open>The three listers, through one contract: asserting the type of an object that has it.\<close>

locale typed_kind =
  fixes as :: "api_object \<Rightarrow> ('s, 'b) go" and inj :: "'b \<Rightarrow> api_object"
  assumes as_inj: "as (inj b) = ret b"
    and as_other: "(\<And>b. m \<noteq> inj b) \<Longrightarrow> as m = crash Bad_type_assertion"
begin

lemma append_each_inj: "append_each as (map inj bs) acc = ret (acc @ bs)"
  by (induction bs arbitrary: acc) (simp_all add: as_inj)

lemma append_each_other:
  assumes "m \<in> set ms" and "\<And>b. m \<noteq> inj b"
  shows "append_each as ms acc = crash Bad_type_assertion"
  using assms(1)
proof (induction ms arbitrary: acc)
  case (Cons m' ms)
  show ?case
  proof (cases "\<exists>b. m' = inj b")
    case True
    then show ?thesis using Cons assms(2) by (auto simp: as_inj)
  next
    case False
    then show ?thesis by (simp add: as_other)
  qed
qed simp

lemma List_holds:
  assumes "holds lib matches (ls_indexer l) s (map inj bs)"
  shows "lister_List as lib l sel s =
    (Return (filter (\<lambda>b. matches sel (om_Labels (obj_meta (inj b)))) bs, None), s)"
  using assms by (simp add: lister_List_def holds_def go_simps filter_map o_def append_each_inj bnd_def)

lemma namespace_List_holds:
  assumes "holds lib matches (nl_indexer l) s (map inj bs)"
  shows "namespace_lister_List as lib l sel s =
    (Return (filter (\<lambda>b. (nl_namespace l = [] \<or> om_Namespace (obj_meta (inj b)) = nl_namespace l) \<and>
       matches sel (om_Labels (obj_meta (inj b)))) bs, None), s)"
  using assms by (simp add: namespace_lister_List_def holds_def go_simps filter_map o_def append_each_inj bnd_def)

lemma Get_found:
  assumes h: "holds lib matches (nl_indexer l) s (map inj bs)" and wn: "well_named (map inj bs)"
    and b: "b \<in> set bs" and ns: "om_Namespace (obj_meta (inj b)) = nl_namespace l" "nl_namespace l \<noteq> []"
    and name: "om_Name (obj_meta (inj b)) = name"
  shows "namespace_lister_Get as singular lib l name s = (Return (Inr b), s)"
proof -
  have ni: "CHR ''/'' \<notin> set (nl_namespace l)" using wn b ns by (auto simp: well_named_def)
  have key: "meta_key (inj b) = nl_namespace l @ ''/'' @ name"
    using meta_key_eq[OF wn, of "inj b" "nl_namespace l" name] b ns name ni by simp
  have "find (\<lambda>m. meta_key m = nl_namespace l @ ''/'' @ name) (map inj bs) = Some (inj b)"
    using b wn key unfolding well_named_def
  proof (induction bs)
    case (Cons c cs)
    show ?case
    proof (cases "meta_key (inj c) = nl_namespace l @ ''/'' @ name")
      case True
      with Cons.prems have "c = b \<or> False" by (auto simp: image_iff)
      then show ?thesis using True by simp
    next
      case False
      with Cons show ?thesis by auto
    qed
  qed simp
  then show ?thesis using h by (simp add: namespace_lister_Get_def holds_def go_simps bnd_def as_inj)
qed

lemma Get_not_found:
  assumes h: "holds lib matches (nl_indexer l) s (map inj bs)" and wn: "well_named (map inj bs)"
    and ni: "CHR ''/'' \<notin> set (nl_namespace l)"
    and none: "nl_namespace l = [] \<or> (\<forall>b \<in> set bs. om_Namespace (obj_meta (inj b)) \<noteq> nl_namespace l \<or> om_Name (obj_meta (inj b)) \<noteq> name)"
  shows "namespace_lister_Get as singular lib l name s =
    (Return (Inl (ix_NotFound lib \<lparr>gr_Group = ''riotkit.org'', gr_Resource = singular\<rparr> name)), s)"
proof -
  have "find (\<lambda>m. meta_key m = nl_namespace l @ ''/'' @ name) (map inj bs) = None"
    using none meta_key_eq[OF wn _ ni, of _ name] by (simp add: find_None_iff) blast
  then show ?thesis using h
    by (simp add: namespace_lister_Get_def holds_def go_simps bnd_def Resource_def GroupResource_def
        WithResource_def SchemeGroupVersion_def)
qed

end

interpretation backup_kind: typed_kind as_backup Obj_backup
  by unfold_locales (simp, metis as_backup.elims)

interpretation action_kind: typed_kind as_action Obj_action
  by unfold_locales (simp, metis as_action.elims)

interpretation template_kind: typed_kind as_template Obj_template
  by unfold_locales (simp, metis as_template.elims)

end
