(* ===== verification/Clientset.thy ===== *)
theory Clientset
  imports Complex_Main Listers Typed_Clients
begin

text \<open>
  \<^verbatim>\<open>clientset.go\<close> and \<^verbatim>\<open>riotkit_client.go\<close>: from a configuration to a client. The REST and
  discovery clients of \<^verbatim>\<open>k8s.io/client-go\<close> are parameters: a REST client is one handle for
  each of the three types (theory \<open>Typed_Clients\<close>). A Go pointer \<^verbatim>\<open>c\<close> is copied by \<^verbatim>\<open>*c\<close>, so
  a configuration is a value. \<^verbatim>\<open>QPS\<close> is a \<^verbatim>\<open>float32\<close>, a rational number here.
\<close>

record ('r, 'z) rest_config =
  cfg_Host :: string
  cfg_QPS :: rat
  cfg_Burst :: int
  cfg_RateLimiter :: "'r option"
  cfg_GroupVersion :: "group_version option"
  cfg_APIPath :: string
  cfg_NegotiatedSerializer :: "'z option"
  cfg_UserAgent :: string

record ('r, 'z, 'c, 'd) client_lib =
  cl_NewTokenBucketRateLimiter :: "rat \<Rightarrow> int \<Rightarrow> 'r"
  cl_WithoutConversion :: 'z
  cl_DefaultUserAgent :: string
  cl_RESTClientFor :: "('r, 'z) rest_config \<Rightarrow> goerr + 'c"
  cl_DiscoveryForConfig :: "('r, 'z) rest_config \<Rightarrow> goerr + 'd"
  cl_DiscoveryForConfigOrDie :: "('r, 'z) rest_config \<Rightarrow> 'd outcome"
  cl_NewDiscoveryClient :: "'c \<Rightarrow> 'd"

section \<open>RiotkitV1alpha1Client\<close>

record 'c riotkit_client =
  rv_restClient :: 'c

definition setConfigDefaults ::
  "('r, 'z, 'c, 'd) client_lib \<Rightarrow> ('r, 'z) rest_config \<Rightarrow> goerr option \<times> ('r, 'z) rest_config" where
  "setConfigDefaults lib config =
     (let config = config\<lparr>cfg_GroupVersion := Some SchemeGroupVersion, cfg_APIPath := ''/apis'',
        cfg_NegotiatedSerializer := Some (cl_WithoutConversion lib)\<rparr>;
      config = (if cfg_UserAgent config = [] then config\<lparr>cfg_UserAgent := cl_DefaultUserAgent lib\<rparr> else config)
      in (None, config))"

definition riotkit_NewForConfig ::
  "('r, 'z, 'c, 'd) client_lib \<Rightarrow> ('r, 'z) rest_config \<Rightarrow> goerr + 'c riotkit_client" where
  "riotkit_NewForConfig lib c =
     (case setConfigDefaults lib c of
        (Some err, _) \<Rightarrow> Inl err
      | (None, config) \<Rightarrow>
          (case cl_RESTClientFor lib config of
             Inl err \<Rightarrow> Inl err
           | Inr client \<Rightarrow> Inr \<lparr>rv_restClient = client\<rparr>))"

definition riotkit_NewForConfigOrDie ::
  "('r, 'z, 'c, 'd) client_lib \<Rightarrow> ('r, 'z) rest_config \<Rightarrow> 'c riotkit_client outcome" where
  "riotkit_NewForConfigOrDie lib c =
     (case riotkit_NewForConfig lib c of
        Inl err \<Rightarrow> Panic (Panic_value (err_text err))
      | Inr client \<Rightarrow> Return client)"

definition riotkit_New :: "'c \<Rightarrow> 'c riotkit_client" where
  "riotkit_New c = \<lparr>rv_restClient = c\<rparr>"

definition RESTClient :: "'c riotkit_client option \<Rightarrow> 'c option" where
  "RESTClient c = (case c of None \<Rightarrow> None | Some c \<Rightarrow> Some (rv_restClient c))"

text \<open>A typed client: \<^verbatim>\<open>client: c.RESTClient(), ns: namespace\<close>.\<close>

record 'c typed_client =
  tc_client :: "'c option"
  tc_ns :: string

type_synonym 'c backups_client = "'c typed_client"
type_synonym 'c actions_client = "'c typed_client"
type_synonym 'c templates_client = "'c typed_client"

definition newScheduledBackups :: "'c riotkit_client \<Rightarrow> string \<Rightarrow> 'c backups_client" where
  "newScheduledBackups c namespace = \<lparr>tc_client = RESTClient (Some c), tc_ns = namespace\<rparr>"

definition newRequestedBackupActions :: "'c riotkit_client \<Rightarrow> string \<Rightarrow> 'c actions_client" where
  "newRequestedBackupActions c namespace = \<lparr>tc_client = RESTClient (Some c), tc_ns = namespace\<rparr>"

definition newClusterBackupProcedureTemplates :: "'c riotkit_client \<Rightarrow> string \<Rightarrow> 'c templates_client" where
  "newClusterBackupProcedureTemplates c namespace = \<lparr>tc_client = RESTClient (Some c), tc_ns = namespace\<rparr>"

definition client_ScheduledBackups :: "'c riotkit_client \<Rightarrow> string \<Rightarrow> 'c backups_client" where
  "client_ScheduledBackups c namespace = newScheduledBackups c namespace"

definition client_RequestedBackupActions :: "'c riotkit_client \<Rightarrow> string \<Rightarrow> 'c actions_client" where
  "client_RequestedBackupActions c namespace = newRequestedBackupActions c namespace"

definition client_ClusterBackupProcedureTemplates :: "'c riotkit_client \<Rightarrow> string \<Rightarrow> 'c templates_client" where
  "client_ClusterBackupProcedureTemplates c namespace = newClusterBackupProcedureTemplates c namespace"

section \<open>Clientset\<close>

record ('c, 'd) clientset =
  cs_DiscoveryClient :: 'd
  cs_riotkitV1alpha1 :: "'c riotkit_client"

definition cs_RiotkitV1alpha1 :: "('c, 'd) clientset \<Rightarrow> 'c riotkit_client" where
  "cs_RiotkitV1alpha1 c = cs_riotkitV1alpha1 c"

definition cs_Discovery :: "('c, 'd) clientset option \<Rightarrow> 'd option" where
  "cs_Discovery c = (case c of None \<Rightarrow> None | Some c \<Rightarrow> Some (cs_DiscoveryClient c))"

definition burst_error :: goerr where
  "burst_error = Text_error ''burst is required to be greater than 0 when RateLimiter is not set and QPS is set to greater than 0''"

definition NewForConfig ::
  "('r, 'z, 'c, 'd) client_lib \<Rightarrow> ('r, 'z) rest_config \<Rightarrow> goerr + ('c, 'd) clientset" where
  "NewForConfig lib c =
     (if cfg_RateLimiter c = None \<and> cfg_QPS c > 0 \<and> cfg_Burst c \<le> 0 then Inl burst_error
      else
        let configShallowCopy = (if cfg_RateLimiter c = None \<and> cfg_QPS c > 0
          then c\<lparr>cfg_RateLimiter := Some (cl_NewTokenBucketRateLimiter lib (cfg_QPS c) (cfg_Burst c))\<rparr> else c)
        in case riotkit_NewForConfig lib configShallowCopy of
             Inl err \<Rightarrow> Inl err
           | Inr client \<Rightarrow>
               (case cl_DiscoveryForConfig lib configShallowCopy of
                  Inl err \<Rightarrow> Inl err
                | Inr disc \<Rightarrow> Inr \<lparr>cs_DiscoveryClient = disc, cs_riotkitV1alpha1 = client\<rparr>))"

definition NewForConfigOrDie ::
  "('r, 'z, 'c, 'd) client_lib \<Rightarrow> ('r, 'z) rest_config \<Rightarrow> ('c, 'd) clientset outcome" where
  "NewForConfigOrDie lib c =
     (case riotkit_NewForConfigOrDie lib c of
        Panic p \<Rightarrow> Panic p
      | Return client \<Rightarrow>
          (case cl_DiscoveryForConfigOrDie lib c of
             Panic p \<Rightarrow> Panic p
           | Return disc \<Rightarrow> Return \<lparr>cs_DiscoveryClient = disc, cs_riotkitV1alpha1 = client\<rparr>))"

definition clientset_New :: "('r, 'z, 'c, 'd) client_lib \<Rightarrow> 'c \<Rightarrow> ('c, 'd) clientset" where
  "clientset_New lib c = \<lparr>cs_DiscoveryClient = cl_NewDiscoveryClient lib c, cs_riotkitV1alpha1 = riotkit_New c\<rparr>"

section \<open>The interface informers use\<close>

text \<open>
  \<^verbatim>\<open>versioned.Interface\<close>, as far as informers call it: listing and watching each type in a
  namespace; and the typed clients as an implementation of it.
\<close>

record 'w versioned =
  vi_ListBackups :: "string \<Rightarrow> list_options \<Rightarrow> 'w \<Rightarrow> (goerr + scheduled_backup list) \<times> 'w"
  vi_WatchBackups :: "string \<Rightarrow> list_options \<Rightarrow> 'w \<Rightarrow> (goerr + nat) \<times> 'w"
  vi_ListActions :: "string \<Rightarrow> list_options \<Rightarrow> 'w \<Rightarrow> (goerr + requested_action list) \<times> 'w"
  vi_WatchActions :: "string \<Rightarrow> list_options \<Rightarrow> 'w \<Rightarrow> (goerr + nat) \<times> 'w"
  vi_ListTemplates :: "string \<Rightarrow> list_options \<Rightarrow> 'w \<Rightarrow> (goerr + cluster_template list) \<times> 'w"
  vi_WatchTemplates :: "string \<Rightarrow> list_options \<Rightarrow> 'w \<Rightarrow> (goerr + nat) \<times> 'w"

record 'w rest_handles =
  rh_backups :: "'w sb_client"
  rh_actions :: "'w rba_client"
  rh_templates :: "'w cbpt_client"

definition versioned_of :: "'w rest_handles \<Rightarrow> 'w versioned" where
  "versioned_of c = \<lparr>vi_ListBackups = sb_List (rh_backups c), vi_WatchBackups = sb_Watch (rh_backups c),
     vi_ListActions = rba_List (rh_actions c), vi_WatchActions = rba_Watch (rh_actions c),
     vi_ListTemplates = cbpt_List (rh_templates c), vi_WatchTemplates = cbpt_Watch (rh_templates c)\<rparr>"

section \<open>Facts\<close>

lemma riotkit_NewForConfig_Inr:
  "riotkit_NewForConfig lib c = Inr k \<Longrightarrow>
     cl_RESTClientFor lib (snd (setConfigDefaults lib c)) = Inr (rv_restClient k)"
  by (auto simp: riotkit_NewForConfig_def setConfigDefaults_def Let_def split: sum.splits)

lemma setConfigDefaults_spec:
  assumes "cl_DefaultUserAgent lib \<noteq> []"
  shows "cfg_GroupVersion (snd (setConfigDefaults lib c)) = Some SchemeGroupVersion \<and>
     cfg_APIPath (snd (setConfigDefaults lib c)) = ''/apis'' \<and>
     cfg_UserAgent (snd (setConfigDefaults lib c)) \<noteq> [] \<and>
     cfg_RateLimiter (snd (setConfigDefaults lib c)) = cfg_RateLimiter c \<and>
     cfg_QPS (snd (setConfigDefaults lib c)) = cfg_QPS c"
  using assms by (simp add: setConfigDefaults_def Let_def)

end
