(* ===== verification/Informers.thy ===== *)
theory Informers
  imports Clientset "HOL-Library.Multiset"
begin

text \<open>
  The shared informer factory of \<^verbatim>\<open>pkg/client/informers\<close>. The informers of
  \<^verbatim>\<open>k8s.io/client-go/tools/cache\<close> are a parameter (opaque values of type \<open>'i\<close>). Every method
  holds \<^verbatim>\<open>f.lock\<close> while it reads or writes the maps, so each is one step of the factory; the
  order in which a \<^verbatim>\<open>range\<close> visits a map is an argument.
\<close>

section \<open>The library\<close>

datatype api_list =
    Backup_list "scheduled_backup list"
  | Action_list "requested_action list"
  | Template_list "cluster_template list"

record 'w list_watch =
  lw_List :: "list_options \<Rightarrow> 'w \<Rightarrow> (goerr + api_list) \<times> 'w"
  lw_Watch :: "list_options \<Rightarrow> 'w \<Rightarrow> (goerr + nat) \<times> 'w"

type_synonym indexers = "string gomap"
type_synonym tweak = "(list_options \<Rightarrow> list_options) option"

record ('w, 'i, 'x, 'g) informer_lib =
  il_NewSharedIndexInformer :: "'w list_watch \<Rightarrow> go_type \<Rightarrow> int \<Rightarrow> indexers \<Rightarrow> 'w \<Rightarrow> 'i \<times> 'w"
  il_GetIndexer :: "'i \<Rightarrow> 'x"
  il_WaitForCacheSync :: "'i \<Rightarrow> 'w \<Rightarrow> bool \<times> 'w"
  il_NewGenericLister :: "'x \<Rightarrow> group_resource \<Rightarrow> 'g"
  il_gvr_text :: "gvr \<Rightarrow> string"

section \<open>The factory\<close>

record ('w, 'i) informer_factory =
  sf_client :: "'w versioned"
  sf_namespace :: string
  sf_tweakListOptions :: tweak
  sf_defaultResync :: int
  sf_customResync :: "int gomap"
  sf_informers :: "'i gomap"
  sf_startedInformers :: "bool gomap"

text \<open>The factory, the informers a goroutine runs (\<^verbatim>\<open>go informer.Run(stopCh)\<close>), and the rest.\<close>

record ('w, 'i) informer_state =
  is_factory :: "('w, 'i) informer_factory"
  is_runs :: "'i list"
  is_world :: 'w

type_synonym ('w, 'i) factory_option = "('w, 'i) informer_factory \<Rightarrow> ('w, 'i) informer_factory"
type_synonym ('w, 'i) new_informer = "'w versioned \<Rightarrow> int \<Rightarrow> 'w \<Rightarrow> 'i \<times> 'w"

text \<open>The configuration is a map of objects; of each the type matters, in the order visited.\<close>

definition WithCustomResyncConfig :: "(go_type \<times> int) list \<Rightarrow> ('w, 'i) factory_option" where
  "WithCustomResyncConfig resyncConfig factory =
     foldl (\<lambda>f (k, v). f\<lparr>sf_customResync := gset k v (sf_customResync f)\<rparr>) factory resyncConfig"

definition WithTweakListOptions :: "tweak \<Rightarrow> ('w, 'i) factory_option" where
  "WithTweakListOptions t factory = factory\<lparr>sf_tweakListOptions := t\<rparr>"

definition WithNamespace :: "string \<Rightarrow> ('w, 'i) factory_option" where
  "WithNamespace namespace factory = factory\<lparr>sf_namespace := namespace\<rparr>"

definition NewSharedInformerFactoryWithOptions ::
  "'w versioned \<Rightarrow> int \<Rightarrow> ('w, 'i) factory_option list \<Rightarrow> ('w, 'i) informer_factory" where
  "NewSharedInformerFactoryWithOptions client defaultResync options =
     foldl (\<lambda>factory opt. opt factory)
       \<lparr>sf_client = client, sf_namespace = [], sf_tweakListOptions = None, sf_defaultResync = defaultResync,
        sf_customResync = [], sf_informers = [], sf_startedInformers = []\<rparr> options"

definition NewSharedInformerFactory :: "'w versioned \<Rightarrow> int \<Rightarrow> ('w, 'i) informer_factory" where
  "NewSharedInformerFactory client defaultResync = NewSharedInformerFactoryWithOptions client defaultResync []"

definition NewFilteredSharedInformerFactory ::
  "'w versioned \<Rightarrow> int \<Rightarrow> string \<Rightarrow> tweak \<Rightarrow> ('w, 'i) informer_factory" where
  "NewFilteredSharedInformerFactory client defaultResync namespace t =
     NewSharedInformerFactoryWithOptions client defaultResync [WithNamespace namespace, WithTweakListOptions t]"

text \<open>\<^verbatim>\<open>Start\<close>: one round of its loop, and the loop over the map in the order \<open>kvs\<close>.\<close>

definition start_one :: "go_type \<Rightarrow> 'i \<Rightarrow> ('w, 'i) informer_state \<Rightarrow> ('w, 'i) informer_state" where
  "start_one informerType informer s =
     (let f = is_factory s
      in if gget False (sf_startedInformers f) informerType then s
         else s\<lparr>is_runs := is_runs s @ [informer],
                is_factory := f\<lparr>sf_startedInformers := gset informerType True (sf_startedInformers f)\<rparr>\<rparr>)"

fun Start :: "(go_type \<times> 'i) list \<Rightarrow> ('w, 'i) informer_state \<Rightarrow> ('w, 'i) informer_state" where
  "Start [] s = s"
| "Start ((informerType, informer) # kvs) s = Start kvs (start_one informerType informer s)"

text \<open>\<^verbatim>\<open>WaitForCacheSync\<close>: the started informers, read under the lock, then the wait for each.\<close>

fun started_informers :: "bool gomap \<Rightarrow> (go_type \<times> 'i) list \<Rightarrow> 'i gomap \<Rightarrow> 'i gomap" where
  "started_informers started [] informers = informers"
| "started_informers started ((informerType, informer) # kvs) informers =
     started_informers started kvs
       (if gget False started informerType then gset informerType informer informers else informers)"

fun wait_each ::
  "('w, 'i, 'x, 'g) informer_lib \<Rightarrow> (go_type \<times> 'i) list \<Rightarrow> bool gomap \<Rightarrow> 'w \<Rightarrow> bool gomap \<times> 'w" where
  "wait_each lib [] res w = (res, w)"
| "wait_each lib ((informType, informer) # kvs) res w =
     (case il_WaitForCacheSync lib informer w of (synced, w) \<Rightarrow>
        wait_each lib kvs (gset informType synced res) w)"

definition WaitForCacheSync ::
  "('w, 'i, 'x, 'g) informer_lib \<Rightarrow> (go_type \<times> 'i) list \<Rightarrow> ('w, 'i) informer_state \<Rightarrow>
     bool gomap \<times> ('w, 'i) informer_state" where
  "WaitForCacheSync lib kvs s =
     (let informers = started_informers (sf_startedInformers (is_factory s)) kvs []
      in case wait_each lib informers [] (is_world s) of (res, w) \<Rightarrow> (res, s\<lparr>is_world := w\<rparr>))"

definition resync_period :: "('w, 'i) informer_factory \<Rightarrow> go_type \<Rightarrow> int" where
  "resync_period f informerType =
     (case map_of (sf_customResync f) informerType of Some d \<Rightarrow> d | None \<Rightarrow> sf_defaultResync f)"

definition InformerFor ::
  "go_type \<Rightarrow> ('w, 'i) new_informer \<Rightarrow> ('w, 'i) informer_state \<Rightarrow> 'i \<times> ('w, 'i) informer_state" where
  "InformerFor informerType newFunc s =
     (let f = is_factory s
      in case map_of (sf_informers f) informerType of
           Some informer \<Rightarrow> (informer, s)
         | None \<Rightarrow>
             (case newFunc (sf_client f) (resync_period f informerType) (is_world s) of (informer, w) \<Rightarrow>
                (informer, s\<lparr>is_factory := f\<lparr>sf_informers := gset informerType informer (sf_informers f)\<rparr>,
                             is_world := w\<rparr>)))"

section \<open>The groups\<close>

text \<open>\<^verbatim>\<open>group\<close>, \<^verbatim>\<open>version\<close> and the informers of the types: the namespace and the tweak they hand on.\<close>

record access =
  ac_namespace :: string
  ac_tweakListOptions :: tweak

type_synonym backup_informer = access
type_synonym action_informer = access
type_synonym template_informer = access

definition riotkit_group_New :: "string \<Rightarrow> tweak \<Rightarrow> access" where
  "riotkit_group_New namespace t = \<lparr>ac_namespace = namespace, ac_tweakListOptions = t\<rparr>"

definition version_New :: "string \<Rightarrow> tweak \<Rightarrow> access" where
  "version_New namespace t = \<lparr>ac_namespace = namespace, ac_tweakListOptions = t\<rparr>"

definition group_V1alpha1 :: "access \<Rightarrow> access" where
  "group_V1alpha1 g = version_New (ac_namespace g) (ac_tweakListOptions g)"

definition factory_Riotkit :: "('w, 'i) informer_factory \<Rightarrow> access" where
  "factory_Riotkit f = riotkit_group_New (sf_namespace f) (sf_tweakListOptions f)"

definition tweaked :: "tweak \<Rightarrow> list_options \<Rightarrow> list_options" where
  "tweaked t options = (case t of None \<Rightarrow> options | Some g \<Rightarrow> g options)"

definition namespace_indexers :: indexers where
  "namespace_indexers = [(''namespace'', ''MetaNamespaceIndexFunc'')]"

definition map_result :: "('a \<Rightarrow> 'b) \<Rightarrow> (goerr + 'a) \<times> 'w \<Rightarrow> (goerr + 'b) \<times> 'w" where
  "map_result g r = (case r of (Inl e, w) \<Rightarrow> (Inl e, w) | (Inr a, w) \<Rightarrow> (Inr (g a), w))"

section \<open>The informer of ClusterBackupProcedureTemplate\<close>

definition NewFilteredClusterBackupProcedureTemplateInformer ::
  "('w, 'i, 'x, 'g) informer_lib \<Rightarrow> 'w versioned \<Rightarrow> string \<Rightarrow> int \<Rightarrow> indexers \<Rightarrow> tweak \<Rightarrow> 'w \<Rightarrow> 'i \<times> 'w" where
  "NewFilteredClusterBackupProcedureTemplateInformer lib client namespace resyncPeriod indexers t =
     il_NewSharedIndexInformer lib
       \<lparr>lw_List = (\<lambda>options w. map_result Template_list (vi_ListTemplates client namespace (tweaked t options) w)),
        lw_Watch = (\<lambda>options w. vi_WatchTemplates client namespace (tweaked t options) w)\<rparr>
       type_ClusterBackupProcedureTemplate resyncPeriod indexers"

definition NewClusterBackupProcedureTemplateInformer ::
  "('w, 'i, 'x, 'g) informer_lib \<Rightarrow> 'w versioned \<Rightarrow> string \<Rightarrow> int \<Rightarrow> indexers \<Rightarrow> 'w \<Rightarrow> 'i \<times> 'w" where
  "NewClusterBackupProcedureTemplateInformer lib client namespace resyncPeriod indexers =
     NewFilteredClusterBackupProcedureTemplateInformer lib client namespace resyncPeriod indexers None"

definition ClusterBackupProcedureTemplate_defaultInformer ::
  "('w, 'i, 'x, 'g) informer_lib \<Rightarrow> template_informer \<Rightarrow> ('w, 'i) new_informer" where
  "ClusterBackupProcedureTemplate_defaultInformer lib f client resyncPeriod =
     NewFilteredClusterBackupProcedureTemplateInformer lib client (ac_namespace f) resyncPeriod namespace_indexers (ac_tweakListOptions f)"

definition ClusterBackupProcedureTemplate_Informer ::
  "('w, 'i, 'x, 'g) informer_lib \<Rightarrow> template_informer \<Rightarrow> ('w, 'i) informer_state \<Rightarrow> 'i \<times> ('w, 'i) informer_state" where
  "ClusterBackupProcedureTemplate_Informer lib f = InformerFor type_ClusterBackupProcedureTemplate (ClusterBackupProcedureTemplate_defaultInformer lib f)"

definition ClusterBackupProcedureTemplate_Lister ::
  "('w, 'i, 'x, 'g) informer_lib \<Rightarrow> template_informer \<Rightarrow> ('w, 'i) informer_state \<Rightarrow> 'x lister \<times> ('w, 'i) informer_state" where
  "ClusterBackupProcedureTemplate_Lister lib f s =
     (case ClusterBackupProcedureTemplate_Informer lib f s of (informer, s') \<Rightarrow> (NewClusterBackupProcedureTemplateLister (il_GetIndexer lib informer), s'))"

definition v1alpha1_ClusterBackupProcedureTemplates :: "access \<Rightarrow> template_informer" where
  "v1alpha1_ClusterBackupProcedureTemplates v = \<lparr>ac_namespace = ac_namespace v, ac_tweakListOptions = ac_tweakListOptions v\<rparr>"

section \<open>The informer of RequestedBackupAction\<close>

definition NewFilteredRequestedBackupActionInformer ::
  "('w, 'i, 'x, 'g) informer_lib \<Rightarrow> 'w versioned \<Rightarrow> string \<Rightarrow> int \<Rightarrow> indexers \<Rightarrow> tweak \<Rightarrow> 'w \<Rightarrow> 'i \<times> 'w" where
  "NewFilteredRequestedBackupActionInformer lib client namespace resyncPeriod indexers t =
     il_NewSharedIndexInformer lib
       \<lparr>lw_List = (\<lambda>options w. map_result Action_list (vi_ListActions client namespace (tweaked t options) w)),
        lw_Watch = (\<lambda>options w. vi_WatchActions client namespace (tweaked t options) w)\<rparr>
       type_RequestedBackupAction resyncPeriod indexers"

definition NewRequestedBackupActionInformer ::
  "('w, 'i, 'x, 'g) informer_lib \<Rightarrow> 'w versioned \<Rightarrow> string \<Rightarrow> int \<Rightarrow> indexers \<Rightarrow> 'w \<Rightarrow> 'i \<times> 'w" where
  "NewRequestedBackupActionInformer lib client namespace resyncPeriod indexers =
     NewFilteredRequestedBackupActionInformer lib client namespace resyncPeriod indexers None"

definition RequestedBackupAction_defaultInformer ::
  "('w, 'i, 'x, 'g) informer_lib \<Rightarrow> action_informer \<Rightarrow> ('w, 'i) new_informer" where
  "RequestedBackupAction_defaultInformer lib f client resyncPeriod =
     NewFilteredRequestedBackupActionInformer lib client (ac_namespace f) resyncPeriod namespace_indexers (ac_tweakListOptions f)"

definition RequestedBackupAction_Informer ::
  "('w, 'i, 'x, 'g) informer_lib \<Rightarrow> action_informer \<Rightarrow> ('w, 'i) informer_state \<Rightarrow> 'i \<times> ('w, 'i) informer_state" where
  "RequestedBackupAction_Informer lib f = InformerFor type_RequestedBackupAction (RequestedBackupAction_defaultInformer lib f)"

definition RequestedBackupAction_Lister ::
  "('w, 'i, 'x, 'g) informer_lib \<Rightarrow> action_informer \<Rightarrow> ('w, 'i) informer_state \<Rightarrow> 'x lister \<times> ('w, 'i) informer_state" where
  "RequestedBackupAction_Lister lib f s =
     (case RequestedBackupAction_Informer lib f s of (informer, s') \<Rightarrow> (NewRequestedBackupActionLister (il_GetIndexer lib informer), s'))"

definition v1alpha1_RequestedBackupActions :: "access \<Rightarrow> action_informer" where
  "v1alpha1_RequestedBackupActions v = \<lparr>ac_namespace = ac_namespace v, ac_tweakListOptions = ac_tweakListOptions v\<rparr>"

section \<open>The informer of ScheduledBackup\<close>

definition NewFilteredScheduledBackupInformer ::
  "('w, 'i, 'x, 'g) informer_lib \<Rightarrow> 'w versioned \<Rightarrow> string \<Rightarrow> int \<Rightarrow> indexers \<Rightarrow> tweak \<Rightarrow> 'w \<Rightarrow> 'i \<times> 'w" where
  "NewFilteredScheduledBackupInformer lib client namespace resyncPeriod indexers t =
     il_NewSharedIndexInformer lib
       \<lparr>lw_List = (\<lambda>options w. map_result Backup_list (vi_ListBackups client namespace (tweaked t options) w)),
        lw_Watch = (\<lambda>options w. vi_WatchBackups client namespace (tweaked t options) w)\<rparr>
       type_ScheduledBackup resyncPeriod indexers"

definition NewScheduledBackupInformer ::
  "('w, 'i, 'x, 'g) informer_lib \<Rightarrow> 'w versioned \<Rightarrow> string \<Rightarrow> int \<Rightarrow> indexers \<Rightarrow> 'w \<Rightarrow> 'i \<times> 'w" where
  "NewScheduledBackupInformer lib client namespace resyncPeriod indexers =
     NewFilteredScheduledBackupInformer lib client namespace resyncPeriod indexers None"

definition ScheduledBackup_defaultInformer ::
  "('w, 'i, 'x, 'g) informer_lib \<Rightarrow> backup_informer \<Rightarrow> ('w, 'i) new_informer" where
  "ScheduledBackup_defaultInformer lib f client resyncPeriod =
     NewFilteredScheduledBackupInformer lib client (ac_namespace f) resyncPeriod namespace_indexers (ac_tweakListOptions f)"

definition ScheduledBackup_Informer ::
  "('w, 'i, 'x, 'g) informer_lib \<Rightarrow> backup_informer \<Rightarrow> ('w, 'i) informer_state \<Rightarrow> 'i \<times> ('w, 'i) informer_state" where
  "ScheduledBackup_Informer lib f = InformerFor type_ScheduledBackup (ScheduledBackup_defaultInformer lib f)"

definition ScheduledBackup_Lister ::
  "('w, 'i, 'x, 'g) informer_lib \<Rightarrow> backup_informer \<Rightarrow> ('w, 'i) informer_state \<Rightarrow> 'x lister \<times> ('w, 'i) informer_state" where
  "ScheduledBackup_Lister lib f s =
     (case ScheduledBackup_Informer lib f s of (informer, s') \<Rightarrow> (NewScheduledBackupLister (il_GetIndexer lib informer), s'))"

definition v1alpha1_ScheduledBackups :: "access \<Rightarrow> backup_informer" where
  "v1alpha1_ScheduledBackups v = \<lparr>ac_namespace = ac_namespace v, ac_tweakListOptions = ac_tweakListOptions v\<rparr>"

section \<open>Informers by resource\<close>

record 'i generic_informer =
  gi_informer :: 'i
  gi_resource :: group_resource

definition generic_Informer :: "'i generic_informer \<Rightarrow> 'i" where
  "generic_Informer f = gi_informer f"

definition generic_Lister :: "('w, 'i, 'x, 'g) informer_lib \<Rightarrow> 'i generic_informer \<Rightarrow> 'g" where
  "generic_Lister lib f = il_NewGenericLister lib (il_GetIndexer lib (generic_Informer f)) (gi_resource f)"

definition ForResource ::
  "('w, 'i, 'x, 'g) informer_lib \<Rightarrow> gvr \<Rightarrow> ('w, 'i) informer_state \<Rightarrow>
     (goerr + 'i generic_informer) \<times> ('w, 'i) informer_state" where
  "ForResource lib resource s =
     (let v1alpha1 = group_V1alpha1 (factory_Riotkit (is_factory s));
          generic = (\<lambda>(informer, s'). (Inr \<lparr>gi_informer = informer, gi_resource = GroupResource resource\<rparr>, s'))
      in if resource = WithResource SchemeGroupVersion ''clusterbackupproceduretemplates'' then
           generic (ClusterBackupProcedureTemplate_Informer lib (v1alpha1_ClusterBackupProcedureTemplates v1alpha1) s)
         else if resource = WithResource SchemeGroupVersion ''requestedbackupactions'' then
           generic (RequestedBackupAction_Informer lib (v1alpha1_RequestedBackupActions v1alpha1) s)
         else if resource = WithResource SchemeGroupVersion ''scheduledbackups'' then
           generic (ScheduledBackup_Informer lib (v1alpha1_ScheduledBackups v1alpha1) s)
         else (Inl (Text_error (''no informer found for '' @ il_gvr_text lib resource)), s))"

end
