(* ===== verification/Informer_Facts.thy ===== *)
theory Informer_Facts
  imports Informers
begin

text \<open>
  The informer factory as a state machine: the steps its callers can take, what every
  reachable state satisfies, and what the registered informers list and watch.
\<close>

section \<open>The three generated informers as one\<close>

datatype api_kind = Kind_template | Kind_action | Kind_backup

fun kind_type :: "api_kind \<Rightarrow> go_type" where
  "kind_type Kind_template = type_ClusterBackupProcedureTemplate"
| "kind_type Kind_action = type_RequestedBackupAction"
| "kind_type Kind_backup = type_ScheduledBackup"

fun kind_new :: "('w, 'i, 'x, 'g) informer_lib \<Rightarrow> api_kind \<Rightarrow> access \<Rightarrow> ('w, 'i) new_informer" where
  "kind_new lib Kind_template = ClusterBackupProcedureTemplate_defaultInformer lib"
| "kind_new lib Kind_action = RequestedBackupAction_defaultInformer lib"
| "kind_new lib Kind_backup = ScheduledBackup_defaultInformer lib"

fun kind_Informer ::
  "('w, 'i, 'x, 'g) informer_lib \<Rightarrow> api_kind \<Rightarrow> access \<Rightarrow> ('w, 'i) informer_state \<Rightarrow> 'i \<times> ('w, 'i) informer_state" where
  "kind_Informer lib Kind_template a = ClusterBackupProcedureTemplate_Informer lib (v1alpha1_ClusterBackupProcedureTemplates a)"
| "kind_Informer lib Kind_action a = RequestedBackupAction_Informer lib (v1alpha1_RequestedBackupActions a)"
| "kind_Informer lib Kind_backup a = ScheduledBackup_Informer lib (v1alpha1_ScheduledBackups a)"

fun kind_resource :: "api_kind \<Rightarrow> string" where
  "kind_resource Kind_template = ''clusterbackupproceduretemplates''"
| "kind_resource Kind_action = ''requestedbackupactions''"
| "kind_resource Kind_backup = ''scheduledbackups''"

definition factory_access :: "('w, 'i) informer_factory \<Rightarrow> access" where
  "factory_access f = group_V1alpha1 (factory_Riotkit f)"

lemma factory_access_sel [simp]:
  "ac_namespace (factory_access f) = sf_namespace f"
  "ac_tweakListOptions (factory_access f) = sf_tweakListOptions f"
  by (simp_all add: factory_access_def group_V1alpha1_def factory_Riotkit_def riotkit_group_New_def version_New_def)

lemma kind_Informer_eq: "kind_Informer lib k a = InformerFor (kind_type k) (kind_new lib k a)"
  by (cases k)
     (simp_all add: ClusterBackupProcedureTemplate_Informer_def RequestedBackupAction_Informer_def
       ScheduledBackup_Informer_def v1alpha1_ClusterBackupProcedureTemplates_def
       v1alpha1_RequestedBackupActions_def v1alpha1_ScheduledBackups_def
       ClusterBackupProcedureTemplate_defaultInformer_def[abs_def] RequestedBackupAction_defaultInformer_def[abs_def]
       ScheduledBackup_defaultInformer_def[abs_def])

lemma factory_access_update [simp]:
  "factory_access (f\<lparr>sf_informers := m\<rparr>) = factory_access f"
  "factory_access (f\<lparr>sf_startedInformers := b\<rparr>) = factory_access f"
  by (simp_all add: factory_access_def factory_Riotkit_def)

lemma resync_period_update [simp]:
  "resync_period (f\<lparr>sf_informers := m\<rparr>) ty = resync_period f ty"
  "resync_period (f\<lparr>sf_startedInformers := b\<rparr>) ty = resync_period f ty"
  by (simp_all add: resync_period_def split: option.split)

lemma kind_type_inject [simp]: "kind_type k = kind_type k' \<longleftrightarrow> k = k'"
  by (cases k; cases k') (simp_all add: type_names)

section \<open>Steps\<close>

text \<open>
  A caller asks for an informer of the API, or of a type of its own with a constructor of its
  own; starts the factory; waits for the caches; or anything outside the factory happens.
\<close>

inductive factory_step ::
  "('w, 'i, 'x, 'g) informer_lib \<Rightarrow> ('w, 'i) informer_state \<Rightarrow> ('w, 'i) informer_state \<Rightarrow> bool"
  for lib where
  ask: "kind_Informer lib k (factory_access (is_factory s)) s = (i, s') \<Longrightarrow> factory_step lib s s'"
| ask_other: "ty \<notin> range kind_type \<Longrightarrow> InformerFor ty newFunc s = (i, s') \<Longrightarrow> factory_step lib s s'"
| start: "mset kvs = mset (sf_informers (is_factory s)) \<Longrightarrow> factory_step lib s (Start kvs s)"
| wait: "mset kvs = mset (sf_informers (is_factory s)) \<Longrightarrow> WaitForCacheSync lib kvs s = (res, s') \<Longrightarrow>
    factory_step lib s s'"
| outside: "factory_step lib s (s\<lparr>is_world := w\<rparr>)"

inductive factory_reaches ::
  "('w, 'i, 'x, 'g) informer_lib \<Rightarrow> ('w, 'i) informer_state \<Rightarrow> ('w, 'i) informer_state \<Rightarrow> bool"
  for lib s where
  here: "factory_reaches lib s s"
| further: "factory_reaches lib s t \<Longrightarrow> factory_step lib t u \<Longrightarrow> factory_reaches lib s u"

text \<open>The states of a factory made with options that touch neither of its two maps.\<close>

definition fresh_factory :: "('w, 'i) informer_state \<Rightarrow> bool" where
  "fresh_factory s \<longleftrightarrow> sf_informers (is_factory s) = [] \<and> sf_startedInformers (is_factory s) = [] \<and> is_runs s = []"

section \<open>The invariant\<close>

definition runs_of :: "(go_type \<Rightarrow> bool) \<Rightarrow> 'i gomap \<Rightarrow> 'i multiset" where
  "runs_of P m = mset (map snd (filter (\<lambda>(ty, i). P ty) m))"

definition started :: "('w, 'i) informer_factory \<Rightarrow> go_type \<Rightarrow> bool" where
  "started f ty = gget False (sf_startedInformers f) ty"

definition factory_ok :: "('w, 'i, 'x, 'g) informer_lib \<Rightarrow> ('w, 'i) informer_state \<Rightarrow> bool" where
  "factory_ok lib s \<longleftrightarrow> (let f = is_factory s in
     gmap_ok (sf_informers f) \<and>
     (\<forall>ty. started f ty \<longrightarrow> map_of (sf_informers f) ty \<noteq> None) \<and>
     mset (is_runs s) = runs_of (started f) (sf_informers f) \<and>
     (\<forall>k i. map_of (sf_informers f) (kind_type k) = Some i \<longrightarrow>
        (\<exists>w w'. kind_new lib k (factory_access f) (sf_client f) (resync_period f (kind_type k)) w = (i, w'))))"

text \<open>The configuration of a factory.\<close>

definition factory_config :: "('w, 'i) informer_factory \<Rightarrow> 'w versioned \<times> string \<times> tweak \<times> int \<times> int gomap" where
  "factory_config f = (sf_client f, sf_namespace f, sf_tweakListOptions f, sf_defaultResync f, sf_customResync f)"

lemma runs_of_start:
  assumes "gmap_ok m" and "map_of m ty = Some i" and "\<not> P ty"
  shows "runs_of (P(ty := True)) m = add_mset i (runs_of P m)"
  using assms
proof (induction m)
  case (Cons e m)
  obtain t j where e: "e = (t, j)" by fastforce
  show ?case
  proof (cases "t = ty")
    case True
    with Cons.prems e have "filter (\<lambda>(u, i). (P(ty := True)) u) m = filter (\<lambda>(u, i). P u) m"
      by (intro filter_cong) (auto simp: gmap_ok_def image_iff)
    with True Cons.prems e show ?thesis by (simp add: runs_of_def)
  next
    case False
    with Cons e show ?thesis by (auto simp: runs_of_def gmap_ok_def)
  qed
qed simp

lemma runs_of_all: "(\<And>ty. map_of m ty \<noteq> None \<Longrightarrow> P ty) \<Longrightarrow> runs_of P m = mset (map snd m)"
  unfolding runs_of_def by (subst filter_True) (force simp: map_of_eq_None_iff)+

lemma gset_fresh: "map_of m k = None \<Longrightarrow> gset k v m = m @ [(k, v)]"
  by (induction m) (auto split: if_splits)

lemma start_one_ok:
  assumes "factory_ok lib s" and "map_of (sf_informers (is_factory s)) ty = Some i"
  shows "factory_ok lib (start_one ty i s)"
proof -
  let ?f = "is_factory s"
  have fo: "started (?f\<lparr>sf_startedInformers := gset ty True (sf_startedInformers ?f)\<rparr>) = (started ?f)(ty := True)"
    by (rule ext) (simp add: started_def)
  show ?thesis
  proof (cases "started ?f ty")
    case True
    with assms show ?thesis by (simp add: start_one_def started_def Let_def)
  next
    case False
    with assms have "runs_of ((started ?f)(ty := True)) (sf_informers ?f) = add_mset i (runs_of (started ?f) (sf_informers ?f))"
      by (intro runs_of_start) (auto simp: factory_ok_def Let_def)
    with assms False show ?thesis
      by (simp add: start_one_def factory_ok_def Let_def started_def[symmetric] fo)
  qed
qed

lemma start_one_sel [simp]:
  "sf_informers (is_factory (start_one ty i s)) = sf_informers (is_factory s)"
  "factory_config (is_factory (start_one ty i s)) = factory_config (is_factory s)"
  "is_world (start_one ty i s) = is_world s"
  "started (is_factory (start_one ty i s)) = (started (is_factory s))(ty := True)"
  by (auto simp: start_one_def Let_def factory_config_def started_def fun_eq_iff)

lemma Start_sel [simp]:
  "sf_informers (is_factory (Start kvs s)) = sf_informers (is_factory s)"
  "factory_config (is_factory (Start kvs s)) = factory_config (is_factory s)"
  "started (is_factory (Start kvs s)) ty \<longleftrightarrow> started (is_factory s) ty \<or> ty \<in> fst ` set kvs"
  by (induction kvs s rule: Start.induct) auto

lemma Start_ok:
  assumes "factory_ok lib s" and "\<forall>(ty, i) \<in> set kvs. map_of (sf_informers (is_factory s)) ty = Some i"
  shows "factory_ok lib (Start kvs s)"
  using assms by (induction kvs s rule: Start.induct) (auto simp: start_one_ok)

lemma Start_idle: "\<forall>ty \<in> fst ` set kvs. started (is_factory s) ty \<Longrightarrow> Start kvs s = s"
  by (induction kvs) (auto simp: start_one_def Let_def started_def)

lemma order_entries:
  assumes "gmap_ok m" and "mset kvs = mset m"
  shows "\<forall>(ty, i) \<in> set kvs. map_of m ty = Some i" and "fst ` set kvs = dom (map_of m)" and "gmap_ok kvs"
proof -
  have s: "set kvs = set m" using assms(2) by (rule mset_eq_setD)
  with assms(1) show "\<forall>(ty, i) \<in> set kvs. map_of m ty = Some i" by (auto simp: gmap_ok_def)
  show "fst ` set kvs = dom (map_of m)" using s by (simp add: dom_map_of_conv_image_fst)
  have "mset (map fst kvs) = mset (map fst m)" using assms(2) by (simp add: mset_map)
  then show "gmap_ok kvs" using assms(1) unfolding gmap_ok_def by (metis mset_eq_imp_distinct_iff)
qed

lemma InformerFor_cases:
  assumes "InformerFor ty nf s = (i, s')"
  obtains (found) "map_of (sf_informers (is_factory s)) ty = Some i" "s' = s"
  | (made) w where "map_of (sf_informers (is_factory s)) ty = None"
      "nf (sf_client (is_factory s)) (resync_period (is_factory s) ty) (is_world s) = (i, w)"
      "s' = s\<lparr>is_factory := (is_factory s)\<lparr>sf_informers := gset ty i (sf_informers (is_factory s))\<rparr>, is_world := w\<rparr>"
  using assms by (auto simp: InformerFor_def Let_def split: option.splits prod.splits)

lemma InformerFor_ok:
  assumes ok: "factory_ok lib s" and run: "InformerFor ty nf s = (i, s')"
    and k: "\<And>k. ty = kind_type k \<Longrightarrow> nf = kind_new lib k (factory_access (is_factory s))"
  shows "factory_ok lib s'"
  using run
proof (cases rule: InformerFor_cases)
  case found
  with ok show ?thesis by simp
next
  case (made w)
  let ?f = "is_factory s" and ?m = "gset ty i (sf_informers (is_factory s))"
  have st: "started (?f\<lparr>sf_informers := ?m\<rparr>) = started ?f" by (rule ext) (simp add: started_def)
  have ns: "\<not> started ?f ty" using ok made(1) by (auto simp: factory_ok_def Let_def)
  then have runs: "runs_of (started ?f) ?m = runs_of (started ?f) (sf_informers ?f)"
    by (simp add: runs_of_def gset_fresh[OF made(1)])
  have "\<exists>w w'. kind_new lib k (factory_access ?f) (sf_client ?f) (resync_period ?f (kind_type k)) w = (j, w')"
    if "map_of ?m (kind_type k) = Some j" for k j
  proof (cases "ty = kind_type k")
    case True
    with that made(2) k show ?thesis by auto
  next
    case False
    with that ok show ?thesis by (simp add: factory_ok_def Let_def)
  qed
  with ok runs st made(3) show ?thesis by (simp add: factory_ok_def Let_def)
qed

lemma InformerFor_config: "InformerFor ty nf s = (i, s') \<Longrightarrow> factory_config (is_factory s') = factory_config (is_factory s)"
  by (erule InformerFor_cases) (simp_all add: factory_config_def)

lemma Wait_factory: "WaitForCacheSync lib kvs s = (res, s') \<Longrightarrow> is_factory s' = is_factory s \<and> is_runs s' = is_runs s"
  by (auto simp: WaitForCacheSync_def Let_def split: prod.splits)

lemma step_ok:
  assumes "factory_step lib s s'" and "factory_ok lib s"
  shows "factory_ok lib s'"
  using assms
proof cases
  case (ask k i)
  then have run: "InformerFor (kind_type k) (kind_new lib k (factory_access (is_factory s))) s = (i, s')"
    by (simp add: kind_Informer_eq)
  show ?thesis using assms(2) run by (rule InformerFor_ok) simp
next
  case (ask_other ty nf i)
  from assms(2) ask_other(2) show ?thesis by (rule InformerFor_ok) (use ask_other(1) in blast)
next
  case (start kvs)
  have "gmap_ok (sf_informers (is_factory s))" using assms(2) by (simp add: factory_ok_def Let_def)
  from Start_ok[OF assms(2) order_entries(1)[OF this start(2)]] start(1) show ?thesis by simp
next
  case (wait kvs res)
  then show ?thesis using assms(2) Wait_factory[of lib kvs s res s'] by (simp add: factory_ok_def)
next
  case (outside w)
  then show ?thesis using assms(2) by (simp add: factory_ok_def Let_def)
qed

lemma step_config:
  assumes "factory_step lib s s'"
  shows "factory_config (is_factory s') = factory_config (is_factory s)"
  using assms
proof cases
  case (ask k i)
  then show ?thesis by (simp add: kind_Informer_eq InformerFor_config)
qed (auto simp: InformerFor_config dest: Wait_factory)

text \<open>An informer that was handed out for a type stays the informer of that type.\<close>

lemma step_informers:
  assumes "factory_step lib s s'" and "map_of (sf_informers (is_factory s)) ty = Some i"
  shows "map_of (sf_informers (is_factory s')) ty = Some i"
  using assms
proof cases
  case (ask k j)
  then show ?thesis using assms(2) unfolding kind_Informer_eq by (cases rule: InformerFor_cases) auto
next
  case (ask_other u nf j)
  from ask_other(2) assms(2) show ?thesis by (cases rule: InformerFor_cases) auto
qed (auto dest: Wait_factory)

lemma reaches_informers:
  assumes "factory_reaches lib s s'" and "map_of (sf_informers (is_factory s)) ty = Some i"
  shows "map_of (sf_informers (is_factory s')) ty = Some i"
  using assms by induction (auto intro: step_informers)

lemma reaches_ok: "factory_reaches lib s s' \<Longrightarrow> factory_ok lib s \<Longrightarrow> factory_ok lib s'"
  by (induction rule: factory_reaches.induct) (auto intro: step_ok)

lemma reaches_config: "factory_reaches lib s s' \<Longrightarrow> factory_config (is_factory s') = factory_config (is_factory s)"
  by (induction rule: factory_reaches.induct) (auto simp: step_config)

lemma fresh_ok: "fresh_factory s \<Longrightarrow> factory_ok lib s"
  by (simp add: fresh_factory_def factory_ok_def Let_def started_def gget_def runs_of_def)

lemma InformerFor_registers: "InformerFor ty nf s = (i, s') \<Longrightarrow> map_of (sf_informers (is_factory s')) ty = Some i"
  by (erule InformerFor_cases) auto

lemma InformerFor_again: "map_of (sf_informers (is_factory s)) ty = Some i \<Longrightarrow> InformerFor ty nf s = (i, s)"
  by (simp add: InformerFor_def Let_def)

section \<open>Waiting\<close>

lemma map_of_started_informers:
  "gmap_ok kvs \<Longrightarrow> map_of (started_informers st kvs m) ty =
     (if gget False st ty \<and> map_of kvs ty \<noteq> None then map_of kvs ty else map_of m ty)"
proof (induction st kvs m rule: started_informers.induct)
  case (2 st t i kvs m)
  have "t \<notin> fst ` set kvs" using "2.prems" by (simp add: gmap_ok_def)
  then have "map_of kvs t = None" by (simp add: map_of_eq_None_iff)
  with 2 show ?case by (auto simp: gmap_ok_def)
qed simp

lemma wait_each_keys:
  "wait_each lib kvs res w = (res', w') \<Longrightarrow> dom (map_of res') = dom (map_of res) \<union> fst ` set kvs"
  by (induction lib kvs res w rule: wait_each.induct) (auto split: prod.splits)

end
