(* ===== verification/Fakes.thy ===== *)
theory Fakes
  imports Clientset
begin

text \<open>
  The fake clients of \<^verbatim>\<open>pkg/client/clientset/versioned/fake\<close> for tests: a method describes its
  call as an action and hands it to \<^verbatim>\<open>testing.Fake\<close> of \<^verbatim>\<open>k8s.io/client-go\<close>, a parameter. The
  constructors of \<open>fake_action\<close> are the library's functions that make an action.
\<close>

section \<open>Actions\<close>

datatype fake_action =
    GetAction gvr string string
  | ListAction gvr gvk string list_options
  | WatchAction gvr string list_options
  | CreateAction gvr string api_object
  | UpdateAction gvr string api_object
  | UpdateSubresourceAction gvr string string api_object
  | DeleteAction gvr string string
  | DeleteCollectionAction gvr string list_options
  | PatchSubresourceAction gvr string string string bytes "string list"

text \<open>A \<^verbatim>\<open>runtime.Object\<close> a fake can return: an object, or a list with its metadata.\<close>

datatype 'm fake_object =
    Fake_object api_object
  | Fake_backups 'm "scheduled_backup list"
  | Fake_actions 'm "requested_action list"
  | Fake_templates 'm "cluster_template list"

record ('s, 'm, 'l) fake_lib =
  fk_Invokes :: "fake_action \<Rightarrow> 'm fake_object \<Rightarrow> 's \<Rightarrow> ('m fake_object option \<times> goerr option) \<times> 's"
  fk_InvokesWatch :: "fake_action \<Rightarrow> 's \<Rightarrow> (goerr + nat) \<times> 's"
  fk_ExtractLabel :: "list_options \<Rightarrow> 'l option"
  fk_Everything :: 'l
  fk_Matches :: "'l \<Rightarrow> string gomap \<Rightarrow> bool"
  fk_zero_meta :: 'm

section \<open>What the three fakes share\<close>

record fake_client =
  fc_ns :: string

type_synonym fake_backups = fake_client
type_synonym fake_actions = fake_client
type_synonym fake_templates = fake_client

fun assert_object :: "(api_object \<Rightarrow> ('s, 'b) go) \<Rightarrow> 'm fake_object \<Rightarrow> ('s, 'b) go" where
  "assert_object as (Fake_object m) = as m"
| "assert_object as _ = crash Bad_type_assertion"

fun backup_list :: "'m fake_object \<Rightarrow> ('s, 'm \<times> scheduled_backup list) go" where
  "backup_list (Fake_backups m items) = ret (m, items)"
| "backup_list _ = crash Bad_type_assertion"

fun action_list :: "'m fake_object \<Rightarrow> ('s, 'm \<times> requested_action list) go" where
  "action_list (Fake_actions m items) = ret (m, items)"
| "action_list _ = crash Bad_type_assertion"

fun template_list :: "'m fake_object \<Rightarrow> ('s, 'm \<times> cluster_template list) go" where
  "template_list (Fake_templates m items) = ret (m, items)"
| "template_list _ = crash Bad_type_assertion"

text \<open>\<^verbatim>\<open>if obj == nil { return nil, err }; return obj.(*T), err\<close>\<close>

definition fake_result ::
  "('s, 'm, 'l) fake_lib \<Rightarrow> ('m fake_object \<Rightarrow> ('s, 'b) go) \<Rightarrow> fake_action \<Rightarrow> 'm fake_object \<Rightarrow>
     ('s, 'b option \<times> goerr option) go" where
  "fake_result lib as action defaultReturnObj s =
     (case fk_Invokes lib action defaultReturnObj s of
        ((None, err), s') \<Rightarrow> (Return (None, err), s')
      | ((Some obj, err), s') \<Rightarrow> bnd (as obj) (\<lambda>b. ret (Some b, err)) s')"

text \<open>The items of a list that match the label of the options.\<close>

definition fake_filtered ::
  "('s, 'm, 'l) fake_lib \<Rightarrow> ('b \<Rightarrow> string gomap) \<Rightarrow> list_options \<Rightarrow> 'm \<times> 'b list \<Rightarrow> 'm \<times> 'b list" where
  "fake_filtered lib labels opts l =
     (let label = (case fk_ExtractLabel lib opts of None \<Rightarrow> fk_Everything lib | Some label \<Rightarrow> label)
      in (fst l, filter (\<lambda>item. fk_Matches lib label (labels item)) (snd l)))"

definition fake_list_result ::
  "('s, 'm, 'l) fake_lib \<Rightarrow> ('m fake_object \<Rightarrow> ('s, 'm \<times> 'b list) go) \<Rightarrow> ('b \<Rightarrow> string gomap) \<Rightarrow> list_options \<Rightarrow>
     fake_action \<Rightarrow> 'm fake_object \<Rightarrow> ('s, ('m \<times> 'b list) option \<times> goerr option) go" where
  "fake_list_result lib as labels opts action defaultReturnObj =
     bnd (fake_result lib as action defaultReturnObj) (\<lambda>(l, err).
       ret (map_option (fake_filtered lib labels opts) l, err))"

definition fake_error :: "('s, 'm, 'l) fake_lib \<Rightarrow> fake_action \<Rightarrow> 'm fake_object \<Rightarrow> 's \<Rightarrow> goerr option \<times> 's" where
  "fake_error lib action defaultReturnObj s = (case fk_Invokes lib action defaultReturnObj s of ((_, err), s') \<Rightarrow> (err, s'))"

definition empty_backup :: scheduled_backup where
  "empty_backup = \<lparr>sb_TypeMeta = \<lparr>tm_APIVersion = [], tm_Kind = []\<rparr>, sb_Meta = zero_meta,
     sb_Spec = \<lparr>sbs_CollectionId = [], sbs_TemplateRef = \<lparr>ts_Name = [], ts_Kind = []\<rparr>,
       sbs_GPGKeySecretRef = \<lparr>gpg_SecretName = [], gpg_PublicKey = [], gpg_PrivateKey = [],
         gpg_PassphraseKey = [], gpg_Email = [], gpg_CreateIfNotExists = False\<rparr>,
       sbs_TokenSecretRef = \<lparr>tok_SecretName = [], tok_TokenKey = []\<rparr>,
       sbs_VarsSecretRef = \<lparr>vs_SecretName = [], vs_ImportOnlyKeys = []\<rparr>,
       sbs_Vars = [], sbs_CronJob = \<lparr>cj_Enabled = False, cj_ScheduleEvery = []\<rparr>, sbs_Operation = []\<rparr>,
     sb_Status = \<lparr>sbst_LastAppliedSpecHash = [], sbst_Conditions = [], sbst_OwnedReferences = [],
       sbst_ChildrenResourcesHealth = [], sbst_Healthy = False\<rparr>\<rparr>"

definition empty_action :: requested_action where
  "empty_action = \<lparr>rba_TypeMeta = \<lparr>tm_APIVersion = [], tm_Kind = []\<rparr>, rba_Meta = zero_meta,
     rba_Spec = \<lparr>rbas_Action = [], rbas_TargetVersion = [], rbas_ScheduledBackupRef = [], rbas_KindType = []\<rparr>,
     rba_Status = \<lparr>rbast_Processed = False, rbast_Conditions = [], rbast_OwnedReferences = [],
       rbast_ChildrenResourcesHealth = [], rbast_Healthy = False\<rparr>\<rparr>"

definition empty_template :: cluster_template where
  "empty_template = \<lparr>cbpt_TypeMeta = \<lparr>tm_APIVersion = [], tm_Kind = []\<rparr>, cbpt_Meta = zero_meta,
     cbpt_Spec = \<lparr>cbpt_Image = [], cbpt_Backup = [], cbpt_Restore = []\<rparr>\<rparr>"

section \<open>The fake of ScheduledBackup\<close>

definition scheduledbackupsResource :: gvr where
  "scheduledbackupsResource = \<lparr>gvr_Group = ''riotkit.org'', gvr_Version = ''v1alpha1'', gvr_Resource = ''scheduledbackups''\<rparr>"

definition scheduledbackupsKind :: gvk where
  "scheduledbackupsKind = mk_gvk ''riotkit.org'' ''v1alpha1'' ''ScheduledBackup''"

definition FakeScheduledBackups_Get ::
  "('s, 'm, 'l) fake_lib \<Rightarrow> fake_backups \<Rightarrow> string \<Rightarrow> api_options \<Rightarrow> ('s, scheduled_backup option \<times> goerr option) go" where
  "FakeScheduledBackups_Get lib c name options =
     fake_result lib (assert_object as_backup) (GetAction scheduledbackupsResource (fc_ns c) name)
       (Fake_object (Obj_backup empty_backup))"

definition FakeScheduledBackups_List ::
  "('s, 'm, 'l) fake_lib \<Rightarrow> fake_backups \<Rightarrow> list_options \<Rightarrow> ('s, ('m \<times> scheduled_backup list) option \<times> goerr option) go" where
  "FakeScheduledBackups_List lib c opts =
     fake_list_result lib backup_list (\<lambda>item. om_Labels (sb_Meta item)) opts
       (ListAction scheduledbackupsResource scheduledbackupsKind (fc_ns c) opts) (Fake_backups (fk_zero_meta lib) [])"

definition FakeScheduledBackups_Watch ::
  "('s, 'm, 'l) fake_lib \<Rightarrow> fake_backups \<Rightarrow> list_options \<Rightarrow> 's \<Rightarrow> (goerr + nat) \<times> 's" where
  "FakeScheduledBackups_Watch lib c opts = fk_InvokesWatch lib (WatchAction scheduledbackupsResource (fc_ns c) opts)"

definition FakeScheduledBackups_Create ::
  "('s, 'm, 'l) fake_lib \<Rightarrow> fake_backups \<Rightarrow> scheduled_backup \<Rightarrow> api_options \<Rightarrow> ('s, scheduled_backup option \<times> goerr option) go" where
  "FakeScheduledBackups_Create lib c b opts =
     fake_result lib (assert_object as_backup) (CreateAction scheduledbackupsResource (fc_ns c) (Obj_backup b))
       (Fake_object (Obj_backup empty_backup))"

definition FakeScheduledBackups_Update ::
  "('s, 'm, 'l) fake_lib \<Rightarrow> fake_backups \<Rightarrow> scheduled_backup \<Rightarrow> api_options \<Rightarrow> ('s, scheduled_backup option \<times> goerr option) go" where
  "FakeScheduledBackups_Update lib c b opts =
     fake_result lib (assert_object as_backup) (UpdateAction scheduledbackupsResource (fc_ns c) (Obj_backup b))
       (Fake_object (Obj_backup empty_backup))"

definition FakeScheduledBackups_UpdateStatus ::
  "('s, 'm, 'l) fake_lib \<Rightarrow> fake_backups \<Rightarrow> scheduled_backup \<Rightarrow> api_options \<Rightarrow> ('s, scheduled_backup option \<times> goerr option) go" where
  "FakeScheduledBackups_UpdateStatus lib c b opts =
     fake_result lib (assert_object as_backup)
       (UpdateSubresourceAction scheduledbackupsResource ''status'' (fc_ns c) (Obj_backup b)) (Fake_object (Obj_backup empty_backup))"

definition FakeScheduledBackups_Delete ::
  "('s, 'm, 'l) fake_lib \<Rightarrow> fake_backups \<Rightarrow> string \<Rightarrow> api_options \<Rightarrow> 's \<Rightarrow> goerr option \<times> 's" where
  "FakeScheduledBackups_Delete lib c name opts =
     fake_error lib (DeleteAction scheduledbackupsResource (fc_ns c) name) (Fake_object (Obj_backup empty_backup))"

definition FakeScheduledBackups_DeleteCollection ::
  "('s, 'm, 'l) fake_lib \<Rightarrow> fake_backups \<Rightarrow> api_options \<Rightarrow> list_options \<Rightarrow> 's \<Rightarrow> goerr option \<times> 's" where
  "FakeScheduledBackups_DeleteCollection lib c opts listOpts =
     fake_error lib (DeleteCollectionAction scheduledbackupsResource (fc_ns c) listOpts) (Fake_backups (fk_zero_meta lib) [])"

definition FakeScheduledBackups_Patch ::
  "('s, 'm, 'l) fake_lib \<Rightarrow> fake_backups \<Rightarrow> string \<Rightarrow> string \<Rightarrow> bytes \<Rightarrow> api_options \<Rightarrow> string list \<Rightarrow>
     ('s, scheduled_backup option \<times> goerr option) go" where
  "FakeScheduledBackups_Patch lib c name pt patch_data opts subresources =
     fake_result lib (assert_object as_backup)
       (PatchSubresourceAction scheduledbackupsResource (fc_ns c) name pt patch_data subresources)
       (Fake_object (Obj_backup empty_backup))"

section \<open>The fake of RequestedBackupAction\<close>

definition requestedbackupactionsResource :: gvr where
  "requestedbackupactionsResource = \<lparr>gvr_Group = ''riotkit.org'', gvr_Version = ''v1alpha1'', gvr_Resource = ''requestedbackupactions''\<rparr>"

definition requestedbackupactionsKind :: gvk where
  "requestedbackupactionsKind = mk_gvk ''riotkit.org'' ''v1alpha1'' ''RequestedBackupAction''"

definition FakeRequestedBackupActions_Get ::
  "('s, 'm, 'l) fake_lib \<Rightarrow> fake_actions \<Rightarrow> string \<Rightarrow> api_options \<Rightarrow> ('s, requested_action option \<times> goerr option) go" where
  "FakeRequestedBackupActions_Get lib c name options =
     fake_result lib (assert_object as_action) (GetAction requestedbackupactionsResource (fc_ns c) name)
       (Fake_object (Obj_action empty_action))"

definition FakeRequestedBackupActions_List ::
  "('s, 'm, 'l) fake_lib \<Rightarrow> fake_actions \<Rightarrow> list_options \<Rightarrow> ('s, ('m \<times> requested_action list) option \<times> goerr option) go" where
  "FakeRequestedBackupActions_List lib c opts =
     fake_list_result lib action_list (\<lambda>item. om_Labels (rba_Meta item)) opts
       (ListAction requestedbackupactionsResource requestedbackupactionsKind (fc_ns c) opts) (Fake_actions (fk_zero_meta lib) [])"

definition FakeRequestedBackupActions_Watch ::
  "('s, 'm, 'l) fake_lib \<Rightarrow> fake_actions \<Rightarrow> list_options \<Rightarrow> 's \<Rightarrow> (goerr + nat) \<times> 's" where
  "FakeRequestedBackupActions_Watch lib c opts = fk_InvokesWatch lib (WatchAction requestedbackupactionsResource (fc_ns c) opts)"

definition FakeRequestedBackupActions_Create ::
  "('s, 'm, 'l) fake_lib \<Rightarrow> fake_actions \<Rightarrow> requested_action \<Rightarrow> api_options \<Rightarrow> ('s, requested_action option \<times> goerr option) go" where
  "FakeRequestedBackupActions_Create lib c b opts =
     fake_result lib (assert_object as_action) (CreateAction requestedbackupactionsResource (fc_ns c) (Obj_action b))
       (Fake_object (Obj_action empty_action))"

definition FakeRequestedBackupActions_Update ::
  "('s, 'm, 'l) fake_lib \<Rightarrow> fake_actions \<Rightarrow> requested_action \<Rightarrow> api_options \<Rightarrow> ('s, requested_action option \<times> goerr option) go" where
  "FakeRequestedBackupActions_Update lib c b opts =
     fake_result lib (assert_object as_action) (UpdateAction requestedbackupactionsResource (fc_ns c) (Obj_action b))
       (Fake_object (Obj_action empty_action))"

definition FakeRequestedBackupActions_UpdateStatus ::
  "('s, 'm, 'l) fake_lib \<Rightarrow> fake_actions \<Rightarrow> requested_action \<Rightarrow> api_options \<Rightarrow> ('s, requested_action option \<times> goerr option) go" where
  "FakeRequestedBackupActions_UpdateStatus lib c b opts =
     fake_result lib (assert_object as_action)
       (UpdateSubresourceAction requestedbackupactionsResource ''status'' (fc_ns c) (Obj_action b)) (Fake_object (Obj_action empty_action))"

definition FakeRequestedBackupActions_Delete ::
  "('s, 'm, 'l) fake_lib \<Rightarrow> fake_actions \<Rightarrow> string \<Rightarrow> api_options \<Rightarrow> 's \<Rightarrow> goerr option \<times> 's" where
  "FakeRequestedBackupActions_Delete lib c name opts =
     fake_error lib (DeleteAction requestedbackupactionsResource (fc_ns c) name) (Fake_object (Obj_action empty_action))"

definition FakeRequestedBackupActions_DeleteCollection ::
  "('s, 'm, 'l) fake_lib \<Rightarrow> fake_actions \<Rightarrow> api_options \<Rightarrow> list_options \<Rightarrow> 's \<Rightarrow> goerr option \<times> 's" where
  "FakeRequestedBackupActions_DeleteCollection lib c opts listOpts =
     fake_error lib (DeleteCollectionAction requestedbackupactionsResource (fc_ns c) listOpts) (Fake_actions (fk_zero_meta lib) [])"

definition FakeRequestedBackupActions_Patch ::
  "('s, 'm, 'l) fake_lib \<Rightarrow> fake_actions \<Rightarrow> string \<Rightarrow> string \<Rightarrow> bytes \<Rightarrow> api_options \<Rightarrow> string list \<Rightarrow>
     ('s, requested_action option \<times> goerr option) go" where
  "FakeRequestedBackupActions_Patch lib c name pt patch_data opts subresources =
     fake_result lib (assert_object as_action)
       (PatchSubresourceAction requestedbackupactionsResource (fc_ns c) name pt patch_data subresources)
       (Fake_object (Obj_action empty_action))"

section \<open>The fake of ClusterBackupProcedureTemplate\<close>

definition clusterbackupproceduretemplatesResource :: gvr where
  "clusterbackupproceduretemplatesResource = \<lparr>gvr_Group = ''riotkit.org'', gvr_Version = ''v1alpha1'', gvr_Resource = ''clusterbackupproceduretemplates''\<rparr>"

definition clusterbackupproceduretemplatesKind :: gvk where
  "clusterbackupproceduretemplatesKind = mk_gvk ''riotkit.org'' ''v1alpha1'' ''ClusterBackupProcedureTemplate''"

definition FakeClusterBackupProcedureTemplates_Get ::
  "('s, 'm, 'l) fake_lib \<Rightarrow> fake_templates \<Rightarrow> string \<Rightarrow> api_options \<Rightarrow> ('s, cluster_template option \<times> goerr option) go" where
  "FakeClusterBackupProcedureTemplates_Get lib c name options =
     fake_result lib (assert_object as_template) (GetAction clusterbackupproceduretemplatesResource (fc_ns c) name)
       (Fake_object (Obj_template empty_template))"

definition FakeClusterBackupProcedureTemplates_List ::
  "('s, 'm, 'l) fake_lib \<Rightarrow> fake_templates \<Rightarrow> list_options \<Rightarrow> ('s, ('m \<times> cluster_template list) option \<times> goerr option) go" where
  "FakeClusterBackupProcedureTemplates_List lib c opts =
     fake_list_result lib template_list (\<lambda>item. om_Labels (cbpt_Meta item)) opts
       (ListAction clusterbackupproceduretemplatesResource clusterbackupproceduretemplatesKind (fc_ns c) opts) (Fake_templates (fk_zero_meta lib) [])"

definition FakeClusterBackupProcedureTemplates_Watch ::
  "('s, 'm, 'l) fake_lib \<Rightarrow> fake_templates \<Rightarrow> list_options \<Rightarrow> 's \<Rightarrow> (goerr + nat) \<times> 's" where
  "FakeClusterBackupProcedureTemplates_Watch lib c opts = fk_InvokesWatch lib (WatchAction clusterbackupproceduretemplatesResource (fc_ns c) opts)"

definition FakeClusterBackupProcedureTemplates_Create ::
  "('s, 'm, 'l) fake_lib \<Rightarrow> fake_templates \<Rightarrow> cluster_template \<Rightarrow> api_options \<Rightarrow> ('s, cluster_template option \<times> goerr option) go" where
  "FakeClusterBackupProcedureTemplates_Create lib c b opts =
     fake_result lib (assert_object as_template) (CreateAction clusterbackupproceduretemplatesResource (fc_ns c) (Obj_template b))
       (Fake_object (Obj_template empty_template))"

definition FakeClusterBackupProcedureTemplates_Update ::
  "('s, 'm, 'l) fake_lib \<Rightarrow> fake_templates \<Rightarrow> cluster_template \<Rightarrow> api_options \<Rightarrow> ('s, cluster_template option \<times> goerr option) go" where
  "FakeClusterBackupProcedureTemplates_Update lib c b opts =
     fake_result lib (assert_object as_template) (UpdateAction clusterbackupproceduretemplatesResource (fc_ns c) (Obj_template b))
       (Fake_object (Obj_template empty_template))"

definition FakeClusterBackupProcedureTemplates_UpdateStatus ::
  "('s, 'm, 'l) fake_lib \<Rightarrow> fake_templates \<Rightarrow> cluster_template \<Rightarrow> api_options \<Rightarrow> ('s, cluster_template option \<times> goerr option) go" where
  "FakeClusterBackupProcedureTemplates_UpdateStatus lib c b opts =
     fake_result lib (assert_object as_template)
       (UpdateSubresourceAction clusterbackupproceduretemplatesResource ''status'' (fc_ns c) (Obj_template b)) (Fake_object (Obj_template empty_template))"

definition FakeClusterBackupProcedureTemplates_Delete ::
  "('s, 'm, 'l) fake_lib \<Rightarrow> fake_templates \<Rightarrow> string \<Rightarrow> api_options \<Rightarrow> 's \<Rightarrow> goerr option \<times> 's" where
  "FakeClusterBackupProcedureTemplates_Delete lib c name opts =
     fake_error lib (DeleteAction clusterbackupproceduretemplatesResource (fc_ns c) name) (Fake_object (Obj_template empty_template))"

definition FakeClusterBackupProcedureTemplates_DeleteCollection ::
  "('s, 'm, 'l) fake_lib \<Rightarrow> fake_templates \<Rightarrow> api_options \<Rightarrow> list_options \<Rightarrow> 's \<Rightarrow> goerr option \<times> 's" where
  "FakeClusterBackupProcedureTemplates_DeleteCollection lib c opts listOpts =
     fake_error lib (DeleteCollectionAction clusterbackupproceduretemplatesResource (fc_ns c) listOpts) (Fake_templates (fk_zero_meta lib) [])"

definition FakeClusterBackupProcedureTemplates_Patch ::
  "('s, 'm, 'l) fake_lib \<Rightarrow> fake_templates \<Rightarrow> string \<Rightarrow> string \<Rightarrow> bytes \<Rightarrow> api_options \<Rightarrow> string list \<Rightarrow>
     ('s, cluster_template option \<times> goerr option) go" where
  "FakeClusterBackupProcedureTemplates_Patch lib c name pt patch_data opts subresources =
     fake_result lib (assert_object as_template)
       (PatchSubresourceAction clusterbackupproceduretemplatesResource (fc_ns c) name pt patch_data subresources)
       (Fake_object (Obj_template empty_template))"

section \<open>The fake clientset\<close>

definition fake_ScheduledBackups :: "string \<Rightarrow> fake_client" where
  "fake_ScheduledBackups namespace = \<lparr>fc_ns = namespace\<rparr>"

definition fake_RequestedBackupActions :: "string \<Rightarrow> fake_client" where
  "fake_RequestedBackupActions namespace = \<lparr>fc_ns = namespace\<rparr>"

definition fake_ClusterBackupProcedureTemplates :: "string \<Rightarrow> fake_client" where
  "fake_ClusterBackupProcedureTemplates namespace = \<lparr>fc_ns = namespace\<rparr>"

text \<open>The object tracker of the library, which answers the actions.\<close>

record ('o, 'm) tracker_lib =
  tr_new :: 'o
  tr_Add :: "'m fake_object \<Rightarrow> 'o \<Rightarrow> goerr option \<times> 'o"
  tr_Watch :: "gvr \<Rightarrow> string \<Rightarrow> 'o \<Rightarrow> (goerr + nat) \<times> 'o"

fun add_objects :: "('o, 'm) tracker_lib \<Rightarrow> 'm fake_object list \<Rightarrow> ('o, unit) go" where
  "add_objects lib [] trk = (Return (), trk)"
| "add_objects lib (obj # objects) trk =
     (case tr_Add lib obj trk of
        (Some err, trk) \<Rightarrow> (Panic (Panic_value (err_text err)), trk)
      | (None, trk) \<Rightarrow> add_objects lib objects trk)"

text \<open>The reactor for watches: \<^verbatim>\<open>(handled, ret, err)\<close>.\<close>

definition watch_reactor ::
  "('o, 'm) tracker_lib \<Rightarrow> gvr \<Rightarrow> string \<Rightarrow> 'o \<Rightarrow> (bool \<times> nat option \<times> goerr option) \<times> 'o" where
  "watch_reactor lib resource ns trk =
     (case tr_Watch lib resource ns trk of
        (Inl err, trk) \<Rightarrow> ((False, None, Some err), trk)
      | (Inr w, trk) \<Rightarrow> ((True, Some w, None), trk))"

text \<open>
  The library's recorder \<^verbatim>\<open>testing.Fake\<close> of a clientset, to which reactors are added. The parts
  of a clientset point to this recorder: \<open>Own_fake\<close> is the pointer \<^verbatim>\<open>&c.Fake\<close>.
\<close>

datatype fake_pointer = Own_fake

record fake_discovery =
  fd_Fake :: fake_pointer

record ('f, 'o) fake_clientset =
  fcs_Fake :: 'f
  fcs_discovery :: fake_discovery
  fcs_tracker :: 'o

type_synonym 'o watch_reaction = "gvr \<Rightarrow> string \<Rightarrow> 'o \<Rightarrow> (bool \<times> nat option \<times> goerr option) \<times> 'o"

record ('f, 'o, 'r) recorder_lib =
  rl_zero :: 'f
  rl_ObjectReaction :: 'r
  rl_AddReactor :: "string \<Rightarrow> string \<Rightarrow> 'r \<Rightarrow> 'f \<Rightarrow> 'f"
  rl_AddWatchReactor :: "string \<Rightarrow> 'o watch_reaction \<Rightarrow> 'f \<Rightarrow> 'f"

definition NewSimpleClientset ::
  "('o, 'm) tracker_lib \<Rightarrow> ('f, 'o, 'r) recorder_lib \<Rightarrow> 'm fake_object list \<Rightarrow> ('f, 'o) fake_clientset outcome" where
  "NewSimpleClientset lib rec objects =
     (case add_objects lib objects (tr_new lib) of
        (Panic p, trk) \<Rightarrow> Panic p
      | (Return _, trk) \<Rightarrow>
          let f = rl_AddReactor rec ''*'' ''*'' (rl_ObjectReaction rec) (rl_zero rec);
              f = rl_AddWatchReactor rec ''*'' (watch_reactor lib) f
          in Return \<lparr>fcs_Fake = f, fcs_discovery = \<lparr>fd_Fake = Own_fake\<rparr>, fcs_tracker = trk\<rparr>)"

definition fcs_Discovery :: "('f, 'o) fake_clientset \<Rightarrow> fake_discovery" where
  "fcs_Discovery c = fcs_discovery c"

definition fcs_Tracker :: "('f, 'o) fake_clientset \<Rightarrow> 'o" where
  "fcs_Tracker c = fcs_tracker c"

text \<open>The client of the group, \<^verbatim>\<open>FakeRiotkitV1alpha1\<close>; it has no REST client behind it.\<close>

record fake_riotkit =
  fr_Fake :: fake_pointer

definition fcs_RiotkitV1alpha1 :: "('f, 'o) fake_clientset \<Rightarrow> fake_riotkit" where
  "fcs_RiotkitV1alpha1 c = \<lparr>fr_Fake = Own_fake\<rparr>"

definition fake_RESTClient :: "fake_riotkit \<Rightarrow> 'c option" where
  "fake_RESTClient c = None"

text \<open>
  A clientset is made exactly when the tracker takes every object, in the order given; then its
  tracker holds them, and its discovery and its clients share its recorder.
\<close>

lemma add_objects_append:
  "add_objects lib (xs @ ys) trk =
     (case add_objects lib xs trk of (Return _, trk) \<Rightarrow> add_objects lib ys trk | (Panic p, trk) \<Rightarrow> (Panic p, trk))"
  by (induction lib xs trk rule: add_objects.induct) (auto split: prod.split option.split)

lemma add_objects_accepted:
  assumes "\<And>obj trk. obj \<in> set objects \<Longrightarrow> fst (tr_Add lib obj trk) = None"
  shows "add_objects lib objects trk = (Return (), fold (\<lambda>obj trk. snd (tr_Add lib obj trk)) objects trk)"
  using assms
proof (induction objects arbitrary: trk)
  case (Cons obj objects)
  from Cons.prems[of obj trk] obtain trk' where "tr_Add lib obj trk = (None, trk')"
    by (cases "tr_Add lib obj trk") simp
  with Cons.IH[of trk'] Cons.prems show ?case by simp
qed simp

lemma NewSimpleClientset_accepted:
  assumes "\<And>obj trk. obj \<in> set objects \<Longrightarrow> fst (tr_Add lib obj trk) = None"
  shows "\<exists>c. NewSimpleClientset lib rec objects = Return c \<and>
     fcs_Tracker c = fold (\<lambda>obj trk. snd (tr_Add lib obj trk)) objects (tr_new lib) \<and>
     fd_Fake (fcs_Discovery c) = fr_Fake (fcs_RiotkitV1alpha1 c)"
  by (simp add: NewSimpleClientset_def add_objects_accepted[OF assms] fcs_Tracker_def fcs_Discovery_def
      fcs_RiotkitV1alpha1_def Let_def)

end
