(* ===== verification/Fake_Facts.thy ===== *)
theory Fake_Facts
  imports Fakes
begin

text \<open>
  The fakes stand for the typed clients: the action a fake records and the request the typed
  client sends for the same call agree on the verb, the resource, the namespace, the name,
  the subresource and the object.
\<close>

section \<open>One call of a client\<close>

datatype 'b api_call =
    Call_Get string api_options
  | Call_List list_options
  | Call_Watch list_options
  | Call_Create 'b api_options
  | Call_Update 'b api_options
  | Call_UpdateStatus 'b api_options
  | Call_Delete string api_options
  | Call_DeleteCollection api_options list_options
  | Call_Patch string string bytes api_options "string list"

section \<open>What a call is about\<close>

record call_view =
  cv_Verb :: string
  cv_Resource :: string
  cv_Namespace :: string
  cv_Name :: "string option"
  cv_SubResource :: "string list"
  cv_Object :: "api_object option"

definition mk_view :: "string \<Rightarrow> string \<Rightarrow> string \<Rightarrow> string option \<Rightarrow> string list \<Rightarrow> api_object option \<Rightarrow> call_view" where
  "mk_view v r ns n sub obj = \<lparr>cv_Verb = v, cv_Resource = r, cv_Namespace = ns, cv_Name = n,
     cv_SubResource = sub, cv_Object = obj\<rparr>"

fun action_view :: "fake_action \<Rightarrow> call_view" where
  "action_view (GetAction r ns name) = mk_view ''get'' (gvr_Resource r) ns (Some name) [] None"
| "action_view (ListAction r k ns opts) = mk_view ''list'' (gvr_Resource r) ns None [] None"
| "action_view (WatchAction r ns opts) = mk_view ''watch'' (gvr_Resource r) ns None [] None"
| "action_view (CreateAction r ns obj) = mk_view ''create'' (gvr_Resource r) ns None [] (Some obj)"
| "action_view (UpdateAction r ns obj) =
     mk_view ''update'' (gvr_Resource r) ns (Some (om_Name (obj_meta obj))) [] (Some obj)"
| "action_view (UpdateSubresourceAction r sub ns obj) =
     mk_view ''update'' (gvr_Resource r) ns (Some (om_Name (obj_meta obj))) [sub] (Some obj)"
| "action_view (DeleteAction r ns name) = mk_view ''delete'' (gvr_Resource r) ns (Some name) [] None"
| "action_view (DeleteCollectionAction r ns opts) = mk_view ''delete-collection'' (gvr_Resource r) ns None [] None"
| "action_view (PatchSubresourceAction r ns name pt d subs) = mk_view ''patch'' (gvr_Resource r) ns (Some name) subs None"

text \<open>The API server tells a list from a watch by the options, and a collection by the missing name.\<close>

definition request_verb :: "'b rest_request \<Rightarrow> string" where
  "request_verb r = (case rq_Verb r of
       GET \<Rightarrow> (case rq_Params r of List_params opts \<Rightarrow> if lo_Watch opts then ''watch'' else ''list'' | _ \<Rightarrow> ''get'')
     | POST \<Rightarrow> ''create'' | PUT \<Rightarrow> ''update''
     | DELETE \<Rightarrow> if rq_Name r = None then ''delete-collection'' else ''delete''
     | PATCH pt \<Rightarrow> ''patch'')"

definition request_view :: "('b \<Rightarrow> api_object) \<Rightarrow> 'b rest_request \<Rightarrow> call_view" where
  "request_view wrap r = mk_view (request_verb r) (rq_Resource r) (rq_Namespace r) (rq_Name r) (rq_SubResource r)
     (case rq_Body r of Object_body b \<Rightarrow> Some (wrap b) | _ \<Rightarrow> None)"

section \<open>The requests of a call\<close>

fun call_request :: "('b \<Rightarrow> string) \<Rightarrow> string \<Rightarrow> string \<Rightarrow> 'b api_call \<Rightarrow> 'b rest_request" where
  "call_request nm res ns (Call_Get name opts) = get_request res ns name opts"
| "call_request nm res ns (Call_List opts) = list_request res ns opts"
| "call_request nm res ns (Call_Watch opts) = watch_request res ns opts"
| "call_request nm res ns (Call_Create b opts) = create_request res ns b opts"
| "call_request nm res ns (Call_Update b opts) = update_request nm res ns b opts"
| "call_request nm res ns (Call_UpdateStatus b opts) = update_status_request nm res ns b opts"
| "call_request nm res ns (Call_Delete name opts) = delete_request res ns name opts"
| "call_request nm res ns (Call_DeleteCollection opts lopts) = delete_collection_request res ns opts lopts"
| "call_request nm res ns (Call_Patch name pt d opts subs) = patch_request res ns name pt d opts subs"

fun call_action :: "('b \<Rightarrow> api_object) \<Rightarrow> gvr \<Rightarrow> gvk \<Rightarrow> string \<Rightarrow> 'b api_call \<Rightarrow> fake_action" where
  "call_action wrap r k ns (Call_Get name opts) = GetAction r ns name"
| "call_action wrap r k ns (Call_List opts) = ListAction r k ns opts"
| "call_action wrap r k ns (Call_Watch opts) = WatchAction r ns opts"
| "call_action wrap r k ns (Call_Create b opts) = CreateAction r ns (wrap b)"
| "call_action wrap r k ns (Call_Update b opts) = UpdateAction r ns (wrap b)"
| "call_action wrap r k ns (Call_UpdateStatus b opts) = UpdateSubresourceAction r ''status'' ns (wrap b)"
| "call_action wrap r k ns (Call_Delete name opts) = DeleteAction r ns name"
| "call_action wrap r k ns (Call_DeleteCollection opts lopts) = DeleteCollectionAction r ns lopts"
| "call_action wrap r k ns (Call_Patch name pt d opts subs) = PatchSubresourceAction r ns name pt d subs"

text \<open>A list is not asked for with options that turn it into a watch.\<close>

fun plain_list :: "'b api_call \<Rightarrow> bool" where
  "plain_list (Call_List opts) \<longleftrightarrow> \<not> lo_Watch opts"
| "plain_list c \<longleftrightarrow> True"

lemma views_agree:
  assumes "\<And>b. om_Name (obj_meta (wrap b)) = nm b" and "gvr_Resource r = res" and "plain_list c"
  shows "action_view (call_action wrap r k ns c) = request_view wrap (call_request nm res ns c)"
  using assms
  by (cases c) (simp_all add: request_view_def request_verb_def request_defs)

section \<open>Clients that record what they are asked\<close>

definition recording_client :: "('w, 'b) rest_client \<Rightarrow> ('w \<Rightarrow> 'b rest_request list) \<Rightarrow> bool" where
  "recording_client c reqs \<longleftrightarrow>
     (\<forall>w r. reqs (snd (rc_Into c w r)) = reqs w @ [r] \<and> reqs (snd (rc_IntoList c w r)) = reqs w @ [r] \<and>
            reqs (snd (rc_Watch c w r)) = reqs w @ [r] \<and> reqs (snd (rc_Error c w r)) = reqs w @ [r])"

definition recording_fake :: "('s, 'm, 'l) fake_lib \<Rightarrow> ('s \<Rightarrow> fake_action list) \<Rightarrow> bool" where
  "recording_fake lib acts \<longleftrightarrow>
     (\<forall>a d s. acts (snd (fk_Invokes lib a d s)) = acts s @ [a] \<and>
              acts (snd (fk_InvokesWatch lib a s)) = acts s @ [a])"

text \<open>Asserting the type of an answer changes nothing.\<close>

definition pure_go :: "('s, 'a) go \<Rightarrow> bool" where
  "pure_go m \<longleftrightarrow> (\<forall>s. snd (m s) = s)"

lemma assert_object_pure: "(\<And>m. pure_go (as m)) \<Longrightarrow> pure_go (assert_object as obj)"
  by (cases obj) (simp_all add: pure_go_def crash_def)

lemma assertions_pure [simp]:
  "pure_go (as_backup m)" "pure_go (as_action m)" "pure_go (as_template m)"
  by (cases m; simp add: pure_go_def crash_def ret_def)+

lemma list_assertions_pure [simp]:
  "pure_go (backup_list obj)" "pure_go (action_list obj)" "pure_go (template_list obj)"
  by (cases obj; simp add: pure_go_def crash_def ret_def)+

lemma fake_result_records:
  assumes "recording_fake lib acts" and "\<And>obj. pure_go (as obj)"
  shows "acts (snd (fake_result lib as a d s)) = acts s @ [a]"
proof -
  have "snd (fake_result lib as a d s) = snd (fk_Invokes lib a d s)"
    using assms(2) by (auto simp: fake_result_def bnd_def ret_def pure_go_def split: prod.splits option.splits outcome.splits)
       (metis snd_conv)+
  with assms(1) show ?thesis by (simp add: recording_fake_def)
qed

lemma fake_list_result_records:
  assumes "recording_fake lib acts" and "\<And>obj. pure_go (as obj)"
  shows "acts (snd (fake_list_result lib as labels opts a d s)) = acts s @ [a]"
  using fake_result_records[where as = as and a = a and d = d and s = s, OF assms]
  by (auto simp: fake_list_result_def bnd_def ret_def split: prod.splits outcome.splits)

lemma fake_error_records:
  assumes "recording_fake lib acts"
  shows "acts (snd (fake_error lib a d s)) = acts s @ [a]"
  using assms by (auto simp: fake_error_def recording_fake_def split: prod.splits) (metis snd_conv)

lemma fake_watch_records: "recording_fake lib acts \<Longrightarrow> acts (snd (fk_InvokesWatch lib a s)) = acts s @ [a]"
  by (simp add: recording_fake_def)

lemma assert_backup_pure [simp]: "pure_go (assert_object as_backup obj)" by (rule assert_object_pure) simp
lemma assert_action_pure [simp]: "pure_go (assert_object as_action obj)" by (rule assert_object_pure) simp
lemma assert_template_pure [simp]: "pure_go (assert_object as_template obj)" by (rule assert_object_pure) simp

lemmas fake_records = fake_result_records fake_list_result_records fake_error_records fake_watch_records

section \<open>ScheduledBackups\<close>

fun fake_sb :: "('s, 'm, 'l) fake_lib \<Rightarrow> string \<Rightarrow> scheduled_backup api_call \<Rightarrow> 's \<Rightarrow> 's" where
  "fake_sb lib ns (Call_Get name opts) s = snd (FakeScheduledBackups_Get lib (fake_ScheduledBackups ns) name opts s)"
| "fake_sb lib ns (Call_List opts) s = snd (FakeScheduledBackups_List lib (fake_ScheduledBackups ns) opts s)"
| "fake_sb lib ns (Call_Watch opts) s = snd (FakeScheduledBackups_Watch lib (fake_ScheduledBackups ns) opts s)"
| "fake_sb lib ns (Call_Create b opts) s = snd (FakeScheduledBackups_Create lib (fake_ScheduledBackups ns) b opts s)"
| "fake_sb lib ns (Call_Update b opts) s = snd (FakeScheduledBackups_Update lib (fake_ScheduledBackups ns) b opts s)"
| "fake_sb lib ns (Call_UpdateStatus b opts) s = snd (FakeScheduledBackups_UpdateStatus lib (fake_ScheduledBackups ns) b opts s)"
| "fake_sb lib ns (Call_Delete name opts) s = snd (FakeScheduledBackups_Delete lib (fake_ScheduledBackups ns) name opts s)"
| "fake_sb lib ns (Call_DeleteCollection opts lopts) s =
     snd (FakeScheduledBackups_DeleteCollection lib (fake_ScheduledBackups ns) opts lopts s)"
| "fake_sb lib ns (Call_Patch name pt d opts subs) s =
     snd (FakeScheduledBackups_Patch lib (fake_ScheduledBackups ns) name pt d opts subs s)"

fun typed_sb :: "'w sb_client \<Rightarrow> string \<Rightarrow> scheduled_backup api_call \<Rightarrow> 'w \<Rightarrow> 'w" where
  "typed_sb c ns (Call_Get name opts) w = snd (sb_Get c ns name opts w)"
| "typed_sb c ns (Call_List opts) w = snd (sb_List c ns opts w)"
| "typed_sb c ns (Call_Watch opts) w = snd (sb_Watch c ns opts w)"
| "typed_sb c ns (Call_Create b opts) w = snd (sb_Create c ns b opts w)"
| "typed_sb c ns (Call_Update b opts) w = snd (sb_Update c ns b opts w)"
| "typed_sb c ns (Call_UpdateStatus b opts) w = snd (sb_UpdateStatus c ns b opts w)"
| "typed_sb c ns (Call_Delete name opts) w = snd (sb_Delete c ns name opts w)"
| "typed_sb c ns (Call_DeleteCollection opts lopts) w = snd (sb_DeleteCollection c ns opts lopts w)"
| "typed_sb c ns (Call_Patch name pt d opts subs) w = snd (sb_Patch c ns name pt d opts subs w)"

lemma fake_sb_records:
  assumes "recording_fake lib acts"
  shows "acts (fake_sb lib ns call s) = acts s @ [call_action Obj_backup scheduledbackupsResource scheduledbackupsKind ns call]"
  by (cases call)
     (simp_all add: fake_records[OF assms] fake_ScheduledBackups_def FakeScheduledBackups_Get_def FakeScheduledBackups_List_def
       FakeScheduledBackups_Watch_def FakeScheduledBackups_Create_def FakeScheduledBackups_Update_def FakeScheduledBackups_UpdateStatus_def
       FakeScheduledBackups_Delete_def FakeScheduledBackups_DeleteCollection_def FakeScheduledBackups_Patch_def)

lemma typed_sb_records:
  assumes "recording_client c reqs"
  shows "reqs (typed_sb c ns call w) = reqs w @ [call_request sb_name ''scheduledbackups'' ns call]"
  using assms
  by (cases call)
     (simp_all add: recording_client_def sb_Get_def sb_List_def sb_Watch_def sb_Create_def sb_Update_def
       sb_UpdateStatus_def sb_Delete_def sb_DeleteCollection_def sb_Patch_def)

section \<open>RequestedBackupActions\<close>

fun fake_rba :: "('s, 'm, 'l) fake_lib \<Rightarrow> string \<Rightarrow> requested_action api_call \<Rightarrow> 's \<Rightarrow> 's" where
  "fake_rba lib ns (Call_Get name opts) s = snd (FakeRequestedBackupActions_Get lib (fake_RequestedBackupActions ns) name opts s)"
| "fake_rba lib ns (Call_List opts) s = snd (FakeRequestedBackupActions_List lib (fake_RequestedBackupActions ns) opts s)"
| "fake_rba lib ns (Call_Watch opts) s = snd (FakeRequestedBackupActions_Watch lib (fake_RequestedBackupActions ns) opts s)"
| "fake_rba lib ns (Call_Create b opts) s = snd (FakeRequestedBackupActions_Create lib (fake_RequestedBackupActions ns) b opts s)"
| "fake_rba lib ns (Call_Update b opts) s = snd (FakeRequestedBackupActions_Update lib (fake_RequestedBackupActions ns) b opts s)"
| "fake_rba lib ns (Call_UpdateStatus b opts) s = snd (FakeRequestedBackupActions_UpdateStatus lib (fake_RequestedBackupActions ns) b opts s)"
| "fake_rba lib ns (Call_Delete name opts) s = snd (FakeRequestedBackupActions_Delete lib (fake_RequestedBackupActions ns) name opts s)"
| "fake_rba lib ns (Call_DeleteCollection opts lopts) s =
     snd (FakeRequestedBackupActions_DeleteCollection lib (fake_RequestedBackupActions ns) opts lopts s)"
| "fake_rba lib ns (Call_Patch name pt d opts subs) s =
     snd (FakeRequestedBackupActions_Patch lib (fake_RequestedBackupActions ns) name pt d opts subs s)"

fun typed_rba :: "'w rba_client \<Rightarrow> string \<Rightarrow> requested_action api_call \<Rightarrow> 'w \<Rightarrow> 'w" where
  "typed_rba c ns (Call_Get name opts) w = snd (rba_Get c ns name opts w)"
| "typed_rba c ns (Call_List opts) w = snd (rba_List c ns opts w)"
| "typed_rba c ns (Call_Watch opts) w = snd (rba_Watch c ns opts w)"
| "typed_rba c ns (Call_Create b opts) w = snd (rba_Create c ns b opts w)"
| "typed_rba c ns (Call_Update b opts) w = snd (rba_Update c ns b opts w)"
| "typed_rba c ns (Call_UpdateStatus b opts) w = snd (rba_UpdateStatus c ns b opts w)"
| "typed_rba c ns (Call_Delete name opts) w = snd (rba_Delete c ns name opts w)"
| "typed_rba c ns (Call_DeleteCollection opts lopts) w = snd (rba_DeleteCollection c ns opts lopts w)"
| "typed_rba c ns (Call_Patch name pt d opts subs) w = snd (rba_Patch c ns name pt d opts subs w)"

lemma fake_rba_records:
  assumes "recording_fake lib acts"
  shows "acts (fake_rba lib ns call s) = acts s @ [call_action Obj_action requestedbackupactionsResource requestedbackupactionsKind ns call]"
  by (cases call)
     (simp_all add: fake_records[OF assms] fake_RequestedBackupActions_def FakeRequestedBackupActions_Get_def FakeRequestedBackupActions_List_def
       FakeRequestedBackupActions_Watch_def FakeRequestedBackupActions_Create_def FakeRequestedBackupActions_Update_def FakeRequestedBackupActions_UpdateStatus_def
       FakeRequestedBackupActions_Delete_def FakeRequestedBackupActions_DeleteCollection_def FakeRequestedBackupActions_Patch_def)

lemma typed_rba_records:
  assumes "recording_client c reqs"
  shows "reqs (typed_rba c ns call w) = reqs w @ [call_request rba_name ''requestedbackupactions'' ns call]"
  using assms
  by (cases call)
     (simp_all add: recording_client_def rba_Get_def rba_List_def rba_Watch_def rba_Create_def rba_Update_def
       rba_UpdateStatus_def rba_Delete_def rba_DeleteCollection_def rba_Patch_def)

section \<open>ClusterBackupProcedureTemplates\<close>

fun fake_cbpt :: "('s, 'm, 'l) fake_lib \<Rightarrow> string \<Rightarrow> cluster_template api_call \<Rightarrow> 's \<Rightarrow> 's" where
  "fake_cbpt lib ns (Call_Get name opts) s = snd (FakeClusterBackupProcedureTemplates_Get lib (fake_ClusterBackupProcedureTemplates ns) name opts s)"
| "fake_cbpt lib ns (Call_List opts) s = snd (FakeClusterBackupProcedureTemplates_List lib (fake_ClusterBackupProcedureTemplates ns) opts s)"
| "fake_cbpt lib ns (Call_Watch opts) s = snd (FakeClusterBackupProcedureTemplates_Watch lib (fake_ClusterBackupProcedureTemplates ns) opts s)"
| "fake_cbpt lib ns (Call_Create b opts) s = snd (FakeClusterBackupProcedureTemplates_Create lib (fake_ClusterBackupProcedureTemplates ns) b opts s)"
| "fake_cbpt lib ns (Call_Update b opts) s = snd (FakeClusterBackupProcedureTemplates_Update lib (fake_ClusterBackupProcedureTemplates ns) b opts s)"
| "fake_cbpt lib ns (Call_UpdateStatus b opts) s = snd (FakeClusterBackupProcedureTemplates_UpdateStatus lib (fake_ClusterBackupProcedureTemplates ns) b opts s)"
| "fake_cbpt lib ns (Call_Delete name opts) s = snd (FakeClusterBackupProcedureTemplates_Delete lib (fake_ClusterBackupProcedureTemplates ns) name opts s)"
| "fake_cbpt lib ns (Call_DeleteCollection opts lopts) s =
     snd (FakeClusterBackupProcedureTemplates_DeleteCollection lib (fake_ClusterBackupProcedureTemplates ns) opts lopts s)"
| "fake_cbpt lib ns (Call_Patch name pt d opts subs) s =
     snd (FakeClusterBackupProcedureTemplates_Patch lib (fake_ClusterBackupProcedureTemplates ns) name pt d opts subs s)"

fun typed_cbpt :: "'w cbpt_client \<Rightarrow> string \<Rightarrow> cluster_template api_call \<Rightarrow> 'w \<Rightarrow> 'w" where
  "typed_cbpt c ns (Call_Get name opts) w = snd (cbpt_Get c ns name opts w)"
| "typed_cbpt c ns (Call_List opts) w = snd (cbpt_List c ns opts w)"
| "typed_cbpt c ns (Call_Watch opts) w = snd (cbpt_Watch c ns opts w)"
| "typed_cbpt c ns (Call_Create b opts) w = snd (cbpt_Create c ns b opts w)"
| "typed_cbpt c ns (Call_Update b opts) w = snd (cbpt_Update c ns b opts w)"
| "typed_cbpt c ns (Call_UpdateStatus b opts) w = snd (cbpt_UpdateStatus c ns b opts w)"
| "typed_cbpt c ns (Call_Delete name opts) w = snd (cbpt_Delete c ns name opts w)"
| "typed_cbpt c ns (Call_DeleteCollection opts lopts) w = snd (cbpt_DeleteCollection c ns opts lopts w)"
| "typed_cbpt c ns (Call_Patch name pt d opts subs) w = snd (cbpt_Patch c ns name pt d opts subs w)"

lemma fake_cbpt_records:
  assumes "recording_fake lib acts"
  shows "acts (fake_cbpt lib ns call s) = acts s @ [call_action Obj_template clusterbackupproceduretemplatesResource clusterbackupproceduretemplatesKind ns call]"
  by (cases call)
     (simp_all add: fake_records[OF assms] fake_ClusterBackupProcedureTemplates_def FakeClusterBackupProcedureTemplates_Get_def FakeClusterBackupProcedureTemplates_List_def
       FakeClusterBackupProcedureTemplates_Watch_def FakeClusterBackupProcedureTemplates_Create_def FakeClusterBackupProcedureTemplates_Update_def FakeClusterBackupProcedureTemplates_UpdateStatus_def
       FakeClusterBackupProcedureTemplates_Delete_def FakeClusterBackupProcedureTemplates_DeleteCollection_def FakeClusterBackupProcedureTemplates_Patch_def)

lemma typed_cbpt_records:
  assumes "recording_client c reqs"
  shows "reqs (typed_cbpt c ns call w) = reqs w @ [call_request cbpt_name ''clusterbackupproceduretemplates'' ns call]"
  using assms
  by (cases call)
     (simp_all add: recording_client_def cbpt_Get_def cbpt_List_def cbpt_Watch_def cbpt_Create_def cbpt_Update_def
       cbpt_UpdateStatus_def cbpt_Delete_def cbpt_DeleteCollection_def cbpt_Patch_def)

end
