(* ===== verification/Client_Properties.thy ===== *)
theory Client_Properties
  imports Informer_Facts Fake_Facts
begin

text \<open>
  Properties of the generated client library: the informer factory, the listers, the fakes
  and the clientset.
\<close>

section \<open>A library for the witnesses\<close>

text \<open>
  Informers are numbers, handed out in turn; the world is the next number. Every cache is
  synchronised at once.
\<close>

definition sample_informers :: "(nat, nat, nat, nat \<times> group_resource) informer_lib" where
  "sample_informers = \<lparr>il_NewSharedIndexInformer = (\<lambda>lw ty d ix n. (n, n + 1)), il_GetIndexer = (\<lambda>i. i),
     il_WaitForCacheSync = (\<lambda>i w. (True, w)), il_NewGenericLister = (\<lambda>x r. (x, r)),
     il_gvr_text = (\<lambda>r. gvr_Resource r)\<rparr>"

definition sample_rest :: "('w, 'b) rest_client" where
  "sample_rest = \<lparr>rc_Into = (\<lambda>w r. (Inl (Text_error ''no server''), w)), rc_IntoList = (\<lambda>w r. (Inr [], w)),
     rc_Watch = (\<lambda>w r. (Inr 0, w)), rc_Error = (\<lambda>w r. (None, w))\<rparr>"

definition sample_handles :: "'w rest_handles" where
  "sample_handles = \<lparr>rh_backups = sample_rest, rh_actions = sample_rest, rh_templates = sample_rest\<rparr>"

definition sample_factory_state :: "(nat, nat) informer_state" where
  "sample_factory_state = \<lparr>is_factory = NewFilteredSharedInformerFactory (versioned_of sample_handles) 60 ''ns'' None,
     is_runs = [], is_world = 0\<rparr>"

lemma sample_factory_fresh: "fresh_factory sample_factory_state"
  by (simp add: fresh_factory_def sample_factory_state_def NewFilteredSharedInformerFactory_def
      NewSharedInformerFactoryWithOptions_def WithNamespace_def WithTweakListOptions_def)

text \<open>A factory that was asked for backups.\<close>

definition sample_asked :: "(nat, nat) informer_state" where
  "sample_asked = snd (kind_Informer sample_informers Kind_backup
     (factory_access (is_factory sample_factory_state)) sample_factory_state)"

lemma sample_asked_reached: "factory_reaches sample_informers sample_factory_state sample_asked"
  by (rule further[OF here], rule ask[where k = Kind_backup], simp add: sample_asked_def)
     (rule prod.collapse[symmetric])

lemma sample_asked_informers: "sf_informers (is_factory sample_asked) = [(type_ScheduledBackup, 0)]"
  by (simp add: sample_asked_def kind_Informer_eq InformerFor_def Let_def sample_factory_state_def
      NewFilteredSharedInformerFactory_def NewSharedInformerFactoryWithOptions_def WithNamespace_def
      WithTweakListOptions_def ScheduledBackup_defaultInformer_def NewFilteredScheduledBackupInformer_def
      sample_informers_def)

section \<open>The informer factory\<close>

text \<open>
  C29. However often a factory is started and asked for informers, no informer is run twice and
  none is run that was not registered; after \<^verbatim>\<open>Start\<close> every registered informer is running,
  exactly once, and starting again, in any order, changes nothing.
\<close>

theorem informers_run_once:
  assumes "fresh_factory s0" and "factory_reaches lib s0 s"
    and "mset kvs = mset (sf_informers (is_factory s))" and "mset kvs' = mset (sf_informers (is_factory s))"
  shows "mset (is_runs s) \<subseteq># mset (map snd (sf_informers (is_factory s))) \<and>
     mset (is_runs (Start kvs s)) = mset (map snd (sf_informers (is_factory s))) \<and>
     Start kvs' (Start kvs s) = Start kvs s"
proof -
  let ?m = "sf_informers (is_factory s)" and ?t = "Start kvs s"
  have ok: "factory_ok lib s" using reaches_ok[OF assms(2) fresh_ok[OF assms(1)]] .
  have gm: "gmap_ok ?m" using ok by (simp add: factory_ok_def Let_def)
  have ok': "factory_ok lib ?t" by (rule Start_ok[OF ok order_entries(1)[OF gm assms(3)]])
  have all: "started (is_factory ?t) ty" if "map_of ?m ty \<noteq> None" for ty
    using that order_entries(2)[OF gm assms(3)] by (simp add: dom_def)
  have "mset (is_runs s) = runs_of (started (is_factory s)) ?m" using ok by (simp add: factory_ok_def Let_def)
  then have "mset (is_runs s) \<subseteq># mset (map snd ?m)"
    by (simp add: runs_of_def image_mset_subseteq_mono mset_filter)
  moreover have "mset (is_runs ?t) = mset (map snd ?m)"
    using ok' runs_of_all[of ?m "started (is_factory ?t)"] all by (simp add: factory_ok_def Let_def)
  moreover have "Start kvs' ?t = ?t"
    by (rule Start_idle) (use order_entries(2)[OF gm assms(4)] order_entries(2)[OF gm assms(3)] in simp)
  ultimately show ?thesis by blast
qed

theorem informers_run_once_witness:
  "mset (is_runs (Start [(type_ScheduledBackup, 0)] sample_asked)) = {#0#}"
  using informers_run_once[OF sample_factory_fresh sample_asked_reached,
      of "[(type_ScheduledBackup, 0)]" "[(type_ScheduledBackup, 0)]"]
  by (simp add: sample_asked_informers)

text \<open>
  C30. Everyone who asks a factory for the informer of a type, at any time, gets the same
  informer: the one made for the namespace, list options and client of the factory and the
  resync period of the type.
\<close>

theorem one_informer_per_type:
  assumes "fresh_factory s0" and "factory_reaches lib s0 s"
    and "kind_Informer lib k (factory_access (is_factory s)) s = (i, s1)"
    and "factory_reaches lib s1 t"
  shows "kind_Informer lib k (factory_access (is_factory t)) t = (i, t) \<and>
     (\<exists>w w'. kind_new lib k (factory_access (is_factory s0)) (sf_client (is_factory s0))
        (resync_period (is_factory s0) (kind_type k)) w = (i, w'))"
proof -
  have s1: "factory_reaches lib s0 s1" using assms(2) ask[OF assms(3)] by (rule further)
  have reg: "map_of (sf_informers (is_factory s1)) (kind_type k) = Some i"
    using assms(3) by (simp add: kind_Informer_eq InformerFor_registers)
  then have "map_of (sf_informers (is_factory t)) (kind_type k) = Some i"
    by (rule reaches_informers[OF assms(4)])
  then have "kind_Informer lib k (factory_access (is_factory t)) t = (i, t)"
    by (simp add: kind_Informer_eq InformerFor_again)
  moreover have "factory_ok lib s1" using s1 fresh_ok[OF assms(1)] by (rule reaches_ok)
  with reg obtain w w' where made: "kind_new lib k (factory_access (is_factory s1)) (sf_client (is_factory s1))
      (resync_period (is_factory s1) (kind_type k)) w = (i, w')"
    unfolding factory_ok_def Let_def by blast
  have "factory_config (is_factory s1) = factory_config (is_factory s0)" using s1 by (rule reaches_config)
  then have "factory_access (is_factory s1) = factory_access (is_factory s0)"
    "sf_client (is_factory s1) = sf_client (is_factory s0)"
    "resync_period (is_factory s1) = resync_period (is_factory s0)"
    by (auto simp: factory_config_def factory_access_def factory_Riotkit_def resync_period_def split: option.splits)
  with made have "\<exists>w w'. kind_new lib k (factory_access (is_factory s0)) (sf_client (is_factory s0))
        (resync_period (is_factory s0) (kind_type k)) w = (i, w')" by metis
  ultimately show ?thesis by blast
qed

theorem one_informer_per_type_witness:
  "fst (kind_Informer sample_informers Kind_backup (factory_access (is_factory sample_asked)) sample_asked) = 0"
proof -
  have "kind_Informer sample_informers Kind_backup (factory_access (is_factory sample_factory_state))
      sample_factory_state = (0, sample_asked)"
    by (simp add: sample_asked_def kind_Informer_eq InformerFor_def Let_def sample_factory_state_def
        NewFilteredSharedInformerFactory_def NewSharedInformerFactoryWithOptions_def WithNamespace_def
        WithTweakListOptions_def ScheduledBackup_defaultInformer_def NewFilteredScheduledBackupInformer_def
        sample_informers_def)
  from one_informer_per_type[OF sample_factory_fresh here this here] show ?thesis by simp
qed

text \<open>Waiting reports on the informers that were started, and on no other.\<close>

lemma wait_reports_started:
  assumes "factory_ok lib s" and "mset kvs = mset (sf_informers (is_factory s))"
    and "WaitForCacheSync lib kvs s = (res, s')"
  shows "dom (map_of res) = {ty. started (is_factory s) ty}"
proof -
  have gm: "gmap_ok (sf_informers (is_factory s))" using assms(1) by (simp add: factory_ok_def Let_def)
  from assms(3) obtain w where "wait_each lib (started_informers (sf_startedInformers (is_factory s)) kvs []) []
      (is_world s) = (res, w)" by (auto simp: WaitForCacheSync_def Let_def split: prod.splits)
  from wait_each_keys[OF this]
  have "dom (map_of res) = dom (map_of (started_informers (sf_startedInformers (is_factory s)) kvs []))"
    by (simp add: dom_map_of_conv_image_fst)
  also have "\<dots> = {ty. started (is_factory s) ty \<and> map_of kvs ty \<noteq> None}"
    by (auto simp: map_of_started_informers[OF order_entries(3)[OF gm assms(2)]] started_def dom_def)
  also have "\<dots> = {ty. started (is_factory s) ty}"
  proof -
    have "map_of kvs ty \<noteq> None" if "started (is_factory s) ty" for ty
    proof -
      from that assms(1) have "ty \<in> dom (map_of (sf_informers (is_factory s)))"
        by (auto simp: factory_ok_def Let_def)
      then have "ty \<in> fst ` set kvs" using order_entries(2)[OF gm assms(2)] by simp
      then show ?thesis by (simp add: map_of_eq_None_iff)
    qed
    then show ?thesis by blast
  qed
  finally show ?thesis .
qed

text \<open>Listing and watching the resource of a type in a namespace with one request.\<close>

fun resource_list ::
  "'w rest_handles \<Rightarrow> api_kind \<Rightarrow> string \<Rightarrow> list_options \<Rightarrow> 'w \<Rightarrow> (goerr + api_list) \<times> 'w" where
  "resource_list c Kind_template ns opts w = map_result Template_list
     (rc_IntoList (rh_templates c) w (list_request ''clusterbackupproceduretemplates'' ns opts))"
| "resource_list c Kind_action ns opts w = map_result Action_list
     (rc_IntoList (rh_actions c) w (list_request ''requestedbackupactions'' ns opts))"
| "resource_list c Kind_backup ns opts w = map_result Backup_list
     (rc_IntoList (rh_backups c) w (list_request ''scheduledbackups'' ns opts))"

fun resource_watch ::
  "'w rest_handles \<Rightarrow> api_kind \<Rightarrow> string \<Rightarrow> list_options \<Rightarrow> 'w \<Rightarrow> (goerr + nat) \<times> 'w" where
  "resource_watch c Kind_template ns opts w =
     rc_Watch (rh_templates c) w (watch_request ''clusterbackupproceduretemplates'' ns opts)"
| "resource_watch c Kind_action ns opts w =
     rc_Watch (rh_actions c) w (watch_request ''requestedbackupactions'' ns opts)"
| "resource_watch c Kind_backup ns opts w =
     rc_Watch (rh_backups c) w (watch_request ''scheduledbackups'' ns opts)"

lemmas filtered_informers =
  ClusterBackupProcedureTemplate_defaultInformer_def NewFilteredClusterBackupProcedureTemplateInformer_def
  RequestedBackupAction_defaultInformer_def NewFilteredRequestedBackupActionInformer_def
  ScheduledBackup_defaultInformer_def NewFilteredScheduledBackupInformer_def

lemma list_of_kind:
  "(\<lambda>options w. map_result Template_list (cbpt_List (rh_templates c) ns (t options) w)) =
     (\<lambda>options. resource_list c Kind_template ns (t options))"
  "(\<lambda>options w. map_result Action_list (rba_List (rh_actions c) ns (t options) w)) =
     (\<lambda>options. resource_list c Kind_action ns (t options))"
  "(\<lambda>options w. map_result Backup_list (sb_List (rh_backups c) ns (t options) w)) =
     (\<lambda>options. resource_list c Kind_backup ns (t options))"
  by (intro ext, simp add: cbpt_List_def rba_List_def sb_List_def)+

lemma watch_of_kind:
  "(\<lambda>options. cbpt_Watch (rh_templates c) ns (t options)) = (\<lambda>options. resource_watch c Kind_template ns (t options))"
  "(\<lambda>options. rba_Watch (rh_actions c) ns (t options)) = (\<lambda>options. resource_watch c Kind_action ns (t options))"
  "(\<lambda>options. sb_Watch (rh_backups c) ns (t options)) = (\<lambda>options. resource_watch c Kind_backup ns (t options))"
  by (intro ext, simp add: cbpt_Watch_def rba_Watch_def sb_Watch_def)+

text \<open>
  The informer a factory makes for a type is built for objects of that type, lists and
  watches the resource of that type with one request each, in the namespace of the factory,
  with the options as the factory's tweak left them, and indexes by namespace.
\<close>

theorem informer_lists_its_resource:
  "kind_new lib k a (versioned_of c) period =
     il_NewSharedIndexInformer lib
       \<lparr>lw_List = (\<lambda>opts. resource_list c k (ac_namespace a) (tweaked (ac_tweakListOptions a) opts)),
        lw_Watch = (\<lambda>opts. resource_watch c k (ac_namespace a) (tweaked (ac_tweakListOptions a) opts))\<rparr>
       (kind_type k) period [(''namespace'', ''MetaNamespaceIndexFunc'')]"
  by (cases k) (simp_all add: filtered_informers namespace_indexers_def versioned_of_def list_of_kind watch_of_kind
      del: resource_list.simps resource_watch.simps)

text \<open>\<^verbatim>\<open>ForResource\<close> knows the three resources of the group and version, and no other.\<close>

definition resource_kind :: "gvr \<Rightarrow> api_kind option" where
  "resource_kind r = find (\<lambda>k. r = WithResource SchemeGroupVersion (kind_resource k)) [Kind_template, Kind_action, Kind_backup]"

lemma for_resource_spec:
  "ForResource lib r s = (case resource_kind r of
       Some k \<Rightarrow> (case kind_Informer lib k (factory_access (is_factory s)) s of (i, s') \<Rightarrow>
          (Inr \<lparr>gi_informer = i, gi_resource = \<lparr>gr_Group = ''riotkit.org'', gr_Resource = kind_resource k\<rparr>\<rparr>, s'))
     | None \<Rightarrow> (Inl (Text_error (''no informer found for '' @ il_gvr_text lib r)), s))"
  by (auto simp: ForResource_def Let_def resource_kind_def factory_access_def GroupResource_def WithResource_def
      SchemeGroupVersion_def split: prod.splits)

section \<open>Listers\<close>

text \<open>A store with one backup, and a matching everything.\<close>

definition sample_indexer :: "api_object list \<Rightarrow> (unit, unit, unit) indexer_lib" where
  "sample_indexer ms = \<lparr>ix_ListAll = (\<lambda>x l s. (ms, None)),
     ix_ListAllByNamespace = (\<lambda>x ns l s. (filter (\<lambda>m. ns = [] \<or> om_Namespace (obj_meta m) = ns) ms, None)),
     ix_GetByKey = (\<lambda>x k s. (find (\<lambda>m. meta_key m = k) ms, None)),
     ix_NotFound = (\<lambda>r n. Api_error Reason_NotFound n)\<rparr>"

lemma zero_meta_namespace [simp]: "om_Namespace zero_meta = []"
  by (simp add: zero_meta_def)

lemma sample_indexer_holds: "holds (sample_indexer ms) (\<lambda>l m. True) () () ms"
  by (simp add: holds_def sample_indexer_def)

text \<open>
  C31. The lister of a namespace finds a backup by name exactly when the cache holds a backup of
  that name in that namespace, and otherwise answers NotFound for the resource.
\<close>

theorem backup_lister_get:
  assumes "holds lib matches x s (map Obj_backup bs)" and "well_named (map Obj_backup bs)" and "CHR ''/'' \<notin> set ns"
  shows "ScheduledBackupNamespaceLister_Get lib (ScheduledBackupLister_ScheduledBackups (NewScheduledBackupLister x) ns) name s =
    (Return (case find (\<lambda>b. ns \<noteq> [] \<and> om_Namespace (sb_Meta b) = ns \<and> om_Name (sb_Meta b) = name) bs of
        Some b \<Rightarrow> Inr b
      | None \<Rightarrow> Inl (ix_NotFound lib \<lparr>gr_Group = ''riotkit.org'', gr_Resource = ''scheduledbackup''\<rparr> name)), s)"
proof -
  let ?l = "ScheduledBackupLister_ScheduledBackups (NewScheduledBackupLister x) ns"
  let ?P = "\<lambda>b. ns \<noteq> [] \<and> om_Namespace (sb_Meta b) = ns \<and> om_Name (sb_Meta b) = name"
  have l [simp]: "nl_indexer ?l = x" "nl_namespace ?l = ns"
    by (simp_all add: ScheduledBackupLister_ScheduledBackups_def NewScheduledBackupLister_def)
  have h: "holds lib matches (nl_indexer ?l) s (map Obj_backup bs)" using assms(1) by simp
  show ?thesis
  proof (cases "find ?P bs")
    case None
    then have "nl_namespace ?l = [] \<or> (\<forall>b \<in> set bs. om_Namespace (obj_meta (Obj_backup b)) \<noteq> nl_namespace ?l \<or>
        om_Name (obj_meta (Obj_backup b)) \<noteq> name)"
      by (auto simp: find_None_iff)
    from backup_kind.Get_not_found[OF h assms(2) _ this] assms(3) None show ?thesis
      by (simp add: ScheduledBackupNamespaceLister_Get_def)
  next
    case (Some b)
    then have "b \<in> set bs" "?P b" by (auto simp: find_Some_iff)
    with backup_kind.Get_found[OF h assms(2), of b name] Some show ?thesis
      by (simp add: ScheduledBackupNamespaceLister_Get_def)
  qed
qed

theorem backup_lister_get_witness:
  "ScheduledBackupNamespaceLister_Get (sample_indexer [Obj_backup (empty_backup\<lparr>sb_Meta := zero_meta\<lparr>om_Name := ''b'', om_Namespace := ''ns''\<rparr>\<rparr>)])
     (ScheduledBackupLister_ScheduledBackups (NewScheduledBackupLister ()) ''ns'') ''b'' () =
   (Return (Inr (empty_backup\<lparr>sb_Meta := zero_meta\<lparr>om_Name := ''b'', om_Namespace := ''ns''\<rparr>\<rparr>)), ())"
  using backup_lister_get[where bs = "[empty_backup\<lparr>sb_Meta := zero_meta\<lparr>om_Name := ''b'', om_Namespace := ''ns''\<rparr>\<rparr>]"
      and ns = "''ns''" and name = "''b''", OF sample_indexer_holds[of "map Obj_backup _"]]
  by (simp add: well_named_def)

text \<open>
  C32. A template is cluster-scoped, so the cache holds it under its bare name. The generated
  lister is one of namespaces: it never finds a template by name, in no namespace, not even one
  that it lists.
\<close>

theorem template_lister_finds_nothing:
  assumes "holds lib matches x s (map Obj_template ts)" and "well_named (map Obj_template ts)" and "CHR ''/'' \<notin> set ns"
    and scoped: "\<forall>t \<in> set ts. om_Namespace (cbpt_Meta t) = []"
  shows "ClusterBackupProcedureTemplateNamespaceLister_Get lib
      (ClusterBackupProcedureTemplateLister_ClusterBackupProcedureTemplates
         (NewClusterBackupProcedureTemplateLister x) ns) name s =
    (Return (Inl (ix_NotFound lib \<lparr>gr_Group = ''riotkit.org'', gr_Resource = ''clusterbackupproceduretemplate''\<rparr> name)), s) \<and>
    ClusterBackupProcedureTemplateLister_List lib (NewClusterBackupProcedureTemplateLister x) sel s =
    (Return (filter (\<lambda>t. matches sel (om_Labels (cbpt_Meta t))) ts, None), s)"
proof -
  let ?l = "ClusterBackupProcedureTemplateLister_ClusterBackupProcedureTemplates (NewClusterBackupProcedureTemplateLister x) ns"
  have l [simp]: "nl_indexer ?l = x" "nl_namespace ?l = ns" "ls_indexer (NewClusterBackupProcedureTemplateLister x) = x"
    by (simp_all add: ClusterBackupProcedureTemplateLister_ClusterBackupProcedureTemplates_def
        NewClusterBackupProcedureTemplateLister_def)
  have h: "holds lib matches (nl_indexer ?l) s (map Obj_template ts)"
    "holds lib matches (ls_indexer (NewClusterBackupProcedureTemplateLister x)) s (map Obj_template ts)"
    using assms(1) by simp_all
  have "nl_namespace ?l = [] \<or> (\<forall>t \<in> set ts. om_Namespace (obj_meta (Obj_template t)) \<noteq> nl_namespace ?l \<or>
      om_Name (obj_meta (Obj_template t)) \<noteq> name)" using scoped by auto
  from template_kind.Get_not_found[OF h(1) assms(2) _ this] template_kind.List_holds[OF h(2)] assms(3) show ?thesis
    by (simp add: ClusterBackupProcedureTemplateNamespaceLister_Get_def ClusterBackupProcedureTemplateLister_List_def)
qed

theorem template_lister_finds_nothing_witness:
  "ClusterBackupProcedureTemplateLister_List (sample_indexer [Obj_template (empty_template\<lparr>cbpt_Meta := zero_meta\<lparr>om_Name := ''pg''\<rparr>\<rparr>)])
     (NewClusterBackupProcedureTemplateLister ()) () () =
   (Return ([empty_template\<lparr>cbpt_Meta := zero_meta\<lparr>om_Name := ''pg''\<rparr>\<rparr>], None), ())"
  using template_lister_finds_nothing[where ts = "[empty_template\<lparr>cbpt_Meta := zero_meta\<lparr>om_Name := ''pg''\<rparr>\<rparr>]"
      and ns = "[]" and name = "''pg''", OF sample_indexer_holds[of "map Obj_template _"]]
  by (simp add: well_named_def)

section \<open>Fakes\<close>


definition recorder :: "(fake_action list, unit, unit) fake_lib" where
  "recorder = \<lparr>fk_Invokes = (\<lambda>a d s. ((Some d, None), s @ [a])), fk_InvokesWatch = (\<lambda>a s. (Inr 0, s @ [a])),
     fk_ExtractLabel = (\<lambda>opts. None), fk_Everything = (), fk_Matches = (\<lambda>l m. True), fk_zero_meta = ()\<rparr>"

definition request_recorder :: "('b rest_request list, 'b) rest_client" where
  "request_recorder = \<lparr>rc_Into = (\<lambda>w r. (Inl (Text_error []), w @ [r])), rc_IntoList = (\<lambda>w r. (Inr [], w @ [r])),
     rc_Watch = (\<lambda>w r. (Inr 0, w @ [r])), rc_Error = (\<lambda>w r. (None, w @ [r]))\<rparr>"


section \<open>The clientset\<close>

text \<open>
  C34. A clientset is made from a configuration only when its rate limit makes sense; its REST
  client is then the one of the caller's configuration, for the group and version of the API,
  under \<^verbatim>\<open>/apis\<close>, with a user agent, and with a rate limiter whenever a rate is configured.
\<close>

theorem clientset_is_configured:
  assumes "NewForConfig lib c = Inr cs" and "cl_DefaultUserAgent lib \<noteq> []"
  shows "(cfg_RateLimiter c \<noteq> None \<or> cfg_QPS c \<le> 0 \<or> cfg_Burst c > 0) \<and>
    (\<exists>cfg. cl_RESTClientFor lib cfg = Inr (rv_restClient (cs_RiotkitV1alpha1 cs)) \<and>
       cfg_Host cfg = cfg_Host c \<and> cfg_GroupVersion cfg = Some SchemeGroupVersion \<and> cfg_APIPath cfg = ''/apis'' \<and>
       cfg_UserAgent cfg \<noteq> [] \<and> (cfg_UserAgent c \<noteq> [] \<longrightarrow> cfg_UserAgent cfg = cfg_UserAgent c) \<and>
       (cfg_QPS c > 0 \<longrightarrow> cfg_RateLimiter cfg \<noteq> None) \<and>
       (cfg_RateLimiter c \<noteq> None \<longrightarrow> cfg_RateLimiter cfg = cfg_RateLimiter c))"
proof -
  let ?c = "if cfg_RateLimiter c = None \<and> cfg_QPS c > 0
    then c\<lparr>cfg_RateLimiter := Some (cl_NewTokenBucketRateLimiter lib (cfg_QPS c) (cfg_Burst c))\<rparr> else c"
  from assms(1) have nb: "\<not> (cfg_RateLimiter c = None \<and> cfg_QPS c > 0 \<and> cfg_Burst c \<le> 0)"
    by (auto simp: NewForConfig_def split: if_splits)
  with assms(1) have "riotkit_NewForConfig lib ?c = Inr (cs_RiotkitV1alpha1 cs)"
    by (auto simp: NewForConfig_def Let_def cs_RiotkitV1alpha1_def split: sum.splits if_splits)
  then have "cl_RESTClientFor lib (snd (setConfigDefaults lib ?c)) = Inr (rv_restClient (cs_RiotkitV1alpha1 cs))"
    by (rule riotkit_NewForConfig_Inr)
  moreover have "cfg_Host (snd (setConfigDefaults lib ?c)) = cfg_Host c"
    "cfg_UserAgent c \<noteq> [] \<longrightarrow> cfg_UserAgent (snd (setConfigDefaults lib ?c)) = cfg_UserAgent c"
    by (simp_all add: setConfigDefaults_def Let_def)
  ultimately show ?thesis using nb setConfigDefaults_spec[OF assms(2), of ?c]
    by (intro conjI exI[of _ "snd (setConfigDefaults lib ?c)"]) (auto simp: not_le split: if_splits)
qed

definition sample_client_lib :: "(rat \<times> int, unit, string, unit) client_lib" where
  "sample_client_lib = \<lparr>cl_NewTokenBucketRateLimiter = (\<lambda>q b. (q, b)), cl_WithoutConversion = (), cl_DefaultUserAgent = ''agent'',
     cl_RESTClientFor = (\<lambda>cfg. Inr (cfg_APIPath cfg)), cl_DiscoveryForConfig = (\<lambda>cfg. Inr ()),
     cl_DiscoveryForConfigOrDie = (\<lambda>cfg. Return ()), cl_NewDiscoveryClient = (\<lambda>c. ())\<rparr>"

definition sample_config :: "int \<Rightarrow> (rat \<times> int, unit) rest_config" where
  "sample_config b = \<lparr>cfg_Host = ''h'', cfg_QPS = 20, cfg_Burst = b, cfg_RateLimiter = None, cfg_GroupVersion = None,
     cfg_APIPath = [], cfg_NegotiatedSerializer = None, cfg_UserAgent = []\<rparr>"

theorem clientset_is_configured_witness:
  "\<exists>cs. NewForConfig sample_client_lib (sample_config 30) = Inr cs \<and>
     (\<exists>cfg. cl_RESTClientFor sample_client_lib cfg = Inr (rv_restClient (cs_RiotkitV1alpha1 cs)) \<and> cfg_RateLimiter cfg \<noteq> None)"
proof -
  obtain cs where cs: "NewForConfig sample_client_lib (sample_config 30) = Inr cs"
    by (simp add: NewForConfig_def Let_def riotkit_NewForConfig_def setConfigDefaults_def sample_client_lib_def sample_config_def)
  have "cl_DefaultUserAgent sample_client_lib \<noteq> []" by (simp add: sample_client_lib_def)
  from clientset_is_configured[OF cs this] cs show ?thesis by (auto simp: sample_config_def)
qed

text \<open>The variant that panics skips the check of the burst, and shares no limiter.\<close>

lemma or_die_skips_the_check:
  "NewForConfig sample_client_lib (sample_config 0) = Inl burst_error \<and>
   (\<exists>cs. NewForConfigOrDie sample_client_lib (sample_config 0) = Return cs)"
  by (simp add: NewForConfig_def NewForConfigOrDie_def riotkit_NewForConfigOrDie_def riotkit_NewForConfig_def
      setConfigDefaults_def Let_def sample_client_lib_def sample_config_def)

end
