(* ===== verification/Spec2Isabelle.thy ===== *)
theory Spec2Isabelle
  imports Component_Properties Completion Redis_Lock Copy_Facts Client_Properties Repository_Tests
begin

text \<open>
  The backup-maker-controller is a Kubernetes operator. A \<^emph>\<open>ScheduledBackup\<close> describes how a
  backup is made and encrypted, a \<^emph>\<open>RequestedBackupAction\<close> asks for one backup or restore, and a
  \<^emph>\<open>ClusterBackupProcedureTemplate\<close> holds the scripts. The controllers fetch an object, hydrate it
  with its secrets and template, render Kubernetes manifests with a generator, apply them to the
  cluster, and report the outcome in the object's status; two observers report on the health of
  the jobs that were started. This library models that program and proves what makes it correct,
  and where it is not.

  \<^bold>\<open>How code is modelled.\<close> A Go function that reads or changes its surroundings is a function on
  an explicit state (\<open>('s, 'a) go\<close> of theory \<open>Prelude\<close>): its outcome is a value or a panic, so an
  index out of range, a write to a nil map, a nil pointer and a failed type assertion are
  branches of the model, and \<^verbatim>\<open>defer\<close> runs on all of them. An \<^verbatim>\<open>error\<close> is a value (\<open>goerr\<close>),
  a pointer that may be nil an option, a \<^verbatim>\<open>map\<close> an association list without a repeated key. The
  state (\<open>sys\<close> of theory \<open>Platform\<close>) holds the world outside, the keys of the locker, the file
  system and a trace of what was done: objects written, statuses put, events emitted. Every loop is
  a structural recursion or has a proved measure (splitting strings, escaping JSON, the blocks
  of SHA-256); nothing needs fuel, and every definition of code evaluates. Only the work queue
  around a controller may run forever: it is a partial function into an option, and that it
  stops is a theorem.

  \<^bold>\<open>What is a parameter.\<close> Code that is not in the repository is never defined here. The record
  \<open>platform\<close> has one function for each call of a library: the controller-runtime client and
  cache, the REST and dynamic clients, discovery, the manifest generator, YAML, JSON path,
  OpenPGP, the clock, random names, the order of a range over a map, \<^verbatim>\<open>retry.RetryOnConflict\<close>.
  A theorem holds for every platform, or names the documented behaviour it needs: \<open>retry_ok\<close>
  (a function is run again only after a conflict), \<open>accessors_ok\<close> (setting a label, namespace or
  owner keeps what the object is), \<open>armor_ok\<close> (an armored key is not empty), \<open>printing_ok\<close>,
  \<open>names_ok\<close>, \<open>ranging_ok\<close>, \<open>os_willing\<close>, \<open>temp_names_ok\<close>, \<open>generator_ok\<close>. The platform \<open>sample\<close> of
  theory \<open>Sample_Platform\<close> meets them all; the witnesses are runs on it. The generated clients
  have parameters of their own: the records \<open>rest_client\<close>, \<open>client_lib\<close>, \<open>indexer_lib\<close>,
  \<open>informer_lib\<close>, \<open>fake_lib\<close>, \<open>tracker_lib\<close>, \<open>recorder_lib\<close>, \<open>scheme_lib\<close> and \<open>meta_lib\<close>.

  \<^bold>\<open>The theories, in the order of the code.\<close>
  \<^item> \<open>Prelude\<close>: calls, panics, \<^verbatim>\<open>defer\<close>, maps; the locale \<open>go_relation\<close> carries a fact about every
    state a call passes through along its body, and is interpreted for each such fact.
  \<^item> \<open>Go_Strings\<close>, \<open>Kube_Types\<close>, \<open>File_System\<close>: the parts of Go's \<^verbatim>\<open>strings\<close>, \<^verbatim>\<open>filepath\<close>, \<^verbatim>\<open>hex\<close>
    and \<^verbatim>\<open>os\<close> the code calls, and the data of the Kubernetes libraries.
  \<^item> \<open>Api_Types\<close>, \<open>Spec_Hash\<close>, \<open>Sha256\<close>, \<open>Child_References\<close>: \<^verbatim>\<open>pkg/apis/riotkit/v1alpha1\<close>. The hash of a
    specification is SHA-256, on 32-bit words, of the JSON document the struct tags describe; the
    document determines the specification.
  \<^item> \<open>Slices\<close>, \<open>Deep_Copy\<close>, \<open>Copy_Facts\<close>: \<^verbatim>\<open>zz_generated.deepcopy.go\<close> on a heap of arrays with
    slices. The contract is the locale \<open>deep_copy\<close> (same value, fresh memory, both directions of
    independence); it is inherited by structs, slices and cells and interpreted on the code.
  \<^item> \<open>Registration\<close>, \<open>Typed_Clients\<close>, \<open>Clientset\<close>, \<open>Listers\<close>, \<open>Informers\<close>, \<open>Fakes\<close>: \<^verbatim>\<open>register.go\<close> and
    \<^verbatim>\<open>pkg/client\<close>. The informer factory is a state machine whose steps are in \<open>Informer_Facts\<close>.
  \<^item> \<open>Locking\<close>, \<open>Lock_Protocol\<close>, \<open>Redis_Lock\<close>: \<^verbatim>\<open>pkg/locking\<close>. The interface is the locale \<open>lock_service\<close>;
    the in-memory locker interprets its extension \<open>restoring_lock_service\<close>, and the Redis locker
    satisfies it whenever redislock behaves as documented. Goroutines interleave in step
    relations: with \<^verbatim>\<open>Obtain\<close> as one step, as the two steps the code takes without a mutex, and
    over Redis with time passing, where a lock is a lease.
  \<^item> \<open>Domain\<close>, \<open>Gpg\<close>, \<open>Factory\<close>: \<^verbatim>\<open>pkg/domain\<close>, \<^verbatim>\<open>pkg/gpg\<close>, \<^verbatim>\<open>pkg/factory\<close>: aggregates, generated keys,
    fetching and hydrating.
  \<^item> \<open>Templating\<close>, \<open>Applying\<close>: \<^verbatim>\<open>pkg/bmg\<close>: the workspace on the file system, the files of the
    generator, parsing and filtering its manifests; owners, labels, create-or-update.
  \<^item> \<open>Job_Health\<close>: \<^verbatim>\<open>pkg/integration\<close> and the health report; the locale \<open>job_resource_type\<close>, and the
    linear order of verdicts that the loop over the jobs takes the maximum of.
  \<^item> \<open>Reconciling\<close>, \<open>Rba_Controller\<close>, \<open>Sb_Controller\<close>: \<^verbatim>\<open>pkg/controllers\<close>: the lock around every
    \<^verbatim>\<open>Reconcile\<close>, the bodies, the status updates that are retried, the observers.
  \<^item> \<open>Histories\<close>, \<open>Action_History\<close>, \<open>Backup_History\<close>: the life of one resource, as reconciliations of
    its controller and its observer in any order; the locale \<open>one_way\<close> is about a stored value
    that stays, and is interpreted on the processed flag and on the hash.
  \<^item> \<open>Work_Queue\<close>, \<open>Action_Queue\<close>, \<open>Backup_Queue\<close>: the work queue around a controller; the locale
    \<open>queued_reconciler\<close> extends \<open>lock_service\<close> by the result of a body, and is interpreted on the
    two controllers and the two observers. \<open>Completion\<close>: what the last round leaves stored.
  \<^item> \<open>App\<close>: \<^verbatim>\<open>cmd/root.go\<close> and \<^verbatim>\<open>main.go\<close>.
  \<^item> \<open>Repository_Tests\<close>: the unit tests of the repository, evaluated in the model.
  \<^item> \<open>Component_Properties\<close>, \<open>Client_Properties\<close>, \<open>Copy_Facts\<close>, \<open>Redis_Lock\<close>, the histories, the
    queues and this theory state the properties;
    those here span several components.

  \<^bold>\<open>What the properties show.\<close> An action is stored as processed only after all its objects were
  applied, and it is performed once in every history of its controller and its observer; a failed
  one is retried, and the retries end in the first round that can apply it; but a status whose
  update fails is forgotten, and the action performed again. A new hash is stored only when every
  object of that specification was applied, after which the backup is left alone as long as its specification stays and the cache is
  current; with a stale cache the observer puts an old status back. The work queues come to rest,
  with the outcome stored or a warning that it could not be, but also on a backup that only seems
  to be reconciled. Locks are given back on every path, panics
  included, and exclude, in Redis for a minute; without a mutex, or after the minute, they may not. What is applied
  is of an accepted kind, owned, labelled and referenced; the workspace with the key is removed. The observers' verdicts are consistent
  for actions, and empty for backups, whose references are never stored. The others concern one
  component each: deep copies, clients, aggregates, secrets, hashing, files, manifests, health,
  the process.

  \<^bold>\<open>Bounds.\<close> Durations and times are integers of nanoseconds, since the code only adds and compares
  constants and clock readings; the list timeout is a product of 64-bit words, exact up to
  9223372036 seconds; SHA-256 stores the length of its message in 8 bytes, modulo \<open>2 ^ 64\<close> bits.
  The \<^verbatim>\<open>int32\<close> counters of a job and the \<^verbatim>\<open>float32\<close> \<^verbatim>\<open>QPS\<close> are only compared with zero.

  \<^bold>\<open>Not modelled.\<close> Log messages (no trace in the state); the parsing of command-line flags, the
  manager and the watch machinery of controller-runtime (parameters of \<open>App\<close>, and a queue as
  documented); the charts, manifests and build files. The declarations of the generated Go
  interfaces and of the reconciler structs have no record of their own: what they hold are
  arguments of the definitions, and their methods are the definitions. Contexts are never cancelled. Data races other than the one of the locker are outside a model of atomic calls.
\<close>

section \<open>The requested action controller\<close>

text \<open>Runs of the controllers on the sample.\<close>

definition sample_rba_run :: "(result \<times> goerr option) outcome \<times> (unit, string list) sys" where
  "sample_rba_run = rba_Reconcile sample sample_locker sample_request sample_state"

fun puts_processed :: "action \<Rightarrow> bool" where
  "puts_processed (Rba_status_put ns y ok) = rbast_Processed (rba_Status y)"
| "puts_processed a = False"

lemma sample_rba_run_facts:
  "fst sample_rba_run = Return (no_requeue, None)"
  "list_ex puts_processed (trace (snd sample_rba_run))"
  by code_simp+

lemma sample_rba_run_eq:
  "rba_Reconcile sample sample_locker sample_request sample_state = (Return (no_requeue, None), snd sample_rba_run)"
  using sample_rba_run_facts(1) by (simp add: sample_rba_run_def prod_eq_iff)



text \<open>
  C2. A requested action is performed once: in every history of reconciliations of the controller
  and the observer, in whatever order, once a processed status is stored no object is applied
  any more, and the flag is never put back.
\<close>

theorem action_is_applied_once:
  assumes "accessors_ok pf" and "retry_ok pf"
    and "rba_history pf lk req s0 s" and "trace s0 = []"
    and "trace s = as @ Rba_status_put ns y True # bs" and "rbast_Processed (rba_Status y)"
  shows "applied_objects bs = [] \<and>
     (\<forall>ns' y' ok. Rba_status_put ns' y' ok \<in> set bs \<longrightarrow> rbast_Processed (rba_Status y'))"
proof -
  from history_settled[OF assms(3,1,2,4)] assms(5,6) have "settled_action True bs"
    by (simp add: settled_append marks_iff)
  then have quiet: "list_all quiet bs" by (rule settled_TrueD)
  moreover have "rbast_Processed (rba_Status y')" if "Rba_status_put ns' y' ok \<in> set bs" for ns' y' ok
    using quiet that by (auto simp: list_all_iff quiet_def)
  ultimately show ?thesis by (simp add: quiet_applied)
qed

definition stored_processed_put :: "action \<Rightarrow> bool" where
  "stored_processed_put a = (case accepted_put a of None \<Rightarrow> False | Some st \<Rightarrow> rbast_Processed st)"

lemma sample_rba_run_stores: "list_ex stored_processed_put (trace (snd sample_rba_run))"
  by code_simp

theorem action_is_applied_once_witness:
  "\<exists>as ns y bs. trace (snd sample_rba_run) = as @ Rba_status_put ns y True # bs \<and> applied_objects bs = []"
proof -
  from sample_rba_run_stores obtain a where a: "a \<in> set (trace (snd sample_rba_run))" "stored_processed_put a"
    by (auto simp: list_ex_iff)
  then obtain ns y where put: "a = Rba_status_put ns y True" "rbast_Processed (rba_Status y)"
    by (auto simp: stored_processed_put_def elim!: accepted_put.elims split: option.split_asm)
  with a obtain as bs where tr: "trace (snd sample_rba_run) = as @ Rba_status_put ns y True # bs"
    by (auto dest: split_list)
  have "reads_last_write sample sample_request sample_state"
    by (simp add: reads_last_write_def sample_state_def last_accepted_def)
  from controller_runs[OF history_begins this sample_rba_run_eq]
  have "rba_history sample sample_locker sample_request sample_state (snd sample_rba_run)" .
  from action_is_applied_once[OF sample_accessors sample_retry this _ tr put(2)] tr show ?thesis
    by (auto simp: sample_state_def)
qed



text \<open>
  C4. The in-memory lock of a request is given back on every path of the four reconcilers,
  a panic included: the list of held keys afterwards is the one before.
\<close>

theorem reconcilers_release_the_lock:
  fixes s :: "('w, string list) sys"
  assumes "retry_ok pf"
    and "m \<in> {rba_Reconcile pf (InMemoryLocker ns) req, rba_observer_Reconcile pf (InMemoryLocker ns) req,
       sb_Reconcile pf (InMemoryLocker ns) req, sb_observer_Reconcile pf (InMemoryLocker ns) req}"
  shows "locks (snd (m s)) = locks s"
  using assms(2) iml.with_lock_restores[where ns = ns and req = req]
    same_locks_rba_body[OF assms(1)] same_locks_rba_observer[OF assms(1)]
    same_locks_sb_body[OF assms(1)] same_locks_sb_observer[OF assms(1)]
  unfolding rba_Reconcile_def rba_observer_Reconcile_def sb_Reconcile_def sb_observer_Reconcile_def
  by blast

theorem reconcilers_release_the_lock_witness:
  "locks (snd (rba_observer_Reconcile sample sample_locker sample_request (sample_state\<lparr>locks := [''prod/x'']\<rparr>))) = [''prod/x'']"
  using reconcilers_release_the_lock[OF sample_retry, of _ "pf_request_string sample" sample_request
      "sample_state\<lparr>locks := [''prod/x'']\<rparr>"] by simp

text \<open>
  C5. While the key of a request is held, the four reconcilers touch nothing and ask to be
  called again in ten seconds.
\<close>

theorem busy_key_requeues:
  fixes s :: "('w, string list) sys"
  assumes "ns req \<in> set (locks s)"
    and "m \<in> {rba_Reconcile pf (InMemoryLocker ns) req, rba_observer_Reconcile pf (InMemoryLocker ns) req,
       sb_Reconcile pf (InMemoryLocker ns) req, sb_observer_Reconcile pf (InMemoryLocker ns) req}"
  shows "m s = (Return (requeue_after (10 * time_Second), None), s)"
  using assms(2) iml.with_lock_busy[of ns req, OF assms(1)]
  unfolding rba_Reconcile_def rba_observer_Reconcile_def sb_Reconcile_def sb_observer_Reconcile_def
  by (auto simp: mult.commute)

theorem busy_key_requeues_witness:
  "sb_Reconcile sample sample_locker sample_request (sample_state\<lparr>locks := [''prod/now'']\<rparr>) =
     (Return (requeue_after (10 * time_Second), None), sample_state\<lparr>locks := [''prod/now'']\<rparr>)"
  by (rule busy_key_requeues[where pf = sample and ns = "pf_request_string sample" and req = sample_request]) simp_all

text \<open>
  C6. With \<^verbatim>\<open>Obtain\<close> as one step, no two goroutines are ever inside a reconciliation of the
  same key, and the shared list holds the keys of those inside and no key twice.
\<close>

theorem lock_mutual_exclusion:
  assumes "(atomic_step ns)\<^sup>*\<^sup>* start c" and "cf_phase c t = In_body req ls"
    and "cf_phase c u = In_body req' ls'" and "ns req = ns req'"
  shows "t = u \<and> ns req \<in> set (cf_locks c) \<and> distinct (cf_locks c)"
  using lock_inv_reachable[OF assms(1)] assms(2-4) unfolding lock_inv_def by metis

theorem lock_mutual_exclusion_witness:
  "\<exists>c. (atomic_step (pf_request_string sample))\<^sup>*\<^sup>* start c \<and> ''prod/now'' \<in> set (cf_locks c)"
proof -
  let ?ns = "pf_request_string sample"
  let ?s = "mk_session (Id_string ''prod/now'') None"
  let ?c = "to_phase start 0 (In_body sample_request ?s) [''prod/now'']"
  have "atomic_step ?ns start ?c"
    by (rule enter)
       (simp_all add: start_def NewInMemoryLocker_def iml_Obtain_apply mk_session_def)
  then have "(atomic_step ?ns)\<^sup>*\<^sup>* start ?c" by blast
  from lock_mutual_exclusion[OF this, of 0 sample_request ?s 0 sample_request ?s] this show ?thesis
    by (auto simp: to_phase_def)
qed


section \<open>Applying and rendering\<close>

text \<open>
  C10. What \<^verbatim>\<open>ApplyObjects\<close> applies, also when it ends with an error: every applied object is of
  an accepted kind, is owned by the resource, lies in the backup's namespace and carries a
  tracking label; the resource gets exactly one reference for each; without an error there
  is at least one.
\<close>

theorem apply_objects_contract:
  assumes "accessors_ok pf" and "ApplyObjects pf b s = (Return (err, b'), t)"
  shows "\<exists>as. trace t = trace s @ as \<and> list_all (well_applied pf b) (applied_objects as) \<and>
     owned_references b' = owned_references b @ map (reference_to pf) (applied_objects as) \<and>
     (err = None \<longrightarrow> applied_objects as \<noteq> [])"
  using ApplyObjects_spec[OF assms] by (auto simp: applies_def)

theorem apply_objects_contract_witness:
  "\<exists>r u as. ApplyObjects sample (Sb_renderable sample_sb_aggregate) sample_sb_start = (Return (None, r), u) \<and>
     trace u = trace sample_sb_start @ as \<and> applied_objects as \<noteq> []"
proof -
  obtain r u where run: "ApplyObjects sample (Sb_renderable sample_sb_aggregate) sample_sb_start = (Return (None, r), u)"
    by (rule sample_apply)
  from apply_objects_contract[OF sample_accessors run] run show ?thesis by blast
qed

text \<open>
  C20. A RequestedBackupAction renders Jobs only; a ScheduledBackup never renders a Job, and a
  CronJob only when its schedule is enabled.
\<close>

theorem rendered_kinds:
  assumes p: "printing_ok pf" and run: "RenderKubernetesResourcesFor pf b s = (Return (Inr docs, b'), t)"
    and d: "d \<in> set docs"
  shows "(case b of
      Rba_renderable a \<Rightarrow> pf_gvk_string pf (pf_gvk_of pf d) = ''batch/v1, Kind=Job''
    | Sb_renderable a \<Rightarrow> pf_gvk_string pf (pf_gvk_of pf d) \<noteq> ''batch/v1, Kind=Job'' \<and>
        (pf_gvk_string pf (pf_gvk_of pf d) = ''batch/v1, Kind=CronJob'' \<longrightarrow>
           cj_Enabled (sbs_CronJob (sb_Spec (sba_Backup a)))))"
proof -
  have s: "pf_meta_gvk_string pf (mk_gvk g v k) = g @ ''/'' @ v @ '', Kind='' @ k" for g v k
    using p by (simp add: printing_ok_def)
  from yieldsD[OF yields_render run] d have "accepted pf (applied_kinds b) d"
    by (auto simp: render_result_def list_all_iff)
  then show ?thesis
    by (cases b) (auto simp: accepted_def kind_found_iff applied_kinds_def helper_kinds_def s
        NewResourceTypesFilterForRequestedBackupAction_def split: if_splits)
qed

theorem rendered_kinds_witness:
  "\<exists>docs b' t. RenderKubernetesResourcesFor sample (Sb_renderable sample_sb_aggregate) sample_sb_start =
       (Return (Inr docs, b'), t) \<and> docs \<noteq> [] \<and>
     pf_gvk_string sample (pf_gvk_of sample (hd docs)) \<noteq> ''batch/v1, Kind=Job''"
proof -
  obtain docs b t where run: "RenderKubernetesResourcesFor sample (Sb_renderable sample_sb_aggregate) sample_sb_start =
      (Return (Inr docs, b), t)" and "length docs = 2"
    using sample_render
    by (cases "RenderKubernetesResourcesFor sample (Sb_renderable sample_sb_aggregate) sample_sb_start")
       (auto elim!: renders.elims)
  then have "docs \<noteq> []" by auto
  then have "hd docs \<in> set docs" by simp
  with \<open>docs \<noteq> []\<close> rendered_kinds[OF sample_others(1) run, of "hd docs"] run show ?thesis by auto
qed

text \<open>
  C21. Rendering cleans up, whether it returns or panics: the working directory is the one
  before, and nothing is left at or below the temporary directory that was made.
\<close>

theorem rendering_cleans_up:
  assumes "os_willing pf" "generator_ok pf" "temp_names_ok pf" and "cwd_ok (fsys s)"
    and "\<forall>x. prefix (workspace (fst (pf_temp_name pf (world s)))) x \<longrightarrow> fs_nodes (fsys s) x = None"
  shows "fs_cwd (fsys (snd (RenderKubernetesResourcesForOperation pf b op ks s))) = fs_cwd (fsys s) \<and>
     (\<forall>x. prefix (workspace (fst (pf_temp_name pf (world s)))) x \<longrightarrow>
        fs_nodes (fsys (snd (RenderKubernetesResourcesForOperation pf b op ks s))) x = None)"
  using render_op_cleans_up(1,2)[OF assms(1-4) refl _ refl] assms(5) by blast

theorem rendering_cleans_up_witness:
  "fs_cwd (fsys (snd (RenderKubernetesResourcesForOperation sample (Sb_renderable sample_sb_aggregate)
     op_Restore [] sample_state))) = [''work'']"
proof -
  have "cwd_ok (fsys sample_state)"
    by (auto simp: cwd_ok_def sample_state_def sample_fs_def plain_path_def prefix_Cons)
  moreover have "\<forall>x. prefix (workspace (fst (pf_temp_name sample (world sample_state)))) x \<longrightarrow>
      fs_nodes (fsys sample_state) x = None"
    by (auto simp: sample_state_def sample_fs_def sample_def workspace_def prefix_Cons)
  ultimately show ?thesis
    using rendering_cleans_up[OF sample_others(5) sample_generator sample_others(6)]
    by (simp add: sample_state_def sample_fs_def)
qed

section \<open>The ScheduledBackup controller\<close>

text \<open>
  Once a backup was applied, it converges: the object that is put with the new hash has
  an unchanged specification for the next reconciliation.
\<close>

theorem applied_backup_converges:
  assumes "accessors_ok pf" and "retry_ok pf" and "sb_Reconcile pf lk req s = (Return x, s')"
    and "trace s' = trace s @ as" and "Sb_status_put ns y ok \<in> set as"
    and "\<not> keeps_hash pf (Sb_status_put ns y ok)"
    and "sb_Spec y = sb_Spec (cached_backup pf req s)"
  shows "\<not> HasSpecChanged y"
proof -
  from assms(5) assms(4) have "trace s' \<noteq> trace s" by auto
  with assms(3) obtain l t where body: "sb_reconcile_body pf req (s\<lparr>locks := l\<rparr>) = (Return x, t)"
    and t: "trace t = trace s'" unfolding sb_Reconcile_def by (rule with_lock_ran)
  have b': "cached_backup pf req (s\<lparr>locks := l\<rparr>) = cached_backup pf req s" by (simp add: cached_backup_def)
  from body show ?thesis
  proof (cases rule: sb_body_cases)
    case idle
    with t assms(4,5) show ?thesis by auto
  next
    case (process s1)
    from process(3) have "sb_process pf (cached_backup pf req s) None s1 = (Return x, t)" by (simp only: b')
    with assms(1,2) show ?thesis
    proof (cases rule: sb_process_hash)
      case kept
      with process(2) t assms(4-6) show ?thesis by (auto simp: only_does_def list_all_iff)
    next
      case (applied u ws)
      with process(2) t assms(4-6) have "claims (cached_backup pf req s) (Sb_status_put ns y ok)"
        by (auto simp: only_does_def list_all_iff)
      with assms(7) show ?thesis by (simp add: claims_def HasSpecChanged_def)
    qed
  qed
qed

theorem applied_backup_converges_witness:
  "\<exists>s' y. sb_Reconcile sample sample_locker sample_request sample_state = (Return (no_requeue, None), s')
     \<and> Sb_status_put ''prod'' y True \<in> set (trace s') \<and> \<not> HasSpecChanged y"
proof -
  obtain s' y where run: "sb_Reconcile sample sample_locker sample_request sample_state = (Return (no_requeue, None), s')"
    and put: "Sb_status_put ''prod'' y True \<in> set (trace s')"
    and hash: "sbst_LastAppliedSpecHash (sb_Status y) = CalculateHash sample_sb_spec"
    and spec: "sb_Spec y = sample_sb_spec"
    by (rule sample_sb_run)
  have "stored sample b \<Longrightarrow> sbst_LastAppliedSpecHash (sb_Status b) = []" for b
    by (auto simp: stored_def sb_Get_def sample_def sample_client_def sample_sb_def)
  with hash have "\<not> keeps_hash sample (Sb_status_put ''prod'' y True)"
    by (fastforce simp: keeps_hash_def)
  moreover have "trace s' = trace sample_state @ trace s'" by (simp add: sample_state_def)
  moreover have "cached_backup sample sample_request sample_state = sample_sb"
    by (simp add: cached_backup_def sample_def)
  ultimately show ?thesis
    using applied_backup_converges[OF sample_accessors sample_retry run _ put] run put spec
    by (auto simp: sample_sb_def)
qed

section \<open>References and observers\<close>




fun puts_action :: "action \<Rightarrow> bool" where
  "puts_action (Rba_status_put ns y ok) = True"
| "puts_action a = False"

definition refusing :: "(unit, string list) platform" where
  "refusing = sample\<lparr>pf_dyn_create := (\<lambda>w r ns x. (Some (Text_error ''refused''), w))\<rparr>"


text \<open>
  A requested action that was processed is not run again: apart from the GPG secret while
  hydrating, its reconciliation writes nothing, emits one event and is not repeated.
\<close>

theorem processed_action_is_not_repeated:
  assumes fetch: "FetchRBAAggregate pf req s = (Return (Inr a), t)" and "WasAlreadyProcessed a"
  shows "\<exists>as. rba_reconcile_body pf req s = (Return (no_requeue, None), t\<lparr>trace := trace s @ as @
       [Event_emitted (rba_obj_name a) ''Normal'' ''Unchanged''
         ''Successfully reconciled, action already performed, cannot do it once more'']\<rparr>) \<and>
     list_all is_secret_write as"
proof -
  from keepsD[OF only_does_fetch(3) fetch] obtain as
    where as: "trace t = trace s @ as" "list_all is_secret_write as" by (auto simp: only_does_def)
  have "rba_reconcile_body pf req s = rba_process pf a t"
    using fetch by (simp add: rba_reconcile_body_def bnd_Return)
  with rba_process_done[OF assms(2), of pf t] as show ?thesis by auto
qed

definition already_done :: "(unit, string list) platform" where
  "already_done = sample\<lparr>pf_rba := sample_client (sample_rba\<lparr>rba_Status :=
     (rba_Status sample_rba)\<lparr>rbast_Processed := True\<rparr>\<rparr>)\<rparr>"

theorem processed_action_is_not_repeated_witness:
  "\<exists>t. rba_reconcile_body already_done sample_request sample_state = (Return (no_requeue, None), t)"
proof -
  have "(case fst (FetchRBAAggregate already_done sample_request sample_state) of
     Return (Inr a) \<Rightarrow> WasAlreadyProcessed a | _ \<Rightarrow> False)" by code_simp
  then obtain a t where "FetchRBAAggregate already_done sample_request sample_state = (Return (Inr a), t)"
    "WasAlreadyProcessed a"
    by (cases "FetchRBAAggregate already_done sample_request sample_state")
       (auto split: outcome.split_asm sum.split_asm)
  from processed_action_is_not_repeated[OF this] show ?thesis by blast
qed

text \<open>
  C25. The aggregate of a requested action runs that action whatever the backup says: its
  operation is the action, its cron job is off, the kind to generate is the requested one or
  Job, and the key among the variables is the public key for a backup and the private key for
  any other action.
\<close>

theorem aggregate_of_an_action:
  assumes fetch: "FetchRBAAggregate pf req s = (Return (Inr a), t)"
    and act: "act = rbas_Action (rba_Spec (rbag_Action a))" and named: "act \<noteq> []"
    and spec: "spec = sb_Spec (sba_Backup (rbag_Scheduled a))"
    and vars: "vars = sba_AdditionalVarsList (rbag_Scheduled a)"
  shows "sbs_Operation spec = act \<and> \<not> cj_Enabled (sbs_CronJob spec) \<and>
     map_of vars ''HelmValues.kindType'' =
       Some (if rbas_KindType (rba_Spec (rbag_Action a)) = [] then ''Job''
             else rbas_KindType (rba_Spec (rbag_Action a))) \<and>
     (\<exists>key. sba_GPGSecret (rbag_Scheduled a) = Some key \<and>
        map_of vars ''HelmValues.gpgKeyContent'' = Some (gget [] (data_of key)
          ((if act = ''backup'' then gpg_PublicKey else gpg_PrivateKey) (sbs_GPGKeySecretRef spec)))) \<and>
     sba_Template (rbag_Scheduled a) \<noteq> None"
proof -
  from fetch obtain rq b sched m1 s1 s2 where
    agg: "CreateScheduledBackupAggregate pf b (rbas_Action (rba_Spec rq)) s1 = (Return (sched, m1, None), s2)"
    and a: "a = (let a = NewRequestedBackupActionAggregate pf rq sched; s = rbag_Scheduled a in
      a\<lparr>rbag_Scheduled := s\<lparr>sba_Backup := for_action (rbas_Action (rba_Spec rq)) (sba_Backup s)\<rparr>\<rparr>)"
    by (rule FetchRBAAggregate_inv)
  show ?thesis
  proof (rule CreateScheduledBackupAggregate_inv[OF agg])
    fix key tpl token xs
    assume "sba_Backup sched = b" "sba_GPGSecret sched = Some key" "sba_Template sched = Some tpl"
      and xs: "sba_AdditionalVarsList sched =
           gset ''HelmValues.gpgKeyContent''
             (gpg_var (sb_Spec b) (if rbas_Action (rba_Spec rq) = [] then sbs_Operation (sb_Spec b)
                else rbas_Action (rba_Spec rq)) key)
             (token_vars (sbs_TokenSecretRef (sb_Spec b)) (Some token) [])"
    with named show ?thesis
      by (simp add: a spec vars act NewRequestedBackupActionAggregate_fields Let_def for_action_def gpg_var_def)
  qed
qed


theorem aggregate_of_an_action_witness:
  "\<exists>a t. FetchRBAAggregate sample sample_request sample_state = (Return (Inr a), t) \<and>
     sbs_Operation (sb_Spec (sba_Backup (rbag_Scheduled a))) = ''backup'' \<and>
     \<not> cj_Enabled (sbs_CronJob (sb_Spec (sba_Backup (rbag_Scheduled a))))"
proof -
  have "(case fst (FetchRBAAggregate sample sample_request sample_state) of
     Return (Inr a) \<Rightarrow> rbas_Action (rba_Spec (rbag_Action a)) = ''backup'' | _ \<Rightarrow> False)" by code_simp
  then obtain a t where run: "FetchRBAAggregate sample sample_request sample_state = (Return (Inr a), t)"
    and act: "rbas_Action (rba_Spec (rbag_Action a)) = ''backup''"
    by (cases "FetchRBAAggregate sample sample_request sample_state")
       (auto split: outcome.split_asm sum.split_asm)
  from aggregate_of_an_action[OF run act[symmetric] _ refl refl] run show ?thesis by simp
qed


definition finished_job :: job where
  "finished_job = pending_job\<lparr>job_Succeeded := 1\<rparr>"

definition finished :: "(unit, string list) platform" where
  "finished = sample\<lparr>pf_rba := sample_client (sample_rba\<lparr>rba_Status := (rba_Status sample_rba)\<lparr>rbast_OwnedReferences :=
       [\<lparr>cr_APIVersion = ''batch/v1'', cr_Kind = ''Job'', cr_TrackingId = ''id''\<rparr>]\<rparr>\<rparr>),
     pf_list_jobs := (\<lambda>w ns sel. (Inr [finished_job], w))\<rparr>"

fun puts_report :: "action \<Rightarrow> bool" where
  "puts_report (Rba_status_put ns y ok) = (rbast_ChildrenResourcesHealth (rba_Status y) \<noteq> [])"
| "puts_report a = False"


text \<open>
  C23. The observer of a backup without references, which is every backup the controller
  handles since it never stores them, reports it healthy with an empty report, whatever its jobs do; the stored
  hash stays.
\<close>

theorem backup_without_references_is_healthy:
  assumes retry: "retry_ok pf" and run: "sb_observer_Reconcile pf lk req s = (Return x, s')"
    and tr: "trace s' = trace s @ as" and put: "Sb_status_put ns y ok \<in> set as"
    and none: "sbst_OwnedReferences (sb_Status (cached_backup pf req s)) = []"
  shows "x = (no_requeue, None) \<and> sbst_Healthy (sb_Status y) \<and> sbst_ChildrenResourcesHealth (sb_Status y) = [] \<and>
     sbst_LastAppliedSpecHash (sb_Status y) = sbst_LastAppliedSpecHash (sb_Status (cached_backup pf req s))"
proof -
  from put tr have "trace s' \<noteq> trace s" by auto
  with run obtain l t where body: "sb_observer_body pf req (s\<lparr>locks := l\<rparr>) = (Return x, t)"
    and t: "trace t = trace s'" unfolding sb_observer_Reconcile_def by (rule with_lock_ran)
  from retry body show ?thesis
  proof (cases rule: sb_observer_actions)
    case (secrets_only bs)
    with t tr put show ?thesis by (auto simp: list_all_iff)
  next
    case (reported a u v report healthy err bs cs)
    from FetchSBAggregate_backup[OF reported(1)] have b: "sba_Backup a = cached_backup pf req s"
      by (simp add: relocked)
    with reported(2) none have "report = [] \<and> healthy"
      by (simp add: sba_GetReferencesOfOwnedObjects_def createOwnedReferencesHealthReport_def go_simps)
    moreover have "Sb_status_put ns y ok \<notin> set bs" using reported(4) by (auto simp: list_all_iff)
    with reported(3) t tr put have "Sb_status_put ns y ok \<in> set cs" by auto
    with reported(5) have "sb_report_action a report healthy (Sb_status_put ns y ok)"
      unfolding list_all_iff by blast
    ultimately show ?thesis using b reported(6) by simp
  qed
qed

theorem backup_without_references_is_healthy_witness:
  "\<exists>ns y ok t. sb_observer_Reconcile sample sample_locker sample_request sample_state = (Return (no_requeue, None), t) \<and>
     Sb_status_put ns y ok \<in> set (trace t) \<and> sbst_Healthy (sb_Status y)"
proof -
  have "list_ex puts_a_status (trace (snd (sb_observer_Reconcile sample sample_locker sample_request sample_state)))"
    and "fst (sb_observer_Reconcile sample sample_locker sample_request sample_state) = Return (no_requeue, None)"
    by code_simp+
  then obtain ns y ok t where
    run: "sb_observer_Reconcile sample sample_locker sample_request sample_state = (Return (no_requeue, None), t)"
    and put: "Sb_status_put ns y ok \<in> set (trace t)"
    by (cases "sb_observer_Reconcile sample sample_locker sample_request sample_state")
       (auto simp: list_ex_iff elim!: puts_a_status.elims)
  have "trace t = trace sample_state @ trace t" by (simp add: sample_state_def)
  moreover have "sbst_OwnedReferences (sb_Status (cached_backup sample sample_request sample_state)) = []"
    by (simp add: cached_backup_def sample_def sample_sb_def)
  ultimately show ?thesis
    using backup_without_references_is_healthy[OF sample_retry run _ put] run put by blast
qed

text \<open>
  C26. A reconciliation of a backup is repeated after 5 or 10 seconds or after a minute, or not
  at all; the 15 minutes of \<^verbatim>\<open>Reconcile\<close> are never asked for, because every failure to
  hydrate carries the action to requeue.
\<close>

theorem backup_requeue_times:
  assumes "sb_Reconcile pf lk req s = (Return (res, err), s')"
  shows "res \<in> {no_requeue, requeue_after (5 * time_Second), requeue_after (10 * time_Second), requeue_after time_Minute}"
proof -
  let ?P = "\<lambda>x. fst x \<in> {no_requeue, requeue_after (5 * time_Second), requeue_after (10 * time_Second), requeue_after time_Minute}"
  have p: "yields ?P (sb_process pf b e)" for b e
    by (rule yieldsI) (use yieldsD[OF yields_sb_process] in \<open>fastforce simp: mult.commute\<close>)
  have "yields ?P (sb_reconcile_body pf req)"
    unfolding sb_reconcile_body_def by (intro yields_rules p) auto
  then have "yields ?P (sb_Reconcile pf lk req)"
    unfolding sb_Reconcile_def by (rule yields_with_lock) (simp_all add: mult.commute)
  from yieldsD[OF this assms] show ?thesis by simp
qed

theorem backup_requeue_times_witness:
  "\<exists>res s'. sb_Reconcile sample sample_locker sample_request sample_state = (Return (res, None), s') \<and>
     res \<in> {no_requeue, requeue_after (5 * time_Second), requeue_after (10 * time_Second), requeue_after time_Minute}"
proof -
  obtain s' where run: "sb_Reconcile sample sample_locker sample_request sample_state = (Return (no_requeue, None), s')"
    by (rule sample_sb_run)
  from backup_requeue_times[OF run] run show ?thesis by blast
qed

end
